(* ===== verification/Prelude.thy ===== *)
theory Prelude
  imports Main "HOL-Library.Word" "HOL-Library.Signed_Division" "HOL-Library.State_Monad"
    "HOL-Library.Sublist"
begin

text \<open>
  Shared vocabulary of the development: the machine integers of the program, the state
  monad in which the controllers run (with Go's early return on an error), and a small logic
  for the calls a computation makes to its environment.

  Go's \<^verbatim>\<open>int32\<close> and \<^verbatim>\<open>int64\<close> are words read as two's complement (\<open>sint\<close>). A method with
  side effects is a \<open>('s, 'a) state\<close>: \<open>'s\<close> is the whole outside world, which
  the program only touches through the parameters it is given. A Go result \<^verbatim>\<open>(T, error)\<close> is
  \<open>goerror + 'a\<close>.
\<close>

subsection \<open>Machine integers\<close>

type_synonym int32 = "32 word"
type_synonym int64 = "64 word"

definition int32_of_int64 :: "int64 \<Rightarrow> int32" where
  "int32_of_int64 x = ucast x"

definition quot64 :: "int64 \<Rightarrow> int64 \<Rightarrow> int64" where
  "quot64 a b = word_of_int (sint a sdiv sint b)"

definition rem64 :: "int64 \<Rightarrow> int64 \<Rightarrow> int64" where
  "rem64 a b = word_of_int (sint a smod sint b)"

lemma sint_word_of_int_id:
  assumes "- (2 ^ (LENGTH('a::len) - 1)) \<le> x" "x < 2 ^ (LENGTH('a) - 1)"
  shows "sint (word_of_int x :: 'a word) = x"
  using assms by (simp add: sint_sbintrunc' signed_take_bit_int_eq_self)

lemma sint32_range: "- 2147483648 \<le> sint (x :: int32)" "sint (x :: int32) \<le> 2147483647"
  using sint_ge [of x] sint_lt [of x] by simp_all

lemma sint64_range:
  "- 9223372036854775808 \<le> sint (x :: int64)" "sint (x :: int64) \<le> 9223372036854775807"
  using sint_ge [of x] sint_lt [of x] by simp_all

lemma int32_of_int64_wraps: "int32_of_int64 x = word_of_int (sint x)"
proof -
  have "sint (int32_of_int64 x) = signed_take_bit 31 (sint x)"
    by (simp add: int32_of_int64_def ucast_eq sint_sbintrunc' signed_take_bit_eq_iff_take_bit_eq
        uint_sint take_bit_take_bit flip: take_bit_eq_mod)
  then have "sint (int32_of_int64 x) = sint (word_of_int (sint x) :: int32)" by (simp only: sint_sbintrunc') simp
  then show ?thesis by (simp add: signed_word_eqI)
qed

subsection \<open>Errors and early returns\<close>

text \<open>
  What the code can observe of an error value: whether \<^verbatim>\<open>errors.IsNotFound\<close> holds of it, and
  its text \<^verbatim>\<open>err.Error()\<close>.
\<close>

record goerror =
  err_notfound :: bool
  err_text :: string

definition Errorf :: "string \<Rightarrow> goerror" where
  "Errorf msg = \<lparr>err_notfound = False, err_text = msg\<rparr>"

definition IsNotFound :: "goerror \<Rightarrow> bool" where
  "IsNotFound e = err_notfound e"

text \<open>
  \<^verbatim>\<open>if x, err := m; err != nil { h } ; k\<close>: the handler \<open>h\<close> ends the function, otherwise the
  rest \<open>k\<close> runs on the value.
\<close>

definition if_err ::
  "('s, goerror + 'a) state \<Rightarrow> (goerror \<Rightarrow> ('s, 'b) state) \<Rightarrow> ('a \<Rightarrow> ('s, 'b) state) \<Rightarrow> ('s, 'b) state" where
  "if_err m h k = State_Monad.bind m (\<lambda>x. case x of Inl e \<Rightarrow> h e | Inr a \<Rightarrow> k a)"

abbreviation nil :: "goerror + unit" where
  "nil \<equiv> Inr ()"

end
