(* ===== verification/GoLib.thy ===== *)
theory GoLib
  imports Prelude
begin

text \<open>
  The parts of Go's standard library the program calls: the verbs \<^verbatim>\<open>%d\<close> and \<^verbatim>\<open>%q\<close> of
  \<^verbatim>\<open>fmt.Sprintf\<close> and \<^verbatim>\<open>time.ParseDuration\<close>. A Go string is a list of bytes, which is what
  \<open>string\<close> (a list of 8-bit characters) is. Two tables of the library are parameters: which
  runes beyond Latin-1 are printable (\<open>is_print\<close>, from \<^verbatim>\<open>strconv\<close>), and the float64 product by
  which \<^verbatim>\<open>ParseDuration\<close> turns a decimal fraction of a unit into nanoseconds (\<open>fr\<close>).
\<close>

subsection \<open>fmt: decimal integers\<close>

definition byte :: "nat \<Rightarrow> char" where
  "byte b = char_of b"

definition digit_char :: "nat \<Rightarrow> char" where
  "digit_char d = byte (48 + d)"

fun nat_digits :: "nat \<Rightarrow> string" where
  "nat_digits n = (if n < 10 then [digit_char n] else nat_digits (n div 10) @ [digit_char (n mod 10)])"

declare nat_digits.simps [simp del]

definition fmt_d :: "int \<Rightarrow> string" where
  "fmt_d i = (if i < 0 then CHR ''-'' # nat_digits (nat (- i)) else nat_digits (nat i))"

subsection \<open>fmt: quoted strings\<close>

definition hex_char :: "nat \<Rightarrow> char" where
  "hex_char d = (if d < 10 then byte (48 + d) else byte (87 + d))"

fun hex_digits :: "nat \<Rightarrow> nat \<Rightarrow> string" where
  "hex_digits 0 v = []"
| "hex_digits (Suc k) v = hex_digits k (v div 16) @ [hex_char (v mod 16)]"

definition continuation :: "nat \<Rightarrow> bool" where
  "continuation b = (128 \<le> b \<and> b < 192)"

text \<open>
  \<^verbatim>\<open>utf8.DecodeRuneInString\<close>: the rune at the front and its width, or \<open>None\<close> for the pair
  \<^verbatim>\<open>(RuneError, 1)\<close> of an invalid encoding.
\<close>

definition decode_rune :: "nat list \<Rightarrow> (nat \<times> nat) option" where
  "decode_rune bs = (case bs of
     [] \<Rightarrow> None
   | b0 # r0 \<Rightarrow>
      if b0 < 128 then Some (b0, 1)
      else if b0 < 194 \<or> 244 < b0 then None
      else case r0 of [] \<Rightarrow> None | b1 # r1 \<Rightarrow>
        if \<not> continuation b1 then None
        else if b0 < 224 then Some ((b0 - 192) * 64 + (b1 - 128), 2)
        else if (b0 = 224 \<and> b1 < 160) \<or> (b0 = 237 \<and> 159 < b1) \<or> (b0 = 240 \<and> b1 < 144) \<or> (b0 = 244 \<and> 143 < b1) then None
        else case r1 of [] \<Rightarrow> None | b2 # r2 \<Rightarrow>
          if \<not> continuation b2 then None
          else if b0 < 240 then Some (((b0 - 224) * 64 + (b1 - 128)) * 64 + (b2 - 128), 3)
          else case r2 of [] \<Rightarrow> None | b3 # _ \<Rightarrow>
            if \<not> continuation b3 then None
            else Some ((((b0 - 240) * 64 + (b1 - 128)) * 64 + (b2 - 128)) * 64 + (b3 - 128), 4))"

definition IsPrint :: "(nat \<Rightarrow> bool) \<Rightarrow> nat \<Rightarrow> bool" where
  "IsPrint is_print r =
     (if r \<le> 255 then (32 \<le> r \<and> r < 127) \<or> (161 \<le> r \<and> r \<noteq> 173) else is_print r)"

definition escape_rune :: "(nat \<Rightarrow> bool) \<Rightarrow> nat \<Rightarrow> string \<Rightarrow> string" where
  "escape_rune is_print r raw =
     (if r = 34 \<or> r = 92 then [byte 92, byte r]
      else if IsPrint is_print r then raw
      else if r = 7 then [byte 92, CHR ''a''] else if r = 8 then [byte 92, CHR ''b'']
      else if r = 12 then [byte 92, CHR ''f''] else if r = 10 then [byte 92, CHR ''n'']
      else if r = 13 then [byte 92, CHR ''r''] else if r = 9 then [byte 92, CHR ''t'']
      else if r = 11 then [byte 92, CHR ''v'']
      else if r < 32 \<or> r = 127 then [byte 92, CHR ''x''] @ hex_digits 2 r
      else if r < 65536 then [byte 92, CHR ''u''] @ hex_digits 4 r
      else [byte 92, CHR ''U''] @ hex_digits 8 r)"

function quote_body :: "(nat \<Rightarrow> bool) \<Rightarrow> string \<Rightarrow> string" where
  "quote_body is_print [] = []"
| "quote_body is_print (c # cs) =
     (case decode_rune (map of_char (c # cs)) of
        None \<Rightarrow> [byte 92, CHR ''x''] @ hex_digits 2 (of_char c) @ quote_body is_print cs
      | Some (r, w) \<Rightarrow> escape_rune is_print r (take w (c # cs)) @ quote_body is_print (drop (w - 1) cs))"
  by pat_completeness auto
termination
  by (relation "measure (\<lambda>(p, s). length s)") auto

definition fmt_q :: "(nat \<Rightarrow> bool) \<Rightarrow> string \<Rightarrow> string" where
  "fmt_q is_print s = [byte 34] @ quote_body is_print s @ [byte 34]"

text \<open>A string of printable ASCII without quotes and backslashes is quoted as it is.\<close>

definition plain_char :: "char \<Rightarrow> bool" where
  "plain_char c = (let b = of_char c :: nat in 32 \<le> b \<and> b < 127 \<and> b \<noteq> 34 \<and> b \<noteq> 92)"

lemma quote_body_plain: "list_all plain_char s \<Longrightarrow> quote_body p s = s"
proof (induction s)
  case (Cons c cs)
  let ?b = "of_char c :: nat"
  from Cons.prems have "plain_char c" and cs: "list_all plain_char cs" by simp_all
  then have b: "32 \<le> ?b" "?b < 127" "?b \<noteq> 34" "?b \<noteq> 92"
    by (simp_all add: plain_char_def Let_def)
  then have "decode_rune (map of_char (c # cs)) = Some (?b, 1)"
    by (simp add: decode_rune_def)
  with b cs Cons.IH show ?case by (simp add: escape_rune_def IsPrint_def)
qed simp

lemma fmt_q_plain: "list_all plain_char s \<Longrightarrow> fmt_q p s = [byte 34] @ s @ [byte 34]"
  by (simp add: fmt_q_def quote_body_plain)

subsection \<open>time.ParseDuration\<close>

definition is_digit :: "char \<Rightarrow> bool" where
  "is_digit c = (48 \<le> (of_char c :: nat) \<and> (of_char c :: nat) \<le> 57)"

definition digit_val :: "char \<Rightarrow> nat" where
  "digit_val c = of_char c - 48"

fun leadingInt :: "nat \<Rightarrow> string \<Rightarrow> (nat \<times> string) option" where
  "leadingInt x [] = Some (x, [])"
| "leadingInt x (c # cs) =
     (if \<not> is_digit c then Some (x, c # cs)
      else if x > 2 ^ 63 div 10 then None
      else let y = x * 10 + digit_val c in if y > 2 ^ 63 then None else leadingInt y cs)"

text \<open>\<open>leadingFraction x k overflow s\<close>: the fraction \<open>x / 10 ^ k\<close> read so far, and the rest.\<close>

fun leadingFraction :: "nat \<Rightarrow> nat \<Rightarrow> bool \<Rightarrow> string \<Rightarrow> nat \<times> nat \<times> string" where
  "leadingFraction x k ovf [] = (x, k, [])"
| "leadingFraction x k ovf (c # cs) =
     (if \<not> is_digit c then (x, k, c # cs)
      else if ovf then leadingFraction x k ovf cs
      else if x > (2 ^ 63 - 1) div 10 then leadingFraction x k True cs
      else let y = x * 10 + digit_val c in
        if y > 2 ^ 63 then leadingFraction x k True cs else leadingFraction y (Suc k) False cs)"

definition unitMap :: "string \<Rightarrow> nat option" where
  "unitMap u =
     (if u = ''ns'' then Some 1
      else if u = ''us'' \<or> u = [CHR 0xC2, CHR 0xB5, CHR ''s''] \<or> u = [CHR 0xCE, CHR 0xBC, CHR ''s''] then Some 1000
      else if u = ''ms'' then Some 1000000
      else if u = ''s'' then Some 1000000000
      else if u = ''m'' then Some 60000000000
      else if u = ''h'' then Some 3600000000000
      else None)"

definition is_unit_char :: "char \<Rightarrow> bool" where
  "is_unit_char c = (c \<noteq> CHR ''.'' \<and> \<not> is_digit c)"

text \<open>One turn of the loop: a number, its unit, and the nanoseconds they stand for.\<close>

definition duration_item :: "(nat \<Rightarrow> nat \<Rightarrow> nat \<Rightarrow> nat) \<Rightarrow> string \<Rightarrow> (nat \<times> string) option" where
  "duration_item fr s =
     (if \<not> (hd s = CHR ''.'' \<or> is_digit (hd s)) then None
      else case leadingInt 0 s of None \<Rightarrow> None | Some (v, s1) \<Rightarrow>
        let pre = length s1 \<noteq> length s;
            dot = (s1 \<noteq> [] \<and> hd s1 = CHR ''.'');
            (f, k, s2) = (if dot then leadingFraction 0 0 False (tl s1) else (0, 0, s1));
            post = (dot \<and> length s2 \<noteq> length (tl s1));
            u = takeWhile is_unit_char s2
        in if \<not> pre \<and> \<not> post then None
           else if u = [] then None
           else case unitMap u of None \<Rightarrow> None | Some scale \<Rightarrow>
             if v > 2 ^ 63 div scale then None
             else let v' = v * scale; v'' = (if f > 0 then v' + fr f scale k else v')
               in if f > 0 \<and> v'' > 2 ^ 63 then None else Some (v'', dropWhile is_unit_char s2))"

lemma leadingInt_length: "leadingInt x s = Some (v, r) \<Longrightarrow> length r \<le> length s"
  by (induction s arbitrary: x) (auto simp: Let_def split: if_splits intro: le_SucI)

lemma leadingFraction_length: "leadingFraction x k b s = (f, k', r) \<Longrightarrow> length r \<le> length s"
  by (induction s arbitrary: x k b) (auto simp: Let_def split: if_splits intro: le_SucI)

lemma dropWhile_shorter: "takeWhile P s \<noteq> [] \<Longrightarrow> length (dropWhile P s) < length s"
  by (cases s) (auto simp: le_imp_less_Suc length_dropWhile_le split: if_splits)

lemma duration_item_shorter:
  assumes "duration_item fr s = Some (v, r)"
  shows "length r < length s"
proof -
  from assms obtain n s1 where n: "leadingInt 0 s = Some (n, s1)"
    by (auto simp: duration_item_def split: if_splits option.splits)
  define s2 where "s2 = (if s1 \<noteq> [] \<and> hd s1 = CHR ''.'' then snd (snd (leadingFraction 0 0 False (tl s1))) else s1)"
  have "length (snd (snd (leadingFraction 0 0 False (tl s1)))) \<le> length (tl s1)"
    using leadingFraction_length by (metis prod.collapse)
  then have "length s2 \<le> length s1" by (auto simp: s2_def)
  moreover from n have "length s1 \<le> length s" by (rule leadingInt_length)
  moreover from assms n have "takeWhile is_unit_char s2 \<noteq> []" "r = dropWhile is_unit_char s2"
    by (auto simp: duration_item_def s2_def Let_def split: if_splits option.splits prod.splits)
  ultimately show ?thesis using dropWhile_shorter [of is_unit_char s2] by simp
qed

function duration_loop :: "(nat \<Rightarrow> nat \<Rightarrow> nat \<Rightarrow> nat) \<Rightarrow> nat \<Rightarrow> string \<Rightarrow> nat option" where
  "duration_loop fr d s =
     (if s = [] then Some d
      else case duration_item fr s of None \<Rightarrow> None | Some (v, r) \<Rightarrow>
        let d' = (d + v) mod 2 ^ 64 in if d' > 2 ^ 63 then None else duration_loop fr d' r)"
  by pat_completeness auto
termination
  by (relation "measure (\<lambda>(f, d, s). length s)") (auto dest: duration_item_shorter)

declare duration_loop.simps [simp del]

definition ParseDuration :: "(nat \<Rightarrow> nat \<Rightarrow> nat \<Rightarrow> nat) \<Rightarrow> string \<Rightarrow> int64 option" where
  "ParseDuration fr s =
     (let neg = (s \<noteq> [] \<and> hd s = CHR ''-'');
          r = (if s \<noteq> [] \<and> (hd s = CHR ''-'' \<or> hd s = CHR ''+'') then tl s else s)
      in if r = ''0'' then Some 0
         else if r = [] then None
         else case duration_loop fr 0 r of None \<Rightarrow> None | Some d \<Rightarrow>
           if neg then Some (word_of_int (- int d))
           else if d > 2 ^ 63 - 1 then None else Some (word_of_int (int d)))"

subsection \<open>Reading back a printed number\<close>

lemma of_char_byte: "b < 256 \<Longrightarrow> (of_char (byte b) :: nat) = b"
  by (simp add: byte_def)

lemma digit_char_digit: "d < 10 \<Longrightarrow> is_digit (digit_char d) \<and> digit_val (digit_char d) = d"
  by (simp add: is_digit_def digit_val_def digit_char_def of_char_byte)

lemma nat_digits_not_Nil: "nat_digits n \<noteq> []"
  by (subst nat_digits.simps) simp

lemma nat_digits_digits: "c \<in> set (nat_digits n) \<Longrightarrow> is_digit c"
proof (induction n rule: nat_digits.induct)
  case (1 n)
  then show ?case
    by (subst (asm) (2) nat_digits.simps) (auto simp: digit_char_digit split: if_splits)
qed

lemma hd_nat_digits: "is_digit (hd (nat_digits n))"
  by (rule nat_digits_digits [of _ n]) (simp add: nat_digits_not_Nil)

lemma leadingInt_nat_digits:
  "n \<le> 2 ^ 63 \<Longrightarrow> leadingInt 0 (nat_digits n @ cs) = leadingInt n cs"
proof (induction n arbitrary: cs rule: nat_digits.induct)
  case (1 n)
  show ?case
  proof (cases "n < 10")
    case True
    then show ?thesis by (simp add: nat_digits.simps [of n] digit_char_digit)
  next
    case False
    let ?q = "n div 10" and ?c = "digit_char (n mod 10)"
    have c: "is_digit ?c" "digit_val ?c = n mod 10" using digit_char_digit [of "n mod 10"] by simp_all
    have q: "?q \<le> 2 ^ 63 div 10" using "1.prems" by (rule div_le_mono)
    have "leadingInt 0 (nat_digits n @ cs) = leadingInt 0 (nat_digits ?q @ ?c # cs)"
      using False by (simp add: nat_digits.simps [of n])
    also have "\<dots> = leadingInt ?q (?c # cs)"
      using "1.IH" False q by simp
    also have "\<dots> = leadingInt n cs"
      using c q "1.prems" by simp
    finally show ?thesis .
  qed
qed

lemma duration_item_digits:
  assumes "n \<le> 2 ^ 63 div scale" "unitMap u = Some scale" "scale > 0"
    and "u \<noteq> []" "list_all is_unit_char u"
  shows "duration_item fr (nat_digits n @ u) = Some (n * scale, [])"
proof -
  have hu: "is_unit_char (hd u)" using assms(4,5) by (cases u) auto
  have "n \<le> 2 ^ 63" using assms(1) by (meson div_le_dividend le_trans)
  then have li: "leadingInt 0 (nat_digits n @ u) = Some (n, u)"
    using hu assms(4) by (cases u) (auto simp: leadingInt_nat_digits is_unit_char_def)
  have u: "takeWhile is_unit_char u = u" "dropWhile is_unit_char u = []"
    using assms(5) by (simp_all add: list_all_iff)
  show ?thesis
    using assms hu by (simp add: duration_item_def li hd_nat_digits u nat_digits_not_Nil is_unit_char_def)
qed

lemma sign_not_digit: "\<not> is_digit CHR ''-''" "\<not> is_digit CHR ''+''"
  by (simp_all add: is_digit_def)

lemma unsigned_digits: "hd (nat_digits n) \<noteq> CHR ''-''" "hd (nat_digits n) \<noteq> CHR ''+''"
  using hd_nat_digits sign_not_digit by metis+

lemma duration_loop_digits:
  assumes "n \<le> 2 ^ 63 div scale" "unitMap u = Some scale" "scale > 0"
    and "u \<noteq> []" "list_all is_unit_char u"
  shows "duration_loop fr 0 (nat_digits n @ u) = Some (n * scale)"
proof -
  have "n * scale \<le> 2 ^ 63" using assms(1,3) by (metis div_times_less_eq_dividend le_trans mult_le_mono1)
  then show ?thesis
    using assms(4) by (simp add: duration_loop.simps [of fr 0] duration_loop.simps [of fr _ "[]"]
        duration_item_digits [OF assms] nat_digits_not_Nil)
qed

lemma digits_unit_not_zero: "u \<noteq> [] \<Longrightarrow> list_all is_unit_char u \<Longrightarrow> nat_digits n @ u \<noteq> ''0''"
  by (cases u) (auto simp: nat_digits_not_Nil append_eq_Cons_conv)

text \<open>\<^verbatim>\<open>ParseDuration\<close> reads the number of units that \<^verbatim>\<open>Sprintf("%d<unit>")\<close> printed, with its sign.\<close>

lemma ParseDuration_units:
  assumes "n < 2 ^ 63 div scale" "unitMap u = Some scale" "scale > 0"
    and "u \<noteq> []" "list_all is_unit_char u"
  shows "ParseDuration fr (nat_digits n @ u) = Some (word_of_int (int (n * scale)))"
    and "ParseDuration fr (CHR ''-'' # nat_digits n @ u) = Some (word_of_int (- int (n * scale)))"
proof -
  have l: "duration_loop fr 0 (nat_digits n @ u) = Some (n * scale)"
    using assms by (intro duration_loop_digits) simp_all
  have "(n + 1) * scale \<le> 2 ^ 63"
    using assms(1,3) by (metis Suc_eq_plus1 Suc_leI div_times_less_eq_dividend le_trans mult_le_mono1)
  then have "n * scale \<le> 2 ^ 63 - 1" using assms(3) by simp
  with l assms(4,5) digits_unit_not_zero [OF assms(4,5), of n] unsigned_digits [of n]
  show "ParseDuration fr (nat_digits n @ u) = Some (word_of_int (int (n * scale)))"
    and "ParseDuration fr (CHR ''-'' # nat_digits n @ u) = Some (word_of_int (- int (n * scale)))"
    by (simp_all add: ParseDuration_def nat_digits_not_Nil)
qed

end
