(* ===== verification/KubeTypes.thy ===== *)
theory KubeTypes
  imports GoLib
begin

text \<open>
  The Kubernetes API objects the operator reads and writes (\<^verbatim>\<open>k8s.io/api\<close> and
  \<^verbatim>\<open>k8s.io/apimachinery\<close>), with the fields the program's source names. Go pointers and nilable
  slices or maps whose nil the program distinguishes are \<open>option\<close>; quantities such as
  \<^verbatim>\<open>resource.MustParse("100m")\<close> are kept as the symbolic value \<open>MustParse ''100m''\<close>, since the
  program never looks inside one.
\<close>

subsection \<open>Metadata, conditions, references\<close>

type_synonym labels = "string \<rightharpoonup> string"

record NamespacedName =
  nn_namespace :: string
  nn_name :: string

record OwnerReference =
  or_kind :: string
  or_name :: string
  or_uid :: string
  or_controller :: bool

text \<open>A \<^verbatim>\<open>metav1.Time\<close> in nanoseconds; 0 stands for Go's zero time.\<close>

type_synonym gotime = int

record ObjectMeta =
  om_name :: string
  om_namespace :: string
  om_uid :: string
  om_resourceVersion :: string
  om_generation :: int64
  om_labels :: labels
  om_finalizers :: "string list"
  om_ownerReferences :: "OwnerReference list"
  om_deletionTimestamp :: "gotime option"

definition emptyMeta :: "string \<Rightarrow> string \<Rightarrow> ObjectMeta" where
  "emptyMeta name ns = \<lparr>om_name = name, om_namespace = ns, om_uid = [], om_resourceVersion = [],
     om_generation = 0, om_labels = Map.empty, om_finalizers = [], om_ownerReferences = [],
     om_deletionTimestamp = None\<rparr>"

definition key_of :: "ObjectMeta \<Rightarrow> NamespacedName" where
  "key_of m = \<lparr>nn_namespace = om_namespace m, nn_name = om_name m\<rparr>"

fun IsZero :: "gotime option \<Rightarrow> bool" where
  "IsZero None = True"
| "IsZero (Some t) = (t = 0)"

datatype ConditionStatus = ConditionTrue | ConditionFalse | ConditionUnknown

record Condition =
  c_type :: string
  c_status :: ConditionStatus
  c_observedGeneration :: int64
  c_lastTransitionTime :: gotime
  c_reason :: string
  c_message :: string

datatype IntOrString = FromInt int32 | FromString string

type_synonym LabelSelector = labels \<comment> \<open>matchLabels\<close>

text \<open>The API server's meaning of \<^verbatim>\<open>matchLabels\<close>: every pair of the selector is a label.\<close>

definition selects :: "labels \<Rightarrow> labels \<Rightarrow> bool" where
  "selects sel l \<longleftrightarrow> sel \<subseteq>\<^sub>m l"

subsection \<open>Containers and pods\<close>

datatype quantity = MustParse string

record ResourceClaim =
  rcl_name :: string
  rcl_request :: string

record ResourceRequirements =
  rr_limits :: "(string \<rightharpoonup> quantity) option"
  rr_requests :: "(string \<rightharpoonup> quantity) option"
  rr_claims :: "ResourceClaim list"

record KeySelector = \<comment> \<open>a key of a ConfigMap or Secret\<close>
  ks_name :: string
  ks_key :: string
  ks_optional :: "bool option"

record ObjectFieldSelector =
  of_apiVersion :: string
  of_fieldPath :: string

record ResourceFieldSelector =
  rf_containerName :: string
  rf_resource :: string
  rf_divisor :: quantity

record EnvVarSource =
  es_fieldRef :: "ObjectFieldSelector option"
  es_resourceFieldRef :: "ResourceFieldSelector option"
  es_configMapKeyRef :: "KeySelector option"
  es_secretKeyRef :: "KeySelector option"

record EnvVar =
  ev_name :: string
  ev_value :: string
  ev_valueFrom :: "EnvVarSource option"

record ContainerPort =
  cp_name :: string
  cp_containerPort :: int32
  cp_protocol :: string

record SecurityContext =
  sc_allowPrivilegeEscalation :: "bool option"
  sc_readOnlyRootFilesystem :: "bool option"
  sc_dropCapabilities :: "string list option"

record PodSecurityContext =
  psc_runAsNonRoot :: "bool option"
  psc_runAsUser :: "int64 option"
  psc_runAsGroup :: "int64 option"
  psc_fsGroup :: "int64 option"
  psc_seccompProfile :: "string option"

datatype ProbeHandler = HTTPGet string IntOrString | Exec "string list"

record Probe =
  pb_handler :: ProbeHandler
  pb_initialDelaySeconds :: int32
  pb_periodSeconds :: int32
  pb_timeoutSeconds :: int32
  pb_failureThreshold :: int32

record VolumeMount =
  vm_name :: string
  vm_mountPath :: string

record Container =
  ct_name :: string
  ct_image :: string
  ct_imagePullPolicy :: string
  ct_command :: "string list"
  ct_ports :: "ContainerPort list"
  ct_env :: "EnvVar list"
  ct_resources :: ResourceRequirements
  ct_volumeMounts :: "VolumeMount list"
  ct_securityContext :: "SecurityContext option"
  ct_livenessProbe :: "Probe option"
  ct_readinessProbe :: "Probe option"
  ct_startupProbe :: "Probe option"

record TopologySpreadConstraint =
  ts_maxSkew :: int32
  ts_topologyKey :: string
  ts_whenUnsatisfiable :: string
  ts_labelSelector :: "LabelSelector option"

record WeightedPodAffinityTerm =
  wt_weight :: int32
  wt_labelSelector :: "LabelSelector option"
  wt_topologyKey :: string

datatype VolumeSource = EmptyDir

record Volume =
  vol_name :: string
  vol_source :: VolumeSource

record PodSpec =
  ps_containers :: "Container list"
  ps_volumes :: "Volume list"
  ps_securityContext :: "PodSecurityContext option"
  ps_terminationGracePeriodSeconds :: "int64 option"
  ps_automountServiceAccountToken :: "bool option"
  ps_serviceAccountName :: string
  ps_topologySpreadConstraints :: "TopologySpreadConstraint list"
  ps_podAntiAffinity :: "WeightedPodAffinityTerm list" \<comment> \<open>preferred terms; [] when Affinity is nil\<close>

record PodTemplateSpec =
  pt_labels :: labels
  pt_spec :: PodSpec

subsection \<open>Workloads\<close>

record DeploymentSpec =
  ds_replicas :: "int32 option"
  ds_selector :: "LabelSelector option"
  ds_template :: PodTemplateSpec

record DeploymentStatus =
  dst_replicas :: int32
  dst_readyReplicas :: int32

record Deployment =
  dep_meta :: ObjectMeta
  dep_spec :: DeploymentSpec
  dep_status :: DeploymentStatus

record ServicePort =
  sp_name :: string
  sp_port :: int32
  sp_targetPort :: IntOrString
  sp_protocol :: string

record Service =
  svc_meta :: ObjectMeta
  svc_selector :: labels
  svc_ports :: "ServicePort list"

record ConfigMap =
  cm_meta :: ObjectMeta
  cm_data :: "string \<rightharpoonup> string"

record PodDisruptionBudget =
  pdb_meta :: ObjectMeta
  pdb_selector :: "LabelSelector option"
  pdb_minAvailable :: "IntOrString option"
  pdb_maxUnavailable :: "IntOrString option"

record CrossVersionObjectReference =
  xr_apiVersion :: string
  xr_kind :: string
  xr_name :: string

record MetricSpec =
  ms_type :: string
  ms_resource :: string
  ms_targetType :: string
  ms_averageUtilization :: "int32 option"

record HorizontalPodAutoscaler =
  hpa_meta :: ObjectMeta
  hpa_scaleTargetRef :: CrossVersionObjectReference
  hpa_minReplicas :: "int32 option"
  hpa_maxReplicas :: int32
  hpa_metrics :: "MetricSpec list"

text \<open>
  The content of an \<^verbatim>\<open>unstructured.Unstructured\<close> is a tree of Go values in which a
  \<^verbatim>\<open>map[string]interface{}\<close> (\<open>JMap\<close>) and a \<^verbatim>\<open>map[string]string\<close> (\<open>JStrMap\<close>) are different
  dynamic types. What \<^verbatim>\<open>encoding/json\<close> reads back never holds the second kind.
\<close>

datatype json =
    JStr string
  | JList "json list"
  | JMap "string \<Rightarrow> json option"
  | JStrMap labels

primrec json_reread :: "json \<Rightarrow> json" where
  "json_reread (JStr s) = JStr s"
| "json_reread (JList xs) = JList (map json_reread xs)"
| "json_reread (JMap m) = JMap (\<lambda>k. map_option json_reread (m k))"
| "json_reread (JStrMap m) = JMap (\<lambda>k. map_option JStr (m k))"

record GroupVersionKind =
  gvk_group :: string
  gvk_version :: string
  gvk_kind :: string

record Unstructured =
  us_gvk :: GroupVersionKind
  us_meta :: ObjectMeta
  us_object :: "string \<rightharpoonup> json" \<comment> \<open>the keys of Object beside apiVersion, kind and metadata\<close>

subsection \<open>Zero values\<close>

definition noSource :: EnvVarSource where
  "noSource = \<lparr>es_fieldRef = None, es_resourceFieldRef = None, es_configMapKeyRef = None, es_secretKeyRef = None\<rparr>"

definition keyOf :: "string \<Rightarrow> string \<Rightarrow> KeySelector" where
  "keyOf name key = \<lparr>ks_name = name, ks_key = key, ks_optional = None\<rparr>"

definition emptyPodSpec :: PodSpec where
  "emptyPodSpec = \<lparr>ps_containers = [], ps_volumes = [], ps_securityContext = None,
     ps_terminationGracePeriodSeconds = None, ps_automountServiceAccountToken = None,
     ps_serviceAccountName = [], ps_topologySpreadConstraints = [], ps_podAntiAffinity = []\<rparr>"

definition emptyContainer :: Container where
  "emptyContainer = \<lparr>ct_name = [], ct_image = [], ct_imagePullPolicy = [], ct_command = [],
     ct_ports = [], ct_env = [], ct_resources = \<lparr>rr_limits = None, rr_requests = None, rr_claims = []\<rparr>,
     ct_volumeMounts = [], ct_securityContext = None, ct_livenessProbe = None,
     ct_readinessProbe = None, ct_startupProbe = None\<rparr>"

definition newDeployment :: "string \<Rightarrow> string \<Rightarrow> Deployment" where
  "newDeployment name ns = \<lparr>dep_meta = emptyMeta name ns,
     dep_spec = \<lparr>ds_replicas = None, ds_selector = None,
       ds_template = \<lparr>pt_labels = Map.empty, pt_spec = emptyPodSpec\<rparr>\<rparr>,
     dep_status = \<lparr>dst_replicas = 0, dst_readyReplicas = 0\<rparr>\<rparr>"

definition newService :: "string \<Rightarrow> string \<Rightarrow> Service" where
  "newService name ns = \<lparr>svc_meta = emptyMeta name ns, svc_selector = Map.empty, svc_ports = []\<rparr>"

definition newConfigMap :: "string \<Rightarrow> string \<Rightarrow> ConfigMap" where
  "newConfigMap name ns = \<lparr>cm_meta = emptyMeta name ns, cm_data = Map.empty\<rparr>"

definition newPDB :: "string \<Rightarrow> string \<Rightarrow> PodDisruptionBudget" where
  "newPDB name ns = \<lparr>pdb_meta = emptyMeta name ns, pdb_selector = None, pdb_minAvailable = None,
     pdb_maxUnavailable = None\<rparr>"

definition newHPA :: "string \<Rightarrow> string \<Rightarrow> HorizontalPodAutoscaler" where
  "newHPA name ns = \<lparr>hpa_meta = emptyMeta name ns,
     hpa_scaleTargetRef = \<lparr>xr_apiVersion = [], xr_kind = [], xr_name = []\<rparr>,
     hpa_minReplicas = None, hpa_maxReplicas = 0, hpa_metrics = []\<rparr>"

definition newUnstructured :: "GroupVersionKind \<Rightarrow> string \<Rightarrow> string \<Rightarrow> Unstructured" where
  "newUnstructured gvk name ns = \<lparr>us_gvk = gvk, us_meta = emptyMeta name ns, us_object = Map.empty\<rparr>"

lemma emptyMeta_simps [simp]:
  "om_name (emptyMeta n ns) = n" "om_namespace (emptyMeta n ns) = ns"
  by (simp_all add: emptyMeta_def)

lemma key_of_emptyMeta [simp]:
  "key_of (emptyMeta n ns) = \<lparr>nn_namespace = ns, nn_name = n\<rparr>"
  by (simp add: key_of_def)

lemmas new_object_defs =
  newDeployment_def newService_def newConfigMap_def newPDB_def newHPA_def newUnstructured_def

text \<open>Somewhere inside maps there is a \<^verbatim>\<open>map[string]string\<close>.\<close>

primrec keepsStrMap :: "json \<Rightarrow> bool" where
  "keepsStrMap (JStr s) = False"
| "keepsStrMap (JList xs) = False"
| "keepsStrMap (JMap m) = (\<exists>k. case map_option keepsStrMap (m k) of None \<Rightarrow> False | Some b \<Rightarrow> b)"
| "keepsStrMap (JStrMap m) = True"

lemma json_reread_no_StrMap: "\<not> keepsStrMap (json_reread j)"
proof (induction j)
  case (JMap m)
  show ?case
  proof
    assume "keepsStrMap (json_reread (JMap m))"
    then obtain k j where "m k = Some j" "keepsStrMap (json_reread j)"
      by (auto simp: option.map_comp split: option.splits)
    then show False using JMap by (metis option.set_intros rangeI)
  qed
qed (auto split: option.splits)

lemma json_reread_not_JStrMap: "json_reread j \<noteq> JStrMap m"
  by (cases j) simp_all

end
