(* ===== verification/ApiTypes.thy ===== *)
theory ApiTypes
  imports KubeTypes
begin

text \<open>
  The custom resources of the operator (\<^verbatim>\<open>api/v1alpha1\<close>), field by field. Optional Go pointers
  are \<open>option\<close>; \<^verbatim>\<open>int32\<close> and \<^verbatim>\<open>int64\<close> keep their width.
\<close>

subsection \<open>OJSCluster (ojscluster_types.go)\<close>

record SecretKeyRef =
  skr_name :: string
  skr_key :: string

record BackendSpec =
  be_type :: string
  be_url :: string
  be_urlSecretRef :: "SecretKeyRef option"
  be_embedded :: bool

record AutoScalingSpec =
  as_enabled :: bool
  as_minReplicas :: int32
  as_maxReplicas :: int32
  as_targetQueueDepth :: int64
  as_targetJobsPerWorker :: int64
  as_scaleUpCooldown :: string
  as_scaleDownCooldown :: string

record MonitoringSpec =
  mon_enabled :: bool
  mon_serviceMonitor :: bool
  mon_grafanaDashboard :: bool

record PodSecuritySpec =
  sec_runAsNonRoot :: "bool option"
  sec_runAsUser :: "int64 option"
  sec_runAsGroup :: "int64 option"
  sec_fsGroup :: "int64 option"
  sec_readOnlyRootFilesystem :: "bool option"

record PDBSpec =
  pdbs_enabled :: "bool option"
  pdbs_minAvailable :: "int32 option"
  pdbs_maxUnavailable :: "int32 option"

record OJSClusterSpec =
  cs_backend :: BackendSpec
  cs_replicas :: "int32 option"
  cs_image :: string
  cs_autoScaling :: "AutoScalingSpec option"
  cs_resources :: ResourceRequirements
  cs_monitoring :: "MonitoringSpec option"
  cs_securityContext :: "PodSecuritySpec option"
  cs_podDisruptionBudget :: "PDBSpec option"
  cs_topologySpreadConstraints :: "TopologySpreadConstraint list"
  cs_serviceAccountName :: string

record OJSClusterStatus =
  cst_phase :: string
  cst_replicas :: int32
  cst_readyReplicas :: int32
  cst_queueDepth :: int64
  cst_activeJobs :: int64
  cst_conditions :: "Condition list"

record OJSCluster =
  cl_meta :: ObjectMeta
  cl_spec :: OJSClusterSpec
  cl_status :: OJSClusterStatus

subsection \<open>OJSWorker (ojsworker_types.go)\<close>

record WorkerAutoScalingSpec =
  was_enabled :: bool
  was_minReplicas :: int32
  was_maxReplicas :: int32
  was_targetJobsPerWorker :: int64
  was_scaleUpThreshold :: int64
  was_scaleDownDelay :: string
  was_pollingInterval :: string

record GracefulShutdownSpec =
  gs_timeoutSeconds :: int32
  gs_drainBeforeShutdown :: bool

record OJSWorkerSpec =
  ws_clusterRef :: string
  ws_jobTypes :: "string list"
  ws_queues :: "string list"
  ws_concurrency :: int32
  ws_replicas :: "int32 option"
  ws_image :: string
  ws_command :: "string list"
  ws_env :: "EnvVar list"
  ws_resources :: ResourceRequirements
  ws_autoScaling :: "WorkerAutoScalingSpec option"
  ws_gracefulShutdown :: "GracefulShutdownSpec option"

record OJSWorkerStatus =
  wst_phase :: string
  wst_replicas :: int32
  wst_readyReplicas :: int32
  wst_activeJobs :: int64
  wst_queueDepth :: int64
  wst_lastScaleTime :: "gotime option"
  wst_conditions :: "Condition list"

record OJSWorker =
  wk_meta :: ObjectMeta
  wk_spec :: OJSWorkerSpec
  wk_status :: OJSWorkerStatus

subsection \<open>OJSAttestationPolicy (attestationpolicy_types.go)\<close>

record HardwareRequirement =
  hr_type :: string
  hr_minVersion :: string

record ModelPolicy =
  mp_allowedModels :: "string list"
  mp_requireFingerprint :: bool

record OJSAttestationPolicySpec =
  ap_mode :: string
  ap_jobTypes :: "string list"
  ap_hardware :: "HardwareRequirement list"
  ap_regions :: "string list"
  ap_minKeyClass :: string
  ap_modelPolicy :: "ModelPolicy option"

record OJSAttestationPolicyStatus =
  aps_active :: bool
  aps_conditions :: "Condition list"

record OJSAttestationPolicy =
  pol_meta :: ObjectMeta
  pol_spec :: OJSAttestationPolicySpec
  pol_status :: OJSAttestationPolicyStatus

text \<open>\<^verbatim>\<open>runtime.Object\<close>: the objects the admission webhooks can be handed.\<close>

datatype runtime_object =
    ObjCluster OJSCluster
  | ObjWorker OJSWorker
  | ObjAttestationPolicy OJSAttestationPolicy
  | ObjOther string \<comment> \<open>any other Go type, by its \<open>%T\<close> name\<close>

end
