(* ===== verification/CallLogic.thy ===== *)
theory CallLogic
  imports Prelude
begin

text \<open>
  A logic for the calls a computation makes. \<open>logged c m\<close> runs \<open>m\<close> and appends the entry
  \<open>c a\<close> for its result \<open>a\<close> to a log kept beside the world. \<open>traces m Q\<close> says that
  whatever the world is and however it answers, the result \<open>a\<close> of \<open>m\<close> and the entries
  \<open>cs\<close> it appends satisfy \<open>Q a cs\<close>. The rules below follow the structure of the
  computation, so a property of a handler is proved once per handler and not once per path.
\<close>

named_theorems traces_rules

definition logged :: "('a \<Rightarrow> 'c) \<Rightarrow> ('s, 'a) state \<Rightarrow> ('s \<times> 'c list, 'a) state" where
  "logged c m = State (\<lambda>(s, tr). case run_state m s of (a, s') \<Rightarrow> (a, (s', tr @ [c a])))"

definition silent :: "('s, 'a) state \<Rightarrow> ('s \<times> 'c list, 'a) state" where
  "silent m = State (\<lambda>(s, tr). case run_state m s of (a, s') \<Rightarrow> (a, (s', tr)))"

definition traces :: "('s \<times> 'c list, 'a) state \<Rightarrow> ('a \<Rightarrow> 'c list \<Rightarrow> bool) \<Rightarrow> bool" where
  "traces m Q \<longleftrightarrow> (\<forall>s tr a s' tr'. run_state m (s, tr) = (a, (s', tr')) \<longrightarrow>
     (\<exists>cs. tr' = tr @ cs \<and> Q a cs))"

lemma tracesD:
  "traces m Q \<Longrightarrow> run_state m (s, tr) = (a, (s', tr')) \<Longrightarrow> \<exists>cs. tr' = tr @ cs \<and> Q a cs"
  by (auto simp: traces_def)

lemma traces_mono: "traces m Q \<Longrightarrow> (\<And>a cs. Q a cs \<Longrightarrow> Q' a cs) \<Longrightarrow> traces m Q'"
  unfolding traces_def by meson

lemma traces_conj: "traces m Q \<Longrightarrow> traces m Q' \<Longrightarrow> traces m (\<lambda>a cs. Q a cs \<and> Q' a cs)"
  unfolding traces_def by (metis same_append_eq)

lemma traces_return [traces_rules]: "Q a [] \<Longrightarrow> traces (State_Monad.return a) Q"
  by (simp add: traces_def)

lemma traces_logged [traces_rules]: "(\<And>a. Q a [c a]) \<Longrightarrow> traces (logged c m) Q"
  by (auto simp: traces_def logged_def split: prod.splits)

lemma traces_silent [traces_rules]: "(\<And>a. Q a []) \<Longrightarrow> traces (silent m) Q"
  by (auto simp: traces_def silent_def split: prod.splits)

text \<open>When the answers are restricted: \<open>G\<close> holds of every result of \<open>m\<close>.\<close>

definition answers :: "('s, 'a) state \<Rightarrow> ('a \<Rightarrow> bool) \<Rightarrow> bool" where
  "answers m G \<longleftrightarrow> (\<forall>s. G (fst (run_state m s)))"

lemma traces_logged_answers: "answers m G \<Longrightarrow> (\<And>a. G a \<Longrightarrow> Q a [c a]) \<Longrightarrow> traces (logged c m) Q"
  by (auto simp: traces_def logged_def answers_def split: prod.splits) (metis fst_conv)

lemma traces_bind [traces_rules]:
  "traces m (\<lambda>a cs. traces (f a) (\<lambda>b cs'. Q b (cs @ cs'))) \<Longrightarrow> traces (State_Monad.bind m f) Q"
  unfolding traces_def by (auto split: prod.splits) (metis append_assoc)

lemma traces_if_err [traces_rules]:
  assumes "traces m (\<lambda>x cs. (\<forall>e. x = Inl e \<longrightarrow> traces (h e) (\<lambda>b cs'. Q b (cs @ cs')))
      \<and> (\<forall>a. x = Inr a \<longrightarrow> traces (k a) (\<lambda>b cs'. Q b (cs @ cs'))))"
  shows "traces (if_err m h k) Q"
  unfolding if_err_def
  by (rule traces_bind, rule traces_mono [OF assms]) (auto split: sum.split)

lemma traces_if [traces_rules]:
  "(b \<Longrightarrow> traces m Q) \<Longrightarrow> (\<not> b \<Longrightarrow> traces n Q) \<Longrightarrow> traces (if b then m else n) Q"
  by simp

lemma traces_case_option [traces_rules]:
  "(x = None \<Longrightarrow> traces m Q) \<Longrightarrow> (\<And>y. x = Some y \<Longrightarrow> traces (n y) Q) \<Longrightarrow>
   traces (case x of None \<Rightarrow> m | Some y \<Rightarrow> n y) Q"
  by (cases x) simp_all

lemma traces_case_sum [traces_rules]:
  "(\<And>e. x = Inl e \<Longrightarrow> traces (m e) Q) \<Longrightarrow> (\<And>y. x = Inr y \<Longrightarrow> traces (n y) Q) \<Longrightarrow>
   traces (case x of Inl e \<Rightarrow> m e | Inr y \<Rightarrow> n y) Q"
  by (cases x) simp_all

subsection \<open>Properties of every single call\<close>

text \<open>\<open>emits R m\<close>: every entry \<open>m\<close> appends satisfies \<open>R\<close>.\<close>

named_theorems emits_rules

definition emits :: "('c \<Rightarrow> bool) \<Rightarrow> ('s \<times> 'c list, 'a) state \<Rightarrow> bool" where
  "emits R m \<longleftrightarrow> traces m (\<lambda>_ cs. list_all R cs)"

lemma emits_return [emits_rules]: "emits R (State_Monad.return a)"
  by (simp add: emits_def traces_return)

lemma emits_logged [emits_rules]: "(\<And>a. R (c a)) \<Longrightarrow> emits R (logged c m)"
  by (simp add: emits_def traces_logged)

lemma emits_silent [emits_rules]: "emits R (silent m)"
  by (simp add: emits_def traces_silent)

lemma emits_bind [emits_rules]:
  assumes "emits R m" "\<And>a. emits R (f a)"
  shows "emits R (State_Monad.bind m f)"
  unfolding emits_def
proof (rule traces_bind, rule traces_mono [OF assms(1) [unfolded emits_def]])
  fix a cs
  assume "list_all R cs"
  then show "traces (f a) (\<lambda>_ cs'. list_all R (cs @ cs'))"
    using traces_mono [OF assms(2) [unfolded emits_def], of "\<lambda>_ cs'. list_all R (cs @ cs')"] by simp
qed

lemma emits_bind_traces:
  assumes "traces m (\<lambda>a cs. G a \<and> list_all R cs)" "\<And>a. G a \<Longrightarrow> emits R (f a)"
  shows "emits R (State_Monad.bind m f)"
  unfolding emits_def
proof (rule traces_bind, rule traces_mono [OF assms(1)])
  fix a cs
  assume "G a \<and> list_all R cs"
  then show "traces (f a) (\<lambda>_ cs'. list_all R (cs @ cs'))"
    using traces_mono [OF assms(2) [unfolded emits_def], of a "\<lambda>_ cs'. list_all R (cs @ cs')"] by simp
qed

lemma emits_if_err [emits_rules]:
  "emits R m \<Longrightarrow> (\<And>e. emits R (h e)) \<Longrightarrow> (\<And>a. emits R (k a)) \<Longrightarrow> emits R (if_err m h k)"
  unfolding if_err_def by (rule emits_bind) (auto split: sum.split)

lemma emits_if_err_traces:
  assumes "traces m (\<lambda>x cs. G x \<and> list_all R cs)"
    and "\<And>e. G (Inl e) \<Longrightarrow> emits R (h e)" "\<And>a. G (Inr a) \<Longrightarrow> emits R (k a)"
  shows "emits R (if_err m h k)"
  unfolding if_err_def using assms(2,3)
  by (intro emits_bind_traces [OF assms(1)]) (auto split: sum.split)

lemma emits_if [emits_rules]:
  "(b \<Longrightarrow> emits R m) \<Longrightarrow> (\<not> b \<Longrightarrow> emits R n) \<Longrightarrow> emits R (if b then m else n)"
  by simp

lemma emits_case_option [emits_rules]:
  "(x = None \<Longrightarrow> emits R m) \<Longrightarrow> (\<And>y. x = Some y \<Longrightarrow> emits R (n y)) \<Longrightarrow>
   emits R (case x of None \<Rightarrow> m | Some y \<Rightarrow> n y)"
  by (cases x) simp_all

lemma emits_case_sum [emits_rules]:
  "(\<And>e. x = Inl e \<Longrightarrow> emits R (m e)) \<Longrightarrow> (\<And>y. x = Inr y \<Longrightarrow> emits R (n y)) \<Longrightarrow>
   emits R (case x of Inl e \<Rightarrow> m e | Inr y \<Rightarrow> n y)"
  by (cases x) simp_all

lemma emits_case_prod [emits_rules]:
  "(\<And>a b. x = (a, b) \<Longrightarrow> emits R (m a b)) \<Longrightarrow> emits R (case x of (a, b) \<Rightarrow> m a b)"
  by (cases x) simp

subsection \<open>Transparency of the log\<close>

text \<open>\<open>mirrors m' m\<close>: but for the log, \<open>m'\<close> does what \<open>m\<close> does.\<close>

named_theorems mirrors_rules

definition mirrors :: "('s \<times> 'c list, 'a) state \<Rightarrow> ('s, 'a) state \<Rightarrow> bool" where
  "mirrors m' m \<longleftrightarrow> (\<forall>s tr. fst (run_state m' (s, tr)) = fst (run_state m s)
     \<and> fst (snd (run_state m' (s, tr))) = snd (run_state m s))"

lemma mirrors_return [mirrors_rules]: "mirrors (State_Monad.return a) (State_Monad.return a)"
  by (simp add: mirrors_def)

lemma mirrors_logged [mirrors_rules]: "mirrors (logged c m) m"
  by (simp add: mirrors_def logged_def split: prod.split)

lemma mirrors_silent [mirrors_rules]: "mirrors (silent m) m"
  by (simp add: mirrors_def silent_def split: prod.split)

lemma mirrors_bind [mirrors_rules]:
  "mirrors m' m \<Longrightarrow> (\<And>a. mirrors (f' a) (f a)) \<Longrightarrow> mirrors (State_Monad.bind m' f') (State_Monad.bind m f)"
  unfolding mirrors_def by (auto split: prod.splits) (metis fst_conv snd_conv)+

lemma mirrors_if_err [mirrors_rules]:
  "mirrors m' m \<Longrightarrow> (\<And>e. mirrors (h' e) (h e)) \<Longrightarrow> (\<And>a. mirrors (k' a) (k a)) \<Longrightarrow>
   mirrors (if_err m' h' k') (if_err m h k)"
  unfolding if_err_def by (rule mirrors_bind) (auto split: sum.split)

lemma mirrors_if [mirrors_rules]:
  "(b \<Longrightarrow> mirrors m' m) \<Longrightarrow> (\<not> b \<Longrightarrow> mirrors n' n) \<Longrightarrow>
   mirrors (if b then m' else n') (if b then m else n)"
  by simp

lemma mirrors_case_option [mirrors_rules]:
  "(x = None \<Longrightarrow> mirrors m' m) \<Longrightarrow> (\<And>y. x = Some y \<Longrightarrow> mirrors (n' y) (n y)) \<Longrightarrow>
   mirrors (case x of None \<Rightarrow> m' | Some y \<Rightarrow> n' y) (case x of None \<Rightarrow> m | Some y \<Rightarrow> n y)"
  by (cases x) simp_all

lemma mirrors_case_sum [mirrors_rules]:
  "(\<And>e. x = Inl e \<Longrightarrow> mirrors (m' e) (m e)) \<Longrightarrow> (\<And>y. x = Inr y \<Longrightarrow> mirrors (n' y) (n y)) \<Longrightarrow>
   mirrors (case x of Inl e \<Rightarrow> m' e | Inr y \<Rightarrow> n' y) (case x of Inl e \<Rightarrow> m e | Inr y \<Rightarrow> n y)"
  by (cases x) simp_all

lemma mirrors_case_prod [mirrors_rules]:
  "(\<And>a b. x = (a, b) \<Longrightarrow> mirrors (m' a b) (m a b)) \<Longrightarrow>
   mirrors (case x of (a, b) \<Rightarrow> m' a b) (case x of (a, b) \<Rightarrow> m a b)"
  by (cases x) simp

end
