(* ===== verification/Kube.thy ===== *)
theory Kube
  imports ApiTypes CallLogic
begin

text \<open>
  The boundary of the program. \<open>'s kube\<close> is everything the controllers use of code outside the
  repository: the typed calls of controller-runtime's \<^verbatim>\<open>client.Client\<close>, \<^verbatim>\<open>controllerutil\<close>
  (\<^verbatim>\<open>CreateOrUpdate\<close>, the finalizer helpers), \<^verbatim>\<open>ctrl.SetControllerReference\<close>,
  \<^verbatim>\<open>meta.SetStatusCondition\<close>, the clock, and the two tables of the Go library. All of it is a
  parameter: the models below are functions of a \<open>'s kube\<close>, and a theorem either holds for
  every one of them or names the documented laws it needs.

  A successful \<^verbatim>\<open>Update\<close> overwrites the object in memory with the server's answer, so it
  returns an object. A callback of \<^verbatim>\<open>CreateOrUpdate\<close> is a function from the object found (or
  the one given) to an error or the object to store.
\<close>

subsection \<open>Events, the client, the reconcilers\<close>

datatype kind = KCluster | KWorker | KDeployment | KService | KConfigMap | KPDB | KServiceMonitor | KHPA

record Event =
  evt_kind :: kind
  evt_object :: NamespacedName
  evt_type :: string
  evt_reason :: string
  evt_message :: string

type_synonym set_ref = "kind \<Rightarrow> ObjectMeta \<Rightarrow> ObjectMeta \<Rightarrow> goerror + ObjectMeta"

type_synonym 'o callback = "'o \<Rightarrow> goerror + 'o"

record 's kube =
  GetOJSCluster :: "NamespacedName \<Rightarrow> ('s, goerror + OJSCluster) state"
  GetOJSWorker :: "NamespacedName \<Rightarrow> ('s, goerror + OJSWorker) state"
  GetDeployment :: "NamespacedName \<Rightarrow> ('s, goerror + Deployment) state"
  GetHPA :: "NamespacedName \<Rightarrow> ('s, goerror + HorizontalPodAutoscaler) state"
  UpdateOJSCluster :: "OJSCluster \<Rightarrow> ('s, goerror + OJSCluster) state"
  UpdateOJSWorker :: "OJSWorker \<Rightarrow> ('s, goerror + OJSWorker) state"
  StatusUpdateOJSCluster :: "OJSCluster \<Rightarrow> ('s, goerror + OJSCluster) state"
  StatusUpdateOJSWorker :: "OJSWorker \<Rightarrow> ('s, goerror + OJSWorker) state"
  DeleteHPA :: "HorizontalPodAutoscaler \<Rightarrow> ('s, goerror + unit) state"
  CreateOrUpdateConfigMap :: "ConfigMap \<Rightarrow> ConfigMap callback \<Rightarrow> ('s, goerror + unit) state"
  CreateOrUpdateDeployment :: "Deployment \<Rightarrow> Deployment callback \<Rightarrow> ('s, goerror + unit) state"
  CreateOrUpdateService :: "Service \<Rightarrow> Service callback \<Rightarrow> ('s, goerror + unit) state"
  CreateOrUpdatePDB :: "PodDisruptionBudget \<Rightarrow> PodDisruptionBudget callback \<Rightarrow> ('s, goerror + unit) state"
  CreateOrUpdateUnstructured :: "Unstructured \<Rightarrow> Unstructured callback \<Rightarrow> ('s, goerror + unit) state"
  CreateOrUpdateHPA :: "HorizontalPodAutoscaler \<Rightarrow> HorizontalPodAutoscaler callback \<Rightarrow> ('s, goerror + unit) state"
  Now :: "('s, gotime) state"
  SetControllerReference :: set_ref
  ContainsFinalizer :: "string list \<Rightarrow> string \<Rightarrow> bool"
  AddFinalizer :: "string list \<Rightarrow> string \<Rightarrow> string list"
  RemoveFinalizer :: "string list \<Rightarrow> string \<Rightarrow> string list"
  SetStatusCondition :: "gotime \<Rightarrow> Condition list \<Rightarrow> Condition \<Rightarrow> Condition list"
  isPrintTable :: "nat \<Rightarrow> bool"
  floatFraction :: "nat \<Rightarrow> nat \<Rightarrow> nat \<Rightarrow> nat"

text \<open>
  The struct of both reconcilers: the client and a recorder that may be nil. Their \<^verbatim>\<open>Scheme\<close> is
  only handed to \<^verbatim>\<open>SetControllerReference\<close> and is part of that parameter.
\<close>

record 's reconciler =
  rc_client :: "'s kube"
  rc_recorder :: "(Event \<Rightarrow> ('s, unit) state) option"

text \<open>\<^verbatim>\<open>ctrl.Result\<close>, of which the program sets \<^verbatim>\<open>RequeueAfter\<close> only (nanoseconds).\<close>

record Result =
  res_requeueAfter :: int64

type_synonym reconcile_result = "Result \<times> goerror option"

definition noResult :: Result where
  "noResult = \<lparr>res_requeueAfter = 0\<rparr>"

subsection \<open>Logging every call\<close>

datatype call =
    ReadCluster NamespacedName
  | ReadWorker NamespacedName
  | ReadDeployment NamespacedName
  | ReadHPA NamespacedName
  | WriteCluster OJSCluster
  | WriteWorker OJSWorker
  | WriteClusterStatus OJSCluster
  | WriteWorkerStatus OJSWorker
  | RemoveHPA HorizontalPodAutoscaler
  | ApplyConfigMap ConfigMap "ConfigMap callback"
  | ApplyDeployment Deployment "Deployment callback"
  | ApplyService Service "Service callback"
  | ApplyPDB PodDisruptionBudget "PodDisruptionBudget callback"
  | ApplyServiceMonitor Unstructured "Unstructured callback"
  | ApplyHPA HorizontalPodAutoscaler "HorizontalPodAutoscaler callback"
  | Emit Event

text \<open>A log entry is a call and the error it returned, if any.\<close>

type_synonym entry = "call \<times> goerror option"

definition entry_of :: "call \<Rightarrow> goerror + 'a \<Rightarrow> entry" where
  "entry_of c r = (c, case r of Inl e \<Rightarrow> Some e | Inr _ \<Rightarrow> None)"

lemma entry_of_simps [simp]:
  "entry_of c (Inl e) = (c, Some e)" "entry_of c (Inr a) = (c, None)"
  by (simp_all add: entry_of_def)

lemma fst_entry_of [simp]: "fst (entry_of c r) = c"
  by (simp add: entry_of_def)

definition logged_kube :: "'s kube \<Rightarrow> ('s \<times> entry list) kube" where
  "logged_kube K = \<lparr>
     GetOJSCluster = (\<lambda>k. logged (entry_of (ReadCluster k)) (GetOJSCluster K k)),
     GetOJSWorker = (\<lambda>k. logged (entry_of (ReadWorker k)) (GetOJSWorker K k)),
     GetDeployment = (\<lambda>k. logged (entry_of (ReadDeployment k)) (GetDeployment K k)),
     GetHPA = (\<lambda>k. logged (entry_of (ReadHPA k)) (GetHPA K k)),
     UpdateOJSCluster = (\<lambda>o'. logged (entry_of (WriteCluster o')) (UpdateOJSCluster K o')),
     UpdateOJSWorker = (\<lambda>o'. logged (entry_of (WriteWorker o')) (UpdateOJSWorker K o')),
     StatusUpdateOJSCluster = (\<lambda>o'. logged (entry_of (WriteClusterStatus o')) (StatusUpdateOJSCluster K o')),
     StatusUpdateOJSWorker = (\<lambda>o'. logged (entry_of (WriteWorkerStatus o')) (StatusUpdateOJSWorker K o')),
     DeleteHPA = (\<lambda>o'. logged (entry_of (RemoveHPA o')) (DeleteHPA K o')),
     CreateOrUpdateConfigMap = (\<lambda>o' f. logged (entry_of (ApplyConfigMap o' f)) (CreateOrUpdateConfigMap K o' f)),
     CreateOrUpdateDeployment = (\<lambda>o' f. logged (entry_of (ApplyDeployment o' f)) (CreateOrUpdateDeployment K o' f)),
     CreateOrUpdateService = (\<lambda>o' f. logged (entry_of (ApplyService o' f)) (CreateOrUpdateService K o' f)),
     CreateOrUpdatePDB = (\<lambda>o' f. logged (entry_of (ApplyPDB o' f)) (CreateOrUpdatePDB K o' f)),
     CreateOrUpdateUnstructured = (\<lambda>o' f. logged (entry_of (ApplyServiceMonitor o' f)) (CreateOrUpdateUnstructured K o' f)),
     CreateOrUpdateHPA = (\<lambda>o' f. logged (entry_of (ApplyHPA o' f)) (CreateOrUpdateHPA K o' f)),
     Now = silent (Now K),
     SetControllerReference = SetControllerReference K,
     ContainsFinalizer = ContainsFinalizer K,
     AddFinalizer = AddFinalizer K,
     RemoveFinalizer = RemoveFinalizer K,
     SetStatusCondition = SetStatusCondition K,
     isPrintTable = isPrintTable K,
     floatFraction = floatFraction K\<rparr>"

definition logged_reconciler :: "'s reconciler \<Rightarrow> ('s \<times> entry list) reconciler" where
  "logged_reconciler r = \<lparr>
     rc_client = logged_kube (rc_client r),
     rc_recorder = map_option (\<lambda>rec e. logged (\<lambda>_. (Emit e, None)) (rec e)) (rc_recorder r)\<rparr>"

lemma logged_reconciler_client [simp]:
  "rc_client (logged_reconciler r) = logged_kube (rc_client r)"
  by (simp add: logged_reconciler_def)

text \<open>The pure helpers are not calls and stay as they are.\<close>

lemma logged_kube_pure [simp]:
  "SetControllerReference (logged_kube K) = SetControllerReference K"
  "ContainsFinalizer (logged_kube K) = ContainsFinalizer K"
  "AddFinalizer (logged_kube K) = AddFinalizer K"
  "RemoveFinalizer (logged_kube K) = RemoveFinalizer K"
  "SetStatusCondition (logged_kube K) = SetStatusCondition K"
  "isPrintTable (logged_kube K) = isPrintTable K"
  "floatFraction (logged_kube K) = floatFraction K"
  by (simp_all add: logged_kube_def)

lemma logged_kube_calls [simp]:
  "GetOJSCluster (logged_kube K) k = logged (entry_of (ReadCluster k)) (GetOJSCluster K k)"
  "GetOJSWorker (logged_kube K) k = logged (entry_of (ReadWorker k)) (GetOJSWorker K k)"
  "GetDeployment (logged_kube K) k = logged (entry_of (ReadDeployment k)) (GetDeployment K k)"
  "GetHPA (logged_kube K) k = logged (entry_of (ReadHPA k)) (GetHPA K k)"
  "UpdateOJSCluster (logged_kube K) c = logged (entry_of (WriteCluster c)) (UpdateOJSCluster K c)"
  "UpdateOJSWorker (logged_kube K) w = logged (entry_of (WriteWorker w)) (UpdateOJSWorker K w)"
  "StatusUpdateOJSCluster (logged_kube K) c = logged (entry_of (WriteClusterStatus c)) (StatusUpdateOJSCluster K c)"
  "StatusUpdateOJSWorker (logged_kube K) w = logged (entry_of (WriteWorkerStatus w)) (StatusUpdateOJSWorker K w)"
  "DeleteHPA (logged_kube K) h = logged (entry_of (RemoveHPA h)) (DeleteHPA K h)"
  "CreateOrUpdateConfigMap (logged_kube K) cm f = logged (entry_of (ApplyConfigMap cm f)) (CreateOrUpdateConfigMap K cm f)"
  "CreateOrUpdateDeployment (logged_kube K) d g = logged (entry_of (ApplyDeployment d g)) (CreateOrUpdateDeployment K d g)"
  "CreateOrUpdateService (logged_kube K) sv h' = logged (entry_of (ApplyService sv h')) (CreateOrUpdateService K sv h')"
  "CreateOrUpdatePDB (logged_kube K) p i = logged (entry_of (ApplyPDB p i)) (CreateOrUpdatePDB K p i)"
  "CreateOrUpdateUnstructured (logged_kube K) u j = logged (entry_of (ApplyServiceMonitor u j)) (CreateOrUpdateUnstructured K u j)"
  "CreateOrUpdateHPA (logged_kube K) hp l = logged (entry_of (ApplyHPA hp l)) (CreateOrUpdateHPA K hp l)"
  "Now (logged_kube K) = silent (Now K)"
  by (simp_all add: logged_kube_def)

subsection \<open>Recording an event (recordEvent of both controllers)\<close>

text \<open>\<^verbatim>\<open>if r.Recorder != nil { r.Recorder.Event(obj, eventType, reason, message) }\<close>\<close>

definition record_event ::
  "'s reconciler \<Rightarrow> kind \<Rightarrow> ObjectMeta \<Rightarrow> string \<Rightarrow> string \<Rightarrow> string \<Rightarrow> ('s, unit) state" where
  "record_event r knd m eventType reason message =
     (case rc_recorder r of
        None \<Rightarrow> State_Monad.return ()
      | Some recorder \<Rightarrow> recorder \<lparr>evt_kind = knd, evt_object = key_of m, evt_type = eventType,
          evt_reason = reason, evt_message = message\<rparr>)"

definition event_of :: "kind \<Rightarrow> ObjectMeta \<Rightarrow> string \<Rightarrow> string \<Rightarrow> string \<Rightarrow> Event" where
  "event_of knd m eventType reason message =
     \<lparr>evt_kind = knd, evt_object = key_of m, evt_type = eventType, evt_reason = reason,
       evt_message = message\<rparr>"

text \<open>Recording is at most the one event, and it never fails.\<close>

lemma traces_record_event [traces_rules]:
  assumes "Q () []" "Q () [(Emit (event_of knd m t rs msg), None)]"
  shows "traces (record_event (logged_reconciler r) knd m t rs msg) Q"
  using assms
  by (cases "rc_recorder r")
    (auto simp: record_event_def logged_reconciler_def event_of_def intro!: traces_rules)

lemma emits_record_event [emits_rules]:
  assumes "R (Emit (event_of knd m t rs msg), None)"
  shows "emits R (record_event (logged_reconciler r) knd m t rs msg)"
  using assms unfolding emits_def by (intro traces_record_event) simp_all

lemma mirrors_record_event [mirrors_rules]:
  "mirrors (record_event (logged_reconciler r) knd m t rs msg) (record_event r knd m t rs msg)"
  by (cases "rc_recorder r")
    (auto simp: record_event_def logged_reconciler_def intro!: mirrors_rules)

end
