(* ===== verification/Failures.thy ===== *)
theory Failures
  imports Kube
begin

text \<open>
  Which failing calls end a reconciliation, and what it means that a handler stops there. An
  entry is \<open>fatal\<close> when the call failed in a way that the controllers must report: any error
  but that of a ServiceMonitor, an HPA lookup, or a lookup of an object that does not exist.
  \<open>settles m\<close>: \<open>m\<close> reports an error whenever a call was fatal, and creates or updates no
  child object after it.
\<close>

fun fatal :: "entry \<Rightarrow> bool" where
  "fatal (c, None) = False"
| "fatal (ReadCluster k, Some e) = (\<not> IsNotFound e)"
| "fatal (ReadWorker k, Some e) = (\<not> IsNotFound e)"
| "fatal (ReadDeployment k, Some e) = (\<not> IsNotFound e)"
| "fatal (ReadHPA k, Some e) = False"
| "fatal (ApplyServiceMonitor u f, Some e) = False"
| "fatal (Emit ev, Some e) = False"
| "fatal (c, Some e) = True"

fun child_call :: "call \<Rightarrow> bool" where
  "child_call (ApplyConfigMap cm f) = True"
| "child_call (ApplyDeployment d f) = True"
| "child_call (ApplyService sv f) = True"
| "child_call (ApplyPDB p f) = True"
| "child_call (ApplyServiceMonitor u f) = True"
| "child_call (ApplyHPA hp f) = True"
| "child_call (RemoveHPA hp) = True"
| "child_call c = False"

fun stops :: "entry list \<Rightarrow> bool" where
  "stops [] = True"
| "stops (x # xs) = (if fatal x then list_all (\<lambda>y. \<not> child_call (fst y)) xs else stops xs)"

abbreviation has_fatal :: "entry list \<Rightarrow> bool" where
  "has_fatal cs \<equiv> list_ex fatal cs"

abbreviation childless :: "entry list \<Rightarrow> bool" where
  "childless cs \<equiv> list_all (\<lambda>y. \<not> child_call (fst y)) cs"

lemma not_fatal_monitor [simp]: "\<not> fatal (entry_of (ApplyServiceMonitor u f) a)"
  by (cases a) simp_all

lemma not_fatal_hpa_lookup [simp]: "\<not> fatal (entry_of (ReadHPA k) a)"
  by (cases a) simp_all

lemma fatal_isl: "fatal (entry_of c a) \<Longrightarrow> isl a"
  by (cases a) simp_all

lemma stops_append:
  "stops (xs @ ys) \<longleftrightarrow> stops xs \<and> (if has_fatal xs then childless ys else stops ys)"
  by (induction xs) auto

lemma has_fatal_split: "has_fatal cs \<Longrightarrow> \<exists>xs c e ys. cs = xs @ (c, Some e) # ys \<and> fatal (c, Some e)"
proof (induction cs)
  case (Cons x cs)
  show ?case
  proof (cases "fatal x")
    case True
    then obtain c e where "x = (c, Some e)" by (cases x rule: fatal.cases) auto
    with True show ?thesis by (metis append_Nil)
  next
    case False
    with Cons show ?thesis by simp (metis append_Cons)
  qed
qed simp

lemma childless_stops: "childless xs \<Longrightarrow> stops xs"
  by (induction xs) auto

text \<open>\<open>stops\<close> in terms of positions: after a fatal entry there is no child call.\<close>

lemma stops_split: "stops (xs @ x # ys) \<Longrightarrow> fatal x \<Longrightarrow> childless ys"
  by (induction xs) (auto split: if_splits)

definition strict :: "('s \<times> entry list, goerror + 'a) state \<Rightarrow> bool" where
  "strict m \<longleftrightarrow> traces m (\<lambda>res cs. (has_fatal cs \<longrightarrow> isl res) \<and> stops cs)"

definition settles :: "('s \<times> entry list, reconcile_result) state \<Rightarrow> bool" where
  "settles m \<longleftrightarrow> traces m (\<lambda>res cs. (has_fatal cs \<longrightarrow> snd res \<noteq> None) \<and> stops cs)"

definition fails :: "('s \<times> entry list, reconcile_result) state \<Rightarrow> bool" where
  "fails m \<longleftrightarrow> traces m (\<lambda>res cs. snd res \<noteq> None \<and> childless cs)"

definition sideline :: "('s \<times> entry list, 'a) state \<Rightarrow> bool" where
  "sideline m \<longleftrightarrow> emits (\<lambda>x. \<not> fatal x) m"

named_theorems stop_rules

lemma not_fatal_stops: "list_all (\<lambda>x. \<not> fatal x) cs \<Longrightarrow> \<not> has_fatal cs \<and> stops cs"
  by (induction cs) auto

lemma strict_return [stop_rules]: "strict (State_Monad.return a)"
  by (simp add: strict_def traces_return)

lemma settles_return [stop_rules]: "settles (State_Monad.return a)"
  by (simp add: settles_def traces_return)

lemma fails_return [stop_rules]: "snd res \<noteq> None \<Longrightarrow> fails (State_Monad.return res)"
  by (simp add: fails_def traces_return)

lemma strict_logged [stop_rules]:
  "(\<And>a. fatal (c a) \<Longrightarrow> isl a) \<Longrightarrow> strict (logged c m)"
  by (auto simp: strict_def intro: traces_logged)

lemma strict_call [stop_rules]: "strict (logged (entry_of c) m)"
  by (rule strict_logged) (rule fatal_isl)

lemma settles_if [stop_rules]:
  "(b \<Longrightarrow> settles m) \<Longrightarrow> (\<not> b \<Longrightarrow> settles n) \<Longrightarrow> settles (if b then m else n)"
  by simp

lemma strict_if [stop_rules]:
  "(b \<Longrightarrow> strict m) \<Longrightarrow> (\<not> b \<Longrightarrow> strict n) \<Longrightarrow> strict (if b then m else n)"
  by simp

lemma fails_settles: "fails m \<Longrightarrow> settles m"
  unfolding fails_def settles_def by (erule traces_mono) (simp add: childless_stops)

lemma settles_if_err:
  fixes k :: "'v \<Rightarrow> ('s \<times> entry list, reconcile_result) state"
  assumes "strict m" "\<And>e. fails (h e)" "\<And>a. settles (k a)"
  shows "settles (if_err m h k)"
  unfolding settles_def
proof (rule traces_if_err, rule traces_mono [OF assms(1) [unfolded strict_def]], intro conjI allI impI)
  fix x :: "goerror + 'v" and e :: goerror and cs :: "entry list"
  assume "(has_fatal cs \<longrightarrow> isl x) \<and> stops cs"
  then show "traces (h e) (\<lambda>res cs'. (has_fatal (cs @ cs') \<longrightarrow> snd res \<noteq> None) \<and> stops (cs @ cs'))"
    by (intro traces_mono [OF assms(2) [unfolded fails_def]]) (simp add: stops_append childless_stops)
next
  fix x :: "goerror + 'v" and a :: 'v and cs :: "entry list"
  assume "(has_fatal cs \<longrightarrow> isl x) \<and> stops cs" "x = Inr a"
  then show "traces (k a) (\<lambda>res cs'. (has_fatal (cs @ cs') \<longrightarrow> snd res \<noteq> None) \<and> stops (cs @ cs'))"
    by (intro traces_mono [OF assms(3) [unfolded settles_def]]) (simp add: stops_append)
qed

text \<open>The variant for a lookup whose handler may answer an absent object without an error.\<close>

lemma settles_if_err_get:
  fixes k :: "'v \<Rightarrow> ('s \<times> entry list, reconcile_result) state"
  assumes "\<And>e. fatal (c, Some e) \<Longrightarrow> fails (h e)" "\<And>e. \<not> fatal (c, Some e) \<Longrightarrow> settles (h e)"
    and "\<And>a. settles (k a)"
  shows "settles (if_err (logged (entry_of c) m) h k)"
  unfolding settles_def
proof (rule traces_if_err, rule traces_logged, intro conjI allI impI)
  fix x :: "goerror + 'v" and e :: goerror
  assume x: "x = Inl e"
  show "traces (h e) (\<lambda>res cs'. (has_fatal ([entry_of c x] @ cs') \<longrightarrow> snd res \<noteq> None) \<and>
    stops ([entry_of c x] @ cs'))"
  proof (cases "fatal (c, Some e)")
    case True
    with x show ?thesis
      by (intro traces_mono [OF assms(1) [unfolded fails_def]]) (simp_all add: childless_stops)
  next
    case False
    with x show ?thesis by (intro traces_mono [OF assms(2) [unfolded settles_def]]) simp_all
  qed
next
  fix x :: "goerror + 'v" and a :: 'v
  assume "x = Inr a"
  then show "traces (k a) (\<lambda>res cs'. (has_fatal ([entry_of c x] @ cs') \<longrightarrow> snd res \<noteq> None) \<and>
    stops ([entry_of c x] @ cs'))"
    by (intro traces_mono [OF assms(3) [unfolded settles_def]]) simp
qed

lemma strict_if_err:
  fixes k :: "'v \<Rightarrow> ('s \<times> entry list, goerror + 'w) state"
  assumes "strict m" "\<And>e. traces (h e) (\<lambda>res cs. isl res \<and> childless cs)" "\<And>a. strict (k a)"
  shows "strict (if_err m h k)"
  unfolding strict_def
proof (rule traces_if_err, rule traces_mono [OF assms(1) [unfolded strict_def]], intro conjI allI impI)
  fix x :: "goerror + 'v" and e :: goerror and cs :: "entry list"
  assume "(has_fatal cs \<longrightarrow> isl x) \<and> stops cs"
  then show "traces (h e) (\<lambda>res cs'. (has_fatal (cs @ cs') \<longrightarrow> isl res) \<and> stops (cs @ cs'))"
    by (intro traces_mono [OF assms(2)]) (simp add: stops_append childless_stops)
next
  fix x :: "goerror + 'v" and a :: 'v and cs :: "entry list"
  assume "(has_fatal cs \<longrightarrow> isl x) \<and> stops cs" "x = Inr a"
  then show "traces (k a) (\<lambda>res cs'. (has_fatal (cs @ cs') \<longrightarrow> isl res) \<and> stops (cs @ cs'))"
    by (intro traces_mono [OF assms(3) [unfolded strict_def]]) (simp add: stops_append)
qed

lemma strict_if_err_get:
  fixes k :: "'v \<Rightarrow> ('s \<times> entry list, goerror + 'w) state"
  assumes "\<And>e. fatal (c, Some e) \<Longrightarrow> traces (h e) (\<lambda>res cs. isl res \<and> childless cs)"
    and "\<And>e. \<not> fatal (c, Some e) \<Longrightarrow> strict (h e)" "\<And>a. strict (k a)"
  shows "strict (if_err (logged (entry_of c) m) h k)"
  unfolding strict_def
proof (rule traces_if_err, rule traces_logged, intro conjI allI impI)
  fix x :: "goerror + 'v" and e :: goerror
  assume x: "x = Inl e"
  show "traces (h e) (\<lambda>res cs'. (has_fatal ([entry_of c x] @ cs') \<longrightarrow> isl res) \<and>
    stops ([entry_of c x] @ cs'))"
  proof (cases "fatal (c, Some e)")
    case True
    with x show ?thesis
      by (intro traces_mono [OF assms(1)]) (simp_all add: childless_stops)
  next
    case False
    with x show ?thesis by (intro traces_mono [OF assms(2) [unfolded strict_def]]) simp_all
  qed
next
  fix x :: "goerror + 'v" and a :: 'v
  assume "x = Inr a"
  then show "traces (k a) (\<lambda>res cs'. (has_fatal ([entry_of c x] @ cs') \<longrightarrow> isl res) \<and>
    stops ([entry_of c x] @ cs'))"
    by (intro traces_mono [OF assms(3) [unfolded strict_def]]) simp
qed

lemma traces_emits: "emits R m \<Longrightarrow> traces m (\<lambda>_ cs. list_all R cs)"
  by (simp add: emits_def)

text \<open>A part that makes no fatal call can stand in front of anything.\<close>

lemma settles_bind_sideline:
  fixes k :: "'v \<Rightarrow> ('s \<times> entry list, reconcile_result) state"
  assumes "sideline m" "\<And>a. settles (k a)"
  shows "settles (State_Monad.bind m k)"
  unfolding settles_def
proof (rule traces_bind, rule traces_mono [OF assms(1) [unfolded sideline_def emits_def]])
  fix a :: 'v and cs :: "entry list"
  assume "list_all (\<lambda>x. \<not> fatal x) cs"
  then show "traces (k a) (\<lambda>res cs'. (has_fatal (cs @ cs') \<longrightarrow> snd res \<noteq> None) \<and> stops (cs @ cs'))"
    using not_fatal_stops
    by (intro traces_mono [OF assms(2) [unfolded settles_def]]) (auto simp: stops_append)
qed

lemma strict_bind_sideline:
  fixes k :: "'v \<Rightarrow> ('s \<times> entry list, goerror + 'w) state"
  assumes "sideline m" "\<And>a. strict (k a)"
  shows "strict (State_Monad.bind m k)"
  unfolding strict_def
proof (rule traces_bind, rule traces_mono [OF assms(1) [unfolded sideline_def emits_def]])
  fix a :: 'v and cs :: "entry list"
  assume "list_all (\<lambda>x. \<not> fatal x) cs"
  then show "traces (k a) (\<lambda>res cs'. (has_fatal (cs @ cs') \<longrightarrow> isl res) \<and> stops (cs @ cs'))"
    using not_fatal_stops
    by (intro traces_mono [OF assms(2) [unfolded strict_def]]) (auto simp: stops_append)
qed

lemma fails_bind:
  fixes k :: "'v \<Rightarrow> ('s \<times> entry list, reconcile_result) state"
  assumes "emits (\<lambda>y. \<not> child_call (fst y)) m" "\<And>a. fails (k a)"
  shows "fails (State_Monad.bind m k)"
  unfolding fails_def
proof (rule traces_bind, rule traces_mono [OF assms(1) [unfolded emits_def]])
  fix a :: 'v and cs :: "entry list"
  assume "childless cs"
  then show "traces (k a) (\<lambda>res cs'. snd res \<noteq> None \<and> childless (cs @ cs'))"
    by (intro traces_mono [OF assms(2) [unfolded fails_def]]) simp
qed

lemma sideline_record_event [stop_rules]: "sideline (record_event (logged_reconciler r) knd m t rs msg)"
  unfolding sideline_def by (rule emits_record_event) simp

lemma settlesD: "settles m \<Longrightarrow> run_state m (s, []) = (res, (s', cs)) \<Longrightarrow>
    (has_fatal cs \<longrightarrow> snd res \<noteq> None) \<and> stops cs"
  unfolding settles_def by (drule (1) tracesD) auto

end
