(* ===== verification/Plans.thy ===== *)
theory Plans
  imports Failures
begin

text \<open>
  Two more things to say of a run: which child calls it makes, measured against a plan (the list
  of calls a complete reconciliation makes, in order), and where the error it reports comes from.
  \<open>observe m s\<close> is a logged run from an empty log: its result and the calls it made.
\<close>

definition observe :: "('s \<times> 'c list, 'a) state \<Rightarrow> 's \<Rightarrow> 'a \<times> 'c list" where
  "observe m s = (case run_state m (s, []) of (a, (s', cs)) \<Rightarrow> (a, cs))"

lemma observeD: "traces m Q \<Longrightarrow> observe m s = (a, cs) \<Longrightarrow> Q a cs"
  unfolding observe_def by (auto split: prod.splits dest: tracesD)

lemma observe_mirrors: "mirrors m' m \<Longrightarrow> fst (observe m' s) = fst (run_state m s)"
  by (auto simp: observe_def mirrors_def split: prod.splits) (metis fst_conv)

lemma observe_first:
  assumes "fst (run_state m s) = Inr a" "traces (k a) Q"
    and "observe (if_err (logged (entry_of c) m) h k) s = (res, cs)"
  shows "\<exists>ds. cs = (c, None) # ds \<and> Q res ds"
  using assms
  by (auto simp: observe_def if_err_def logged_def split: prod.splits dest!: tracesD)

lemma observe_first_err:
  assumes "fst (run_state m s) = Inl e" "traces (h e) Q"
    and "observe (if_err (logged (entry_of c) m) h k) s = (res, cs)"
  shows "\<exists>ds. cs = (c, Some e) # ds \<and> Q res ds"
  using assms
  by (auto simp: observe_def if_err_def logged_def split: prod.splits dest!: tracesD)

lemma observe_bind: "observe (State_Monad.bind m k) s = (res, cs) \<Longrightarrow>
   traces (k a) Q \<Longrightarrow> fst (observe m s) = a \<Longrightarrow> \<exists>ds. cs = snd (observe m s) @ ds \<and> Q res ds"
  by (auto simp: observe_def split: prod.splits dest!: tracesD)

subsection \<open>Plans\<close>

definition childCalls :: "entry list \<Rightarrow> call list" where
  "childCalls cs = map fst (filter (\<lambda>x. child_call (fst x)) cs)"

lemma childCalls_simps [simp]:
  "childCalls [] = []"
  "childCalls (x # cs) = (if child_call (fst x) then fst x # childCalls cs else childCalls cs)"
  "childCalls (cs @ ds) = childCalls cs @ childCalls ds"
  by (simp_all add: childCalls_def)

lemma childCalls_Nil: "childless cs \<Longrightarrow> childCalls cs = []"
  by (induction cs) auto

text \<open>\<open>steps p m\<close>: \<open>m\<close> makes the child calls \<open>p\<close>, or fails after a part of them.\<close>

definition steps :: "call list \<Rightarrow> ('s \<times> entry list, goerror + 'a) state \<Rightarrow> bool" where
  "steps p m \<longleftrightarrow> traces m (\<lambda>res cs. prefix (childCalls cs) p \<and> (\<not> isl res \<longrightarrow> childCalls cs = p))"

definition follows :: "call list \<Rightarrow> ('s \<times> entry list, reconcile_result) state \<Rightarrow> bool" where
  "follows p m \<longleftrightarrow> traces m (\<lambda>res cs. prefix (childCalls cs) p \<and> (snd res = None \<longrightarrow> childCalls cs = p))"

named_theorems plan_rules

lemma steps_call [plan_rules]: "child_call c \<Longrightarrow> steps [c] (logged (entry_of c) m)"
  by (simp add: steps_def traces_logged)

lemma steps_other [plan_rules]: "\<not> child_call c \<Longrightarrow> steps [] (logged (entry_of c) m)"
  by (simp add: steps_def traces_logged)

lemma steps_Inr [plan_rules]: "steps [] (State_Monad.return (Inr a))"
  by (simp add: steps_def traces_return)

lemma steps_Inl [plan_rules]: "steps p (State_Monad.return (Inl e))"
  by (simp add: steps_def traces_return)

lemma follows_return [plan_rules]: "follows [] (State_Monad.return res)"
  by (simp add: follows_def traces_return)

lemma fails_follows: "fails m \<Longrightarrow> follows p m"
  unfolding fails_def follows_def by (erule traces_mono) (auto simp: childCalls_Nil)

lemma steps_childless: "emits (\<lambda>x. \<not> child_call (fst x)) m \<Longrightarrow> steps [] m"
  unfolding steps_def emits_def by (erule traces_mono) (simp add: childCalls_Nil)

lemma follows_if_err:
  fixes k :: "'v \<Rightarrow> ('s \<times> entry list, reconcile_result) state"
  assumes "steps p m" "\<And>e. fails (h e)" "\<And>a. follows q (k a)"
  shows "follows (p @ q) (if_err m h k)"
  unfolding follows_def
proof (rule traces_if_err, rule traces_mono [OF assms(1) [unfolded steps_def]], intro conjI allI impI)
  fix x :: "goerror + 'v" and e :: goerror and cs :: "entry list"
  assume "prefix (childCalls cs) p \<and> (\<not> isl x \<longrightarrow> childCalls cs = p)"
  then show "traces (h e) (\<lambda>res cs'. prefix (childCalls (cs @ cs')) (p @ q) \<and>
      (snd res = None \<longrightarrow> childCalls (cs @ cs') = p @ q))"
    by (intro traces_mono [OF assms(2) [unfolded fails_def]]) (auto simp: childCalls_Nil)
next
  fix x :: "goerror + 'v" and a :: 'v and cs :: "entry list"
  assume "prefix (childCalls cs) p \<and> (\<not> isl x \<longrightarrow> childCalls cs = p)" "x = Inr a"
  then show "traces (k a) (\<lambda>res cs'. prefix (childCalls (cs @ cs')) (p @ q) \<and>
      (snd res = None \<longrightarrow> childCalls (cs @ cs') = p @ q))"
    by (intro traces_mono [OF assms(3) [unfolded follows_def]]) simp
qed

lemma steps_if_err:
  fixes k :: "'v \<Rightarrow> ('s \<times> entry list, goerror + 'w) state"
  assumes "steps p m" "\<And>e. traces (h e) (\<lambda>res cs. isl res \<and> childless cs)" "\<And>a. steps q (k a)"
  shows "steps (p @ q) (if_err m h k)"
  unfolding steps_def
proof (rule traces_if_err, rule traces_mono [OF assms(1) [unfolded steps_def]], intro conjI allI impI)
  fix x :: "goerror + 'v" and e :: goerror and cs :: "entry list"
  assume "prefix (childCalls cs) p \<and> (\<not> isl x \<longrightarrow> childCalls cs = p)"
  then show "traces (h e) (\<lambda>res cs'. prefix (childCalls (cs @ cs')) (p @ q) \<and>
      (\<not> isl res \<longrightarrow> childCalls (cs @ cs') = p @ q))"
    by (intro traces_mono [OF assms(2)]) (simp add: childCalls_Nil)
next
  fix x :: "goerror + 'v" and a :: 'v and cs :: "entry list"
  assume "prefix (childCalls cs) p \<and> (\<not> isl x \<longrightarrow> childCalls cs = p)" "x = Inr a"
  then show "traces (k a) (\<lambda>res cs'. prefix (childCalls (cs @ cs')) (p @ q) \<and>
      (\<not> isl res \<longrightarrow> childCalls (cs @ cs') = p @ q))"
    by (intro traces_mono [OF assms(3) [unfolded steps_def]]) simp
qed

lemma follows_bind_traces:
  fixes k :: "'v \<Rightarrow> ('s \<times> entry list, reconcile_result) state"
  assumes "traces m (\<lambda>a cs. G a \<and> childCalls cs = p)" "\<And>a. G a \<Longrightarrow> follows q (k a)"
  shows "follows (p @ q) (State_Monad.bind m k)"
  unfolding follows_def
proof (rule traces_bind, rule traces_mono [OF assms(1)])
  fix a :: 'v and cs :: "entry list"
  assume "G a \<and> childCalls cs = p"
  then show "traces (k a) (\<lambda>res cs'. prefix (childCalls (cs @ cs')) (p @ q) \<and>
      (snd res = None \<longrightarrow> childCalls (cs @ cs') = p @ q))"
    by (intro traces_mono [OF assms(2) [unfolded follows_def]]) simp_all
qed

subsection \<open>Preparations\<close>

text \<open>A computation that begins with calls other than child calls, and reports an error when they fail, satisfies what the rest
  satisfies, when that does not depend on such calls and holds of failures.\<close>

lemma traces_prepared:
  fixes k :: "'v \<Rightarrow> ('s \<times> entry list, reconcile_result) state"
  assumes "traces m (\<lambda>x cs. childless cs \<and> (\<forall>a. x = Inr a \<longrightarrow> G a))" "\<And>a. G a \<Longrightarrow> traces (k a) P"
    and failed: "\<And>res cs. snd res \<noteq> None \<Longrightarrow> childless cs \<Longrightarrow> P res cs"
    and closed: "\<And>res cs0 cs. childless cs0 \<Longrightarrow> P res cs \<Longrightarrow> P res (cs0 @ cs)"
  shows "traces (if_err m (\<lambda>err. State_Monad.return (noResult, Some err)) k) P"
proof (rule traces_if_err, rule traces_mono [OF assms(1)], intro conjI allI impI)
  fix x :: "goerror + 'v" and e :: goerror and cs :: "entry list"
  assume "childless cs \<and> (\<forall>a. x = Inr a \<longrightarrow> G a)"
  then show "traces (State_Monad.return (noResult, Some e)) (\<lambda>b cs'. P b (cs @ cs'))"
    by (intro traces_return failed) simp_all
next
  fix x :: "goerror + 'v" and a :: 'v and cs :: "entry list"
  assume "childless cs \<and> (\<forall>a. x = Inr a \<longrightarrow> G a)" "x = Inr a"
  then have "G a" "childless cs" by simp_all
  then show "traces (k a) (\<lambda>b cs'. P b (cs @ cs'))"
    by (intro traces_mono [OF assms(2)] closed)
qed

subsection \<open>Where an error comes from\<close>

text \<open>\<open>E\<close> holds of the errors the program makes up itself.\<close>

definition sourced :: "(goerror \<Rightarrow> bool) \<Rightarrow> entry list \<Rightarrow> goerror \<Rightarrow> bool" where
  "sourced E cs e \<longleftrightarrow> E e \<or> (\<exists>c. (c, Some e) \<in> set cs \<and> fatal (c, Some e))"

definition blames :: "(goerror \<Rightarrow> bool) \<Rightarrow> ('s \<times> entry list, goerror + 'a) state \<Rightarrow> bool" where
  "blames E m \<longleftrightarrow> traces m (\<lambda>res cs. \<forall>e. res = Inl e \<longrightarrow> sourced E cs e)"

definition accounts :: "(goerror \<Rightarrow> bool) \<Rightarrow> ('s \<times> entry list, reconcile_result) state \<Rightarrow> bool" where
  "accounts E m \<longleftrightarrow> traces m (\<lambda>res cs. \<forall>e. snd res = Some e \<longrightarrow> sourced E cs e)"

text \<open>\<open>passes_on h\<close>: the error handler \<open>h\<close> reports the error it is given.\<close>

definition passes_on :: "(goerror \<Rightarrow> ('s \<times> entry list, reconcile_result) state) \<Rightarrow> bool" where
  "passes_on h \<longleftrightarrow> (\<forall>e. traces (h e) (\<lambda>res cs. snd res = Some e))"

named_theorems blame_rules

lemma sourced_append: "sourced E cs e \<or> sourced E ds e \<Longrightarrow> sourced E (cs @ ds) e"
  by (auto simp: sourced_def)

lemma blames_call [blame_rules]:
  "(\<And>e. fatal (c, Some e)) \<Longrightarrow> blames E (logged (entry_of c) m)"
  by (auto simp: blames_def sourced_def intro!: traces_logged)

lemma blames_Inr [blame_rules]: "blames E (State_Monad.return (Inr a))"
  by (simp add: blames_def traces_return)

lemma blames_Inl [blame_rules]: "E e \<Longrightarrow> blames E (State_Monad.return (Inl e))"
  by (simp add: blames_def traces_return sourced_def)

lemma accounts_None [blame_rules]: "accounts E (State_Monad.return (res, None))"
  by (simp add: accounts_def traces_return)

lemma passes_on_return [blame_rules]: "passes_on (\<lambda>e. State_Monad.return (res, Some e))"
  by (simp add: passes_on_def traces_return)

lemma blames_if [blame_rules]:
  "(b \<Longrightarrow> blames E m) \<Longrightarrow> (\<not> b \<Longrightarrow> blames E n) \<Longrightarrow> blames E (if b then m else n)"
  by simp

lemma accounts_if [blame_rules]:
  "(b \<Longrightarrow> accounts E m) \<Longrightarrow> (\<not> b \<Longrightarrow> accounts E n) \<Longrightarrow> accounts E (if b then m else n)"
  by simp

text \<open>When \<open>G\<close> holds of the values \<open>m\<close> returns.\<close>

lemma accounts_if_err_where:
  fixes k :: "'v \<Rightarrow> ('s \<times> entry list, reconcile_result) state"
  assumes "blames E m" "passes_on h" "traces m (\<lambda>x _. \<forall>a. x = Inr a \<longrightarrow> G a)" "\<And>a. G a \<Longrightarrow> accounts E (k a)"
  shows "accounts E (if_err m h k)"
  unfolding accounts_def
proof (rule traces_if_err, rule traces_mono [OF traces_conj [OF assms(1) [unfolded blames_def] assms(3)]], intro conjI allI impI)
  fix x :: "goerror + 'v" and e :: goerror and cs :: "entry list"
  assume "(\<forall>e. x = Inl e \<longrightarrow> sourced E cs e) \<and> (\<forall>a. x = Inr a \<longrightarrow> G a)" "x = Inl e"
  then show "traces (h e) (\<lambda>res cs'. \<forall>e. snd res = Some e \<longrightarrow> sourced E (cs @ cs') e)"
    by (intro traces_mono [OF assms(2) [unfolded passes_on_def, rule_format]]) (simp add: sourced_append)
next
  fix x :: "goerror + 'v" and a :: 'v and cs :: "entry list"
  assume "(\<forall>e. x = Inl e \<longrightarrow> sourced E cs e) \<and> (\<forall>a. x = Inr a \<longrightarrow> G a)" "x = Inr a"
  then have "G a" by blast
  from assms(4) [OF this] show "traces (k a) (\<lambda>res cs'. \<forall>e. snd res = Some e \<longrightarrow> sourced E (cs @ cs') e)"
    unfolding accounts_def by (rule traces_mono) (simp add: sourced_append)
qed

lemma accounts_if_err [blame_rules]:
  fixes k :: "'v \<Rightarrow> ('s \<times> entry list, reconcile_result) state"
  assumes "blames E m" "passes_on h" "\<And>a. accounts E (k a)"
  shows "accounts E (if_err m h k)"
  by (rule accounts_if_err_where [OF assms(1,2), where G = "\<lambda>_. True"])
    (rule traces_mono [OF assms(1) [unfolded blames_def]], simp, rule assms(3))

lemma blames_if_err [blame_rules]:
  fixes k :: "'v \<Rightarrow> ('s \<times> entry list, goerror + 'w) state"
  assumes "blames E m" "\<And>a. blames E (k a)"
  shows "blames E (if_err m (\<lambda>e. State_Monad.return (Inl e)) k)"
  unfolding blames_def
proof (rule traces_if_err, rule traces_mono [OF assms(1) [unfolded blames_def]], intro conjI allI impI)
  fix x :: "goerror + 'v" and e :: goerror and cs :: "entry list"
  assume "\<forall>e. x = Inl e \<longrightarrow> sourced E cs e" "x = Inl e"
  then show "traces (State_Monad.return (Inl e)) (\<lambda>res cs'. \<forall>e. res = Inl e \<longrightarrow> sourced E (cs @ cs') e)"
    by (intro traces_return) (simp add: sourced_append)
next
  fix x :: "goerror + 'v" and a :: 'v and cs :: "entry list"
  show "traces (k a) (\<lambda>res cs'. \<forall>e. res = Inl e \<longrightarrow> sourced E (cs @ cs') e)"
    by (intro traces_mono [OF assms(2) [unfolded blames_def]]) (simp add: sourced_append)
qed

lemma accounts_bind [blame_rules]:
  assumes "\<And>a. accounts E (k a)" "traces m (\<lambda>_ _. True)"
  shows "accounts E (State_Monad.bind m k)"
  unfolding accounts_def
  by (rule traces_bind, rule traces_mono [OF assms(2)])
    (rule traces_mono [OF assms(1) [unfolded accounts_def]], simp add: sourced_append)

lemma blames_bind [blame_rules]:
  assumes "\<And>a. blames E (k a)" "traces m (\<lambda>_ _. True)"
  shows "blames E (State_Monad.bind m k)"
  unfolding blames_def
  by (rule traces_bind, rule traces_mono [OF assms(2)])
    (rule traces_mono [OF assms(1) [unfolded blames_def]], simp add: sourced_append)

text \<open>A lookup whose handler \<open>h\<close> may go on when the object is absent.\<close>

lemma accounts_lookup_where:
  fixes k :: "'v \<Rightarrow> ('s \<times> entry list, reconcile_result) state"
  assumes "answers m (\<lambda>x. \<forall>a. x = Inr a \<longrightarrow> G a)"
    and "\<And>e. fatal (c, Some e) \<Longrightarrow> traces (h e) (\<lambda>res cs. snd res = Some e)"
    and "\<And>e. \<not> fatal (c, Some e) \<Longrightarrow> accounts E (h e)" and "\<And>a. G a \<Longrightarrow> accounts E (k a)"
  shows "accounts E (if_err (logged (entry_of c) m) h k)"
  unfolding accounts_def
proof (rule traces_if_err, rule traces_logged_answers [OF assms(1)], intro conjI allI impI)
  fix x :: "goerror + 'v" and e :: goerror
  assume x: "x = Inl e"
  show "traces (h e) (\<lambda>res cs'. \<forall>e. snd res = Some e \<longrightarrow> sourced E ([entry_of c x] @ cs') e)"
  proof (cases "fatal (c, Some e)")
    case True
    with x show ?thesis by (intro traces_mono [OF assms(2)]) (auto simp: sourced_def)
  next
    case False
    show ?thesis
      by (intro traces_mono [OF assms(3) [OF False, unfolded accounts_def]]) (metis sourced_append)
  qed
next
  fix x :: "goerror + 'v" and a :: 'v
  assume "\<forall>a. x = Inr a \<longrightarrow> G a" "x = Inr a"
  then have "G a" by blast
  from assms(4) [OF this] show "traces (k a) (\<lambda>res cs'. \<forall>e. snd res = Some e \<longrightarrow> sourced E ([entry_of c x] @ cs') e)"
    unfolding accounts_def by (rule traces_mono) (metis sourced_append)
qed

lemma accounts_lookup:
  fixes k :: "'v \<Rightarrow> ('s \<times> entry list, reconcile_result) state"
  assumes "\<And>e. fatal (c, Some e) \<Longrightarrow> traces (h e) (\<lambda>res cs. snd res = Some e)"
    and "\<And>e. \<not> fatal (c, Some e) \<Longrightarrow> accounts E (h e)" and "\<And>a. accounts E (k a)"
  shows "accounts E (if_err (logged (entry_of c) m) h k)"
  by (rule accounts_lookup_where [where G = "\<lambda>_. True"]) (simp_all add: answers_def assms)

lemma blames_lookup:
  fixes k :: "'v \<Rightarrow> ('s \<times> entry list, goerror + 'w) state"
  assumes "\<And>e. fatal (c, Some e) \<Longrightarrow> traces (h e) (\<lambda>res cs. \<forall>e'. res = Inl e' \<longrightarrow> e' = e)"
    and "\<And>e. \<not> fatal (c, Some e) \<Longrightarrow> blames E (h e)" and "\<And>a. blames E (k a)"
  shows "blames E (if_err (logged (entry_of c) m) h k)"
  unfolding blames_def
proof (rule traces_if_err, rule traces_logged, intro conjI allI impI)
  fix x :: "goerror + 'v" and e :: goerror
  assume x: "x = Inl e"
  show "traces (h e) (\<lambda>res cs'. \<forall>e. res = Inl e \<longrightarrow> sourced E ([entry_of c x] @ cs') e)"
  proof (cases "fatal (c, Some e)")
    case True
    with x show ?thesis by (intro traces_mono [OF assms(1)]) (auto simp: sourced_def)
  next
    case False
    show ?thesis
      by (intro traces_mono [OF assms(2) [OF False, unfolded blames_def]]) (metis sourced_append)
  qed
next
  fix x :: "goerror + 'v" and a :: 'v
  show "traces (k a) (\<lambda>res cs'. \<forall>e. res = Inl e \<longrightarrow> sourced E ([entry_of c x] @ cs') e)"
    by (intro traces_mono [OF assms(3) [unfolded blames_def]]) (metis sourced_append)
qed

lemma traces_True: "emits (\<lambda>_. True) m \<Longrightarrow> traces m (\<lambda>_ _. True)"
  by (simp add: emits_def list_all_def)

subsection \<open>How a successful run ends\<close>

text \<open>\<open>closes P m\<close>: when \<open>m\<close> reports no error, the last call it made satisfies \<open>P\<close>.\<close>

definition closes :: "(entry \<Rightarrow> bool) \<Rightarrow> ('s \<times> entry list, reconcile_result) state \<Rightarrow> bool" where
  "closes P m \<longleftrightarrow> traces m (\<lambda>res cs. snd res = None \<longrightarrow> cs \<noteq> [] \<and> P (last cs))"

named_theorems close_rules

lemma fails_closes: "fails m \<Longrightarrow> closes P m"
  unfolding fails_def closes_def by (erule traces_mono) auto

lemma closes_if [close_rules]: "(b \<Longrightarrow> closes P m) \<Longrightarrow> (\<not> b \<Longrightarrow> closes P n) \<Longrightarrow> closes P (if b then m else n)"
  by simp

lemma closes_if_err [close_rules]:
  fixes k :: "'v \<Rightarrow> ('s \<times> entry list, reconcile_result) state"
  assumes "emits (\<lambda>_. True) m" "\<And>e. fails (h e)" "\<And>a. closes P (k a)"
  shows "closes P (if_err m h k)"
  unfolding closes_def
  by (rule traces_if_err, rule traces_mono [OF traces_True [OF assms(1)]])
    (auto intro!: traces_mono [OF fails_closes [OF assms(2), of P, unfolded closes_def]]
      traces_mono [OF assms(3) [unfolded closes_def]])

lemma closes_bind [close_rules]:
  assumes "emits (\<lambda>_. True) m" "\<And>a. closes P (k a)"
  shows "closes P (State_Monad.bind m k)"
  unfolding closes_def
  by (rule traces_bind, rule traces_mono [OF traces_True [OF assms(1)]])
    (auto intro!: traces_mono [OF assms(2) [unfolded closes_def]])

lemma closes_last:
  fixes m :: "('s \<times> entry list, goerror + 'v) state"
  assumes "traces m (\<lambda>x cs. \<forall>a. x = Inr a \<longrightarrow> cs \<noteq> [] \<and> P (last cs))" "\<And>e. fails (h e)"
  shows "closes P (if_err m h (\<lambda>a. State_Monad.return (res a)))"
  unfolding closes_def
  by (rule traces_if_err, rule traces_mono [OF assms(1)])
    (auto intro!: traces_return traces_mono [OF fails_closes [OF assms(2), of P, unfolded closes_def]])

subsection \<open>Calls other than events\<close>

fun is_event :: "call \<Rightarrow> bool" where
  "is_event (Emit ev) = True"
| "is_event c = False"

definition callsMade :: "entry list \<Rightarrow> call list" where
  "callsMade cs = filter (\<lambda>c. \<not> is_event c) (map fst cs)"

lemma callsMade_simps [simp]:
  "callsMade [] = []"
  "callsMade ((c, e) # cs) = (if is_event c then callsMade cs else c # callsMade cs)"
  by (simp_all add: callsMade_def)

end
