(* ===== verification/KubeLaws.thy ===== *)
theory KubeLaws
  imports Kube
begin

text \<open>
  The documented behaviour of the Kubernetes libraries that some theorems rely on, one locale per
  group of functions. A theorem that needs a group has its locale predicate as a premise
  (\<open>condition_laws K\<close> and so on); nothing else is assumed of the client. Theory \<open>MemKube\<close>
  interprets every one of them.
\<close>

subsection \<open>Objects keep their names\<close>

locale api_names =
  fixes K :: "'s kube"
  assumes get_cluster_key: "answers (GetOJSCluster K k) (\<lambda>x. \<forall>c. x = Inr c \<longrightarrow> key_of (cl_meta c) = k)"
    and update_cluster_key:
      "answers (UpdateOJSCluster K c) (\<lambda>x. \<forall>c'. x = Inr c' \<longrightarrow> key_of (cl_meta c') = key_of (cl_meta c))"
    and status_cluster_key:
      "answers (StatusUpdateOJSCluster K c) (\<lambda>x. \<forall>c'. x = Inr c' \<longrightarrow> key_of (cl_meta c') = key_of (cl_meta c))"
    and get_worker_key: "answers (GetOJSWorker K k) (\<lambda>x. \<forall>w. x = Inr w \<longrightarrow> key_of (wk_meta w) = k)"
    and update_worker_key:
      "answers (UpdateOJSWorker K w) (\<lambda>x. \<forall>w'. x = Inr w' \<longrightarrow> key_of (wk_meta w') = key_of (wk_meta w))"
    and status_worker_key:
      "answers (StatusUpdateOJSWorker K w) (\<lambda>x. \<forall>w'. x = Inr w' \<longrightarrow> key_of (wk_meta w') = key_of (wk_meta w))"
    and get_hpa_key: "answers (GetHPA K k) (\<lambda>x. \<forall>h. x = Inr h \<longrightarrow> key_of (hpa_meta h) = k)"

subsection \<open>Updates are answered with what was sent\<close>

text \<open>Two clusters (workers) ask for the same when they have one spec and one identity, and both or neither are being deleted.\<close>

definition same_demands :: "OJSCluster \<Rightarrow> OJSCluster \<Rightarrow> bool" where
  "same_demands c c' \<longleftrightarrow> cl_spec c' = cl_spec c \<and> om_uid (cl_meta c') = om_uid (cl_meta c) \<and>
     om_name (cl_meta c') = om_name (cl_meta c) \<and> om_namespace (cl_meta c') = om_namespace (cl_meta c) \<and>
     om_deletionTimestamp (cl_meta c') = om_deletionTimestamp (cl_meta c)"

definition same_worker_demands :: "OJSWorker \<Rightarrow> OJSWorker \<Rightarrow> bool" where
  "same_worker_demands w w' \<longleftrightarrow> wk_spec w' = wk_spec w \<and> om_uid (wk_meta w') = om_uid (wk_meta w) \<and>
     om_name (wk_meta w') = om_name (wk_meta w) \<and> om_namespace (wk_meta w') = om_namespace (wk_meta w) \<and>
     om_deletionTimestamp (wk_meta w') = om_deletionTimestamp (wk_meta w)"

lemma same_demands_refl [simp]: "same_demands c c" "same_worker_demands w w"
  by (simp_all add: same_demands_def same_worker_demands_def)

lemma same_demands_trans:
  "same_demands c c' \<Longrightarrow> same_demands c' c'' \<Longrightarrow> same_demands c c''"
  "same_worker_demands w w' \<Longrightarrow> same_worker_demands w' w'' \<Longrightarrow> same_worker_demands w w''"
  by (simp_all add: same_demands_def same_worker_demands_def)

lemma same_demands_key:
  "same_demands c c' \<Longrightarrow> key_of (cl_meta c') = key_of (cl_meta c)"
  "same_worker_demands w w' \<Longrightarrow> key_of (wk_meta w') = key_of (wk_meta w)"
  by (simp_all add: same_demands_def same_worker_demands_def key_of_def)

text \<open>The API server refuses an update of an object that has changed since it was read; one that it accepts
  is answered with the object as it is stored now, whose spec and identity are those that were sent, and its time of deletion too.\<close>

locale api_echo = api_names +
  assumes update_cluster_same: "answers (UpdateOJSCluster K c) (\<lambda>x. \<forall>c'. x = Inr c' \<longrightarrow> same_demands c c')"
    and status_cluster_same: "answers (StatusUpdateOJSCluster K c) (\<lambda>x. \<forall>c'. x = Inr c' \<longrightarrow> same_demands c c')"
    and update_worker_same: "answers (UpdateOJSWorker K w) (\<lambda>x. \<forall>w'. x = Inr w' \<longrightarrow> same_worker_demands w w')"
    and status_worker_same: "answers (StatusUpdateOJSWorker K w) (\<lambda>x. \<forall>w'. x = Inr w' \<longrightarrow> same_worker_demands w w')"

subsection \<open>Finalizers (controllerutil)\<close>

locale finalizer_laws =
  fixes K :: "'s kube"
  assumes contains_add: "ContainsFinalizer K (AddFinalizer K fs f) f"
    and contains_remove: "\<not> ContainsFinalizer K (RemoveFinalizer K fs f) f"
    and add_keeps: "f \<noteq> g \<Longrightarrow> ContainsFinalizer K (AddFinalizer K fs f) g = ContainsFinalizer K fs g"
    and remove_keeps: "f \<noteq> g \<Longrightarrow> ContainsFinalizer K (RemoveFinalizer K fs f) g = ContainsFinalizer K fs g"

subsection \<open>Status conditions (meta.SetStatusCondition)\<close>

text \<open>The condition of a type, as \<^verbatim>\<open>meta.FindStatusCondition\<close> finds it.\<close>

definition cond_of :: "Condition list \<Rightarrow> string \<Rightarrow> Condition option" where
  "cond_of cs t = find (\<lambda>c. c_type c = t) cs"

definition same_but_time :: "Condition \<Rightarrow> Condition \<Rightarrow> bool" where
  "same_but_time c c' \<longleftrightarrow> c_type c = c_type c' \<and> c_status c = c_status c' \<and>
     c_observedGeneration c = c_observedGeneration c' \<and> c_reason c = c_reason c' \<and> c_message c = c_message c'"

locale condition_laws =
  fixes K :: "'s kube"
  assumes set_this: "\<exists>c'. cond_of (SetStatusCondition K now cs c) (c_type c) = Some c' \<and> same_but_time c' c"
    and set_other: "t \<noteq> c_type c \<Longrightarrow> cond_of (SetStatusCondition K now cs c) t = cond_of cs t"
    and set_keeps_time: "cond_of cs (c_type c) = Some c0 \<Longrightarrow> c_status c0 = c_status c \<Longrightarrow>
      cond_of (SetStatusCondition K now cs c) (c_type c) = Some c' \<Longrightarrow>
      c_lastTransitionTime c' = c_lastTransitionTime c0"

subsection \<open>Owner references (ctrl.SetControllerReference)\<close>

locale owner_laws =
  fixes setRef :: set_ref
  assumes ref_only: "setRef knd owner m = Inr m' \<Longrightarrow> \<exists>rs. m' = m\<lparr>om_ownerReferences := rs\<rparr>"
    and ref_set: "setRef knd owner m = Inr m' \<Longrightarrow>
      \<exists>ref\<in>set (om_ownerReferences m'). or_controller ref \<and> or_uid ref = om_uid owner \<and> or_name ref = om_name owner"
    and ref_again: "setRef knd owner m = Inr m' \<Longrightarrow>
      setRef knd owner (m'\<lparr>om_labels := l\<rparr>) = Inr (m'\<lparr>om_labels := l\<rparr>)"
    and ref_exclusive: "ref \<in> set (om_ownerReferences m) \<Longrightarrow> or_controller ref \<Longrightarrow>
      or_uid ref \<noteq> om_uid owner \<Longrightarrow> \<exists>e. setRef knd owner m = Inl e"
    and ref_same_owner: "om_uid owner = om_uid owner' \<Longrightarrow> om_name owner = om_name owner' \<Longrightarrow>
      om_namespace owner = om_namespace owner' \<Longrightarrow> setRef knd owner m = setRef knd owner' m"

text \<open>What a client says of an object's metadata: all but the fields that the API server writes and clients only repeat.\<close>

definition sentMeta :: "ObjectMeta \<Rightarrow> ObjectMeta" where
  "sentMeta m = m\<lparr>om_uid := [], om_resourceVersion := [], om_generation := 0, om_deletionTimestamp := None\<rparr>"

text \<open>\<^verbatim>\<open>SetControllerReference\<close> reads the owner references (and the namespace) of the object and writes the former: on
  metadata that a client says the same of, it has the same outcome.\<close>

locale owner_stable = owner_laws +
  assumes ref_stable: "setRef knd owner m = Inr m' \<Longrightarrow> sentMeta n = sentMeta m \<Longrightarrow>
      setRef knd owner n = Inr (n\<lparr>om_ownerReferences := om_ownerReferences m'\<rparr>)"

lemma sentMeta_fields:
  assumes "sentMeta n = sentMeta m"
  shows "om_name n = om_name m" "om_namespace n = om_namespace m" "om_labels n = om_labels m"
    "om_finalizers n = om_finalizers m" "om_ownerReferences n = om_ownerReferences m"
  using assms [THEN arg_cong, of om_name] assms [THEN arg_cong, of om_namespace] assms [THEN arg_cong, of om_labels]
    assms [THEN arg_cong, of om_finalizers] assms [THEN arg_cong, of om_ownerReferences]
  by (simp_all add: sentMeta_def)

lemma sentMeta_key:
  assumes "sentMeta n = sentMeta m"
  shows "key_of n = key_of m"
  by (simp add: key_of_def sentMeta_fields(1,2) [OF assms])

end
