(* ===== verification/MemKube.thy ===== *)
theory MemKube
  imports KubeLaws
begin

text \<open>
  An API server in memory, in the way of the fake client that the repository's tests use: one map
  per kind, the status as a subresource, deletion held back by finalizers, and
  \<^verbatim>\<open>CreateOrUpdate\<close> as get, mutate, create or update, with the metadata and the defaults that a server adds. It is the concrete client at which the
  theorems are instantiated, and it satisfies every law of \<open>KubeLaws\<close>. Nothing in the
  models depends on it.
\<close>

record world =
  w_clusters :: "NamespacedName \<rightharpoonup> OJSCluster"
  w_workers :: "NamespacedName \<rightharpoonup> OJSWorker"
  w_deployments :: "NamespacedName \<rightharpoonup> Deployment"
  w_services :: "NamespacedName \<rightharpoonup> Service"
  w_configMaps :: "NamespacedName \<rightharpoonup> ConfigMap"
  w_pdbs :: "NamespacedName \<rightharpoonup> PodDisruptionBudget"
  w_monitors :: "NamespacedName \<rightharpoonup> Unstructured"
  w_hpas :: "NamespacedName \<rightharpoonup> HorizontalPodAutoscaler"
  w_events :: "Event list"
  w_clock :: gotime

definition emptyWorld :: world where
  "emptyWorld = \<lparr>w_clusters = Map.empty, w_workers = Map.empty, w_deployments = Map.empty,
     w_services = Map.empty, w_configMaps = Map.empty, w_pdbs = Map.empty, w_monitors = Map.empty,
     w_hpas = Map.empty, w_events = [], w_clock = 1\<rparr>"

definition notFound :: goerror where
  "notFound = \<lparr>err_notfound = True, err_text = ''not found''\<rparr>"

definition memGet :: "(world \<Rightarrow> NamespacedName \<rightharpoonup> 'o) \<Rightarrow> NamespacedName \<Rightarrow> (world, goerror + 'o) state" where
  "memGet sel k = State (\<lambda>w. (case sel w k of None \<Rightarrow> Inl notFound | Some ob \<Rightarrow> Inr ob, w))"

text \<open>Objects come back under the name they are stored under.\<close>

definition named :: "('o \<Rightarrow> ObjectMeta) \<Rightarrow> (NamespacedName \<rightharpoonup> 'o) \<Rightarrow> (NamespacedName \<rightharpoonup> 'o)" where
  "named meta m = (\<lambda>k. case m k of Some ob \<Rightarrow> if key_of (meta ob) = k then Some ob else None | None \<Rightarrow> None)"

text \<open>An update merges the object into the stored one. It is answered with the object that was sent: with a single client
  that is the stored one.\<close>

definition memPut ::
  "(world \<Rightarrow> NamespacedName \<rightharpoonup> 'o) \<Rightarrow> (((NamespacedName \<rightharpoonup> 'o) \<Rightarrow> (NamespacedName \<rightharpoonup> 'o)) \<Rightarrow> world \<Rightarrow> world) \<Rightarrow> ('o \<Rightarrow> ObjectMeta) \<Rightarrow>
   ('o \<Rightarrow> 'o \<Rightarrow> 'o) \<Rightarrow> 'o \<Rightarrow> (world, goerror + 'o) state" where
  "memPut sel put meta merge ob = State (\<lambda>w.
     let k = key_of (meta ob) in
     case sel w k of
       None \<Rightarrow> (Inl notFound, w)
     | Some old \<Rightarrow>
         let new = merge old ob in
         if \<not> IsZero (om_deletionTimestamp (meta new)) \<and> om_finalizers (meta new) = []
         then (Inr ob, put (\<lambda>m. m(k := None)) w)
         else (Inr ob, put (\<lambda>m. m(k \<mapsto> new)) w))"

text \<open>What the server makes of an object that it is sent, given the one it has: it writes the metadata that are its own, keeps
  the status, which is a subresource, and fills in defaults. Resource versions are not counted: two clients
  never race for a child here. The content of an object without a Go type comes back as JSON is read.\<close>

definition memAdmitMeta :: "ObjectMeta option \<Rightarrow> ObjectMeta \<Rightarrow> ObjectMeta" where
  "memAdmitMeta old m = (case old of
       None \<Rightarrow> m\<lparr>om_uid := ''uid-'' @ om_name m, om_resourceVersion := ''1'', om_generation := 1, om_deletionTimestamp := None\<rparr>
     | Some o' \<Rightarrow> m\<lparr>om_uid := om_uid o', om_resourceVersion := om_resourceVersion o', om_generation := om_generation o',
         om_deletionTimestamp := om_deletionTimestamp o'\<rparr>)"

definition memDefaultPod :: "PodSpec \<Rightarrow> PodSpec" where
  "memDefaultPod p = p\<lparr>ps_terminationGracePeriodSeconds :=
     Some (case ps_terminationGracePeriodSeconds p of None \<Rightarrow> 30 | Some n \<Rightarrow> n)\<rparr>"

definition memDefaultDeployment :: "DeploymentSpec \<Rightarrow> DeploymentSpec" where
  "memDefaultDeployment d = d\<lparr>ds_replicas := Some (case ds_replicas d of None \<Rightarrow> 1 | Some n \<Rightarrow> n),
     ds_template := (ds_template d)\<lparr>pt_spec := memDefaultPod (pt_spec (ds_template d))\<rparr>\<rparr>"

definition memAdmitDeployment :: "Deployment option \<Rightarrow> Deployment \<Rightarrow> Deployment" where
  "memAdmitDeployment old d = d\<lparr>dep_meta := memAdmitMeta (map_option dep_meta old) (dep_meta d),
     dep_spec := memDefaultDeployment (dep_spec d),
     dep_status := (case old of None \<Rightarrow> \<lparr>dst_replicas = 0, dst_readyReplicas = 0\<rparr> | Some o' \<Rightarrow> dep_status o')\<rparr>"

definition memAdmitService :: "Service option \<Rightarrow> Service \<Rightarrow> Service" where
  "memAdmitService old sv = sv\<lparr>svc_meta := memAdmitMeta (map_option svc_meta old) (svc_meta sv)\<rparr>"

definition memAdmitConfigMap :: "ConfigMap option \<Rightarrow> ConfigMap \<Rightarrow> ConfigMap" where
  "memAdmitConfigMap old cm = cm\<lparr>cm_meta := memAdmitMeta (map_option cm_meta old) (cm_meta cm)\<rparr>"

definition memAdmitPDB :: "PodDisruptionBudget option \<Rightarrow> PodDisruptionBudget \<Rightarrow> PodDisruptionBudget" where
  "memAdmitPDB old p = p\<lparr>pdb_meta := memAdmitMeta (map_option pdb_meta old) (pdb_meta p)\<rparr>"

definition memAdmitMonitor :: "Unstructured option \<Rightarrow> Unstructured \<Rightarrow> Unstructured" where
  "memAdmitMonitor old u = u\<lparr>us_meta := memAdmitMeta (map_option us_meta old) (us_meta u),
     us_object := (\<lambda>k. map_option json_reread (us_object u k))\<rparr>"

definition memAdmitHPA :: "HorizontalPodAutoscaler option \<Rightarrow> HorizontalPodAutoscaler \<Rightarrow> HorizontalPodAutoscaler" where
  "memAdmitHPA old h = h\<lparr>hpa_meta := memAdmitMeta (map_option hpa_meta old) (hpa_meta h),
     hpa_minReplicas := Some (case hpa_minReplicas h of None \<Rightarrow> 1 | Some n \<Rightarrow> n)\<rparr>"

lemma memAdmitMeta_keeps [simp]:
  "sentMeta (memAdmitMeta old m) = sentMeta m" "key_of (memAdmitMeta old m) = key_of m"
  "om_ownerReferences (memAdmitMeta old m) = om_ownerReferences m" "om_labels (memAdmitMeta old m) = om_labels m"
  "om_name (memAdmitMeta old m) = om_name m" "om_namespace (memAdmitMeta old m) = om_namespace m"
  by (simp_all add: memAdmitMeta_def sentMeta_def key_of_def split: option.split)

lemma memAdmitMeta_again:
  assumes "sentMeta n = sentMeta m"
  shows "memAdmitMeta (Some (memAdmitMeta old m)) n = memAdmitMeta old m"
  by (rule ObjectMeta.equality) (simp_all add: memAdmitMeta_def sentMeta_fields [OF assms] split: option.split)

lemma memAdmit_meta [simp]:
  "dep_meta (memAdmitDeployment od d) = memAdmitMeta (map_option dep_meta od) (dep_meta d)"
  "svc_meta (memAdmitService os sv) = memAdmitMeta (map_option svc_meta os) (svc_meta sv)"
  "cm_meta (memAdmitConfigMap oc cm) = memAdmitMeta (map_option cm_meta oc) (cm_meta cm)"
  "pdb_meta (memAdmitPDB op p) = memAdmitMeta (map_option pdb_meta op) (pdb_meta p)"
  "us_meta (memAdmitMonitor ou u) = memAdmitMeta (map_option us_meta ou) (us_meta u)"
  "hpa_meta (memAdmitHPA oh h) = memAdmitMeta (map_option hpa_meta oh) (hpa_meta h)"
  by (simp_all add: memAdmitDeployment_def memAdmitService_def memAdmitConfigMap_def memAdmitPDB_def memAdmitMonitor_def
      memAdmitHPA_def)

definition memCreateOrUpdate ::
  "(world \<Rightarrow> NamespacedName \<rightharpoonup> 'o) \<Rightarrow> (((NamespacedName \<rightharpoonup> 'o) \<Rightarrow> (NamespacedName \<rightharpoonup> 'o)) \<Rightarrow> world \<Rightarrow> world) \<Rightarrow> ('o \<Rightarrow> ObjectMeta) \<Rightarrow>
   ('o option \<Rightarrow> 'o \<Rightarrow> 'o) \<Rightarrow> 'o \<Rightarrow> 'o callback \<Rightarrow> (world, goerror + unit) state" where
  "memCreateOrUpdate sel put meta admit ob f = State (\<lambda>w.
     let k = key_of (meta ob) in
     case f (case sel w k of None \<Rightarrow> ob | Some old \<Rightarrow> old) of
       Inl e \<Rightarrow> (Inl e, w)
     | Inr new \<Rightarrow> (Inr (), put (\<lambda>m. m(k \<mapsto> admit (sel w k) new)) w))"

definition memDeleteHPA :: "HorizontalPodAutoscaler \<Rightarrow> (world, goerror + unit) state" where
  "memDeleteHPA h = State (\<lambda>w.
     (Inr (), w\<lparr>w_hpas := (w_hpas w)(key_of (hpa_meta h) := None)\<rparr>))"

definition memNow :: "(world, gotime) state" where
  "memNow = State (\<lambda>w. (w_clock w, w\<lparr>w_clock := w_clock w + 1\<rparr>))"

definition memRecord :: "Event \<Rightarrow> (world, unit) state" where
  "memRecord e = State (\<lambda>w. ((), w\<lparr>w_events := w_events w @ [e]\<rparr>))"

fun kindName :: "kind \<Rightarrow> string" where
  "kindName KCluster = ''OJSCluster''"
| "kindName KWorker = ''OJSWorker''"
| "kindName _ = ''''"

definition ownerRef :: "kind \<Rightarrow> ObjectMeta \<Rightarrow> OwnerReference" where
  "ownerRef knd owner =
     \<lparr>or_kind = kindName knd, or_name = om_name owner, or_uid = om_uid owner, or_controller = True\<rparr>"

definition memSetRef :: set_ref where
  "memSetRef knd owner m =
     (if \<exists>ref\<in>set (om_ownerReferences m). or_controller ref \<and> or_uid ref \<noteq> om_uid owner
      then Inl (Errorf ''already owned by another controller'')
      else if ownerRef knd owner \<in> set (om_ownerReferences m) then Inr m
      else Inr (m\<lparr>om_ownerReferences := om_ownerReferences m @ [ownerRef knd owner]\<rparr>))"

fun memSetCondition :: "gotime \<Rightarrow> Condition list \<Rightarrow> Condition \<Rightarrow> Condition list" where
  "memSetCondition now [] c = [c\<lparr>c_lastTransitionTime := now\<rparr>]"
| "memSetCondition now (c0 # cs) c =
     (if c_type c0 = c_type c then
        c\<lparr>c_lastTransitionTime := (if c_status c0 = c_status c then c_lastTransitionTime c0 else now)\<rparr> # cs
      else c0 # memSetCondition now cs c)"

definition memKube :: "world kube" where
  "memKube = \<lparr>
     GetOJSCluster = memGet (\<lambda>w. named cl_meta (w_clusters w)),
     GetOJSWorker = memGet (\<lambda>w. named wk_meta (w_workers w)),
     GetDeployment = memGet w_deployments,
     GetHPA = memGet (\<lambda>w. named hpa_meta (w_hpas w)),
     UpdateOJSCluster = memPut (\<lambda>w. named cl_meta (w_clusters w)) w_clusters_update cl_meta
       (\<lambda>old new. new\<lparr>cl_status := cl_status old\<rparr>),
     UpdateOJSWorker = memPut (\<lambda>w. named wk_meta (w_workers w)) w_workers_update wk_meta
       (\<lambda>old new. new\<lparr>wk_status := wk_status old\<rparr>),
     StatusUpdateOJSCluster = memPut (\<lambda>w. named cl_meta (w_clusters w)) w_clusters_update cl_meta
       (\<lambda>old new. old\<lparr>cl_status := cl_status new\<rparr>),
     StatusUpdateOJSWorker = memPut (\<lambda>w. named wk_meta (w_workers w)) w_workers_update wk_meta
       (\<lambda>old new. old\<lparr>wk_status := wk_status new\<rparr>),
     DeleteHPA = memDeleteHPA,
     CreateOrUpdateConfigMap = memCreateOrUpdate w_configMaps w_configMaps_update cm_meta memAdmitConfigMap,
     CreateOrUpdateDeployment = memCreateOrUpdate w_deployments w_deployments_update dep_meta memAdmitDeployment,
     CreateOrUpdateService = memCreateOrUpdate w_services w_services_update svc_meta memAdmitService,
     CreateOrUpdatePDB = memCreateOrUpdate w_pdbs w_pdbs_update pdb_meta memAdmitPDB,
     CreateOrUpdateUnstructured = memCreateOrUpdate w_monitors w_monitors_update us_meta memAdmitMonitor,
     CreateOrUpdateHPA = memCreateOrUpdate w_hpas w_hpas_update hpa_meta memAdmitHPA,
     Now = memNow,
     SetControllerReference = memSetRef,
     ContainsFinalizer = (\<lambda>fs f. f \<in> set fs),
     AddFinalizer = (\<lambda>fs f. if f \<in> set fs then fs else fs @ [f]),
     RemoveFinalizer = (\<lambda>fs f. filter (\<lambda>g. g \<noteq> f) fs),
     SetStatusCondition = memSetCondition,
     isPrintTable = (\<lambda>r. True),
     floatFraction = (\<lambda>f unit k. f * unit div 10 ^ k)\<rparr>"

lemmas memKube_simps = memKube_def memGet_def memPut_def memCreateOrUpdate_def memDeleteHPA_def
  memNow_def memRecord_def named_def

subsection \<open>The laws hold\<close>

lemma answers_memGet:
  "answers (memGet (\<lambda>w. named meta (sel w)) k) (\<lambda>x. \<forall>ob. x = Inr ob \<longrightarrow> key_of (meta ob) = k)"
  by (auto simp: answers_def memGet_def named_def split: option.splits)

lemma answers_memPut: "P ob \<Longrightarrow> answers (memPut sel put meta merge ob) (\<lambda>x. \<forall>new. x = Inr new \<longrightarrow> P new)"
  by (auto simp: answers_def memPut_def Let_def split: option.splits)

interpretation mem: api_echo memKube
proof (unfold_locales, goal_cases)
  case 1 show ?case by (simp add: memKube_def answers_memGet)
next
  case 4 show ?case by (simp add: memKube_def answers_memGet)
next
  case 7 show ?case by (simp add: memKube_def answers_memGet)
qed (simp_all add: memKube_def answers_memPut)

interpretation mem_finalizers: finalizer_laws memKube
  by unfold_locales (auto simp: memKube_def)

lemma cond_of_memSetCondition:
  "\<exists>c'. cond_of (memSetCondition now cs c) (c_type c) = Some c' \<and> same_but_time c' c"
  "t \<noteq> c_type c \<Longrightarrow> cond_of (memSetCondition now cs c) t = cond_of cs t"
  by (induction cs) (auto simp: cond_of_def same_but_time_def)

lemma memSetCondition_time:
  "cond_of cs (c_type c) = Some c0 \<Longrightarrow> c_status c0 = c_status c \<Longrightarrow>
   cond_of (memSetCondition now cs c) (c_type c) = Some c' \<Longrightarrow>
   c_lastTransitionTime c' = c_lastTransitionTime c0"
  by (induction cs) (auto simp: cond_of_def split: if_splits)

interpretation mem_conditions: condition_laws memKube
  by unfold_locales (simp_all add: memKube_def cond_of_memSetCondition memSetCondition_time)

interpretation mem_owner: owner_stable memSetRef
proof (unfold_locales, goal_cases)
  case (1 knd owner m m')
  then show ?case by (auto simp: memSetRef_def split: if_splits intro: exI [of _ "om_ownerReferences m"])
next
  case (2 knd owner m m')
  then have "ownerRef knd owner \<in> set (om_ownerReferences m')"
    by (auto simp: memSetRef_def split: if_splits)
  then show ?case by (rule bexI [rotated]) (simp add: ownerRef_def)
next
  case (3 knd owner m m' l)
  then show ?case by (auto simp: memSetRef_def ownerRef_def split: if_splits)
next
  case (4 ref m owner knd)
  then show ?case by (auto simp: memSetRef_def)
next
  case (5 owner owner' knd m)
  then show ?case by (simp add: memSetRef_def ownerRef_def)
next
  case (6 knd owner m m' n)
  have refs: "om_ownerReferences n = om_ownerReferences m" by (rule sentMeta_fields [OF 6(2)])
  show ?case using 6(1) by (auto simp: memSetRef_def refs split: if_splits intro!: ObjectMeta.equality)
qed

end
