(* ===== verification/Demo.thy ===== *)
theory Demo
  imports MemKube "HOL-Library.Code_Target_Nat"
begin

text \<open>
  Concrete objects at which the theorems are instantiated: a cluster and a worker, live and being
  deleted, in an in-memory API server, seen through a reconciler that records events.
\<close>

definition memReconciler :: "world reconciler" where
  "memReconciler = \<lparr>rc_client = memKube, rc_recorder = Some memRecord\<rparr>"

lemma memReconciler_client [simp]: "rc_client memReconciler = memKube"
  by (simp add: memReconciler_def)

definition demoMeta :: "string \<Rightarrow> string \<Rightarrow> string \<Rightarrow> ObjectMeta" where
  "demoMeta name fin uid = (emptyMeta name ''ns'')\<lparr>om_uid := uid, om_generation := 3, om_finalizers := [fin]\<rparr>"

definition noResources :: ResourceRequirements where
  "noResources = \<lparr>rr_limits = None, rr_requests = None, rr_claims = []\<rparr>"

definition demoClusterSpec :: OJSClusterSpec where
  "demoClusterSpec = \<lparr>
     cs_backend = \<lparr>be_type = ''redis'', be_url = [], be_urlSecretRef = None, be_embedded = True\<rparr>,
     cs_replicas = Some 3, cs_image = [], cs_autoScaling = None, cs_resources = noResources,
     cs_monitoring = Some \<lparr>mon_enabled = True, mon_serviceMonitor = True, mon_grafanaDashboard = False\<rparr>,
     cs_securityContext = None, cs_podDisruptionBudget = None, cs_topologySpreadConstraints = [],
     cs_serviceAccountName = []\<rparr>"

definition demoCluster :: OJSCluster where
  "demoCluster = \<lparr>cl_meta = demoMeta ''c'' ''ojs.openjobspec.dev/finalizer'' ''u1'', cl_spec = demoClusterSpec,
     cl_status = \<lparr>cst_phase = ''Pending'', cst_replicas = 0, cst_readyReplicas = 0, cst_queueDepth = 0,
       cst_activeJobs = 0, cst_conditions = []\<rparr>\<rparr>"

definition demoWorkerSpec :: OJSWorkerSpec where
  "demoWorkerSpec = \<lparr>ws_clusterRef = ''c'', ws_jobTypes = [''mail'', ''sms''], ws_queues = [''q1'', ''q2''],
     ws_concurrency = 5, ws_replicas = None, ws_image = ''img'', ws_command = [], ws_env = [],
     ws_resources = noResources,
     ws_autoScaling = Some \<lparr>was_enabled = True, was_minReplicas = 1, was_maxReplicas = 4,
       was_targetJobsPerWorker = 10, was_scaleUpThreshold = 0, was_scaleDownDelay = [],
       was_pollingInterval = ''15s''\<rparr>,
     ws_gracefulShutdown = None\<rparr>"

definition demoWorker :: OJSWorker where
  "demoWorker = \<lparr>wk_meta = demoMeta ''w'' ''ojs.openjobspec.dev/worker-finalizer'' ''u2'', wk_spec = demoWorkerSpec,
     wk_status = \<lparr>wst_phase = ''Pending'', wst_replicas = 0, wst_readyReplicas = 0, wst_activeJobs = 0,
       wst_queueDepth = 0, wst_lastScaleTime = None, wst_conditions = []\<rparr>\<rparr>"

abbreviation demoKey :: "string \<Rightarrow> NamespacedName" where
  "demoKey name \<equiv> \<lparr>nn_namespace = ''ns'', nn_name = name\<rparr>"

definition demoWorld :: world where
  "demoWorld = emptyWorld\<lparr>w_clusters := [demoKey ''c'' \<mapsto> demoCluster],
     w_workers := [demoKey ''w'' \<mapsto> demoWorker]\<rparr>"

text \<open>The same world with a ConfigMap of that name under another controller.\<close>

definition foreignMeta :: "string \<Rightarrow> ObjectMeta" where
  "foreignMeta name = (emptyMeta name ''ns'')\<lparr>om_ownerReferences :=
     [\<lparr>or_kind = ''App'', or_name = ''a'', or_uid = ''u9'', or_controller = True\<rparr>]\<rparr>"

definition foreignWorld :: world where
  "foreignWorld = demoWorld\<lparr>w_configMaps := [demoKey ''c-config'' \<mapsto>
     \<lparr>cm_meta = foreignMeta ''c-config'', cm_data = Map.empty\<rparr>]\<rparr>"

text \<open>And with the cluster being deleted.\<close>

definition dyingCluster :: OJSCluster where
  "dyingCluster = demoCluster\<lparr>cl_meta := (cl_meta demoCluster)\<lparr>om_deletionTimestamp := Some 7\<rparr>\<rparr>"

definition dyingWorld :: world where
  "dyingWorld = demoWorld\<lparr>w_clusters := [demoKey ''c'' \<mapsto> dyingCluster]\<rparr>"

text \<open>With all three server replicas ready.\<close>

definition readyDeployment :: Deployment where
  "readyDeployment = (newDeployment ''c-server'' ''ns'')\<lparr>dep_status :=
     \<lparr>dst_replicas = 3, dst_readyReplicas = 3\<rparr>\<rparr>"

definition runningWorld :: world where
  "runningWorld = demoWorld\<lparr>w_deployments := [demoKey ''c-server'' \<mapsto> readyDeployment]\<rparr>"

text \<open>With an embedded backend that is not supported.\<close>

definition natsCluster :: OJSCluster where
  "natsCluster = demoCluster\<lparr>cl_spec := demoClusterSpec\<lparr>cs_backend :=
     \<lparr>be_type = ''nats'', be_url = [], be_urlSecretRef = None, be_embedded = True\<rparr>\<rparr>\<rparr>"

text \<open>Variants for the worker: its Deployment under another controller, its cluster gone, itself being deleted.\<close>

definition foreignWorkerWorld :: world where
  "foreignWorkerWorld = demoWorld\<lparr>w_deployments := [demoKey ''w'' \<mapsto>
     (newDeployment ''w'' ''ns'')\<lparr>dep_meta := foreignMeta ''w''\<rparr>]\<rparr>"

definition orphanWorld :: world where
  "orphanWorld = demoWorld\<lparr>w_clusters := Map.empty\<rparr>"

definition dyingWorker :: OJSWorker where
  "dyingWorker = demoWorker\<lparr>wk_meta := (wk_meta demoWorker)\<lparr>om_deletionTimestamp := Some 7\<rparr>\<rparr>"

definition dyingWorkerWorld :: world where
  "dyingWorkerWorld = demoWorld\<lparr>w_workers := [demoKey ''w'' \<mapsto> dyingWorker]\<rparr>"

end
