(* ===== verification/Labels.thy ===== *)
theory Labels
  imports ApiTypes
begin

text \<open>
  The label sets of the objects the operator creates (\<^verbatim>\<open>labelsForCluster\<close>,
  \<^verbatim>\<open>labelsForWorker\<close> and the labels of the embedded Redis), and their contract as the locale
  \<open>pod_labels\<close>: each set names its component and its instance, so that a selector made of one
  set never matches the pods of another instance or another component.
\<close>

definition instanceKey :: string where "instanceKey = ''app.kubernetes.io/instance''"
definition componentKey :: string where "componentKey = ''app.kubernetes.io/component''"

definition labelsForCluster :: "string \<Rightarrow> labels" where
  "labelsForCluster name =
     [''app.kubernetes.io/name'' \<mapsto> ''ojs-server'',
      instanceKey \<mapsto> name,
      componentKey \<mapsto> ''server'',
      ''app.kubernetes.io/part-of'' \<mapsto> ''ojs'',
      ''app.kubernetes.io/managed-by'' \<mapsto> ''ojs-k8s-operator'']"

definition labelsForRedis :: "string \<Rightarrow> labels" where
  "labelsForRedis name =
     [''app.kubernetes.io/name'' \<mapsto> ''redis'',
      instanceKey \<mapsto> name,
      componentKey \<mapsto> ''backend'',
      ''app.kubernetes.io/part-of'' \<mapsto> ''ojs'']"

definition labelsForWorker :: "string \<Rightarrow> string \<Rightarrow> labels" where
  "labelsForWorker workerName clusterName =
     [''app.kubernetes.io/name'' \<mapsto> ''ojs-worker'',
      instanceKey \<mapsto> workerName,
      componentKey \<mapsto> ''worker'',
      ''app.kubernetes.io/part-of'' \<mapsto> ''ojs'',
      ''app.kubernetes.io/managed-by'' \<mapsto> ''ojs-k8s-operator'',
      ''ojs.openjobspec.dev/cluster'' \<mapsto> clusterName]"

subsection \<open>The contract\<close>

lemma selects_value: "selects sel l \<Longrightarrow> sel k = Some v \<Longrightarrow> l k = Some v"
  by (metis domI map_le_def selects_def)

lemma selects_refl [simp]: "selects l l"
  by (simp add: selects_def)

locale pod_labels =
  fixes lbl :: "'i \<Rightarrow> labels" and inst :: "'i \<Rightarrow> string" and component :: string
  assumes names_instance: "lbl i instanceKey = Some (inst i)"
    and names_component: "lbl i componentKey = Some component"
begin

lemma selects_same_instance: "selects (lbl i) (lbl j) \<Longrightarrow> inst i = inst j"
  using names_instance by (metis option.inject selects_value)

lemma selects_component: "selects (lbl i) l \<Longrightarrow> l componentKey = Some component"
  using names_component by (metis selects_value)

lemma selected_component: "selects sel (lbl i) \<Longrightarrow> sel componentKey = Some c \<Longrightarrow> c = component"
  using names_component by (metis option.inject selects_value)

end

text \<open>Two components with different names never select each other's pods.\<close>

locale pod_labels_apart =
  a: pod_labels lblA instA compA + b: pod_labels lblB instB compB
  for lblA :: "'i \<Rightarrow> labels" and instA :: "'i \<Rightarrow> string" and compA :: string
    and lblB :: "'j \<Rightarrow> labels" and instB :: "'j \<Rightarrow> string" and compB :: string +
  assumes components_differ: "compA \<noteq> compB"
begin

lemma never_selects: "\<not> selects (lblA i) (lblB j)"
  using a.selects_component b.names_component components_differ by (metis option.inject)

lemma never_selected: "\<not> selects (lblB j) (lblA i)"
  using b.selects_component a.names_component components_differ by (metis option.inject)

end

lemmas label_defs = labelsForCluster_def labelsForRedis_def labelsForWorker_def
  instanceKey_def componentKey_def

interpretation server: pod_labels labelsForCluster "\<lambda>n. n" "''server''"
  by unfold_locales (simp_all add: label_defs)

interpretation redis: pod_labels labelsForRedis "\<lambda>n. n" "''backend''"
  by unfold_locales (simp_all add: label_defs)

interpretation worker: pod_labels "\<lambda>(w, c). labelsForWorker w c" fst "''worker''"
  by unfold_locales (auto simp: label_defs)

interpretation server_redis: pod_labels_apart
  labelsForCluster "\<lambda>n. n" "''server''" labelsForRedis "\<lambda>n. n" "''backend''"
  by unfold_locales simp

interpretation server_worker: pod_labels_apart
  labelsForCluster "\<lambda>n. n" "''server''" "\<lambda>(w, c). labelsForWorker w c" fst "''worker''"
  by unfold_locales simp

interpretation redis_worker: pod_labels_apart
  labelsForRedis "\<lambda>n. n" "''backend''" "\<lambda>(w, c). labelsForWorker w c" fst "''worker''"
  by unfold_locales simp

lemma labelsForWorker_selects:
  "selects (labelsForWorker w c) (labelsForWorker w' c') \<longleftrightarrow> w = w' \<and> c = c'"
proof
  assume s: "selects (labelsForWorker w c) (labelsForWorker w' c')"
  then have "w = w'" using worker.selects_same_instance [of "(w, c)" "(w', c')"] by simp
  moreover from s have "labelsForWorker w' c' ''ojs.openjobspec.dev/cluster'' = Some c"
    by (rule selects_value) (simp add: label_defs)
  then have "c = c'" by (simp add: label_defs)
  ultimately show "w = w' \<and> c = c'" by simp
qed simp

end
