(* ===== verification/ClusterResources.thy ===== *)
theory ClusterResources
  imports Labels Kube
begin

text \<open>
  The objects the OJSCluster controller wants to exist, as the callbacks it gives to
  \<^verbatim>\<open>CreateOrUpdate\<close> (\<^verbatim>\<open>internal/controller/ojscluster_controller.go\<close>): ConfigMap, server
  Deployment, Service, PodDisruptionBudget, ServiceMonitor and the embedded Redis. Each callback
  sets the owner reference first and fails with its error, then overwrites the fields the
  operator manages.
\<close>

subsection \<open>Constants\<close>

definition ojsFinalizer :: string where "ojsFinalizer = ''ojs.openjobspec.dev/finalizer''"
definition defaultImage :: string where "defaultImage = ''ghcr.io/openjobspec/ojs-server:latest''"
definition defaultPort :: int32 where "defaultPort = 8080"
definition metricsPort :: int32 where "metricsPort = 9090"
definition condReady :: string where "condReady = ''Ready''"
definition condAvailable :: string where "condAvailable = ''Available''"
definition condProgressing :: string where "condProgressing = ''Progressing''"
definition condDegraded :: string where "condDegraded = ''Degraded''"
definition condBackend :: string where "condBackend = ''BackendReady''"
definition reconcileRequeueDelay :: int64 where "reconcileRequeueDelay = 10 * 1000000000"

lemmas cond_defs = condReady_def condAvailable_def condProgressing_def condDegraded_def condBackend_def

abbreviation cname :: "OJSCluster \<Rightarrow> string" where "cname c \<equiv> om_name (cl_meta c)"
abbreviation cns :: "OJSCluster \<Rightarrow> string" where "cns c \<equiv> om_namespace (cl_meta c)"

subsection \<open>Backend URL\<close>

definition resolveBackendURL :: "OJSCluster \<Rightarrow> string" where
  "resolveBackendURL cluster =
     (let be = cs_backend (cl_spec cluster); t = be_type be in
      if be_url be \<noteq> [] then be_url be
      else if be_embedded be then
        (if t = ''redis'' then ''redis://'' @ cname cluster @ ''-redis.'' @ cns cluster @ ''.svc.cluster.local:6379''
         else if t = ''postgres'' then ''postgres://'' @ cname cluster @ ''-postgres.'' @ cns cluster @ ''.svc.cluster.local:5432/ojs?sslmode=disable''
         else if t = ''nats'' then ''nats://'' @ cname cluster @ ''-nats.'' @ cns cluster @ ''.svc.cluster.local:4222''
         else if t = ''kafka'' then cname cluster @ ''-kafka.'' @ cns cluster @ ''.svc.cluster.local:9092''
         else if t = ''sqs'' then ''https://sqs.'' @ cname cluster @ ''-sqs.'' @ cns cluster @ ''.svc.cluster.local''
         else [])
      else [])"

definition backendURLEnvVar :: "string \<Rightarrow> string" where
  "backendURLEnvVar backendType =
     (if backendType = ''postgres'' then ''DATABASE_URL''
      else if backendType = ''nats'' then ''NATS_URL''
      else if backendType = ''kafka'' then ''KAFKA_BROKERS''
      else if backendType = ''sqs'' then ''SQS_QUEUE_URL''
      else if backendType = ''lite'' then ''BACKEND_URL''
      else ''REDIS_URL'')"

subsection \<open>ConfigMap\<close>

definition configMapCallback :: "set_ref \<Rightarrow> OJSCluster \<Rightarrow> ConfigMap callback" where
  "configMapCallback setRef cluster cm =
     (case setRef KCluster (cl_meta cluster) (cm_meta cm) of
        Inl err \<Rightarrow> Inl err
      | Inr m \<Rightarrow> Inr (cm\<lparr>cm_meta := m\<lparr>om_labels := labelsForCluster (cname cluster)\<rparr>,
          cm_data := [''BACKEND_TYPE'' \<mapsto> be_type (cs_backend (cl_spec cluster)),
                      ''BACKEND_URL'' \<mapsto> resolveBackendURL cluster]\<rparr>))"

subsection \<open>Server Deployment\<close>

definition clusterReplicas :: "OJSCluster \<Rightarrow> int32" where
  "clusterReplicas cluster = (case cs_replicas (cl_spec cluster) of None \<Rightarrow> 2 | Some n \<Rightarrow> n)"

definition clusterImage :: "OJSCluster \<Rightarrow> string" where
  "clusterImage cluster =
     (if cs_image (cl_spec cluster) \<noteq> [] then cs_image (cl_spec cluster) else defaultImage)"

definition serverEnvVars :: "OJSCluster \<Rightarrow> EnvVar list" where
  "serverEnvVars cluster =
     [\<lparr>ev_name = ''BACKEND_TYPE'', ev_value = [],
       ev_valueFrom = Some (noSource\<lparr>es_configMapKeyRef := Some (keyOf (cname cluster @ ''-config'') ''BACKEND_TYPE'')\<rparr>)\<rparr>] @
     (case be_urlSecretRef (cs_backend (cl_spec cluster)) of
        Some ref \<Rightarrow>
          [\<lparr>ev_name = backendURLEnvVar (be_type (cs_backend (cl_spec cluster))), ev_value = [],
            ev_valueFrom = Some (noSource\<lparr>es_secretKeyRef := Some (keyOf (skr_name ref) (skr_key ref))\<rparr>)\<rparr>]
      | None \<Rightarrow>
          [\<lparr>ev_name = backendURLEnvVar (be_type (cs_backend (cl_spec cluster))), ev_value = [],
            ev_valueFrom = Some (noSource\<lparr>es_configMapKeyRef := Some (keyOf (cname cluster @ ''-config'') ''BACKEND_URL'')\<rparr>)\<rparr>])"

definition serverSecurityContext :: "OJSCluster \<Rightarrow> SecurityContext" where
  "serverSecurityContext cluster =
     \<lparr>sc_allowPrivilegeEscalation = Some False,
      sc_readOnlyRootFilesystem =
        (case cs_securityContext (cl_spec cluster) of
           Some s \<Rightarrow> (case sec_readOnlyRootFilesystem s of Some b \<Rightarrow> Some b | None \<Rightarrow> Some True)
         | None \<Rightarrow> Some True),
      sc_dropCapabilities = Some [''ALL'']\<rparr>"

definition defaultServerResources :: ResourceRequirements where
  "defaultServerResources =
     \<lparr>rr_limits = Some [''cpu'' \<mapsto> MustParse ''1'', ''memory'' \<mapsto> MustParse ''512Mi''],
      rr_requests = Some [''cpu'' \<mapsto> MustParse ''100m'', ''memory'' \<mapsto> MustParse ''128Mi''], rr_claims = []\<rparr>"

definition serverContainer :: "OJSCluster \<Rightarrow> Container" where
  "serverContainer cluster =
     \<lparr>ct_name = ''ojs-server'', ct_image = clusterImage cluster, ct_imagePullPolicy = ''IfNotPresent'',
      ct_command = [],
      ct_ports =
        [\<lparr>cp_name = ''http'', cp_containerPort = defaultPort, cp_protocol = ''TCP''\<rparr>,
         \<lparr>cp_name = ''metrics'', cp_containerPort = metricsPort, cp_protocol = ''TCP''\<rparr>],
      ct_env = serverEnvVars cluster,
      ct_resources =
        (let res = cs_resources (cl_spec cluster) in
         if rr_limits res \<noteq> None \<or> rr_requests res \<noteq> None then res else defaultServerResources),
      ct_volumeMounts = [],
      ct_securityContext = Some (serverSecurityContext cluster),
      ct_livenessProbe = Some \<lparr>pb_handler = HTTPGet ''/healthz'' (FromInt defaultPort),
        pb_initialDelaySeconds = 10, pb_periodSeconds = 10, pb_timeoutSeconds = 3, pb_failureThreshold = 3\<rparr>,
      ct_readinessProbe = Some \<lparr>pb_handler = HTTPGet ''/readyz'' (FromInt defaultPort),
        pb_initialDelaySeconds = 5, pb_periodSeconds = 5, pb_timeoutSeconds = 2, pb_failureThreshold = 3\<rparr>,
      ct_startupProbe = Some \<lparr>pb_handler = HTTPGet ''/healthz'' (FromInt defaultPort),
        pb_initialDelaySeconds = 2, pb_periodSeconds = 3, pb_timeoutSeconds = 0, pb_failureThreshold = 10\<rparr>\<rparr>"

definition buildPodSecurityContext :: "OJSCluster \<Rightarrow> PodSecurityContext" where
  "buildPodSecurityContext cluster =
     (let sc = \<lparr>psc_runAsNonRoot = Some True, psc_runAsUser = Some 65534, psc_runAsGroup = Some 65534,
        psc_fsGroup = None, psc_seccompProfile = Some ''RuntimeDefault''\<rparr>
      in case cs_securityContext (cl_spec cluster) of
        None \<Rightarrow> sc
      | Some s \<Rightarrow>
          let sc = (if sec_runAsNonRoot s \<noteq> None then sc\<lparr>psc_runAsNonRoot := sec_runAsNonRoot s\<rparr> else sc);
              sc = (if sec_runAsUser s \<noteq> None then sc\<lparr>psc_runAsUser := sec_runAsUser s\<rparr> else sc);
              sc = (if sec_runAsGroup s \<noteq> None then sc\<lparr>psc_runAsGroup := sec_runAsGroup s\<rparr> else sc);
              sc = (if sec_fsGroup s \<noteq> None then sc\<lparr>psc_fsGroup := sec_fsGroup s\<rparr> else sc)
          in sc)"

definition serverPodSpec :: "OJSCluster \<Rightarrow> PodSpec" where
  "serverPodSpec cluster =
     (let labels = labelsForCluster (cname cluster);
          podSpec = emptyPodSpec\<lparr>
            ps_containers := [serverContainer cluster],
            ps_securityContext := Some (buildPodSecurityContext cluster),
            ps_terminationGracePeriodSeconds := Some 30,
            ps_automountServiceAccountToken := Some False\<rparr>;
          podSpec = (if cs_serviceAccountName (cl_spec cluster) \<noteq> [] then
            podSpec\<lparr>ps_serviceAccountName := cs_serviceAccountName (cl_spec cluster),
              ps_automountServiceAccountToken := Some True\<rparr> else podSpec)
      in if length (cs_topologySpreadConstraints (cl_spec cluster)) > 0 then
           podSpec\<lparr>ps_topologySpreadConstraints := cs_topologySpreadConstraints (cl_spec cluster)\<rparr>
         else if sint (clusterReplicas cluster) > 1 then
           podSpec\<lparr>
             ps_topologySpreadConstraints :=
               [\<lparr>ts_maxSkew = 1, ts_topologyKey = ''topology.kubernetes.io/zone'',
                 ts_whenUnsatisfiable = ''ScheduleAnyway'', ts_labelSelector = Some labels\<rparr>],
             ps_podAntiAffinity :=
               [\<lparr>wt_weight = 100, wt_labelSelector = Some labels, wt_topologyKey = ''kubernetes.io/hostname''\<rparr>]\<rparr>
         else podSpec)"

definition serverDeploymentCallback :: "set_ref \<Rightarrow> OJSCluster \<Rightarrow> Deployment callback" where
  "serverDeploymentCallback setRef cluster dep =
     (case setRef KCluster (cl_meta cluster) (dep_meta dep) of
        Inl err \<Rightarrow> Inl err
      | Inr m \<Rightarrow>
          let labels = labelsForCluster (cname cluster) in
          Inr (dep\<lparr>dep_meta := m\<lparr>om_labels := labels\<rparr>,
            dep_spec := (dep_spec dep)\<lparr>
              ds_replicas := Some (clusterReplicas cluster),
              ds_selector := Some labels,
              ds_template := \<lparr>pt_labels = labels, pt_spec = serverPodSpec cluster\<rparr>\<rparr>\<rparr>))"

subsection \<open>Service\<close>

definition serviceCallback :: "set_ref \<Rightarrow> OJSCluster \<Rightarrow> Service callback" where
  "serviceCallback setRef cluster svc =
     (case setRef KCluster (cl_meta cluster) (svc_meta svc) of
        Inl err \<Rightarrow> Inl err
      | Inr m \<Rightarrow>
          let labels = labelsForCluster (cname cluster) in
          Inr (svc\<lparr>svc_meta := m\<lparr>om_labels := labels\<rparr>, svc_selector := labels,
            svc_ports :=
              [\<lparr>sp_name = ''http'', sp_port = defaultPort, sp_targetPort = FromString ''http'', sp_protocol = ''TCP''\<rparr>,
               \<lparr>sp_name = ''metrics'', sp_port = metricsPort, sp_targetPort = FromString ''metrics'', sp_protocol = ''TCP''\<rparr>]\<rparr>))"

subsection \<open>Embedded Redis\<close>

definition redisContainer :: Container where
  "redisContainer =
     \<lparr>ct_name = ''redis'', ct_image = ''redis:7-alpine'', ct_imagePullPolicy = ''IfNotPresent'',
      ct_command = [],
      ct_ports = [\<lparr>cp_name = ''redis'', cp_containerPort = 6379, cp_protocol = ''TCP''\<rparr>],
      ct_env = [],
      ct_resources =
        \<lparr>rr_limits = Some [''cpu'' \<mapsto> MustParse ''500m'', ''memory'' \<mapsto> MustParse ''256Mi''],
         rr_requests = Some [''cpu'' \<mapsto> MustParse ''50m'', ''memory'' \<mapsto> MustParse ''64Mi''], rr_claims = []\<rparr>,
      ct_volumeMounts = [\<lparr>vm_name = ''redis-data'', vm_mountPath = ''/data''\<rparr>],
      ct_securityContext = Some \<lparr>sc_allowPrivilegeEscalation = Some False,
        sc_readOnlyRootFilesystem = Some True, sc_dropCapabilities = Some [''ALL'']\<rparr>,
      ct_livenessProbe = Some \<lparr>pb_handler = Exec [''redis-cli'', ''ping''],
        pb_initialDelaySeconds = 10, pb_periodSeconds = 10, pb_timeoutSeconds = 0, pb_failureThreshold = 0\<rparr>,
      ct_readinessProbe = Some \<lparr>pb_handler = Exec [''redis-cli'', ''ping''],
        pb_initialDelaySeconds = 0, pb_periodSeconds = 5, pb_timeoutSeconds = 0, pb_failureThreshold = 0\<rparr>,
      ct_startupProbe = None\<rparr>"

definition redisPodSpec :: PodSpec where
  "redisPodSpec = emptyPodSpec\<lparr>
     ps_securityContext := Some \<lparr>psc_runAsNonRoot = Some True, psc_runAsUser = Some 999,
       psc_runAsGroup = Some 999, psc_fsGroup = None, psc_seccompProfile = Some ''RuntimeDefault''\<rparr>,
     ps_automountServiceAccountToken := Some False,
     ps_containers := [redisContainer],
     ps_volumes := [\<lparr>vol_name = ''redis-data'', vol_source = EmptyDir\<rparr>]\<rparr>"

definition redisDeploymentCallback :: "set_ref \<Rightarrow> OJSCluster \<Rightarrow> Deployment callback" where
  "redisDeploymentCallback setRef cluster dep =
     (case setRef KCluster (cl_meta cluster) (dep_meta dep) of
        Inl err \<Rightarrow> Inl err
      | Inr m \<Rightarrow>
          let labels = labelsForRedis (cname cluster) in
          Inr (dep\<lparr>dep_meta := m\<lparr>om_labels := labels\<rparr>,
            dep_spec := (dep_spec dep)\<lparr>
              ds_replicas := Some 1,
              ds_selector := Some labels,
              ds_template := \<lparr>pt_labels = labels, pt_spec = redisPodSpec\<rparr>\<rparr>\<rparr>))"

definition redisServiceCallback :: "set_ref \<Rightarrow> OJSCluster \<Rightarrow> Service callback" where
  "redisServiceCallback setRef cluster svc =
     (case setRef KCluster (cl_meta cluster) (svc_meta svc) of
        Inl err \<Rightarrow> Inl err
      | Inr m \<Rightarrow>
          let labels = labelsForRedis (cname cluster) in
          Inr (svc\<lparr>svc_meta := m\<lparr>om_labels := labels\<rparr>, svc_selector := labels,
            svc_ports :=
              [\<lparr>sp_name = ''redis'', sp_port = 6379, sp_targetPort = FromString ''redis'', sp_protocol = ''TCP''\<rparr>]\<rparr>))"

subsection \<open>PodDisruptionBudget\<close>

definition pdbCallback :: "set_ref \<Rightarrow> OJSCluster \<Rightarrow> PodDisruptionBudget callback" where
  "pdbCallback setRef cluster pdb =
     (case setRef KCluster (cl_meta cluster) (pdb_meta pdb) of
        Inl err \<Rightarrow> Inl err
      | Inr m \<Rightarrow>
          let labels = labelsForCluster (cname cluster);
              pdb = pdb\<lparr>pdb_meta := m\<lparr>om_labels := labels\<rparr>, pdb_selector := Some labels\<rparr>;
              spec = cs_podDisruptionBudget (cl_spec cluster)
          in Inr (case Option.bind spec pdbs_minAvailable of
               Some n \<Rightarrow> pdb\<lparr>pdb_minAvailable := Some (FromInt n), pdb_maxUnavailable := None\<rparr>
             | None \<Rightarrow> (case Option.bind spec pdbs_maxUnavailable of
                 Some n \<Rightarrow> pdb\<lparr>pdb_maxUnavailable := Some (FromInt n), pdb_minAvailable := None\<rparr>
               | None \<Rightarrow> pdb\<lparr>pdb_maxUnavailable := Some (FromInt 1), pdb_minAvailable := None\<rparr>)))"

subsection \<open>ServiceMonitor\<close>

definition serviceMonitorGVK :: GroupVersionKind where
  "serviceMonitorGVK =
     \<lparr>gvk_group = ''monitoring.coreos.com'', gvk_version = ''v1'', gvk_kind = ''ServiceMonitor''\<rparr>"

definition serviceMonitorSpec :: "OJSCluster \<Rightarrow> json" where
  "serviceMonitorSpec cluster =
     JMap [''selector'' \<mapsto> JMap [''matchLabels'' \<mapsto> JStrMap (labelsForCluster (cname cluster))],
           ''namespaceSelector'' \<mapsto> JMap [''matchNames'' \<mapsto> JList [JStr (cns cluster)]],
           ''endpoints'' \<mapsto> JList [JMap [''port'' \<mapsto> JStr ''metrics'', ''path'' \<mapsto> JStr ''/metrics'',
             ''interval'' \<mapsto> JStr ''30s'']]]"

definition serviceMonitorCallback :: "set_ref \<Rightarrow> OJSCluster \<Rightarrow> Unstructured callback" where
  "serviceMonitorCallback setRef cluster sm =
     (case setRef KCluster (cl_meta cluster) (us_meta sm) of
        Inl err \<Rightarrow> Inl err
      | Inr m \<Rightarrow> Inr (sm\<lparr>us_meta := m\<lparr>om_labels := labelsForCluster (cname cluster)\<rparr>,
          us_object := (us_object sm)(''spec'' \<mapsto> serviceMonitorSpec cluster)\<rparr>))"

end
