(* ===== verification/Status.thy ===== *)
theory Status
  imports ClusterResources
begin

text \<open>
  What the two controllers report of a Deployment: the phase and the four standard conditions
  as a function of its ready and total replicas (the branches of \<^verbatim>\<open>updateStatus\<close> and
  \<^verbatim>\<open>updateWorkerStatus\<close>), and the contract the two share, as the locale
  \<open>replica_report\<close>.
\<close>

type_synonym condition_setting = "string \<times> ConditionStatus \<times> string \<times> string"

definition replicas_msg :: "int32 \<Rightarrow> int32 \<Rightarrow> string" where
  "replicas_msg ready repl = fmt_d (sint ready) @ ''/'' @ fmt_d (sint repl) @ '' replicas available''"

definition scaling_msg :: "int32 \<Rightarrow> int32 \<Rightarrow> string" where
  "scaling_msg ready repl =
     ''Scaling from '' @ fmt_d (sint ready) @ '' to '' @ fmt_d (sint repl) @ '' replicas''"

definition degraded_msg :: "int32 \<Rightarrow> int32 \<Rightarrow> string" where
  "degraded_msg ready repl =
     ''Only '' @ fmt_d (sint ready) @ '' of '' @ fmt_d (sint repl) @ '' replicas ready''"

definition clusterReport :: "int32 \<Rightarrow> int32 \<Rightarrow> string \<times> condition_setting list" where
  "clusterReport ready repl =
     (if ready = repl \<and> sint repl > 0 then
        (''Running'',
         [(condReady, ConditionTrue, ''AllReplicasReady'', ''All server replicas are ready''),
          (condAvailable, ConditionTrue, ''DeploymentAvailable'', replicas_msg ready repl),
          (condProgressing, ConditionFalse, ''DeploymentComplete'', ''Deployment rollout complete''),
          (condDegraded, ConditionFalse, ''AllReplicasReady'', ''All server replicas are ready'')])
      else if sint ready > 0 then
        (''Scaling'',
         [(condReady, ConditionFalse, ''ScalingInProgress'', ''Not all replicas are ready''),
          (condAvailable, ConditionTrue, ''PartiallyAvailable'', replicas_msg ready repl),
          (condProgressing, ConditionTrue, ''ScalingInProgress'', scaling_msg ready repl),
          (condDegraded, ConditionTrue, ''InsufficientReplicas'', degraded_msg ready repl)])
      else
        (''Pending'',
         [(condReady, ConditionFalse, ''NoReplicasReady'', ''No replicas are ready yet''),
          (condAvailable, ConditionFalse, ''NoReplicasReady'', ''No replicas are available''),
          (condProgressing, ConditionTrue, ''DeploymentInProgress'', ''Waiting for replicas to become ready''),
          (condDegraded, ConditionFalse, ''Initializing'', ''Cluster is still starting up'')]))"

definition clusterMissingReport :: "condition_setting list" where
  "clusterMissingReport =
     [(condReady, ConditionFalse, ''DeploymentNotFound'', ''Server deployment does not exist yet''),
      (condAvailable, ConditionFalse, ''DeploymentNotFound'', ''Server deployment does not exist yet''),
      (condProgressing, ConditionTrue, ''DeploymentPending'', ''Waiting for deployment to be created''),
      (condDegraded, ConditionFalse, ''NotApplicable'', ''Cluster is still initializing'')]"

definition condWorkerReady :: string where "condWorkerReady = ''Ready''"
definition condWorkerAvail :: string where "condWorkerAvail = ''Available''"
definition condWorkerProgress :: string where "condWorkerProgress = ''Progressing''"
definition condWorkerDegraded :: string where "condWorkerDegraded = ''Degraded''"

lemmas worker_cond_defs = condWorkerReady_def condWorkerAvail_def condWorkerProgress_def
  condWorkerDegraded_def

definition workerReport :: "int32 \<Rightarrow> int32 \<Rightarrow> string \<times> condition_setting list" where
  "workerReport ready repl =
     (if ready = repl \<and> sint repl > 0 then
        (''Running'',
         [(condWorkerReady, ConditionTrue, ''AllReplicasReady'', ''All worker replicas are ready''),
          (condWorkerAvail, ConditionTrue, ''DeploymentAvailable'', replicas_msg ready repl),
          (condWorkerProgress, ConditionFalse, ''DeploymentComplete'', ''Deployment rollout complete''),
          (condWorkerDegraded, ConditionFalse, ''AllReplicasReady'', ''All worker replicas are ready'')])
      else if sint ready > 0 then
        (''Scaling'',
         [(condWorkerReady, ConditionFalse, ''ScalingInProgress'', ''Not all replicas are ready''),
          (condWorkerAvail, ConditionTrue, ''PartiallyAvailable'', replicas_msg ready repl),
          (condWorkerProgress, ConditionTrue, ''ScalingInProgress'', scaling_msg ready repl),
          (condWorkerDegraded, ConditionTrue, ''InsufficientReplicas'', degraded_msg ready repl)])
      else
        (''Pending'',
         [(condWorkerReady, ConditionFalse, ''NoReplicasReady'', ''No worker replicas are ready yet''),
          (condWorkerAvail, ConditionFalse, ''NoReplicasReady'', ''No worker replicas are available''),
          (condWorkerProgress, ConditionTrue, ''DeploymentInProgress'', ''Waiting for replicas to become ready''),
          (condWorkerDegraded, ConditionFalse, ''Initializing'', ''Worker is still starting up'')]))"

definition workerMissingReport :: "condition_setting list" where
  "workerMissingReport =
     [(condWorkerReady, ConditionFalse, ''DeploymentNotFound'', ''Worker deployment does not exist yet''),
      (condWorkerAvail, ConditionFalse, ''DeploymentNotFound'', ''Worker deployment does not exist yet''),
      (condWorkerProgress, ConditionTrue, ''DeploymentPending'', ''Waiting for deployment to be created''),
      (condWorkerDegraded, ConditionFalse, ''NotApplicable'', ''Worker is still initializing'')]"

subsection \<open>The shared contract\<close>

definition settingType :: "condition_setting \<Rightarrow> string" where
  "settingType s = fst s"

definition settingStatus :: "condition_setting list \<Rightarrow> string \<Rightarrow> ConditionStatus option" where
  "settingStatus cs t = map_of (map (\<lambda>(t, st, _, _). (t, st)) cs) t"

definition standardConditions :: "string list" where
  "standardConditions = [condReady, condAvailable, condProgressing, condDegraded]"

locale replica_report =
  fixes report :: "int32 \<Rightarrow> int32 \<Rightarrow> string \<times> condition_setting list"
  assumes phase_of: "fst (report ready repl) =
      (if ready = repl \<and> sint repl > 0 then ''Running''
       else if sint ready > 0 then ''Scaling'' else ''Pending'')"
    and sets_standard: "map settingType (snd (report ready repl)) = standardConditions"
    and ready_of: "settingStatus (snd (report ready repl)) condReady =
      Some (if ready = repl \<and> sint repl > 0 then ConditionTrue else ConditionFalse)"
    and available_of: "settingStatus (snd (report ready repl)) condAvailable =
      Some (if sint ready > 0 then ConditionTrue else ConditionFalse)"
    and progressing_of: "settingStatus (snd (report ready repl)) condProgressing =
      Some (if ready = repl \<and> sint repl > 0 then ConditionFalse else ConditionTrue)"
    and degraded_of: "settingStatus (snd (report ready repl)) condDegraded =
      Some (if sint ready > 0 \<and> \<not> (ready = repl \<and> sint repl > 0) then ConditionTrue else ConditionFalse)"
begin

lemma phase_cases: "fst (report ready repl) \<in> {''Running'', ''Scaling'', ''Pending''}"
  by (simp add: phase_of)

text \<open>The phase and the Ready and Progressing conditions never contradict each other.\<close>

lemma running_iff_ready:
  "fst (report ready repl) = ''Running'' \<longleftrightarrow>
   settingStatus (snd (report ready repl)) condReady = Some ConditionTrue"
  by (simp add: phase_of ready_of)

lemma running_iff_not_progressing:
  "fst (report ready repl) = ''Running'' \<longleftrightarrow>
   settingStatus (snd (report ready repl)) condProgressing = Some ConditionFalse"
  by (simp add: phase_of progressing_of)

lemma scaling_iff_degraded:
  "fst (report ready repl) = ''Scaling'' \<longleftrightarrow>
   settingStatus (snd (report ready repl)) condDegraded = Some ConditionTrue"
  by (auto simp: phase_of degraded_of)

lemma pending_iff_unavailable:
  "fst (report ready repl) = ''Pending'' \<longleftrightarrow>
   settingStatus (snd (report ready repl)) condAvailable = Some ConditionFalse"
  by (auto simp: phase_of available_of)

lemma distinct_types: "distinct (map settingType (snd (report ready repl)))"
  by (simp add: sets_standard standardConditions_def cond_defs)

text \<open>A Deployment with no replica ready is never reported as degraded.\<close>

lemma outage_not_degraded:
  "sint ready \<le> 0 \<Longrightarrow> settingStatus (snd (report ready repl)) condDegraded = Some ConditionFalse"
  by (simp add: degraded_of)

end

lemmas report_defs = clusterReport_def workerReport_def settingType_def settingStatus_def
  standardConditions_def cond_defs worker_cond_defs

interpretation clusterReport: replica_report clusterReport
  by unfold_locales (simp_all add: report_defs)

interpretation workerReport: replica_report workerReport
  by unfold_locales (simp_all add: report_defs)

end
