(* ===== verification/Conditions.thy ===== *)
theory Conditions
  imports Status KubeLaws
begin

text \<open>
  What a list of conditions shows, and the agreement between phase and conditions that both
  controllers promise: proved once in the locale \<open>replica_report\<close> for every report that meets
  the shared contract.
\<close>

subsection \<open>What a status shows\<close>

definition conditionStatus :: "Condition list \<Rightarrow> string \<Rightarrow> ConditionStatus option" where
  "conditionStatus cs t = map_option c_status (cond_of cs t)"

fun showsCondition :: "int64 \<Rightarrow> Condition list \<Rightarrow> condition_setting \<Rightarrow> bool" where
  "showsCondition gen cs (t, st, rs, msg) = (case cond_of cs t of
     None \<Rightarrow> False
   | Some k \<Rightarrow> c_status k = st \<and> c_reason k = rs \<and> c_message k = msg \<and> c_observedGeneration k = gen)"

abbreviation showsAll :: "int64 \<Rightarrow> Condition list \<Rightarrow> condition_setting list \<Rightarrow> bool" where
  "showsAll gen cs xs \<equiv> list_all (showsCondition gen cs) xs"

lemma showsCondition_cong:
  "cond_of cs (settingType x) = cond_of cs' (settingType x) \<Longrightarrow> showsCondition gen cs x = showsCondition gen cs' x"
  by (cases x) (simp add: settingType_def)

lemma showsCondition_status: "showsCondition gen cs (t, st, rs, msg) \<Longrightarrow> conditionStatus cs t = Some st"
  by (auto simp: conditionStatus_def split: option.splits)

lemma showsAll_status: "showsAll gen cs xs \<Longrightarrow> settingStatus xs t = Some st \<Longrightarrow> conditionStatus cs t = Some st"
proof (induction xs)
  case (Cons x xs)
  obtain t' st' rs msg where x: "x = (t', st', rs, msg)" by (metis prod_cases4)
  have "conditionStatus cs t' = Some st'"
    using Cons.prems(1) showsCondition_status [of gen cs t' st' rs msg] by (simp add: x)
  with Cons show ?case by (auto simp: settingStatus_def x split: if_splits)
qed (simp add: settingStatus_def)

subsection \<open>Setting conditions\<close>

text \<open>\<open>xs\<close> are shown, conditions of other types are as before.\<close>

definition conditionsSet :: "int64 \<Rightarrow> condition_setting list \<Rightarrow> Condition list \<Rightarrow> Condition list \<Rightarrow> bool" where
  "conditionsSet gen xs old new \<longleftrightarrow> showsAll gen new xs \<and>
     (\<forall>t. t \<notin> settingType ` set xs \<longrightarrow> cond_of new t = cond_of old t)"

lemma conditionsSet_Nil: "conditionsSet gen [] cs cs"
  by (simp add: conditionsSet_def)

lemma conditionsSet_append:
  assumes "conditionsSet gen xs a b" "conditionsSet gen ys b c"
    and "settingType ` set xs \<inter> settingType ` set ys = {}"
  shows "conditionsSet gen (xs @ ys) a c"
proof -
  have "showsCondition gen c x" if "x \<in> set xs" for x
  proof -
    from that assms(3) have "settingType x \<notin> settingType ` set ys" by auto
    then have "cond_of c (settingType x) = cond_of b (settingType x)"
      using assms(2) by (simp add: conditionsSet_def)
    then show ?thesis
      using assms(1) that showsCondition_cong [of c x b gen] by (simp add: conditionsSet_def list_all_iff)
  qed
  then show ?thesis using assms(1,2) by (auto simp: conditionsSet_def list_all_iff image_Un)
qed

lemma conditionsSet_one:
  assumes "condition_laws K"
  shows "conditionsSet gen [(t, st, rs, msg)] cs (SetStatusCondition K now cs
    \<lparr>c_type = t, c_status = st, c_observedGeneration = gen, c_lastTransitionTime = 0, c_reason = rs, c_message = msg\<rparr>)"
    (is "conditionsSet gen _ cs (SetStatusCondition K now cs ?c)")
proof -
  obtain k where "cond_of (SetStatusCondition K now cs ?c) t = Some k" "same_but_time k ?c"
    using condition_laws.set_this [OF assms, of now cs ?c] by auto
  moreover have "cond_of (SetStatusCondition K now cs ?c) t' = cond_of cs t'" if "t' \<noteq> t" for t'
    using condition_laws.set_other [OF assms, of t' ?c] that by simp
  ultimately show ?thesis by (simp add: conditionsSet_def same_but_time_def settingType_def)
qed

subsection \<open>Phase and conditions agree\<close>

definition consistentReport :: "string \<Rightarrow> Condition list \<Rightarrow> int32 \<Rightarrow> int32 \<Rightarrow> bool" where
  "consistentReport phase conds ready repl \<longleftrightarrow>
     (let cond = conditionStatus conds in
      phase \<in> {''Pending'', ''Scaling'', ''Running''} \<and>
      (phase = ''Running'' \<longleftrightarrow> cond condReady = Some ConditionTrue) \<and>
      (phase = ''Running'' \<longleftrightarrow> cond condProgressing = Some ConditionFalse) \<and>
      (phase = ''Scaling'' \<longleftrightarrow> cond condDegraded = Some ConditionTrue) \<and>
      (phase = ''Pending'' \<longleftrightarrow> cond condAvailable = Some ConditionFalse) \<and>
      (phase = ''Running'' \<longrightarrow> ready = repl \<and> 0 < sint repl) \<and>
      (phase = ''Scaling'' \<longrightarrow> 0 < sint ready))"

context replica_report begin

lemma shown_consistent:
  assumes "showsAll gen cs (snd (report ready repl))"
  shows "consistentReport (fst (report ready repl)) cs ready repl"
proof -
  have cond: "conditionStatus cs condReady = settingStatus (snd (report ready repl)) condReady"
    "conditionStatus cs condAvailable = settingStatus (snd (report ready repl)) condAvailable"
    "conditionStatus cs condProgressing = settingStatus (snd (report ready repl)) condProgressing"
    "conditionStatus cs condDegraded = settingStatus (snd (report ready repl)) condDegraded"
    using showsAll_status [OF assms] ready_of available_of progressing_of degraded_of by simp_all
  show ?thesis
    by (simp add: consistentReport_def Let_def cond phase_of ready_of available_of progressing_of degraded_of)
qed

end

definition missingReport :: "condition_setting list \<Rightarrow> bool" where
  "missingReport xs \<longleftrightarrow> settingStatus xs condReady = Some ConditionFalse \<and>
     settingStatus xs condAvailable = Some ConditionFalse \<and>
     settingStatus xs condProgressing = Some ConditionTrue \<and>
     settingStatus xs condDegraded = Some ConditionFalse"

lemma missing_consistent:
  assumes "missingReport xs" "showsAll gen cs xs"
  shows "consistentReport ''Pending'' cs ready repl"
  using assms showsAll_status [OF assms(2)] by (simp add: missingReport_def consistentReport_def)

lemma clusterMissingReport_status: "missingReport clusterMissingReport"
  by (simp add: missingReport_def clusterMissingReport_def settingStatus_def cond_defs)

lemma workerMissingReport_status: "missingReport workerMissingReport"
  by (simp add: missingReport_def workerMissingReport_def settingStatus_def cond_defs worker_cond_defs)

text \<open>The outcome of a lookup: found, absent, or neither known.\<close>

fun lookedUp :: "goerror + 'o \<Rightarrow> 'o option option" where
  "lookedUp (Inr ob) = Some (Some ob)"
| "lookedUp (Inl e) = (if IsNotFound e then Some None else None)"

end
