(* ===== verification/ClusterController.thy ===== *)
theory ClusterController
  imports Status
begin

text \<open>
  The OJSCluster reconciler (\<^verbatim>\<open>internal/controller/ojscluster_controller.go\<close>): \<^verbatim>\<open>Reconcile\<close> and
  the methods it calls, over an arbitrary client. \<^verbatim>\<open>Reconcile\<close> is cut at its early returns into
  the stages \<open>clusterDeletion\<close>, \<open>clusterEnsureFinalizer\<close>, \<open>clusterInitPhase\<close>,
  \<open>clusterBackendFailed\<close> and \<open>clusterChildren\<close>. A method that mutates its
  \<^verbatim>\<open>*OJSCluster\<close> returns the new value. Log lines (\<^verbatim>\<open>logger.Error\<close>) are not modelled.
\<close>

subsection \<open>Status\<close>

definition recordEvent :: "'s reconciler \<Rightarrow> OJSCluster \<Rightarrow> string \<Rightarrow> string \<Rightarrow> string \<Rightarrow> ('s, unit) state" where
  "recordEvent r cluster eventType reason message =
     record_event r KCluster (cl_meta cluster) eventType reason message"

definition setCondition ::
  "'s reconciler \<Rightarrow> OJSCluster \<Rightarrow> condition_setting \<Rightarrow> ('s, OJSCluster) state" where
  "setCondition r cluster setting = (case setting of (condType, status, reason, message) \<Rightarrow> do {
     now \<leftarrow> Now (rc_client r);
     State_Monad.return (cluster\<lparr>cl_status := (cl_status cluster)\<lparr>cst_conditions :=
       SetStatusCondition (rc_client r) now (cst_conditions (cl_status cluster))
         \<lparr>c_type = condType, c_status = status, c_observedGeneration = om_generation (cl_meta cluster),
           c_lastTransitionTime = 0, c_reason = reason, c_message = message\<rparr>\<rparr>\<rparr>)
   })"

fun setConditions ::
  "'s reconciler \<Rightarrow> OJSCluster \<Rightarrow> condition_setting list \<Rightarrow> ('s, OJSCluster) state" where
  "setConditions r cluster [] = State_Monad.return cluster"
| "setConditions r cluster (c # cs) = do {
     cluster \<leftarrow> setCondition r cluster c;
     setConditions r cluster cs
   }"

definition setPhase :: "string \<Rightarrow> OJSCluster \<Rightarrow> OJSCluster" where
  "setPhase phase cluster = cluster\<lparr>cl_status := (cl_status cluster)\<lparr>cst_phase := phase\<rparr>\<rparr>"

definition setReplicas :: "DeploymentStatus \<Rightarrow> OJSCluster \<Rightarrow> OJSCluster" where
  "setReplicas st cluster = cluster\<lparr>cl_status := (cl_status cluster)\<lparr>cst_replicas := dst_replicas st,
     cst_readyReplicas := dst_readyReplicas st\<rparr>\<rparr>"

definition finishStatus :: "'s reconciler \<Rightarrow> string \<Rightarrow> OJSCluster \<Rightarrow> ('s, goerror + unit) state" where
  "finishStatus r previousPhase cluster = do {
     _ \<leftarrow> (if previousPhase \<noteq> [] \<and> previousPhase \<noteq> cst_phase (cl_status cluster) then
            recordEvent r cluster ''Normal'' ''PhaseChanged''
              (''Cluster transitioned from '' @ previousPhase @ '' to '' @ cst_phase (cl_status cluster))
          else State_Monad.return ());
     if_err (StatusUpdateOJSCluster (rc_client r) cluster)
       (\<lambda>err. State_Monad.return (Inl err)) (\<lambda>_. State_Monad.return nil)
   }"

definition updateStatus :: "'s reconciler \<Rightarrow> OJSCluster \<Rightarrow> ('s, goerror + unit) state" where
  "updateStatus r cluster =
     (let previousPhase = cst_phase (cl_status cluster) in
      if_err (GetDeployment (rc_client r) \<lparr>nn_namespace = cns cluster, nn_name = cname cluster @ ''-server''\<rparr>)
        (\<lambda>err. if IsNotFound err then do {
             cluster \<leftarrow> setConditions r (setPhase ''Pending'' cluster) clusterMissingReport;
             finishStatus r previousPhase cluster
           } else State_Monad.return (Inl err))
        (\<lambda>dep. do {
             let st = dep_status dep;
             let (phase, conds) = clusterReport (dst_readyReplicas st) (dst_replicas st);
             cluster \<leftarrow> setConditions r (setPhase phase (setReplicas st cluster)) conds;
             finishStatus r previousPhase cluster
           }))"

subsection \<open>Child resources\<close>

definition reconcileConfigMap :: "'s reconciler \<Rightarrow> OJSCluster \<Rightarrow> ('s, goerror + unit) state" where
  "reconcileConfigMap r cluster =
     CreateOrUpdateConfigMap (rc_client r) (newConfigMap (cname cluster @ ''-config'') (cns cluster))
       (configMapCallback (SetControllerReference (rc_client r)) cluster)"

definition reconcileDeployment :: "'s reconciler \<Rightarrow> OJSCluster \<Rightarrow> ('s, goerror + unit) state" where
  "reconcileDeployment r cluster =
     CreateOrUpdateDeployment (rc_client r) (newDeployment (cname cluster @ ''-server'') (cns cluster))
       (serverDeploymentCallback (SetControllerReference (rc_client r)) cluster)"

definition reconcileService :: "'s reconciler \<Rightarrow> OJSCluster \<Rightarrow> ('s, goerror + unit) state" where
  "reconcileService r cluster =
     CreateOrUpdateService (rc_client r) (newService (cname cluster @ ''-server'') (cns cluster))
       (serviceCallback (SetControllerReference (rc_client r)) cluster)"

definition reconcileEmbeddedRedis :: "'s reconciler \<Rightarrow> OJSCluster \<Rightarrow> ('s, goerror + unit) state" where
  "reconcileEmbeddedRedis r cluster =
     if_err (CreateOrUpdateDeployment (rc_client r) (newDeployment (cname cluster @ ''-redis'') (cns cluster))
         (redisDeploymentCallback (SetControllerReference (rc_client r)) cluster))
       (\<lambda>err. State_Monad.return (Inl err))
       (\<lambda>_. CreateOrUpdateService (rc_client r) (newService (cname cluster @ ''-redis'') (cns cluster))
         (redisServiceCallback (SetControllerReference (rc_client r)) cluster))"

definition reconcileEmbeddedBackend :: "'s reconciler \<Rightarrow> OJSCluster \<Rightarrow> ('s, goerror + unit) state" where
  "reconcileEmbeddedBackend r cluster =
     (let t = be_type (cs_backend (cl_spec cluster)) in
      if t = ''redis'' then reconcileEmbeddedRedis r cluster
      else State_Monad.return (Inl (Errorf (''embedded backend not supported for type '' @
        fmt_q (isPrintTable (rc_client r)) t @ ''; only '' @ [CHR 0x27] @ ''redis'' @ [CHR 0x27] @ '' is supported''))))"

definition pdbWanted :: "OJSCluster \<Rightarrow> bool" where
  "pdbWanted cluster =
     (if sint (clusterReplicas cluster) \<le> 1 then False
      else case cs_podDisruptionBudget (cl_spec cluster) of
        None \<Rightarrow> True
      | Some p \<Rightarrow> (case pdbs_enabled p of None \<Rightarrow> True | Some enabled \<Rightarrow> enabled))"

definition reconcilePDB :: "'s reconciler \<Rightarrow> OJSCluster \<Rightarrow> ('s, goerror + unit) state" where
  "reconcilePDB r cluster =
     (if \<not> pdbWanted cluster then State_Monad.return nil
      else CreateOrUpdatePDB (rc_client r) (newPDB (cname cluster @ ''-server'') (cns cluster))
        (pdbCallback (SetControllerReference (rc_client r)) cluster))"

definition reconcileServiceMonitor :: "'s reconciler \<Rightarrow> OJSCluster \<Rightarrow> ('s, goerror + unit) state" where
  "reconcileServiceMonitor r cluster =
     CreateOrUpdateUnstructured (rc_client r)
       (newUnstructured serviceMonitorGVK (cname cluster @ ''-server'') (cns cluster))
       (serviceMonitorCallback (SetControllerReference (rc_client r)) cluster)"

subsection \<open>Reconcile\<close>

definition requeueWith :: "goerror \<Rightarrow> ('s, reconcile_result) state" where
  "requeueWith err = State_Monad.return (\<lparr>res_requeueAfter = reconcileRequeueDelay\<rparr>, Some err)"

definition monitoringWanted :: "OJSCluster \<Rightarrow> bool" where
  "monitoringWanted cluster = (case cs_monitoring (cl_spec cluster) of
     None \<Rightarrow> False | Some m \<Rightarrow> mon_enabled m \<and> mon_serviceMonitor m)"

definition clusterMonitor :: "'s reconciler \<Rightarrow> OJSCluster \<Rightarrow> ('s, unit) state" where
  "clusterMonitor r cluster =
     (if monitoringWanted cluster then
        if_err (reconcileServiceMonitor r cluster)
          (\<lambda>err. recordEvent r cluster ''Warning'' ''ServiceMonitorFailed'' (err_text err))
          (\<lambda>_. State_Monad.return ())
      else State_Monad.return ())"

definition clusterChildren :: "'s reconciler \<Rightarrow> OJSCluster \<Rightarrow> ('s, reconcile_result) state" where
  "clusterChildren r cluster =
     if_err (reconcileConfigMap r cluster) requeueWith (\<lambda>_.
     if_err (reconcileDeployment r cluster) requeueWith (\<lambda>_.
     if_err (reconcileService r cluster) requeueWith (\<lambda>_.
     if_err (reconcilePDB r cluster) requeueWith (\<lambda>_. do {
       _ \<leftarrow> clusterMonitor r cluster;
       if_err (updateStatus r cluster) requeueWith (\<lambda>_. State_Monad.return (noResult, None))
     }))))"

definition clusterBackendFailed ::
  "'s reconciler \<Rightarrow> OJSCluster \<Rightarrow> goerror \<Rightarrow> ('s, reconcile_result) state" where
  "clusterBackendFailed r cluster err = do {
     cluster \<leftarrow> setCondition r cluster (condBackend, ConditionFalse, ''BackendFailed'', err_text err);
     cluster \<leftarrow> setCondition r cluster (condDegraded, ConditionTrue, ''BackendFailed'', err_text err);
     statusRes \<leftarrow> StatusUpdateOJSCluster (rc_client r) cluster;
     let cluster = (case statusRes of Inl _ \<Rightarrow> cluster | Inr cluster' \<Rightarrow> cluster');
     _ \<leftarrow> recordEvent r cluster ''Warning'' ''BackendFailed'' (err_text err);
     requeueWith err
   }"

definition clusterBackend :: "'s reconciler \<Rightarrow> OJSCluster \<Rightarrow> ('s, reconcile_result) state" where
  "clusterBackend r cluster =
     (if be_embedded (cs_backend (cl_spec cluster)) then
        if_err (reconcileEmbeddedBackend r cluster) (clusterBackendFailed r cluster) (\<lambda>_. do {
          cluster \<leftarrow> setCondition r cluster
            (condBackend, ConditionTrue, ''BackendReady'', ''Embedded backend is running'');
          clusterChildren r cluster
        })
      else clusterChildren r cluster)"

definition clusterInitPhase :: "'s reconciler \<Rightarrow> OJSCluster \<Rightarrow> ('s, goerror + OJSCluster) state" where
  "clusterInitPhase r cluster =
     (if cst_phase (cl_status cluster) = [] then do {
        cluster \<leftarrow> setCondition r (setPhase ''Pending'' cluster)
          (condProgressing, ConditionTrue, ''Reconciling'', ''Initial reconciliation in progress'');
        if_err (StatusUpdateOJSCluster (rc_client r) cluster) (\<lambda>err. State_Monad.return (Inl err))
          (\<lambda>cluster. do {
            _ \<leftarrow> recordEvent r cluster ''Normal'' ''Reconciling'' ''Starting initial reconciliation'';
            State_Monad.return (Inr cluster)
          })
      } else State_Monad.return (Inr cluster))"

definition setFinalizers :: "string list \<Rightarrow> OJSCluster \<Rightarrow> OJSCluster" where
  "setFinalizers fs cluster = cluster\<lparr>cl_meta := (cl_meta cluster)\<lparr>om_finalizers := fs\<rparr>\<rparr>"

definition clusterEnsureFinalizer :: "'s reconciler \<Rightarrow> OJSCluster \<Rightarrow> ('s, goerror + OJSCluster) state" where
  "clusterEnsureFinalizer r cluster =
     (let fs = om_finalizers (cl_meta cluster) in
      if \<not> ContainsFinalizer (rc_client r) fs ojsFinalizer then
        UpdateOJSCluster (rc_client r) (setFinalizers (AddFinalizer (rc_client r) fs ojsFinalizer) cluster)
      else State_Monad.return (Inr cluster))"

definition clusterDeletion :: "'s reconciler \<Rightarrow> OJSCluster \<Rightarrow> ('s, reconcile_result) state" where
  "clusterDeletion r cluster =
     (let fs = om_finalizers (cl_meta cluster) in
      if ContainsFinalizer (rc_client r) fs ojsFinalizer then do {
        _ \<leftarrow> recordEvent r cluster ''Normal'' ''Deleting'' ''Cleaning up child resources'';
        if_err (UpdateOJSCluster (rc_client r)
            (setFinalizers (RemoveFinalizer (rc_client r) fs ojsFinalizer) cluster))
          (\<lambda>err. State_Monad.return (noResult, Some err))
          (\<lambda>_. State_Monad.return (noResult, None))
      } else State_Monad.return (noResult, None))"

definition Reconcile :: "'s reconciler \<Rightarrow> NamespacedName \<Rightarrow> ('s, reconcile_result) state" where
  "Reconcile r req =
     if_err (GetOJSCluster (rc_client r) req)
       (\<lambda>err. if IsNotFound err then State_Monad.return (noResult, None)
              else State_Monad.return (noResult, Some err))
       (\<lambda>cluster.
          if \<not> IsZero (om_deletionTimestamp (cl_meta cluster)) then clusterDeletion r cluster
          else
            if_err (clusterEnsureFinalizer r cluster) (\<lambda>err. State_Monad.return (noResult, Some err)) (\<lambda>cluster.
            if_err (clusterInitPhase r cluster) (\<lambda>err. State_Monad.return (noResult, Some err)) (\<lambda>cluster.
              clusterBackend r cluster)))"

end
