(* ===== verification/WorkerController.thy ===== *)
theory WorkerController
  imports Status
begin

text \<open>
  The OJSWorker reconciler (\<^verbatim>\<open>internal/controller/ojsworker_controller.go\<close>): the callbacks for the
  worker Deployment and its HorizontalPodAutoscaler, the status update and \<^verbatim>\<open>Reconcile\<close>, cut at
  its early returns into stages. A method that mutates its \<^verbatim>\<open>*OJSWorker\<close> returns the new value.
\<close>

definition workerFinalizer :: string where "workerFinalizer = ''ojs.openjobspec.dev/worker-finalizer''"

abbreviation wname :: "OJSWorker \<Rightarrow> string" where "wname w \<equiv> om_name (wk_meta w)"
abbreviation wns :: "OJSWorker \<Rightarrow> string" where "wns w \<equiv> om_namespace (wk_meta w)"

subsection \<open>joinStrings\<close>

text \<open>The loop over \<^verbatim>\<open>range ss\<close>, from index \<open>i\<close> with the result so far.\<close>

fun joinLoop :: "nat \<Rightarrow> string \<Rightarrow> string list \<Rightarrow> string" where
  "joinLoop i result [] = result"
| "joinLoop i result (s # ss) =
     (let result = (if i > 0 then result @ '','' else result) in joinLoop (Suc i) (result @ s) ss)"

definition joinStrings :: "string list \<Rightarrow> string" where
  "joinStrings ss = joinLoop 0 [] ss"

subsection \<open>The worker Deployment\<close>

definition workerReplicas :: "OJSWorker \<Rightarrow> int32" where
  "workerReplicas worker = (case ws_replicas (wk_spec worker) of None \<Rightarrow> 1 | Some n \<Rightarrow> n)"

definition plainEnv :: "string \<Rightarrow> string \<Rightarrow> EnvVar" where
  "plainEnv name v = \<lparr>ev_name = name, ev_value = v, ev_valueFrom = None\<rparr>"

definition workerServerURL :: "OJSCluster \<Rightarrow> string" where
  "workerServerURL cluster = ''http://'' @ cname cluster @ ''-server.'' @ cns cluster @
     ''.svc.cluster.local:'' @ fmt_d (sint defaultPort)"

definition workerEnvVars :: "OJSWorker \<Rightarrow> OJSCluster \<Rightarrow> EnvVar list" where
  "workerEnvVars worker cluster =
     [plainEnv ''OJS_URL'' (workerServerURL cluster),
      plainEnv ''OJS_QUEUES'' (joinStrings (ws_queues (wk_spec worker))),
      plainEnv ''OJS_JOB_TYPES'' (joinStrings (ws_jobTypes (wk_spec worker)))] @
     (if sint (ws_concurrency (wk_spec worker)) > 0 then
        [plainEnv ''OJS_CONCURRENCY'' (fmt_d (sint (ws_concurrency (wk_spec worker))))] else []) @
     ws_env (wk_spec worker)"

definition workerContainer :: "OJSWorker \<Rightarrow> OJSCluster \<Rightarrow> Container" where
  "workerContainer worker cluster =
     (let container = emptyContainer\<lparr>ct_name := ''ojs-worker'', ct_image := ws_image (wk_spec worker),
            ct_env := workerEnvVars worker cluster\<rparr>;
          container = (if length (ws_command (wk_spec worker)) > 0
            then container\<lparr>ct_command := ws_command (wk_spec worker)\<rparr> else container);
          res = ws_resources (wk_spec worker);
          container = (if rr_limits res \<noteq> None \<or> rr_requests res \<noteq> None
            then container\<lparr>ct_resources := res\<rparr> else container)
      in container)"

definition terminationGracePeriod :: "OJSWorker \<Rightarrow> int64" where
  "terminationGracePeriod worker =
     (case ws_gracefulShutdown (wk_spec worker) of
        None \<Rightarrow> 30
      | Some g \<Rightarrow> if sint (gs_timeoutSeconds g) > 0 then scast (gs_timeoutSeconds g) else 30)"

definition workerDeploymentCallback :: "set_ref \<Rightarrow> OJSWorker \<Rightarrow> OJSCluster \<Rightarrow> Deployment callback" where
  "workerDeploymentCallback setRef worker cluster dep =
     (case setRef KWorker (wk_meta worker) (dep_meta dep) of
        Inl err \<Rightarrow> Inl err
      | Inr m \<Rightarrow>
          let labels = labelsForWorker (wname worker) (cname cluster) in
          Inr (dep\<lparr>dep_meta := m\<lparr>om_labels := labels\<rparr>,
            dep_spec := (dep_spec dep)\<lparr>
              ds_replicas := Some (workerReplicas worker),
              ds_selector := Some labels,
              ds_template := \<lparr>pt_labels = labels,
                pt_spec = emptyPodSpec\<lparr>ps_containers := [workerContainer worker cluster],
                  ps_terminationGracePeriodSeconds := Some (terminationGracePeriod worker)\<rparr>\<rparr>\<rparr>\<rparr>))"

definition reconcileWorkerDeployment ::
  "'s reconciler \<Rightarrow> OJSWorker \<Rightarrow> OJSCluster \<Rightarrow> ('s, goerror + unit) state" where
  "reconcileWorkerDeployment r worker cluster =
     CreateOrUpdateDeployment (rc_client r) (newDeployment (wname worker) (wns worker))
       (workerDeploymentCallback (SetControllerReference (rc_client r)) worker cluster)"

subsection \<open>The HorizontalPodAutoscaler\<close>

definition workerScales :: "OJSWorker \<Rightarrow> bool" where
  "workerScales worker = (case ws_autoScaling (wk_spec worker) of None \<Rightarrow> False | Some a \<Rightarrow> was_enabled a)"

text \<open>Only called when autoscaling is configured (\<open>a\<close> is \<^verbatim>\<open>*worker.Spec.AutoScaling\<close>).\<close>

definition hpaCallback ::
  "set_ref \<Rightarrow> OJSWorker \<Rightarrow> WorkerAutoScalingSpec \<Rightarrow> HorizontalPodAutoscaler callback" where
  "hpaCallback setRef worker a hpa =
     (case setRef KWorker (wk_meta worker) (hpa_meta hpa) of
        Inl err \<Rightarrow> Inl err
      | Inr m \<Rightarrow> Inr (hpa\<lparr>
          hpa_meta := m\<lparr>om_labels := labelsForWorker (wname worker) (ws_clusterRef (wk_spec worker))\<rparr>,
          hpa_scaleTargetRef := \<lparr>xr_apiVersion = ''apps/v1'', xr_kind = ''Deployment'', xr_name = wname worker\<rparr>,
          hpa_minReplicas := Some (was_minReplicas a),
          hpa_maxReplicas := was_maxReplicas a,
          hpa_metrics := [\<lparr>ms_type = ''Resource'', ms_resource = ''cpu'', ms_targetType = ''Utilization'',
            ms_averageUtilization = Some 80\<rparr>]\<rparr>))"

definition reconcileWorkerHPA :: "'s reconciler \<Rightarrow> OJSWorker \<Rightarrow> ('s, goerror + unit) state" where
  "reconcileWorkerHPA r worker =
     (let hpa = newHPA (wname worker @ ''-hpa'') (wns worker);
          removeHPA = if_err (GetHPA (rc_client r) (key_of (hpa_meta hpa)))
            (\<lambda>_. State_Monad.return nil) (\<lambda>hpa. DeleteHPA (rc_client r) hpa)
      in case ws_autoScaling (wk_spec worker) of
        None \<Rightarrow> removeHPA
      | Some a \<Rightarrow>
          if \<not> was_enabled a then removeHPA
          else CreateOrUpdateHPA (rc_client r) hpa
            (hpaCallback (SetControllerReference (rc_client r)) worker a))"

subsection \<open>Status\<close>

definition recordWorkerEvent ::
  "'s reconciler \<Rightarrow> OJSWorker \<Rightarrow> string \<Rightarrow> string \<Rightarrow> string \<Rightarrow> ('s, unit) state" where
  "recordWorkerEvent r worker eventType reason message =
     record_event r KWorker (wk_meta worker) eventType reason message"

definition setWorkerCondition ::
  "'s reconciler \<Rightarrow> OJSWorker \<Rightarrow> condition_setting \<Rightarrow> ('s, OJSWorker) state" where
  "setWorkerCondition r worker setting = (case setting of (condType, status, reason, message) \<Rightarrow> do {
     now \<leftarrow> Now (rc_client r);
     State_Monad.return (worker\<lparr>wk_status := (wk_status worker)\<lparr>wst_conditions :=
       SetStatusCondition (rc_client r) now (wst_conditions (wk_status worker))
         \<lparr>c_type = condType, c_status = status, c_observedGeneration = om_generation (wk_meta worker),
           c_lastTransitionTime = 0, c_reason = reason, c_message = message\<rparr>\<rparr>\<rparr>)
   })"

fun setWorkerConditions ::
  "'s reconciler \<Rightarrow> OJSWorker \<Rightarrow> condition_setting list \<Rightarrow> ('s, OJSWorker) state" where
  "setWorkerConditions r worker [] = State_Monad.return worker"
| "setWorkerConditions r worker (c # cs) = do {
     worker \<leftarrow> setWorkerCondition r worker c;
     setWorkerConditions r worker cs
   }"

definition setWorkerPhase :: "string \<Rightarrow> OJSWorker \<Rightarrow> OJSWorker" where
  "setWorkerPhase phase worker = worker\<lparr>wk_status := (wk_status worker)\<lparr>wst_phase := phase\<rparr>\<rparr>"

definition setWorkerReplicas :: "DeploymentStatus \<Rightarrow> OJSWorker \<Rightarrow> OJSWorker" where
  "setWorkerReplicas st worker = worker\<lparr>wk_status := (wk_status worker)\<lparr>wst_replicas := dst_replicas st,
     wst_readyReplicas := dst_readyReplicas st\<rparr>\<rparr>"

text \<open>The result is the worker as the status write leaves it in memory, which \<^verbatim>\<open>Reconcile\<close> goes on with.\<close>

definition finishWorkerStatus :: "'s reconciler \<Rightarrow> string \<Rightarrow> OJSWorker \<Rightarrow> ('s, goerror + OJSWorker) state" where
  "finishWorkerStatus r previousPhase worker = do {
     _ \<leftarrow> (if previousPhase \<noteq> [] \<and> previousPhase \<noteq> wst_phase (wk_status worker) then
            recordWorkerEvent r worker ''Normal'' ''PhaseChanged''
              (''Worker transitioned from '' @ previousPhase @ '' to '' @ wst_phase (wk_status worker))
          else State_Monad.return ());
     StatusUpdateOJSWorker (rc_client r) worker
   }"

definition updateWorkerStatus :: "'s reconciler \<Rightarrow> OJSWorker \<Rightarrow> ('s, goerror + OJSWorker) state" where
  "updateWorkerStatus r worker =
     (let previousPhase = wst_phase (wk_status worker) in
      if_err (GetDeployment (rc_client r) \<lparr>nn_namespace = wns worker, nn_name = wname worker\<rparr>)
        (\<lambda>err. if IsNotFound err then do {
             worker \<leftarrow> setWorkerConditions r (setWorkerPhase ''Pending'' worker) workerMissingReport;
             finishWorkerStatus r previousPhase worker
           } else State_Monad.return (Inl err))
        (\<lambda>dep. do {
             let st = dep_status dep;
             let (phase, conds) = workerReport (dst_readyReplicas st) (dst_replicas st);
             worker \<leftarrow> setWorkerConditions r (setWorkerPhase phase (setWorkerReplicas st worker)) conds;
             finishWorkerStatus r previousPhase worker
           }))"

subsection \<open>Reconcile\<close>

definition second :: int64 where "second = 1000000000"

definition requeueInterval :: "'s kube \<Rightarrow> OJSWorker \<Rightarrow> Result" where
  "requeueInterval K worker =
     (case ws_autoScaling (wk_spec worker) of
        None \<Rightarrow> noResult
      | Some a \<Rightarrow>
          if \<not> was_enabled a then noResult
          else let interval = 30 * second;
                   interval = (if was_pollingInterval a \<noteq> [] then
                     (case ParseDuration (floatFraction K) (was_pollingInterval a) of
                        Some d \<Rightarrow> d | None \<Rightarrow> interval) else interval)
               in \<lparr>res_requeueAfter = interval\<rparr>)"

definition workerReconcileChildren ::
  "'s reconciler \<Rightarrow> OJSWorker \<Rightarrow> OJSCluster \<Rightarrow> ('s, reconcile_result) state" where
  "workerReconcileChildren r worker cluster =
     if_err (reconcileWorkerDeployment r worker cluster) (\<lambda>err. State_Monad.return (noResult, Some err)) (\<lambda>_.
     if_err (reconcileWorkerHPA r worker) (\<lambda>err. State_Monad.return (noResult, Some err)) (\<lambda>_.
     if_err (updateWorkerStatus r worker) (\<lambda>err. State_Monad.return (noResult, Some err)) (\<lambda>worker.
       State_Monad.return (requeueInterval (rc_client r) worker, None))))"

definition clusterNotFoundMsg :: "'s kube \<Rightarrow> OJSWorker \<Rightarrow> string" where
  "clusterNotFoundMsg K worker =
     ''OJSCluster '' @ fmt_q (isPrintTable K) (ws_clusterRef (wk_spec worker)) @ '' not found''"

definition workerClusterMissing :: "'s reconciler \<Rightarrow> OJSWorker \<Rightarrow> ('s, reconcile_result) state" where
  "workerClusterMissing r worker = do {
     worker \<leftarrow> setWorkerCondition r worker (condWorkerReady, ConditionFalse, ''ClusterNotFound'',
       clusterNotFoundMsg (rc_client r) worker);
     worker \<leftarrow> setWorkerCondition r worker (condWorkerDegraded, ConditionTrue, ''ClusterNotFound'',
       clusterNotFoundMsg (rc_client r) worker);
     let worker = setWorkerPhase ''Error'' worker;
     statusRes \<leftarrow> StatusUpdateOJSWorker (rc_client r) worker;
     let worker = (case statusRes of Inl _ \<Rightarrow> worker | Inr worker' \<Rightarrow> worker');
     _ \<leftarrow> recordWorkerEvent r worker ''Warning'' ''ClusterNotFound''
       (''Referenced '' @ clusterNotFoundMsg (rc_client r) worker);
     State_Monad.return (\<lparr>res_requeueAfter = 30 * second\<rparr>, None)
   }"

definition workerResolveCluster :: "'s reconciler \<Rightarrow> OJSWorker \<Rightarrow> ('s, reconcile_result) state" where
  "workerResolveCluster r worker =
     if_err (GetOJSCluster (rc_client r)
         \<lparr>nn_namespace = wns worker, nn_name = ws_clusterRef (wk_spec worker)\<rparr>)
       (\<lambda>err. if IsNotFound err then workerClusterMissing r worker
              else State_Monad.return (noResult, Some err))
       (\<lambda>cluster. workerReconcileChildren r worker cluster)"

definition setWorkerFinalizers :: "string list \<Rightarrow> OJSWorker \<Rightarrow> OJSWorker" where
  "setWorkerFinalizers fs worker = worker\<lparr>wk_meta := (wk_meta worker)\<lparr>om_finalizers := fs\<rparr>\<rparr>"

definition workerEnsureFinalizer :: "'s reconciler \<Rightarrow> OJSWorker \<Rightarrow> ('s, goerror + OJSWorker) state" where
  "workerEnsureFinalizer r worker =
     (let fs = om_finalizers (wk_meta worker) in
      if \<not> ContainsFinalizer (rc_client r) fs workerFinalizer then
        UpdateOJSWorker (rc_client r) (setWorkerFinalizers (AddFinalizer (rc_client r) fs workerFinalizer) worker)
      else State_Monad.return (Inr worker))"

definition workerDeletion :: "'s reconciler \<Rightarrow> OJSWorker \<Rightarrow> ('s, reconcile_result) state" where
  "workerDeletion r worker =
     (let fs = om_finalizers (wk_meta worker) in
      if ContainsFinalizer (rc_client r) fs workerFinalizer then do {
        _ \<leftarrow> recordWorkerEvent r worker ''Normal'' ''Deleting'' ''Cleaning up worker resources'';
        if_err (UpdateOJSWorker (rc_client r)
            (setWorkerFinalizers (RemoveFinalizer (rc_client r) fs workerFinalizer) worker))
          (\<lambda>err. State_Monad.return (noResult, Some err))
          (\<lambda>_. State_Monad.return (noResult, None))
      } else State_Monad.return (noResult, None))"

definition ReconcileWorker :: "'s reconciler \<Rightarrow> NamespacedName \<Rightarrow> ('s, reconcile_result) state" where
  "ReconcileWorker r req =
     if_err (GetOJSWorker (rc_client r) req)
       (\<lambda>err. if IsNotFound err then State_Monad.return (noResult, None)
              else State_Monad.return (noResult, Some err))
       (\<lambda>worker.
          if \<not> IsZero (om_deletionTimestamp (wk_meta worker)) then workerDeletion r worker
          else
            if_err (workerEnsureFinalizer r worker) (\<lambda>err. State_Monad.return (noResult, Some err))
              (\<lambda>worker. workerResolveCluster r worker))"

end
