(* ===== verification/Builders.thy ===== *)
theory Builders
  imports WorkerController KubeLaws
begin

text \<open>
  The contract that all callbacks of \<^verbatim>\<open>CreateOrUpdate\<close> share, as the locale \<open>child_builder\<close>: take the
  owner reference first, then the labels, then overwrite the managed fields with values that do not
  depend on the object found. Every callback of the two controllers interprets it.
\<close>

text \<open>Results are owned by \<open>owner\<close> and keep their name; an object under another controller is refused.\<close>

definition ownsResults :: "ObjectMeta \<Rightarrow> ('o \<Rightarrow> ObjectMeta) \<Rightarrow> labels \<Rightarrow> 'o callback \<Rightarrow> bool" where
  "ownsResults owner meta lbl cb \<longleftrightarrow>
     (\<forall>ob ob'. cb ob = Inr ob' \<longrightarrow>
        (\<exists>ref\<in>set (om_ownerReferences (meta ob')). or_controller ref \<and> or_uid ref = om_uid owner \<and> or_name ref = om_name owner) \<and>
        key_of (meta ob') = key_of (meta ob) \<and> om_labels (meta ob') = lbl) \<and>
     (\<forall>ob. (\<exists>ref\<in>set (om_ownerReferences (meta ob)). or_controller ref \<and> or_uid ref \<noteq> om_uid owner) \<longrightarrow> isl (cb ob))"

definition settledBy :: "'o callback \<Rightarrow> bool" where
  "settledBy cb \<longleftrightarrow> (\<forall>ob ob'. cb ob = Inr ob' \<longrightarrow> cb ob' = Inr ob')"

locale child_builder =
  fixes setRef :: set_ref and knd :: kind and owner :: ObjectMeta
    and meta :: "'o \<Rightarrow> ObjectMeta" and lbl :: labels
    and build :: "ObjectMeta \<Rightarrow> 'o \<Rightarrow> 'o" and cb :: "'o callback"
  assumes callback: "cb ob = (case setRef knd owner (meta ob) of
      Inl e \<Rightarrow> Inl e | Inr m \<Rightarrow> Inr (build (m\<lparr>om_labels := lbl\<rparr>) ob))"
    and build_meta: "meta (build m ob) = m"
    and build_again: "build m' (build m ob) = build m' ob"
begin

lemma callback_cases:
  assumes "cb ob = Inr ob'"
  obtains m where "setRef knd owner (meta ob) = Inr m" "ob' = build (m\<lparr>om_labels := lbl\<rparr>) ob"
    "meta ob' = m\<lparr>om_labels := lbl\<rparr>"
  using assms by (auto simp: callback build_meta split: sum.splits)

text \<open>Applying a callback to its own result changes nothing.\<close>

lemma idempotent:
  assumes laws: "owner_laws setRef" and "cb ob = Inr ob'"
  shows "cb ob' = Inr ob'"
proof -
  obtain m where m: "setRef knd owner (meta ob) = Inr m" and ob': "ob' = build (m\<lparr>om_labels := lbl\<rparr>) ob"
    and meta: "meta ob' = m\<lparr>om_labels := lbl\<rparr>"
    using assms(2) by (rule callback_cases)
  have "setRef knd owner (meta ob') = Inr (m\<lparr>om_labels := lbl\<rparr>)"
    unfolding meta by (rule owner_laws.ref_again [OF laws m])
  then show ?thesis by (simp add: callback ob' build_again)
qed

text \<open>What it stores is owned by \<open>owner\<close>, under the name it had.\<close>

lemma owned:
  assumes laws: "owner_laws setRef" and "cb ob = Inr ob'"
  shows "(\<exists>ref\<in>set (om_ownerReferences (meta ob')).
      or_controller ref \<and> or_uid ref = om_uid owner \<and> or_name ref = om_name owner) \<and>
    key_of (meta ob') = key_of (meta ob) \<and> om_labels (meta ob') = lbl"
proof -
  obtain m where m: "setRef knd owner (meta ob) = Inr m" and meta: "meta ob' = m\<lparr>om_labels := lbl\<rparr>"
    using assms(2) by (rule callback_cases)
  have "\<exists>rs. m = (meta ob)\<lparr>om_ownerReferences := rs\<rparr>" by (rule owner_laws.ref_only [OF laws m])
  then have "key_of m = key_of (meta ob)" by (auto simp: key_of_def)
  then show ?thesis using owner_laws.ref_set [OF laws m] by (simp add: meta key_of_def)
qed

text \<open>An object that another owner controls is refused.\<close>

lemma refuses:
  assumes laws: "owner_laws setRef"
    and "ref \<in> set (om_ownerReferences (meta ob))" "or_controller ref" "or_uid ref \<noteq> om_uid owner"
  shows "isl (cb ob)"
  using owner_laws.ref_exclusive [OF laws assms(2-4), of knd] by (auto simp: callback)

lemma owns_results: "owner_laws setRef \<Longrightarrow> ownsResults owner meta lbl cb"
  unfolding ownsResults_def using owned refuses by blast

lemma settled_by: "owner_laws setRef \<Longrightarrow> settledBy cb"
  unfolding settledBy_def using idempotent by blast

lemma fails_iff: "isl (cb ob) \<longleftrightarrow> isl (setRef knd owner (meta ob))"
  by (simp add: callback split: sum.split)

end

subsection \<open>The callbacks of the controllers\<close>

interpretation configMap: child_builder setRef KCluster "cl_meta c" cm_meta "labelsForCluster (cname c)"
    "\<lambda>m ob. ob\<lparr>cm_meta := m, cm_data := [''BACKEND_TYPE'' \<mapsto> be_type (cs_backend (cl_spec c)),
      ''BACKEND_URL'' \<mapsto> resolveBackendURL c]\<rparr>"
    "configMapCallback setRef c" for setRef c
  by unfold_locales (simp_all add: configMapCallback_def)

interpretation serverDeployment: child_builder setRef KCluster "cl_meta c" dep_meta "labelsForCluster (cname c)"
    "\<lambda>m ob. ob\<lparr>dep_meta := m, dep_spec := (dep_spec ob)\<lparr>ds_replicas := Some (clusterReplicas c),
      ds_selector := Some (labelsForCluster (cname c)),
      ds_template := \<lparr>pt_labels = labelsForCluster (cname c), pt_spec = serverPodSpec c\<rparr>\<rparr>\<rparr>"
    "serverDeploymentCallback setRef c" for setRef c
  by unfold_locales (simp_all add: serverDeploymentCallback_def Let_def split: sum.split)

interpretation serverService: child_builder setRef KCluster "cl_meta c" svc_meta "labelsForCluster (cname c)"
    "\<lambda>m ob. ob\<lparr>svc_meta := m, svc_selector := labelsForCluster (cname c), svc_ports :=
      [\<lparr>sp_name = ''http'', sp_port = defaultPort, sp_targetPort = FromString ''http'', sp_protocol = ''TCP''\<rparr>,
       \<lparr>sp_name = ''metrics'', sp_port = metricsPort, sp_targetPort = FromString ''metrics'', sp_protocol = ''TCP''\<rparr>]\<rparr>"
    "serviceCallback setRef c" for setRef c
  by unfold_locales (simp_all add: serviceCallback_def Let_def split: sum.split)

interpretation redisDeployment: child_builder setRef KCluster "cl_meta c" dep_meta "labelsForRedis (cname c)"
    "\<lambda>m ob. ob\<lparr>dep_meta := m, dep_spec := (dep_spec ob)\<lparr>ds_replicas := Some 1,
      ds_selector := Some (labelsForRedis (cname c)),
      ds_template := \<lparr>pt_labels = labelsForRedis (cname c), pt_spec = redisPodSpec\<rparr>\<rparr>\<rparr>"
    "redisDeploymentCallback setRef c" for setRef c
  by unfold_locales (simp_all add: redisDeploymentCallback_def Let_def split: sum.split)

interpretation redisService: child_builder setRef KCluster "cl_meta c" svc_meta "labelsForRedis (cname c)"
    "\<lambda>m ob. ob\<lparr>svc_meta := m, svc_selector := labelsForRedis (cname c), svc_ports :=
      [\<lparr>sp_name = ''redis'', sp_port = 6379, sp_targetPort = FromString ''redis'', sp_protocol = ''TCP''\<rparr>]\<rparr>"
    "redisServiceCallback setRef c" for setRef c
  by unfold_locales (simp_all add: redisServiceCallback_def Let_def split: sum.split)

definition pdbLimits :: "OJSCluster \<Rightarrow> IntOrString option \<times> IntOrString option" where
  "pdbLimits c = (let spec = cs_podDisruptionBudget (cl_spec c) in
     case Option.bind spec pdbs_minAvailable of
       Some n \<Rightarrow> (Some (FromInt n), None)
     | None \<Rightarrow> (None, Some (FromInt (case Option.bind spec pdbs_maxUnavailable of Some n \<Rightarrow> n | None \<Rightarrow> 1))))"

interpretation pdb: child_builder setRef KCluster "cl_meta c" pdb_meta "labelsForCluster (cname c)"
    "\<lambda>m ob. ob\<lparr>pdb_meta := m, pdb_selector := Some (labelsForCluster (cname c)),
      pdb_minAvailable := fst (pdbLimits c), pdb_maxUnavailable := snd (pdbLimits c)\<rparr>"
    "pdbCallback setRef c" for setRef c
  by unfold_locales (simp_all add: pdbCallback_def pdbLimits_def Let_def split: sum.split option.split)

interpretation serviceMonitor: child_builder setRef KCluster "cl_meta c" us_meta "labelsForCluster (cname c)"
    "\<lambda>m ob. ob\<lparr>us_meta := m, us_object := (us_object ob)(''spec'' \<mapsto> serviceMonitorSpec c)\<rparr>"
    "serviceMonitorCallback setRef c" for setRef c
  by unfold_locales (simp_all add: serviceMonitorCallback_def)

interpretation workerDeployment: child_builder setRef KWorker "wk_meta w" dep_meta
    "labelsForWorker (wname w) (cname c)"
    "\<lambda>m ob. ob\<lparr>dep_meta := m, dep_spec := (dep_spec ob)\<lparr>ds_replicas := Some (workerReplicas w),
      ds_selector := Some (labelsForWorker (wname w) (cname c)),
      ds_template := \<lparr>pt_labels = labelsForWorker (wname w) (cname c),
        pt_spec = emptyPodSpec\<lparr>ps_containers := [workerContainer w c],
          ps_terminationGracePeriodSeconds := Some (terminationGracePeriod w)\<rparr>\<rparr>\<rparr>\<rparr>"
    "workerDeploymentCallback setRef w c" for setRef w c
  by unfold_locales (simp_all add: workerDeploymentCallback_def Let_def split: sum.split)

interpretation hpa: child_builder setRef KWorker "wk_meta w" hpa_meta
    "labelsForWorker (wname w) (ws_clusterRef (wk_spec w))"
    "\<lambda>m ob. ob\<lparr>hpa_meta := m,
      hpa_scaleTargetRef := \<lparr>xr_apiVersion = ''apps/v1'', xr_kind = ''Deployment'', xr_name = wname w\<rparr>,
      hpa_minReplicas := Some (was_minReplicas a), hpa_maxReplicas := was_maxReplicas a,
      hpa_metrics := [\<lparr>ms_type = ''Resource'', ms_resource = ''cpu'', ms_targetType = ''Utilization'',
        ms_averageUtilization = Some 80\<rparr>]\<rparr>"
    "hpaCallback setRef w a" for setRef w a
  by unfold_locales (simp_all add: hpaCallback_def)

end
