(* ===== verification/Webhook.thy ===== *)
theory Webhook
  imports ApiTypes
begin

text \<open>
  The validating admission webhooks (\<^verbatim>\<open>internal/webhook\<close>). A rejection is a value of
  \<open>rejection\<close>, one constructor per \<^verbatim>\<open>fmt.Errorf\<close>, with the arguments of its message. The
  interface \<^verbatim>\<open>admission.CustomValidator\<close> both validators implement is the locale
  \<open>custom_validator\<close>.
\<close>

datatype rejection =
    ExpectedType string runtime_object        \<comment> \<open>expected OJSCluster, got %T\<close>
  | BackendTypeRequired
  | BackendTypeInvalid string
  | ReplicasTooSmall int32
  | MinReplicasTooSmall
  | MaxReplicasBelowMin
  | ClusterRefRequired
  | ImageRequired
  | JobTypesEmpty
  | JobTypeBlank nat
  | ConcurrencyNegative int32
  | QueueBlank nat

subsection \<open>OJSCluster\<close>

definition ValidBackendTypes :: "string \<Rightarrow> bool" where
  "ValidBackendTypes t = (t \<in> {''redis'', ''postgres'', ''nats'', ''kafka'', ''sqs'', ''lite''})"

definition validateOJSCluster :: "OJSCluster \<Rightarrow> rejection option" where
  "validateOJSCluster cluster =
     (let spec = cl_spec cluster; t = be_type (cs_backend spec) in
      if t = [] then Some BackendTypeRequired
      else if \<not> ValidBackendTypes t then Some (BackendTypeInvalid t)
      else if (case cs_replicas spec of None \<Rightarrow> False | Some n \<Rightarrow> sint n < 1) then
        Some (ReplicasTooSmall (the (cs_replicas spec)))
      else case cs_autoScaling spec of
        None \<Rightarrow> None
      | Some a \<Rightarrow>
          if as_enabled a then
            (if sint (as_minReplicas a) < 1 then Some MinReplicasTooSmall
             else if sint (as_maxReplicas a) < sint (as_minReplicas a) then Some MaxReplicasBelowMin
             else None)
          else None)"

fun ValidateCreateCluster :: "runtime_object \<Rightarrow> rejection option" where
  "ValidateCreateCluster (ObjCluster cluster) = validateOJSCluster cluster"
| "ValidateCreateCluster obj = Some (ExpectedType ''OJSCluster'' obj)"

fun ValidateUpdateCluster :: "runtime_object \<Rightarrow> runtime_object \<Rightarrow> rejection option" where
  "ValidateUpdateCluster _ (ObjCluster cluster) = validateOJSCluster cluster"
| "ValidateUpdateCluster _ newObj = Some (ExpectedType ''OJSCluster'' newObj)"

definition ValidateDeleteCluster :: "runtime_object \<Rightarrow> rejection option" where
  "ValidateDeleteCluster obj = None"

subsection \<open>OJSWorker\<close>

text \<open>The loop \<^verbatim>\<open>for i, s := range ss { if s == "" { return error } }\<close> from index \<open>i\<close>.\<close>

fun firstBlank :: "nat \<Rightarrow> string list \<Rightarrow> nat option" where
  "firstBlank i [] = None"
| "firstBlank i (s # ss) = (if s = [] then Some i else firstBlank (Suc i) ss)"

definition validateWorkerScaling :: "OJSWorkerSpec \<Rightarrow> rejection option" where
  "validateWorkerScaling spec =
     (case ws_autoScaling spec of
        None \<Rightarrow> None
      | Some a \<Rightarrow>
          if was_enabled a then
            (if sint (was_minReplicas a) < 1 then Some MinReplicasTooSmall
             else if sint (was_maxReplicas a) < sint (was_minReplicas a) then Some MaxReplicasBelowMin
             else None)
          else None)"

definition validateOJSWorker :: "OJSWorker \<Rightarrow> rejection option" where
  "validateOJSWorker worker =
     (let spec = wk_spec worker in
      if ws_clusterRef spec = [] then Some ClusterRefRequired
      else if ws_image spec = [] then Some ImageRequired
      else if length (ws_jobTypes spec) = 0 then Some JobTypesEmpty
      else case firstBlank 0 (ws_jobTypes spec) of
        Some i \<Rightarrow> Some (JobTypeBlank i)
      | None \<Rightarrow>
          if sint (ws_concurrency spec) < 0 then Some (ConcurrencyNegative (ws_concurrency spec))
          else case (if length (ws_queues spec) > 0 then firstBlank 0 (ws_queues spec) else None) of
            Some i \<Rightarrow> Some (QueueBlank i)
          | None \<Rightarrow> validateWorkerScaling spec)"

fun ValidateCreateWorker :: "runtime_object \<Rightarrow> rejection option" where
  "ValidateCreateWorker (ObjWorker worker) = validateOJSWorker worker"
| "ValidateCreateWorker obj = Some (ExpectedType ''OJSWorker'' obj)"

fun ValidateUpdateWorker :: "runtime_object \<Rightarrow> runtime_object \<Rightarrow> rejection option" where
  "ValidateUpdateWorker _ (ObjWorker worker) = validateOJSWorker worker"
| "ValidateUpdateWorker _ newObj = Some (ExpectedType ''OJSWorker'' newObj)"

definition ValidateDeleteWorker :: "runtime_object \<Rightarrow> rejection option" where
  "ValidateDeleteWorker obj = None"

subsection \<open>What an admitted object satisfies\<close>

definition scaling_range_ok :: "int32 \<Rightarrow> int32 \<Rightarrow> bool" where
  "scaling_range_ok lo hi \<longleftrightarrow> 1 \<le> sint lo \<and> sint lo \<le> sint hi"

definition valid_cluster :: "OJSCluster \<Rightarrow> bool" where
  "valid_cluster cluster \<longleftrightarrow>
     ValidBackendTypes (be_type (cs_backend (cl_spec cluster))) \<and>
     (\<forall>n. cs_replicas (cl_spec cluster) = Some n \<longrightarrow> 1 \<le> sint n) \<and>
     (\<forall>a. cs_autoScaling (cl_spec cluster) = Some a \<and> as_enabled a \<longrightarrow>
        scaling_range_ok (as_minReplicas a) (as_maxReplicas a))"

definition valid_worker :: "OJSWorker \<Rightarrow> bool" where
  "valid_worker worker \<longleftrightarrow>
     ws_clusterRef (wk_spec worker) \<noteq> [] \<and> ws_image (wk_spec worker) \<noteq> [] \<and>
     ws_jobTypes (wk_spec worker) \<noteq> [] \<and> [] \<notin> set (ws_jobTypes (wk_spec worker)) \<and>
     [] \<notin> set (ws_queues (wk_spec worker)) \<and>
     0 \<le> sint (ws_concurrency (wk_spec worker)) \<and>
     (\<forall>a. ws_autoScaling (wk_spec worker) = Some a \<and> was_enabled a \<longrightarrow>
        scaling_range_ok (was_minReplicas a) (was_maxReplicas a))"

lemma firstBlank_None: "firstBlank i ss = None \<longleftrightarrow> [] \<notin> set ss"
  by (induction ss arbitrary: i) auto

lemma firstBlank_shift: "firstBlank (Suc i) ss = map_option Suc (firstBlank i ss)"
  by (induction ss arbitrary: i) auto

text \<open>The index reported is that of the first blank entry.\<close>

lemma firstBlank_Some:
  "firstBlank 0 ss = Some n \<longleftrightarrow> (n < length ss \<and> ss ! n = [] \<and> (\<forall>j < n. ss ! j \<noteq> []))"
proof (induction ss arbitrary: n)
  case (Cons s ss)
  show ?case
  proof (cases n)
    case 0
    then show ?thesis by (auto simp: firstBlank_shift)
  next
    case (Suc m)
    with Cons show ?thesis by (auto simp: firstBlank_shift All_less_Suc2)
  qed
qed simp

lemma validateOJSCluster_accepts: "validateOJSCluster cluster = None \<longleftrightarrow> valid_cluster cluster"
  by (auto simp: validateOJSCluster_def valid_cluster_def scaling_range_ok_def Let_def not_less
      ValidBackendTypes_def split: option.split if_split_asm)

lemma validateWorkerScaling_accepts:
  "validateWorkerScaling spec = None \<longleftrightarrow>
    (\<forall>a. ws_autoScaling spec = Some a \<and> was_enabled a \<longrightarrow> scaling_range_ok (was_minReplicas a) (was_maxReplicas a))"
  by (auto simp: validateWorkerScaling_def scaling_range_ok_def split: option.split)

lemma validateOJSWorker_accepts: "validateOJSWorker worker = None \<longleftrightarrow> valid_worker worker"
proof (cases "firstBlank 0 (ws_jobTypes (wk_spec worker))")
  case None
  then have "[] \<notin> set (ws_jobTypes (wk_spec worker))" by (simp add: firstBlank_None)
  then show ?thesis
    using firstBlank_None [of 0 "ws_queues (wk_spec worker)"] None
    by (auto simp: validateOJSWorker_def valid_worker_def Let_def validateWorkerScaling_accepts
        split: option.split)
next
  case (Some i)
  then have "[] \<in> set (ws_jobTypes (wk_spec worker))" using firstBlank_None [of 0 "ws_jobTypes (wk_spec worker)"] by simp
  with Some show ?thesis by (auto simp: validateOJSWorker_def valid_worker_def Let_def)
qed

subsection \<open>The contract of a CustomValidator\<close>

text \<open>
  \<open>project\<close> is the type assertion of the validator. Creation and update decide by the new
  object alone, deletion is always allowed, and a foreign type is refused. Under this contract the
  history of one stored object, driven by admitted requests only, holds a valid object at all
  times, whatever is asked of it.
\<close>

datatype request = Create runtime_object | Update runtime_object | Delete

locale custom_validator =
  fixes create :: "runtime_object \<Rightarrow> rejection option"
    and update :: "runtime_object \<Rightarrow> runtime_object \<Rightarrow> rejection option"
    and delete :: "runtime_object \<Rightarrow> rejection option"
    and project :: "runtime_object \<Rightarrow> 'o option"
    and valid :: "'o \<Rightarrow> bool"
  assumes create_accepts: "create obj = None \<longleftrightarrow> (\<exists>x. project obj = Some x \<and> valid x)"
    and update_as_create: "update old obj = create obj"
    and delete_accepts: "delete obj = None"
begin

fun admit :: "runtime_object option \<Rightarrow> request \<Rightarrow> runtime_object option" where
  "admit None (Create obj) = (if create obj = None then Some obj else None)"
| "admit (Some old) (Update obj) = (if update old obj = None then Some obj else Some old)"
| "admit (Some old) Delete = (if delete old = None then None else Some old)"
| "admit st _ = st"

definition stored_ok :: "runtime_object option \<Rightarrow> bool" where
  "stored_ok st \<longleftrightarrow> (\<forall>obj. st = Some obj \<longrightarrow> (\<exists>x. project obj = Some x \<and> valid x))"

lemma admit_ok: "stored_ok st \<Longrightarrow> stored_ok (admit st req)"
  by (induction st req rule: admit.induct)
    (auto simp: stored_ok_def create_accepts update_as_create delete_accepts)

lemma admit_all_ok: "stored_ok st \<Longrightarrow> stored_ok (fold (\<lambda>req st. admit st req) reqs st)"
  by (induction reqs arbitrary: st) (auto intro: admit_ok)

lemma always_valid:
  "fold (\<lambda>req st. admit st req) reqs None = Some obj \<Longrightarrow> \<exists>x. project obj = Some x \<and> valid x"
  using admit_all_ok [of None reqs] by (auto simp: stored_ok_def)

end

fun asCluster :: "runtime_object \<Rightarrow> OJSCluster option" where
  "asCluster (ObjCluster c) = Some c"
| "asCluster _ = None"

fun asWorker :: "runtime_object \<Rightarrow> OJSWorker option" where
  "asWorker (ObjWorker w) = Some w"
| "asWorker _ = None"

interpretation cluster_validator: custom_validator
  ValidateCreateCluster ValidateUpdateCluster ValidateDeleteCluster asCluster valid_cluster
proof (unfold_locales, goal_cases)
  case (1 obj)
  show ?case by (cases obj) (simp_all add: validateOJSCluster_accepts)
next
  case (2 old obj)
  show ?case by (cases obj) simp_all
next
  case (3 obj)
  show ?case by (simp add: ValidateDeleteCluster_def)
qed

interpretation worker_validator: custom_validator
  ValidateCreateWorker ValidateUpdateWorker ValidateDeleteWorker asWorker valid_worker
proof (unfold_locales, goal_cases)
  case (1 obj)
  show ?case by (cases obj) (simp_all add: validateOJSWorker_accepts)
next
  case (2 old obj)
  show ?case by (cases obj) simp_all
next
  case (3 obj)
  show ?case by (simp add: ValidateDeleteWorker_def)
qed

end
