(* ===== verification/Metrics.thy ===== *)
theory Metrics
  imports KubeTypes
begin

text \<open>
  The queue metrics collector and the replica calculation (\<^verbatim>\<open>internal/metrics/queue_metrics.go\<close>).
  The collector's map holds pointers, so its entries live in an explicit store; the HTTP client,
  the clock and the JSON decoding of the response are parameters (\<open>'s http\<close>).
\<close>

subsection \<open>DesiredReplicas\<close>

definition DesiredReplicas :: "int64 \<Rightarrow> int64 \<Rightarrow> int32 \<Rightarrow> int32 \<Rightarrow> int32" where
  "DesiredReplicas queueDepth targetPerWorker lo hi =
     (let targetPerWorker = (if sint targetPerWorker \<le> 0 then 10 else targetPerWorker);
          desired = int32_of_int64 (quot64 queueDepth targetPerWorker);
          desired = (if sint (rem64 queueDepth targetPerWorker) > 0 then desired + 1 else desired);
          desired = (if sint desired < sint lo then lo else desired);
          desired = (if sint desired > sint hi then hi else desired)
      in desired)"

text \<open>What it means to compute: the number of workers that \<open>q\<close> jobs need at \<open>t\<close> each, clamped.\<close>

definition ceil_div :: "int \<Rightarrow> int \<Rightarrow> int" where
  "ceil_div q t = q div t + (if q mod t > 0 then 1 else 0)"

definition clamp :: "int \<Rightarrow> int \<Rightarrow> int \<Rightarrow> int" where
  "clamp lo hi x = min hi (max lo x)"

definition effectiveTarget :: "int64 \<Rightarrow> int" where
  "effectiveTarget t = (if sint t \<le> 0 then 10 else sint t)"

lemma effectiveTarget_pos: "0 < effectiveTarget t"
  by (simp add: effectiveTarget_def)

lemma ceil_div_times:
  "0 < q mod t \<Longrightarrow> ceil_div q t * t = t * (q div t) + t"
  "\<not> 0 < q mod t \<Longrightarrow> ceil_div q t * t = t * (q div t)"
  by (simp_all add: ceil_div_def algebra_simps)

text \<open>\<open>ceil_div q t\<close> is the least \<open>n\<close> with \<open>q \<le> n * t\<close>.\<close>

lemma ceil_div_bounds:
  assumes "0 < t" shows "q \<le> ceil_div q t * t" "ceil_div q t * t < q + t"
proof -
  have q: "t * (q div t) + q mod t = q" by (rule mult_div_mod_eq)
  have m: "0 \<le> q mod t" "q mod t < t" using assms by simp_all
  show "q \<le> ceil_div q t * t"
    by (cases "0 < q mod t") (use q m ceil_div_times [of q t] in linarith)+
  show "ceil_div q t * t < q + t"
    by (cases "0 < q mod t") (use q m ceil_div_times [of q t] assms in linarith)+
qed

lemma ceil_div_least:
  assumes "0 < t" "n * t < q" shows "n < ceil_div q t"
proof -
  have "n * t < ceil_div q t * t" using ceil_div_bounds(1) [OF assms(1), of q] assms(2) by linarith
  then show ?thesis using assms(1) by simp
qed

lemma ceil_div_mono:
  assumes "0 < t" "q \<le> q'" shows "ceil_div q t \<le> ceil_div q' t"
proof (rule ccontr)
  assume "\<not> ceil_div q t \<le> ceil_div q' t"
  then have "ceil_div q' t * t \<le> (ceil_div q t - 1) * t" using assms(1) by simp
  also have "\<dots> = ceil_div q t * t - t" by (simp add: algebra_simps)
  finally show False
    using ceil_div_bounds(1) [OF assms(1), of q'] ceil_div_bounds(2) [OF assms(1), of q] assms(2)
    by linarith
qed

lemma clamp_mono: "x \<le> y \<Longrightarrow> clamp lo hi x \<le> clamp lo hi y"
  by (auto simp: clamp_def)

lemma quot64_nonneg:
  assumes "0 \<le> sint q" "0 < sint t"
  shows "sint (quot64 q t) = sint q div sint t"
proof -
  have "0 \<le> sint q div sint t" using assms by (simp add: pos_imp_zdiv_nonneg_iff)
  moreover have "sint q div sint t \<le> sint q"
    using assms zdiv_mono2 [of "sint q" 1 "sint t"] by simp
  moreover have "sint q sdiv sint t = sint q div sint t"
    using assms by (simp add: signed_divide_int_def sgn_if)
  ultimately show ?thesis
    using sint64_range [of q] by (simp add: quot64_def sint_word_of_int_id)
qed

lemma rem64_nonneg:
  assumes "0 \<le> sint q" "0 < sint t"
  shows "sint (rem64 q t) = sint q mod sint t"
proof -
  have "0 \<le> sint q mod sint t" "sint q mod sint t < sint t" using assms by simp_all
  moreover have "sint q smod sint t = sint q mod sint t"
    using assms by (simp add: signed_modulo_int_def sgn_if)
  ultimately show ?thesis
    using sint64_range [of t] by (simp add: rem64_def sint_word_of_int_id)
qed

lemma DesiredReplicas_target: "DesiredReplicas q t lo hi =
    DesiredReplicas q (word_of_int (effectiveTarget t)) lo hi"
  by (simp add: DesiredReplicas_def effectiveTarget_def)

lemma sint_effectiveTarget: "sint (word_of_int (effectiveTarget t) :: int64) = effectiveTarget t"
  using sint64_range [of t] by (simp add: effectiveTarget_def)

lemma ceil_div_nonneg: "0 \<le> q \<Longrightarrow> 0 < t \<Longrightarrow> 0 \<le> ceil_div q t"
  by (simp add: ceil_div_def pos_imp_zdiv_nonneg_iff)

text \<open>A number in the 32 bits that \<^verbatim>\<open>int32\<close> keeps of it.\<close>

definition wrap32 :: "int \<Rightarrow> int" where
  "wrap32 x = (x + 2 ^ 31) mod 2 ^ 32 - 2 ^ 31"

lemma sint_of_int32: "sint (word_of_int x :: int32) = wrap32 x"
  by (simp add: wrap32_def sint_sbintrunc' signed_take_bit_eq_take_bit_shift take_bit_eq_mod)

lemma wrap32_self: "0 \<le> x \<Longrightarrow> x < 2 ^ 31 \<Longrightarrow> wrap32 x = x"
  by (simp add: wrap32_def)

lemma DesiredReplicas_nonneg:
  assumes "0 \<le> sint q"
  shows "sint (DesiredReplicas q t lo hi) =
    clamp (sint lo) (sint hi) (wrap32 (ceil_div (sint q) (effectiveTarget t)))"
proof -
  define w :: int64 where "w = word_of_int (effectiveTarget t)"
  have w: "sint w = effectiveTarget t" "0 < sint w"
    using effectiveTarget_pos by (simp_all add: w_def sint_effectiveTarget)
  define d where "d = int32_of_int64 (quot64 q w)"
  have d: "d = word_of_int (sint q div sint w)"
    unfolding d_def int32_of_int64_wraps quot64_nonneg [OF assms w(2)] ..
  have r: "sint (rem64 q w) = sint q mod sint w" using assms w(2) by (rule rem64_nonneg)
  have "(if sint (rem64 q w) > 0 then d + 1 else d) = word_of_int (ceil_div (sint q) (sint w))"
    by (simp add: ceil_div_def d r)
  then have c: "sint (if sint (rem64 q w) > 0 then d + 1 else d) = wrap32 (ceil_div (sint q) (sint w))"
    by (simp add: sint_of_int32)
  have "DesiredReplicas q t lo hi = DesiredReplicas q w lo hi"
    unfolding w_def by (rule DesiredReplicas_target)
  then show ?thesis
    using w(2) c by (auto simp: DesiredReplicas_def Let_def d_def [symmetric] clamp_def w(1) [symmetric])
qed

text \<open>Whatever the queue depth and the target, and even where the 32-bit arithmetic wraps around, the
  result stays within a non-empty range.\<close>

lemma DesiredReplicas_bounds:
  assumes "sint lo \<le> sint hi"
  shows "sint lo \<le> sint (DesiredReplicas q t lo hi) \<and> sint (DesiredReplicas q t lo hi) \<le> sint hi"
  using assms by (simp add: DesiredReplicas_def Let_def)

lemma DesiredReplicas_wraps:
  "DesiredReplicas 21474836480 10 1 100 = 1 \<and> DesiredReplicas 21474836470 10 1 100 = 100"
  by (simp add: DesiredReplicas_def quot64_def rem64_def int32_of_int64_def Let_def)

text \<open>C32. For a queue depth that is not negative the result is the least number of workers whose targets cover the
  queue, as far as \<^verbatim>\<open>int32\<close> keeps it, clamped to the given range; a target that is not positive counts as 10. Below 2^31
  workers nothing is lost. Beyond, the number wraps: a queue of 21474836480 jobs at 10 jobs per worker asks for the minimum,
  although the same queue with ten jobs fewer is served by the maximum.\<close>

theorem DesiredReplicas_exact:
  "(0 \<le> sint q \<longrightarrow> sint (DesiredReplicas q t lo hi) =
      clamp (sint lo) (sint hi) (wrap32 (ceil_div (sint q) (effectiveTarget t)))) \<and>
   (0 \<le> sint q \<and> ceil_div (sint q) (effectiveTarget t) < 2 ^ 31 \<longrightarrow>
      sint (DesiredReplicas q t lo hi) = clamp (sint lo) (sint hi) (ceil_div (sint q) (effectiveTarget t))) \<and>
   DesiredReplicas 21474836480 10 1 100 = 1 \<and> DesiredReplicas 21474836470 10 1 100 = 100"
  using DesiredReplicas_wraps DesiredReplicas_nonneg [of q t lo hi]
    wrap32_self [OF ceil_div_nonneg [OF _ effectiveTarget_pos], of "sint q" t] by auto

theorem DesiredReplicas_exact_witness:
  "sint (DesiredReplicas 25 10 1 10) = clamp 1 10 (ceil_div 25 10) \<and>
   sint (DesiredReplicas 42949672971 10 1 100) = clamp 1 100 (wrap32 (ceil_div 42949672971 10))"
  using DesiredReplicas_exact [of 25 10 1 10] DesiredReplicas_exact [of 42949672971 10 1 100]
  by (simp add: effectiveTarget_def ceil_div_def)

end
