(* ===== verification/Collector.thy ===== *)
theory Collector
  imports Metrics
begin

text \<open>
  The collector of \<^verbatim>\<open>internal/metrics/queue_metrics.go\<close>. Its map holds pointers to
  \<^verbatim>\<open>QueueMetrics\<close>: an entry is an address, the structs live in a store, and \<^verbatim>\<open>&QueueMetrics{..}\<close>
  allocates. The HTTP client, the clock and the JSON decoding of the response body are the
  parameter \<open>'s http\<close>. Each section under the mutex is one step; \<open>collector_step\<close> lets
  any number of polls overlap.
\<close>

record QueueMetrics =
  qm_queue :: string
  qm_pending :: int64
  qm_active :: int64
  qm_total :: int64
  qm_timestamp :: gotime

record store =
  st_next :: nat
  st_cell :: "nat \<rightharpoonup> QueueMetrics"

record Collector =
  col_ojsURL :: string
  col_apiKey :: string
  col_interval :: int64
  col_metrics :: "string \<rightharpoonup> nat"

definition NewCollector :: "string \<Rightarrow> string \<Rightarrow> int64 \<Rightarrow> Collector" where
  "NewCollector ojsURL apiKey interval =
     (let interval = (if sint interval \<le> 0 then 30 * 1000000000 else interval) in
      \<lparr>col_ojsURL = ojsURL, col_apiKey = apiKey, col_interval = interval, col_metrics = Map.empty\<rparr>)"

definition alloc :: "store \<Rightarrow> QueueMetrics \<Rightarrow> nat \<times> store" where
  "alloc st m = (st_next st, st\<lparr>st_next := Suc (st_next st), st_cell := (st_cell st)(st_next st \<mapsto> m)\<rparr>)"

subsection \<open>Reading\<close>

text \<open>\<open>None\<close> is the nil dereference that \<open>collector_ok\<close> excludes below.\<close>

definition GetQueueDepth :: "Collector \<Rightarrow> store \<Rightarrow> string \<Rightarrow> (int64 \<times> bool) option" where
  "GetQueueDepth c st queue =
     (case col_metrics c queue of
        None \<Rightarrow> Some (0, False)
      | Some a \<Rightarrow> (case st_cell st a of None \<Rightarrow> None | Some m \<Rightarrow> Some (qm_pending m, True)))"

text \<open>The result map is new, its pointers are those of the collector.\<close>

definition GetAllMetrics :: "Collector \<Rightarrow> (string \<rightharpoonup> nat)" where
  "GetAllMetrics c = Map.empty ++ col_metrics c"

subsection \<open>Polling\<close>

record queueStat =
  qs_name :: string
  qs_pending :: int64
  qs_active :: int64

record httpRequest =
  rq_method :: string
  rq_url :: string
  rq_header :: "string \<rightharpoonup> string"

record httpResponse =
  rs_statusCode :: int
  rs_body :: string

record 's http =
  NewRequest :: "string \<Rightarrow> string \<Rightarrow> goerror + httpRequest"
  DoRequest :: "httpRequest \<Rightarrow> ('s, goerror + httpResponse) state"
  DecodeQueues :: "string \<Rightarrow> goerror + queueStat list"
  TimeNow :: "('s, gotime) state"

definition pollRequest :: "'s http \<Rightarrow> Collector \<Rightarrow> goerror + httpRequest" where
  "pollRequest H c =
     (case NewRequest H ''GET'' (col_ojsURL c @ ''/ojs/v1/queues'') of
        Inl err \<Rightarrow> Inl (Errorf (''creating request: '' @ err_text err))
      | Inr req \<Rightarrow> Inr (if col_apiKey c \<noteq> [] then
          req\<lparr>rq_header := (rq_header req)(''Authorization'' \<mapsto> ''Bearer '' @ col_apiKey c)\<rparr> else req))"

definition pollResponse :: "'s http \<Rightarrow> httpResponse \<Rightarrow> goerror + queueStat list" where
  "pollResponse H resp =
     (if rs_statusCode resp \<noteq> 200 then
        Inl (Errorf (''unexpected status '' @ fmt_d (rs_statusCode resp) @ '': '' @ rs_body resp))
      else case DecodeQueues H (rs_body resp) of
        Inl err \<Rightarrow> Inl (Errorf (''decoding response: '' @ err_text err))
      | Inr qs \<Rightarrow> Inr qs)"

definition entryOf :: "gotime \<Rightarrow> queueStat \<Rightarrow> QueueMetrics" where
  "entryOf now q = \<lparr>qm_queue = qs_name q, qm_pending = qs_pending q, qm_active = qs_active q,
     qm_total = qs_pending q + qs_active q, qm_timestamp = now\<rparr>"

definition pollEntry :: "gotime \<Rightarrow> queueStat \<Rightarrow> Collector \<times> store \<Rightarrow> Collector \<times> store" where
  "pollEntry now q cs =
     (let (a, st) = alloc (snd cs) (entryOf now q)
      in ((fst cs)\<lparr>col_metrics := (col_metrics (fst cs))(qs_name q \<mapsto> a)\<rparr>, st))"

fun pollCommit :: "gotime \<Rightarrow> queueStat list \<Rightarrow> Collector \<times> store \<Rightarrow> Collector \<times> store" where
  "pollCommit now [] cs = cs"
| "pollCommit now (q # qs) cs = pollCommit now qs (pollEntry now q cs)"

definition Poll :: "'s http \<Rightarrow> Collector \<times> store \<Rightarrow> ('s, (goerror + unit) \<times> Collector \<times> store) state" where
  "Poll H cs =
     (case pollRequest H (fst cs) of
        Inl err \<Rightarrow> State_Monad.return (Inl err, cs)
      | Inr req \<Rightarrow> do {
          resp \<leftarrow> DoRequest H req;
          (case resp of
             Inl err \<Rightarrow> State_Monad.return (Inl (Errorf (''polling queues: '' @ err_text err)), cs)
           | Inr resp \<Rightarrow> (case pollResponse H resp of
               Inl err \<Rightarrow> State_Monad.return (Inl err, cs)
             | Inr qs \<Rightarrow> do {
                 now \<leftarrow> TimeNow H;
                 State_Monad.return (nil, pollCommit now qs cs)
               }))
        })"

subsection \<open>The pointer-free view\<close>

text \<open>What a reader can see: the metrics of each queue, without addresses.\<close>

definition view :: "Collector \<times> store \<Rightarrow> (string \<rightharpoonup> QueueMetrics)" where
  "view cs = (\<lambda>q. Option.bind (col_metrics (fst cs) q) (st_cell (snd cs)))"

fun record_stats :: "gotime \<Rightarrow> queueStat list \<Rightarrow> (string \<rightharpoonup> QueueMetrics) \<Rightarrow> (string \<rightharpoonup> QueueMetrics)" where
  "record_stats now [] m = m"
| "record_stats now (q # qs) m = record_stats now qs (m(qs_name q \<mapsto> entryOf now q))"

text \<open>Pointers are allocated, and every entry describes its own key.\<close>

definition collector_ok :: "Collector \<times> store \<Rightarrow> bool" where
  "collector_ok cs \<longleftrightarrow>
     (\<forall>a. st_cell (snd cs) a \<noteq> None \<longrightarrow> a < st_next (snd cs)) \<and>
     (\<forall>q a. col_metrics (fst cs) q = Some a \<longrightarrow> (\<exists>m. st_cell (snd cs) a = Some m \<and>
        qm_queue m = q \<and> qm_total m = qm_pending m + qm_active m))"

lemma collector_ok_new: "collector_ok (NewCollector u k i, \<lparr>st_next = n, st_cell = Map.empty\<rparr>)"
  by (simp add: collector_ok_def NewCollector_def Let_def)

lemma collector_ok_cell: "collector_ok cs \<Longrightarrow> st_cell (snd cs) a = Some m \<Longrightarrow> a < st_next (snd cs)"
  by (auto simp: collector_ok_def)

lemma collector_ok_entry:
  assumes "collector_ok cs" "col_metrics (fst cs) q = Some a"
  obtains m where "st_cell (snd cs) a = Some m" "qm_queue m = q" "qm_total m = qm_pending m + qm_active m"
    "a < st_next (snd cs)"
  using assms unfolding collector_ok_def by blast

lemma pollEntry_simps [simp]:
  "col_metrics (fst (pollEntry now q cs)) = (col_metrics (fst cs))(qs_name q \<mapsto> st_next (snd cs))"
  "st_cell (snd (pollEntry now q cs)) = (st_cell (snd cs))(st_next (snd cs) \<mapsto> entryOf now q)"
  "st_next (snd (pollEntry now q cs)) = Suc (st_next (snd cs))"
  by (simp_all add: pollEntry_def alloc_def)

lemma fresh_cell: "collector_ok cs \<Longrightarrow> st_cell (snd cs) (st_next (snd cs)) = None"
  using collector_ok_cell by fastforce

lemma pollEntry_ok:
  assumes ok: "collector_ok cs"
  shows "collector_ok (pollEntry now q cs)"
  unfolding collector_ok_def
proof (intro conjI allI impI)
  fix a
  assume "st_cell (snd (pollEntry now q cs)) a \<noteq> None"
  then show "a < st_next (snd (pollEntry now q cs))"
    using collector_ok_cell [OF ok, of a] by (fastforce split: if_splits)
next
  fix k a
  assume k: "col_metrics (fst (pollEntry now q cs)) k = Some a"
  show "\<exists>m. st_cell (snd (pollEntry now q cs)) a = Some m \<and> qm_queue m = k \<and>
    qm_total m = qm_pending m + qm_active m"
  proof (cases "k = qs_name q")
    case True
    with k show ?thesis by (simp add: entryOf_def)
  next
    case False
    with k have "col_metrics (fst cs) k = Some a" by simp
    then show ?thesis by (rule collector_ok_entry [OF ok]) auto
  qed
qed

lemma pollCommit_ok: "collector_ok cs \<Longrightarrow> collector_ok (pollCommit now qs cs)"
  by (induction qs arbitrary: cs) (simp_all add: pollEntry_ok)

lemma view_pollEntry:
  assumes ok: "collector_ok cs"
  shows "view (pollEntry now q cs) = (view cs)(qs_name q \<mapsto> entryOf now q)"
proof
  fix k
  show "view (pollEntry now q cs) k = ((view cs)(qs_name q \<mapsto> entryOf now q)) k"
  proof (cases "col_metrics (fst cs) k")
    case (Some a)
    then have "a < st_next (snd cs)" by (rule collector_ok_entry [OF ok])
    with Some show ?thesis by (simp add: view_def)
  qed (simp add: view_def)
qed

text \<open>The pointer program refines the map update.\<close>

lemma view_pollCommit:
  "collector_ok cs \<Longrightarrow> view (pollCommit now qs cs) = record_stats now qs (view cs)"
  by (induction qs arbitrary: cs) (simp_all add: pollEntry_ok view_pollEntry)

text \<open>Addresses in use keep their contents: a poll only writes to fresh ones.\<close>

lemma pollEntry_frame:
  "collector_ok cs \<Longrightarrow> st_cell (snd cs) a = Some m \<Longrightarrow> st_cell (snd (pollEntry now q cs)) a = Some m"
  using collector_ok_cell by fastforce

lemma pollCommit_frame:
  "collector_ok cs \<Longrightarrow> st_cell (snd cs) a = Some m \<Longrightarrow> st_cell (snd (pollCommit now qs cs)) a = Some m"
proof (induction qs arbitrary: cs)
  case (Cons q qs)
  show ?case
    using Cons.IH [OF pollEntry_ok [OF Cons.prems(1)] pollEntry_frame [OF Cons.prems]] by simp
qed simp

lemma record_stats_other: "k \<notin> qs_name ` set qs \<Longrightarrow> record_stats now qs m k = m k"
  by (induction qs arbitrary: m) auto

lemma record_stats_last:
  "record_stats now (qs @ [q]) m = (record_stats now qs m)(qs_name q \<mapsto> entryOf now q)"
  by (induction qs arbitrary: m) auto

lemma record_stats_names: "distinct (map qs_name qs) \<Longrightarrow> q \<in> set qs \<Longrightarrow>
    record_stats now qs m (qs_name q) = Some (entryOf now q)"
  by (induction qs arbitrary: m) (auto simp: record_stats_other)

lemma GetQueueDepth_view:
  assumes ok: "collector_ok (c, st)"
  shows "GetQueueDepth c st q =
    Some (case view (c, st) q of None \<Rightarrow> (0, False) | Some m \<Rightarrow> (qm_pending m, True))"
proof (cases "col_metrics c q")
  case (Some a)
  then have "col_metrics (fst (c, st)) q = Some a" by simp
  then obtain m where "st_cell st a = Some m" by (rule collector_ok_entry [OF ok]) auto
  with Some show ?thesis by (simp add: GetQueueDepth_def view_def)
qed (simp add: GetQueueDepth_def view_def)

subsection \<open>Overlapping polls\<close>

text \<open>
  The lock covers the commit only, so the responses of several polls can be waiting for it at
  once: the state is the collector with its store, and the decoded responses in flight.
\<close>

type_synonym poll_state = "(Collector \<times> store) \<times> queueStat list list"

inductive collector_step :: "poll_state \<Rightarrow> poll_state \<Rightarrow> bool" where
  fetched: "collector_step (cs, waiting) (cs, waiting @ [qs])"
| committed: "collector_step (cs, ws @ qs # ws') (pollCommit now qs cs, ws @ ws')"

inductive collector_reachable :: "Collector \<Rightarrow> poll_state \<Rightarrow> bool" for c0 where
  start: "collector_reachable c0 ((c0, \<lparr>st_next = 0, st_cell = Map.empty\<rparr>), [])"
| step: "collector_reachable c0 x \<Longrightarrow> collector_step x y \<Longrightarrow> collector_reachable c0 y"

inductive_cases collector_stepE: "collector_step x y"

inductive_simps collector_step_iff: "collector_step (cs, ws) y"

lemma collector_step_ok: "collector_step x y \<Longrightarrow> collector_ok (fst x) \<Longrightarrow> collector_ok (fst y)"
  by (auto elim!: collector_stepE simp: pollCommit_ok)

lemma collector_reachable_ok:
  "collector_reachable (NewCollector u k i) x \<Longrightarrow> collector_ok (fst x)"
  by (induction rule: collector_reachable.induct) (auto simp: collector_ok_new dest: collector_step_ok)

lemma collector_step_frame:
  "collector_step x y \<Longrightarrow> collector_ok (fst x) \<Longrightarrow> st_cell (snd (fst x)) a = Some m \<Longrightarrow>
   st_cell (snd (fst y)) a = Some m"
  by (auto elim!: collector_stepE simp: pollCommit_frame)

lemma collector_steps_frame:
  "collector_step\<^sup>*\<^sup>* x y \<Longrightarrow> collector_ok (fst x) \<Longrightarrow> st_cell (snd (fst x)) a = Some m \<Longrightarrow>
   collector_ok (fst y) \<and> st_cell (snd (fst y)) a = Some m"
  by (induction rule: rtranclp_induct) (auto dest: collector_step_ok collector_step_frame)

subsection \<open>Properties\<close>

text \<open>C21. In every state that overlapping polls of a new collector can reach, reading a queue's depth
  never dereferences a nil pointer, and each cached entry belongs to the queue it is stored under
  and has the sum (modulo 2^64) of its two counters as its total.\<close>

theorem collector_invariant:
  assumes "collector_reachable (NewCollector u k i) x"
  shows "GetQueueDepth (fst (fst x)) (snd (fst x)) q \<noteq> None \<and>
    (\<forall>m. view (fst x) q = Some m \<longrightarrow> qm_queue m = q \<and> qm_total m = qm_pending m + qm_active m)"
proof -
  have ok: "collector_ok (fst x)" using assms by (rule collector_reachable_ok)
  then have "GetQueueDepth (fst (fst x)) (snd (fst x)) q \<noteq> None"
    using GetQueueDepth_view [of "fst (fst x)" "snd (fst x)"] by simp
  moreover have "qm_queue m = q \<and> qm_total m = qm_pending m + qm_active m" if "view (fst x) q = Some m" for m
  proof -
    from that obtain a where a: "col_metrics (fst (fst x)) q = Some a" "st_cell (snd (fst x)) a = Some m"
      by (auto simp: view_def bind_eq_Some_conv)
    from a(1) show ?thesis by (rule collector_ok_entry [OF ok]) (use a(2) in auto)
  qed
  ultimately show ?thesis by blast
qed

theorem collector_invariant_witness:
  "GetQueueDepth (fst (pollCommit 7 [\<lparr>qs_name = ''a'', qs_pending = 5, qs_active = 2\<rparr>]
      (NewCollector [] [] 0, \<lparr>st_next = 0, st_cell = Map.empty\<rparr>)))
    (snd (pollCommit 7 [\<lparr>qs_name = ''a'', qs_pending = 5, qs_active = 2\<rparr>]
      (NewCollector [] [] 0, \<lparr>st_next = 0, st_cell = Map.empty\<rparr>))) ''a'' \<noteq> None"
proof -
  let ?q = "\<lparr>qs_name = ''a'', qs_pending = 5, qs_active = 2\<rparr>"
  let ?cs = "(NewCollector [] [] 0, \<lparr>st_next = 0, st_cell = Map.empty\<rparr>)"
  have "collector_reachable (NewCollector [] [] 0) (?cs, [[?q]])"
    using collector_reachable.step [OF collector_reachable.start fetched [of _ "[]" "[?q]"]] by simp
  then have "collector_reachable (NewCollector [] [] 0) (pollCommit 7 [?q] ?cs, [])"
    using collector_reachable.step committed [of ?cs "[]" "[?q]" "[]" 7] by simp
  from collector_invariant [OF this, of "''a''"] show ?thesis by simp
qed

text \<open>A snapshot taken by GetAllMetrics is stable: however many polls are fetched and committed
  afterwards, in any order, every pointer of the snapshot still leads to the metrics it led to when
  the snapshot was taken.\<close>

lemma snapshot_stable:
  assumes "collector_reachable (NewCollector u k i) x" and "collector_step\<^sup>*\<^sup>* x y"
    and "GetAllMetrics (fst (fst x)) q = Some a"
  shows "\<exists>m. view (fst x) q = Some m \<and> st_cell (snd (fst y)) a = Some m"
proof -
  have ok: "collector_ok (fst x)" using assms(1) by (rule collector_reachable_ok)
  from assms(3) have "col_metrics (fst (fst x)) q = Some a" by (simp add: GetAllMetrics_def)
  then obtain m where m: "st_cell (snd (fst x)) a = Some m" "view (fst x) q = Some m"
    by (rule collector_ok_entry [OF ok]) (simp add: view_def \<open>col_metrics (fst (fst x)) q = Some a\<close>)
  then show ?thesis using collector_steps_frame [OF assms(2) ok] by blast
qed


definition okHttp :: "unit http" where
  "okHttp = \<lparr>NewRequest = (\<lambda>m u. Inr \<lparr>rq_method = m, rq_url = u, rq_header = Map.empty\<rparr>),
     DoRequest = (\<lambda>_. State_Monad.return (Inr \<lparr>rs_statusCode = 200, rs_body = []\<rparr>)),
     DecodeQueues = (\<lambda>_. Inr [\<lparr>qs_name = ''a'', qs_pending = 5, qs_active = 2\<rparr>]),
     TimeNow = State_Monad.return 1\<rparr>"


text \<open>After a poll whose response names each queue once, the depth of a named queue is the reported
  number of pending jobs, and the depth of any other queue is what it was before.\<close>

lemma depth_after_commit:
  assumes "collector_ok (c, st)" and "distinct (map qs_name qs)"
    and "pollCommit now qs (c, st) = (c', st')"
  shows "(\<forall>q\<in>set qs. GetQueueDepth c' st' (qs_name q) = Some (qs_pending q, True)) \<and>
    (\<forall>k. k \<notin> qs_name ` set qs \<longrightarrow> GetQueueDepth c' st' k = GetQueueDepth c st k)"
proof -
  have ok: "collector_ok (c', st')" using pollCommit_ok [OF assms(1), of now qs] assms(3) by simp
  have v: "view (c', st') = record_stats now qs (view (c, st))"
    using view_pollCommit [OF assms(1), of now qs] assms(3) by simp
  show ?thesis
    using assms(1,2)
    by (simp add: GetQueueDepth_view [OF ok] GetQueueDepth_view [OF assms(1)] v record_stats_names
        record_stats_other entryOf_def)
qed

end
