(* ===== verification/ClusterProofs.thy ===== *)
theory ClusterProofs
  imports ClusterController Plans MemKube
begin

text \<open>
  What the OJSCluster reconciler does to its environment, whatever that answers: which objects it
  touches, in which order, what it reports when a call fails, and what has happened when it reports
  success. Most theorems need no law of the client at all.
\<close>

subsection \<open>The status helpers only touch the status\<close>

definition status_only :: "OJSCluster \<Rightarrow> OJSCluster \<Rightarrow> bool" where
  "status_only c c' \<longleftrightarrow> cl_meta c' = cl_meta c \<and> cl_spec c' = cl_spec c"

lemma status_only_refl [simp]: "status_only c c"
  by (simp add: status_only_def)

lemma status_only_trans: "status_only a b \<Longrightarrow> status_only b c \<Longrightarrow> status_only a c"
  by (simp add: status_only_def)

lemma status_only_sets [simp]:
  "status_only c (setPhase p c)" "status_only c (setReplicas st c)"
  "status_only c (setPhase p (setReplicas st c))"
  by (simp_all add: status_only_def setPhase_def setReplicas_def)

lemma setPhase_phase [simp]: "cst_phase (cl_status (setPhase p c)) = p"
  by (simp add: setPhase_def)

lemma traces_setCondition:
  "traces (setCondition (logged_reconciler r) c x)
    (\<lambda>c' cs. cs = [] \<and> status_only c c' \<and> cst_phase (cl_status c') = cst_phase (cl_status c))"
  unfolding setCondition_def
  by (cases x) (auto simp: status_only_def intro!: traces_rules)

lemma traces_setConditions:
  "traces (setConditions (logged_reconciler r) c xs)
    (\<lambda>c' cs. cs = [] \<and> status_only c c' \<and> cst_phase (cl_status c') = cst_phase (cl_status c))"
proof (induction xs arbitrary: c)
  case Nil
  show ?case by (simp add: traces_return)
next
  case (Cons x xs)
  show ?case
  proof (simp, rule traces_bind, rule traces_mono [OF traces_setCondition])
    fix c1 and cs :: "entry list"
    assume "cs = [] \<and> status_only c c1 \<and> cst_phase (cl_status c1) = cst_phase (cl_status c)"
    then show "traces (setConditions (logged_reconciler r) c1 xs)
      (\<lambda>c' cs'. cs @ cs' = [] \<and> status_only c c' \<and> cst_phase (cl_status c') = cst_phase (cl_status c))"
      by (intro traces_mono [OF Cons.IH]) (auto intro: status_only_trans)
  qed
qed

lemma emits_setCondition [emits_rules]: "emits R (setCondition (logged_reconciler r) c x)"
  unfolding emits_def by (rule traces_mono [OF traces_setCondition]) simp

lemma emits_setConditions [emits_rules]: "emits R (setConditions (logged_reconciler r) c xs)"
  unfolding emits_def by (rule traces_mono [OF traces_setConditions]) simp

subsection \<open>Fail-stop\<close>

lemma sideline_cluster [stop_rules]:
  "sideline (setCondition (logged_reconciler r) c x)"
  "sideline (setConditions (logged_reconciler r) c xs)"
  "sideline (recordEvent (logged_reconciler r) c t rs msg)"
  "sideline (clusterMonitor (logged_reconciler r) c)"
  unfolding sideline_def recordEvent_def clusterMonitor_def reconcileServiceMonitor_def
  by (auto intro!: emits_rules)

lemma childless_cluster [emits_rules]:
  "(\<And>ev. R (Emit ev, None)) \<Longrightarrow> emits R (recordEvent (logged_reconciler r) c t rs msg)"
  unfolding recordEvent_def by (rule emits_record_event)

lemma strict_finishStatus [stop_rules]: "strict (finishStatus (logged_reconciler r) p c)"
  unfolding finishStatus_def
proof (rule strict_bind_sideline)
  show "sideline (if p \<noteq> [] \<and> p \<noteq> cst_phase (cl_status c)
      then recordEvent (logged_reconciler r) c ''Normal'' ''PhaseChanged''
        (''Cluster transitioned from '' @ p @ '' to '' @ cst_phase (cl_status c))
      else State_Monad.return ())"
    by (simp add: stop_rules) (simp add: sideline_def emits_return)
  show "strict (if_err (StatusUpdateOJSCluster (rc_client (logged_reconciler r)) c)
      (\<lambda>err. State_Monad.return (Inl err)) (\<lambda>_. State_Monad.return nil))" for a :: unit
    by (rule strict_if_err) (auto intro!: stop_rules traces_rules)
qed

lemma strict_updateStatus [stop_rules]: "strict (updateStatus (logged_reconciler r) c)"
  unfolding updateStatus_def Let_def logged_reconciler_client logged_kube_calls
  by (rule strict_if_err_get)
    (auto intro!: stop_rules strict_bind_sideline traces_rules split: prod.split)

lemma fails_requeueWith [stop_rules]: "fails (requeueWith e)"
  by (simp add: requeueWith_def stop_rules)

lemma strict_children [stop_rules]:
  "strict (reconcileConfigMap (logged_reconciler r) c)"
  "strict (reconcileDeployment (logged_reconciler r) c)"
  "strict (reconcileService (logged_reconciler r) c)"
  "strict (reconcilePDB (logged_reconciler r) c)"
  by (simp_all add: reconcileConfigMap_def reconcileDeployment_def reconcileService_def
      reconcilePDB_def strict_call strict_return)

lemma strict_embedded [stop_rules]: "strict (reconcileEmbeddedBackend (logged_reconciler r) c)"
  unfolding reconcileEmbeddedBackend_def reconcileEmbeddedRedis_def Let_def
    logged_reconciler_client logged_kube_calls
  by (intro stop_rules strict_if_err) (auto intro: traces_rules)

lemma settles_clusterChildren [stop_rules]: "settles (clusterChildren (logged_reconciler r) c)"
  unfolding clusterChildren_def
  by (intro settles_if_err settles_bind_sideline stop_rules)

lemma fails_clusterBackendFailed [stop_rules]: "fails (clusterBackendFailed (logged_reconciler r) c e)"
  unfolding clusterBackendFailed_def Let_def
  by (intro fails_bind stop_rules emits_rules) (auto simp: recordEvent_def intro!: emits_rules)

lemma settles_clusterBackend [stop_rules]: "settles (clusterBackend (logged_reconciler r) c)"
  unfolding clusterBackend_def
  by (intro settles_if_err settles_bind_sideline stop_rules)

lemma strict_clusterInitPhase [stop_rules]: "strict (clusterInitPhase (logged_reconciler r) c)"
  unfolding clusterInitPhase_def logged_reconciler_client logged_kube_calls
  by (intro stop_rules strict_if_err strict_bind_sideline) (auto intro: traces_rules)

lemma strict_clusterEnsureFinalizer [stop_rules]: "strict (clusterEnsureFinalizer (logged_reconciler r) c)"
  unfolding clusterEnsureFinalizer_def Let_def logged_reconciler_client logged_kube_calls
  by (intro stop_rules)

lemma settles_clusterDeletion [stop_rules]: "settles (clusterDeletion (logged_reconciler r) c)"
  unfolding clusterDeletion_def Let_def logged_reconciler_client logged_kube_calls
  by (intro stop_rules settles_if_err settles_bind_sideline) simp_all

lemma settles_Reconcile: "settles (Reconcile (logged_reconciler r) req)"
  unfolding Reconcile_def logged_reconciler_client logged_kube_calls
  by (rule settles_if_err_get)
    (auto intro!: stop_rules settles_if_err)

subsection \<open>Where the reported error comes from\<close>

definition unsupportedBackend :: "'s kube \<Rightarrow> goerror \<Rightarrow> bool" where
  "unsupportedBackend K e \<longleftrightarrow> (\<exists>t. t \<noteq> ''redis'' \<and>
     e = Errorf (''embedded backend not supported for type '' @ fmt_q (isPrintTable K) t @
       ''; only '' @ [CHR 0x27] @ ''redis'' @ [CHR 0x27] @ '' is supported''))"

lemma emits_recordEvent [emits_rules]:
  "(\<And>ev. R (Emit ev, None)) \<Longrightarrow> emits R (recordEvent (logged_reconciler r) c t rs msg)"
  unfolding recordEvent_def by (rule emits_record_event)

lemma blames_finishStatus [blame_rules]: "blames E (finishStatus (logged_reconciler r) p c)"
  unfolding finishStatus_def logged_reconciler_client logged_kube_calls
  by (intro blame_rules traces_True emits_rules) simp_all

lemma blames_updateStatus [blame_rules]: "blames E (updateStatus (logged_reconciler r) c)"
  unfolding updateStatus_def Let_def logged_reconciler_client logged_kube_calls
  by (rule blames_lookup)
    (auto intro!: blame_rules traces_True emits_rules traces_return split: prod.split)

lemma blames_children [blame_rules]:
  "blames E (reconcileConfigMap (logged_reconciler r) c)"
  "blames E (reconcileDeployment (logged_reconciler r) c)"
  "blames E (reconcileService (logged_reconciler r) c)"
  "blames E (reconcilePDB (logged_reconciler r) c)"
  by (simp_all add: reconcileConfigMap_def reconcileDeployment_def reconcileService_def
      reconcilePDB_def blames_call blames_Inr)

lemma blames_embedded [blame_rules]:
  "blames (unsupportedBackend (rc_client r)) (reconcileEmbeddedBackend (logged_reconciler r) c)"
  unfolding reconcileEmbeddedBackend_def reconcileEmbeddedRedis_def Let_def
    logged_reconciler_client logged_kube_calls logged_kube_pure
  by (intro blame_rules) (auto simp: unsupportedBackend_def)

lemma passes_on_requeueWith [blame_rules]: "passes_on requeueWith"
  unfolding requeueWith_def by (rule passes_on_return)

lemma emits_True [emits_rules]:
  "emits (\<lambda>_. True) (clusterMonitor (logged_reconciler r) c)"
  unfolding clusterMonitor_def reconcileServiceMonitor_def logged_reconciler_client logged_kube_calls
  by (intro emits_rules) simp_all

lemma accounts_clusterChildren [blame_rules]: "accounts E (clusterChildren (logged_reconciler r) c)"
  unfolding clusterChildren_def
  by (intro blame_rules traces_True emits_rules)

lemma passes_on_clusterBackendFailed [blame_rules]: "passes_on (clusterBackendFailed (logged_reconciler r) c)"
  unfolding passes_on_def clusterBackendFailed_def Let_def requeueWith_def
    logged_reconciler_client logged_kube_calls
  by (auto simp: recordEvent_def intro!: traces_rules traces_setCondition [THEN traces_mono])

lemma accounts_clusterBackend [blame_rules]:
  "accounts (unsupportedBackend (rc_client r)) (clusterBackend (logged_reconciler r) c)"
  unfolding clusterBackend_def
  by (intro blame_rules traces_True emits_rules)

lemma blames_clusterInitPhase [blame_rules]: "blames E (clusterInitPhase (logged_reconciler r) c)"
  unfolding clusterInitPhase_def logged_reconciler_client logged_kube_calls
  by (intro blame_rules traces_True emits_rules) simp_all

lemma blames_clusterEnsureFinalizer [blame_rules]: "blames E (clusterEnsureFinalizer (logged_reconciler r) c)"
  unfolding clusterEnsureFinalizer_def Let_def logged_reconciler_client logged_kube_calls
  by (intro blame_rules) simp_all

lemma accounts_clusterDeletion [blame_rules]: "accounts E (clusterDeletion (logged_reconciler r) c)"
  unfolding clusterDeletion_def Let_def logged_reconciler_client logged_kube_calls
  by (intro blame_rules traces_True emits_rules) simp_all

lemma accounts_Reconcile:
  "accounts (unsupportedBackend (rc_client r)) (Reconcile (logged_reconciler r) req)"
  unfolding Reconcile_def logged_reconciler_client logged_kube_calls
  by (rule accounts_lookup) (auto intro!: blame_rules traces_return)

subsection \<open>The plan\<close>

text \<open>The child calls of a complete reconciliation of \<open>c\<close>, in order.\<close>

definition redisPlan :: "set_ref \<Rightarrow> OJSCluster \<Rightarrow> call list" where
  "redisPlan setRef c =
     [ApplyDeployment (newDeployment (cname c @ ''-redis'') (cns c)) (redisDeploymentCallback setRef c),
      ApplyService (newService (cname c @ ''-redis'') (cns c)) (redisServiceCallback setRef c)]"

definition serverPlan :: "set_ref \<Rightarrow> OJSCluster \<Rightarrow> call list" where
  "serverPlan setRef c =
     [ApplyConfigMap (newConfigMap (cname c @ ''-config'') (cns c)) (configMapCallback setRef c),
      ApplyDeployment (newDeployment (cname c @ ''-server'') (cns c)) (serverDeploymentCallback setRef c),
      ApplyService (newService (cname c @ ''-server'') (cns c)) (serviceCallback setRef c)] @
     (if pdbWanted c then [ApplyPDB (newPDB (cname c @ ''-server'') (cns c)) (pdbCallback setRef c)] else []) @
     (if monitoringWanted c then [ApplyServiceMonitor
        (newUnstructured serviceMonitorGVK (cname c @ ''-server'') (cns c)) (serviceMonitorCallback setRef c)]
      else [])"

definition clusterPlan :: "set_ref \<Rightarrow> OJSCluster \<Rightarrow> call list" where
  "clusterPlan setRef c =
     (if be_embedded (cs_backend (cl_spec c)) then
        (if be_type (cs_backend (cl_spec c)) = ''redis'' then redisPlan setRef c @ serverPlan setRef c else [])
      else serverPlan setRef c)"

text \<open>No part of it looks at the status.\<close>

lemma status_only_update: "status_only c c' \<Longrightarrow> \<exists>st. c' = c\<lparr>cl_status := st\<rparr>"
  by (cases c, cases c') (auto simp: status_only_def)

lemma pieces_ignore_status [simp]:
  "resolveBackendURL (c\<lparr>cl_status := st\<rparr>) = resolveBackendURL c"
  "clusterReplicas (c\<lparr>cl_status := st\<rparr>) = clusterReplicas c"
  "serverContainer (c\<lparr>cl_status := st\<rparr>) = serverContainer c"
  "buildPodSecurityContext (c\<lparr>cl_status := st\<rparr>) = buildPodSecurityContext c"
  "serviceMonitorSpec (c\<lparr>cl_status := st\<rparr>) = serviceMonitorSpec c"
  by (simp_all add: resolveBackendURL_def clusterReplicas_def serverContainer_def clusterImage_def
      serverEnvVars_def serverSecurityContext_def buildPodSecurityContext_def serviceMonitorSpec_def Let_def
      cong: if_cong option.case_cong)

lemma serverPodSpec_ignores_status [simp]: "serverPodSpec (c\<lparr>cl_status := st\<rparr>) = serverPodSpec c"
  by (simp add: serverPodSpec_def Let_def cong: if_cong)

lemma callbacks_ignore_status [simp]:
  "configMapCallback setRef (c\<lparr>cl_status := st\<rparr>) = configMapCallback setRef c"
  "serverDeploymentCallback setRef (c\<lparr>cl_status := st\<rparr>) = serverDeploymentCallback setRef c"
  "serviceCallback setRef (c\<lparr>cl_status := st\<rparr>) = serviceCallback setRef c"
  "redisDeploymentCallback setRef (c\<lparr>cl_status := st\<rparr>) = redisDeploymentCallback setRef c"
  "redisServiceCallback setRef (c\<lparr>cl_status := st\<rparr>) = redisServiceCallback setRef c"
  "pdbCallback setRef (c\<lparr>cl_status := st\<rparr>) = pdbCallback setRef c"
  "serviceMonitorCallback setRef (c\<lparr>cl_status := st\<rparr>) = serviceMonitorCallback setRef c"
  by (simp_all add: fun_eq_iff configMapCallback_def serverDeploymentCallback_def serviceCallback_def
      redisDeploymentCallback_def redisServiceCallback_def pdbCallback_def serviceMonitorCallback_def
      Let_def cong: sum.case_cong option.case_cong)

lemma wanted_ignore_status [simp]:
  "pdbWanted (c\<lparr>cl_status := st\<rparr>) = pdbWanted c"
  "monitoringWanted (c\<lparr>cl_status := st\<rparr>) = monitoringWanted c"
  by (simp_all add: pdbWanted_def monitoringWanted_def)

lemma plans_ignore_status:
  "serverPlan setRef (c\<lparr>cl_status := st\<rparr>) = serverPlan setRef c"
  "redisPlan setRef (c\<lparr>cl_status := st\<rparr>) = redisPlan setRef c"
  by (simp_all add: serverPlan_def redisPlan_def)

lemma plans_status_only:
  assumes "status_only c c'"
  shows "serverPlan setRef c' = serverPlan setRef c" "clusterPlan setRef c' = clusterPlan setRef c"
  using status_only_update [OF assms] by (auto simp: clusterPlan_def plans_ignore_status)

text \<open>Each method makes the calls of its part of the plan.\<close>

lemma steps_children [plan_rules]:
  "steps [ApplyConfigMap (newConfigMap (cname c @ ''-config'') (cns c))
      (configMapCallback (SetControllerReference (rc_client r)) c)] (reconcileConfigMap (logged_reconciler r) c)"
  "steps [ApplyDeployment (newDeployment (cname c @ ''-server'') (cns c))
      (serverDeploymentCallback (SetControllerReference (rc_client r)) c)] (reconcileDeployment (logged_reconciler r) c)"
  "steps [ApplyService (newService (cname c @ ''-server'') (cns c))
      (serviceCallback (SetControllerReference (rc_client r)) c)] (reconcileService (logged_reconciler r) c)"
  by (simp_all add: reconcileConfigMap_def reconcileDeployment_def reconcileService_def steps_call)

lemma steps_pdb [plan_rules]:
  "steps (if pdbWanted c then [ApplyPDB (newPDB (cname c @ ''-server'') (cns c))
      (pdbCallback (SetControllerReference (rc_client r)) c)] else []) (reconcilePDB (logged_reconciler r) c)"
  by (simp add: reconcilePDB_def steps_call steps_Inr)

lemma traces_monitor:
  "traces (clusterMonitor (logged_reconciler r) c) (\<lambda>_ cs. True \<and> childCalls cs =
     (if monitoringWanted c then [ApplyServiceMonitor (newUnstructured serviceMonitorGVK (cname c @ ''-server'') (cns c))
        (serviceMonitorCallback (SetControllerReference (rc_client r)) c)] else []))"
  unfolding clusterMonitor_def reconcileServiceMonitor_def recordEvent_def
  by (auto intro!: traces_rules)

lemma childless_status [emits_rules]:
  "emits (\<lambda>x. \<not> child_call (fst x)) (finishStatus (logged_reconciler r) p c)"
  "emits (\<lambda>x. \<not> child_call (fst x)) (updateStatus (logged_reconciler r) c)"
proof -
  show *: "emits (\<lambda>x. \<not> child_call (fst x)) (finishStatus (logged_reconciler r) p c)" for p c
    unfolding finishStatus_def by (auto intro!: emits_rules)
  show "emits (\<lambda>x. \<not> child_call (fst x)) (updateStatus (logged_reconciler r) c)"
    unfolding updateStatus_def Let_def by (auto intro!: emits_rules * split: prod.split)
qed

lemma follows_clusterChildren:
  "follows (serverPlan (SetControllerReference (rc_client r)) c) (clusterChildren (logged_reconciler r) c)"
proof -
  let ?lr = "logged_reconciler r" and ?set = "SetControllerReference (rc_client r)"
  have "follows ([] @ []) (if_err (updateStatus ?lr c) requeueWith (\<lambda>_. State_Monad.return (noResult, None)))"
    by (intro follows_if_err steps_childless emits_rules plan_rules stop_rules)
  then have tail: "follows [] (if_err (updateStatus ?lr c) requeueWith (\<lambda>_. State_Monad.return (noResult, None)))"
    by simp
  have plan: "serverPlan ?set c =
    [ApplyConfigMap (newConfigMap (cname c @ ''-config'') (cns c)) (configMapCallback ?set c)] @
    [ApplyDeployment (newDeployment (cname c @ ''-server'') (cns c)) (serverDeploymentCallback ?set c)] @
    [ApplyService (newService (cname c @ ''-server'') (cns c)) (serviceCallback ?set c)] @
    (if pdbWanted c then [ApplyPDB (newPDB (cname c @ ''-server'') (cns c)) (pdbCallback ?set c)] else []) @
    (if monitoringWanted c then [ApplyServiceMonitor
      (newUnstructured serviceMonitorGVK (cname c @ ''-server'') (cns c)) (serviceMonitorCallback ?set c)] else []) @ []"
    by (simp add: serverPlan_def)
  show ?thesis
    unfolding clusterChildren_def plan
    by (intro follows_if_err steps_children steps_pdb fails_requeueWith
        follows_bind_traces [OF traces_monitor] tail)
qed

lemma steps_redis:
  assumes "be_type (cs_backend (cl_spec c)) = ''redis''"
  shows "steps (redisPlan (SetControllerReference (rc_client r)) c) (reconcileEmbeddedBackend (logged_reconciler r) c)"
proof -
  have "steps ([ApplyDeployment (newDeployment (cname c @ ''-redis'') (cns c))
        (redisDeploymentCallback (SetControllerReference (rc_client r)) c)] @
      [ApplyService (newService (cname c @ ''-redis'') (cns c))
        (redisServiceCallback (SetControllerReference (rc_client r)) c)])
    (reconcileEmbeddedRedis (logged_reconciler r) c)"
    unfolding reconcileEmbeddedRedis_def logged_reconciler_client logged_kube_calls logged_kube_pure
    by (rule steps_if_err) (simp_all add: steps_call traces_return)
  then show ?thesis using assms by (simp add: reconcileEmbeddedBackend_def redisPlan_def)
qed

lemma follows_clusterBackend:
  "follows (clusterPlan (SetControllerReference (rc_client r)) c) (clusterBackend (logged_reconciler r) c)"
proof (cases "be_embedded (cs_backend (cl_spec c))")
  case False
  then show ?thesis by (simp add: clusterBackend_def clusterPlan_def follows_clusterChildren)
next
  case emb: True
  show ?thesis
  proof (cases "be_type (cs_backend (cl_spec c)) = ''redis''")
    case True
    let ?cond = "(condBackend, ConditionTrue, ''BackendReady'', ''Embedded backend is running'')"
    have "follows ([] @ serverPlan (SetControllerReference (rc_client r)) c)
      (State_Monad.bind (setCondition (logged_reconciler r) c ?cond) (clusterChildren (logged_reconciler r)))"
    proof (rule follows_bind_traces [where G = "status_only c"])
      show "traces (setCondition (logged_reconciler r) c ?cond) (\<lambda>c' cs. status_only c c' \<and> childCalls cs = [])"
        by (rule traces_mono [OF traces_setCondition]) simp
      show "follows (serverPlan (SetControllerReference (rc_client r)) c) (clusterChildren (logged_reconciler r) c')"
        if "status_only c c'" for c'
        using follows_clusterChildren [of r c'] plans_status_only(1) [OF that] by simp
    qed
    then show ?thesis
      using emb True follows_if_err [OF steps_redis [OF True] fails_clusterBackendFailed]
      by (simp add: clusterBackend_def clusterPlan_def)
  next
    case False
    then show ?thesis
      using emb fails_follows [OF fails_clusterBackendFailed]
      by (simp add: clusterBackend_def reconcileEmbeddedBackend_def if_err_def)
  qed
qed

end
