(* ===== verification/ClusterProperties.thy ===== *)
theory ClusterProperties
  imports ClusterProofs Demo
begin

text \<open>
  The properties of the OJSCluster reconciler as a whole, each for a logged run of
  \<open>Reconcile\<close> from an arbitrary state of the environment.
\<close>

subsection \<open>The run of the demonstration\<close>

abbreviation demoRun :: "reconcile_result \<times> entry list" where
  "demoRun \<equiv> observe (Reconcile (logged_reconciler memReconciler) (demoKey ''c'')) demoWorld"

lemma demoRun_ok: "snd (fst demoRun) = None"
  by code_simp

lemma demo_read: "fst (run_state (GetOJSCluster memKube (demoKey ''c'')) demoWorld) = Inr demoCluster"
  by (simp add: memKube_simps demoWorld_def key_of_def demoCluster_def demoMeta_def emptyMeta_def)

lemma demo_live: "IsZero (om_deletionTimestamp (cl_meta demoCluster))"
  by (simp add: demoCluster_def demoMeta_def emptyMeta_def)

abbreviation foreignRun :: "reconcile_result \<times> entry list" where
  "foreignRun \<equiv> observe (Reconcile (logged_reconciler memReconciler) (demoKey ''c'')) foreignWorld"

lemma foreignRun_fatal: "has_fatal (snd foreignRun)"
  by code_simp

lemma foreignRun_error: "snd (fst foreignRun) \<noteq> None"
  by code_simp

subsection \<open>Logging is transparent\<close>

lemma mirrors_setCondition [mirrors_rules]: "mirrors (setCondition (logged_reconciler r) c x) (setCondition r c x)"
  unfolding setCondition_def by (auto intro!: mirrors_rules split: prod.split)

lemma mirrors_setConditions [mirrors_rules]:
  "mirrors (setConditions (logged_reconciler r) c xs) (setConditions r c xs)"
  by (induction xs arbitrary: c) (auto intro!: mirrors_rules)

lemma mirrors_updateStatus [mirrors_rules]: "mirrors (updateStatus (logged_reconciler r) c) (updateStatus r c)"
  unfolding updateStatus_def finishStatus_def recordEvent_def Let_def
  by (auto intro!: mirrors_rules split: prod.split)

lemma mirrors_clusterChildren [mirrors_rules]:
  "mirrors (clusterChildren (logged_reconciler r) c) (clusterChildren r c)"
  unfolding clusterChildren_def clusterMonitor_def reconcileConfigMap_def reconcileDeployment_def
    reconcileService_def reconcilePDB_def reconcileServiceMonitor_def recordEvent_def requeueWith_def
  by (auto intro!: mirrors_rules)

lemma mirrors_clusterBackend [mirrors_rules]:
  "mirrors (clusterBackend (logged_reconciler r) c) (clusterBackend r c)"
  unfolding clusterBackend_def clusterBackendFailed_def reconcileEmbeddedBackend_def
    reconcileEmbeddedRedis_def recordEvent_def requeueWith_def Let_def
  by (auto intro!: mirrors_rules)

text \<open>Every theorem below speaks of a logged run. Logging changes nothing: for every client, recorder
  and state of the environment, the logged run of \<^verbatim>\<open>Reconcile\<close> returns what \<^verbatim>\<open>Reconcile\<close> returns and
  leaves the environment in the same state.\<close>

lemma Reconcile_log_transparent:
  "fst (run_state (Reconcile (logged_reconciler r) req) (s, tr)) = fst (run_state (Reconcile r req) s) \<and>
   fst (snd (run_state (Reconcile (logged_reconciler r) req) (s, tr))) = snd (run_state (Reconcile r req) s)"
proof -
  have "mirrors (Reconcile (logged_reconciler r) req) (Reconcile r req)"
    unfolding Reconcile_def clusterDeletion_def clusterEnsureFinalizer_def clusterInitPhase_def
      recordEvent_def Let_def
    by (auto intro!: mirrors_rules)
  then show ?thesis by (simp add: mirrors_def)
qed

subsection \<open>Fail-stop and the origin of errors\<close>

text \<open>C2. Fail-stop. When a call of a reconciliation fails fatally (a child object other than the
  ServiceMonitor cannot be applied, an object cannot be read for another reason than being absent, the
  cluster or its status cannot be written), \<^verbatim>\<open>Reconcile\<close> reports an error and creates or updates no
  child object after it, whatever the API server answers to any call.\<close>

theorem Reconcile_fail_stop:
  assumes "observe (Reconcile (logged_reconciler r) req) s = (res, xs @ (c, Some e) # ys)"
    and "fatal (c, Some e)"
  shows "snd res \<noteq> None \<and> childless ys"
  using observeD [OF settles_Reconcile [unfolded settles_def] assms(1)] stops_split assms(2) by auto

theorem Reconcile_fail_stop_witness:
  "\<exists>res xs c e ys. foreignRun = (res, xs @ (c, Some e) # ys) \<and> fatal (c, Some e) \<and>
     snd res \<noteq> None \<and> childless ys"
proof -
  obtain xs c e ys where "snd foreignRun = xs @ (c, Some e) # ys" and f: "fatal (c, Some e)"
    using has_fatal_split [OF foreignRun_fatal] by blast
  then have run: "foreignRun = (fst foreignRun, xs @ (c, Some e) # ys)" by (metis prod.collapse)
  show ?thesis using run f Reconcile_fail_stop [OF run f] by blast
qed

text \<open>C3. Every error comes from somewhere. An error reported by \<^verbatim>\<open>Reconcile\<close> is, unchanged, the error of a
  fatal call of this reconciliation, or it is the error for an embedded backend of a type other than
  redis. With the fail-stop property this makes the reported error exact: no failure is swallowed
  and none is invented.\<close>

theorem Reconcile_error_source:
  assumes "observe (Reconcile (logged_reconciler r) req) s = (res, cs)" and "snd res = Some e"
  shows "(\<exists>c. (c, Some e) \<in> set cs \<and> fatal (c, Some e)) \<or> unsupportedBackend (rc_client r) e"
  using observeD [OF accounts_Reconcile [unfolded accounts_def] assms(1)] assms(2)
  by (auto simp: sourced_def)

theorem Reconcile_error_source_witness:
  "\<exists>res cs e. foreignRun = (res, cs) \<and> snd res = Some e \<and>
     ((\<exists>c. (c, Some e) \<in> set cs \<and> fatal (c, Some e)) \<or> unsupportedBackend memKube e)"
proof -
  obtain res cs where run: "foreignRun = (res, cs)" by (rule prod.exhaust)
  then obtain e where e: "snd res = Some e" using foreignRun_error by auto
  have src: "(\<exists>c. (c, Some e) \<in> set cs \<and> fatal (c, Some e)) \<or> unsupportedBackend memKube e"
    using Reconcile_error_source [OF run e] unfolding memReconciler_client .
  show ?thesis by (intro exI conjI, rule run, rule e, rule src)
qed

subsection \<open>The plan is followed\<close>

definition steady :: "'s kube \<Rightarrow> OJSCluster \<Rightarrow> bool" where
  "steady K c \<longleftrightarrow> ContainsFinalizer K (om_finalizers (cl_meta c)) ojsFinalizer \<and> cst_phase (cl_status c) \<noteq> []"

lemma key_setFinalizers [simp]: "key_of (cl_meta (setFinalizers fs c)) = key_of (cl_meta c)"
  by (simp add: setFinalizers_def key_of_def)

lemma status_only_meta: "status_only c c' \<Longrightarrow> cl_meta c' = cl_meta c"
  by (simp add: status_only_def)

text \<open>\<open>kept K c c'\<close>: the preparations that start from the cluster \<open>c\<close> may go on with \<open>c'\<close>.\<close>

definition kept :: "'s kube \<Rightarrow> OJSCluster \<Rightarrow> OJSCluster \<Rightarrow> bool" where
  "kept K c c' \<longleftrightarrow> key_of (cl_meta c') = key_of (cl_meta c) \<and> (steady K c \<longrightarrow> c' = c) \<and>
     (api_echo K \<longrightarrow> same_demands c c')"

lemma kept_refl [simp]: "kept K c c"
  by (simp add: kept_def)

lemma kept_trans: "kept K c c' \<Longrightarrow> kept K c' c'' \<Longrightarrow> kept K c c''"
  unfolding kept_def using same_demands_trans(1) by metis

lemma traces_ensureFinalizer:
  assumes "api_names (rc_client r)"
  shows "traces (clusterEnsureFinalizer (logged_reconciler r) c)
    (\<lambda>x cs. childless cs \<and> (\<forall>c'. x = Inr c' \<longrightarrow> kept (rc_client r) c c'))"
proof -
  have answer: "answers (UpdateOJSCluster (rc_client r) (setFinalizers fs c)) (\<lambda>x. \<forall>c'. x = Inr c' \<longrightarrow>
      key_of (cl_meta c') = key_of (cl_meta c) \<and> (api_echo (rc_client r) \<longrightarrow> same_demands c c'))" for fs
    using api_names.update_cluster_key [OF assms, of "setFinalizers fs c"]
      api_echo.update_cluster_same [of "rc_client r" "setFinalizers fs c"]
    by (auto simp: answers_def same_demands_def setFinalizers_def key_of_def)
  show ?thesis
    unfolding clusterEnsureFinalizer_def Let_def logged_reconciler_client logged_kube_calls logged_kube_pure
    by (intro traces_if traces_logged_answers [OF answer] traces_return)
      (simp_all add: kept_def steady_def)
qed

lemma traces_initPhase:
  assumes "api_names (rc_client r)"
  shows "traces (clusterInitPhase (logged_reconciler r) c)
    (\<lambda>x cs. childless cs \<and> (\<forall>c'. x = Inr c' \<longrightarrow> kept (rc_client r) c c'))"
proof (cases "cst_phase (cl_status c) = []")
  case False
  then show ?thesis by (auto simp: clusterInitPhase_def intro!: traces_return)
next
  case True
  have answer: "answers (StatusUpdateOJSCluster (rc_client r) c') (\<lambda>x. \<forall>c''. x = Inr c'' \<longrightarrow>
      key_of (cl_meta c'') = key_of (cl_meta c') \<and> (api_echo (rc_client r) \<longrightarrow> same_demands c' c''))" for c'
    using api_names.status_cluster_key [OF assms, of c'] api_echo.status_cluster_same [of "rc_client r" c']
    by (auto simp: answers_def)
  have kept: "kept (rc_client r) c c''"
    if "status_only (setPhase p c) c'" "key_of (cl_meta c'') = key_of (cl_meta c') \<and> (api_echo (rc_client r) \<longrightarrow> same_demands c' c'')"
    for p c' c''
    using that True by (simp add: kept_def status_only_def setPhase_def steady_def same_demands_def)
  show ?thesis
    unfolding clusterInitPhase_def if_P [OF True] logged_reconciler_client logged_kube_calls recordEvent_def
    by (rule traces_bind, rule traces_mono [OF traces_setCondition], rule traces_if_err,
        rule traces_logged_answers [OF answer], intro conjI allI impI traces_rules; simp; (rule kept; blast)?)
qed

text \<open>A live cluster is prepared, or the preparation fails; then the backend has its turn.\<close>

lemma live_run:
  assumes names: "api_names (rc_client r)" and read: "fst (run_state (GetOJSCluster (rc_client r) req) s) = Inr c"
    and live: "IsZero (om_deletionTimestamp (cl_meta c))"
    and run: "observe (Reconcile (logged_reconciler r) req) s = (res, cs)"
    and rest: "\<And>c'. kept (rc_client r) c c' \<Longrightarrow> traces (clusterBackend (logged_reconciler r) c') P"
    and failed: "\<And>res cs. snd res \<noteq> None \<Longrightarrow> childless cs \<Longrightarrow> P res cs"
    and closed: "\<And>res cs0 cs. childless cs0 \<Longrightarrow> P res cs \<Longrightarrow> P res (cs0 @ cs)"
  shows "\<exists>ds. cs = (ReadCluster req, None) # ds \<and> P res ds"
proof -
  have "traces (if_err (clusterInitPhase (logged_reconciler r) c') (\<lambda>err. State_Monad.return (noResult, Some err))
      (clusterBackend (logged_reconciler r))) P" if "kept (rc_client r) c c'" for c'
    by (rule traces_prepared [where P = P and G = "kept (rc_client r) c'", OF traces_initPhase [OF names] rest failed closed]) (rule kept_trans [OF that])
  then have "traces (if_err (clusterEnsureFinalizer (logged_reconciler r) c) (\<lambda>err. State_Monad.return (noResult, Some err))
      (\<lambda>c. if_err (clusterInitPhase (logged_reconciler r) c) (\<lambda>err. State_Monad.return (noResult, Some err))
        (clusterBackend (logged_reconciler r)))) P"
    by (rule traces_prepared [where P = P and G = "kept (rc_client r) c", OF traces_ensureFinalizer [OF names] _ failed closed])
  then show ?thesis
    using run live unfolding Reconcile_def logged_reconciler_client logged_kube_calls
    by (intro observe_first [OF read]) simp_all
qed

definition planned :: "'s kube \<Rightarrow> OJSCluster \<Rightarrow> reconcile_result \<Rightarrow> entry list \<Rightarrow> bool" where
  "planned K c0 res cs \<longleftrightarrow> (\<exists>c. kept K c0 c \<and>
     prefix (childCalls cs) (clusterPlan (SetControllerReference K) c) \<and>
     (snd res = None \<longrightarrow> childCalls cs = clusterPlan (SetControllerReference K) c))"

lemma planned_failed: "snd res \<noteq> None \<Longrightarrow> childless cs \<Longrightarrow> planned K c0 res cs"
  unfolding planned_def by (rule exI [of _ c0]) (auto simp: childCalls_Nil)

lemma planned_clusterBackend:
  assumes "kept (rc_client r) c0 c"
  shows "traces (clusterBackend (logged_reconciler r) c) (planned (rc_client r) c0)"
  by (rule traces_mono [OF follows_clusterBackend [unfolded follows_def]], unfold planned_def,
      rule exI [of _ c]) (use assms in simp)

lemma Reconcile_plan:
  assumes "api_names (rc_client r)"
    and "fst (run_state (GetOJSCluster (rc_client r) req) s) = Inr c0"
    and "IsZero (om_deletionTimestamp (cl_meta c0))"
    and "observe (Reconcile (logged_reconciler r) req) s = (res, cs)"
  shows "\<exists>c. key_of (cl_meta c) = req \<and> (steady (rc_client r) c0 \<longrightarrow> c = c0) \<and> (api_echo (rc_client r) \<longrightarrow> same_demands c0 c) \<and>
     prefix (childCalls cs) (clusterPlan (SetControllerReference (rc_client r)) c) \<and>
     (snd res = None \<longrightarrow> childCalls cs = clusterPlan (SetControllerReference (rc_client r)) c)"
proof -
  have "key_of (cl_meta c0) = req"
    using api_names.get_cluster_key [OF assms(1)] assms(2) by (simp add: answers_def)
  moreover have "\<exists>ds. cs = (ReadCluster req, None) # ds \<and> planned (rc_client r) c0 res ds"
    by (rule live_run [OF assms planned_clusterBackend planned_failed]) (auto simp: planned_def childCalls_Nil)
  ultimately show ?thesis by (auto simp: planned_def kept_def)
qed

text \<open>C1. The plan of a live cluster is followed. The child objects that one \<^verbatim>\<open>Reconcile\<close> of a live cluster applies,
  with their callbacks, are a prefix of the cluster's plan in the order of the plan (embedded Redis
  Deployment and Service, ConfigMap, server Deployment, Service, PodDisruptionBudget where wanted,
  ServiceMonitor where wanted), and the whole plan when it reports no error: nothing is skipped,
  repeated, reordered or touched beside it. The plan is that of the cluster of the request: of the
  very object read when that already has its finalizer and a phase, and else of one with the same spec and identity, if
  the API server answers updates with what was sent.\<close>

theorem Reconcile_follows_plan:
  assumes "api_names (rc_client r)"
    and "fst (run_state (GetOJSCluster (rc_client r) req) s) = Inr c0"
    and "IsZero (om_deletionTimestamp (cl_meta c0))"
    and "observe (Reconcile (logged_reconciler r) req) s = (res, cs)"
  shows "\<exists>c. key_of (cl_meta c) = req \<and> (steady (rc_client r) c0 \<longrightarrow> c = c0) \<and> (api_echo (rc_client r) \<longrightarrow> same_demands c0 c) \<and>
     prefix (childCalls cs) (clusterPlan (SetControllerReference (rc_client r)) c) \<and>
     (snd res = None \<longrightarrow> childCalls cs = clusterPlan (SetControllerReference (rc_client r)) c)"
  by (rule Reconcile_plan [OF assms])

lemma demo_steady: "steady memKube demoCluster"
  by (simp add: steady_def memKube_def demoCluster_def demoMeta_def emptyMeta_def ojsFinalizer_def)

theorem Reconcile_follows_plan_witness:
  "snd (fst demoRun) = None \<and> childCalls (snd demoRun) = clusterPlan memSetRef demoCluster"
proof -
  have run: "demoRun = (fst demoRun, snd demoRun)" by simp
  show ?thesis
    using Reconcile_follows_plan [of memReconciler, unfolded memReconciler_client,
        OF mem.api_names_axioms demo_read demo_live run] demo_steady demoRun_ok
    by (auto simp: memKube_def)
qed

end
