(* ===== verification/ClusterScope.thy ===== *)
theory ClusterScope
  imports ClusterProperties
begin

text \<open>
  What a reconciliation of an OJSCluster may touch at all, and the path of a cluster that is being
  deleted.
\<close>

subsection \<open>Scope\<close>

definition childKey :: "NamespacedName \<Rightarrow> string \<Rightarrow> NamespacedName" where
  "childKey req sfx = \<lparr>nn_namespace = nn_namespace req, nn_name = nn_name req @ sfx\<rparr>"

text \<open>The calls that reconciling \<open>req\<close> may make: everything else is out of bounds.\<close>

fun inScope :: "NamespacedName \<Rightarrow> call \<Rightarrow> bool" where
  "inScope req (ReadCluster k) = (k = req)"
| "inScope req (WriteCluster c) = (key_of (cl_meta c) = req)"
| "inScope req (WriteClusterStatus c) = (key_of (cl_meta c) = req)"
| "inScope req (ReadDeployment k) = (k = childKey req ''-server'')"
| "inScope req (ApplyConfigMap cm f) = (key_of (cm_meta cm) = childKey req ''-config'')"
| "inScope req (ApplyDeployment d f) = (key_of (dep_meta d) \<in> {childKey req ''-server'', childKey req ''-redis''})"
| "inScope req (ApplyService sv f) = (key_of (svc_meta sv) \<in> {childKey req ''-server'', childKey req ''-redis''})"
| "inScope req (ApplyPDB p f) = (key_of (pdb_meta p) = childKey req ''-server'')"
| "inScope req (ApplyServiceMonitor u f) = (key_of (us_meta u) = childKey req ''-server'' \<and> us_gvk u = serviceMonitorGVK)"
| "inScope req (Emit ev) = (evt_kind ev = KCluster \<and> evt_object ev = req)"
| "inScope req c = False"

lemma childKey_cluster: "key_of (cl_meta c) = req \<Longrightarrow> childKey req sfx = \<lparr>nn_namespace = cns c, nn_name = cname c @ sfx\<rparr>"
  by (auto simp: childKey_def key_of_def)

text \<open>\<open>writes D\<close>: a cluster that is written satisfies \<open>D\<close>.\<close>

fun writes :: "(OJSCluster \<Rightarrow> bool) \<Rightarrow> call \<Rightarrow> bool" where
  "writes D (WriteCluster c) = D c"
| "writes D (WriteClusterStatus c) = D c"
| "writes D _ = True"

text \<open>\<open>D\<close> is something that holds of clusters named \<open>req\<close> only, and that changing the status or the finalizers
  does not disturb, nor the API server in its answers. The reconciler then writes only such clusters.\<close>

locale cluster_writes =
  fixes r :: "'s reconciler" and D :: "OJSCluster \<Rightarrow> bool" and req :: NamespacedName
  assumes written_key: "D c \<Longrightarrow> key_of (cl_meta c) = req"
    and written_status: "D c \<Longrightarrow> status_only c c' \<Longrightarrow> D c'"
    and written_finalizers: "D c \<Longrightarrow> D (setFinalizers fs c)"
    and update_answer: "D c \<Longrightarrow> answers (UpdateOJSCluster (rc_client r) c) (\<lambda>x. \<forall>c'. x = Inr c' \<longrightarrow> D c')"
    and status_answer: "D c \<Longrightarrow> answers (StatusUpdateOJSCluster (rc_client r) c) (\<lambda>x. \<forall>c'. x = Inr c' \<longrightarrow> D c')"
begin

abbreviation "admissible x \<equiv> inScope req (fst x) \<and> writes D (fst x)"

abbreviation scoped :: "('s \<times> entry list, 'a) state \<Rightarrow> bool" where
  "scoped \<equiv> emits (\<lambda>x. admissible x)"

lemma scoped_event: "D c \<Longrightarrow> scoped (recordEvent (logged_reconciler r) c t rs msg)"
  unfolding recordEvent_def by (rule emits_record_event) (simp add: event_of_def written_key)

lemma scoped_children:
  assumes "D c"
  shows "scoped (reconcileConfigMap (logged_reconciler r) c)"
    "scoped (reconcileDeployment (logged_reconciler r) c)"
    "scoped (reconcileService (logged_reconciler r) c)"
    "scoped (reconcilePDB (logged_reconciler r) c)"
    "scoped (reconcileServiceMonitor (logged_reconciler r) c)"
    "scoped (reconcileEmbeddedBackend (logged_reconciler r) c)"
  unfolding reconcileConfigMap_def reconcileDeployment_def reconcileService_def reconcilePDB_def
    reconcileServiceMonitor_def reconcileEmbeddedBackend_def reconcileEmbeddedRedis_def Let_def
    logged_reconciler_client logged_kube_calls
  by (intro emits_rules; simp add: childKey_cluster [OF written_key [OF assms]] new_object_defs)+

lemma scoped_status:
  assumes D: "D c"
  shows "scoped (finishStatus (logged_reconciler r) p c)" "scoped (updateStatus (logged_reconciler r) c)"
proof -
  have *: "scoped (finishStatus (logged_reconciler r) p c)" if "D c" for p c
    unfolding finishStatus_def logged_reconciler_client logged_kube_calls
    by (intro emits_rules scoped_event that) (simp add: that written_key)
  show "scoped (finishStatus (logged_reconciler r) p c)" by (rule * [OF D])
  have set: "scoped (State_Monad.bind (setConditions (logged_reconciler r) (setPhase ph c1) xs)
      (finishStatus (logged_reconciler r) p))" if "status_only c c1" for ph c1 xs p
  proof (rule emits_bind_traces [OF traces_mono [OF traces_setConditions], rotated], erule *)
    fix c' and cs :: "entry list"
    assume "cs = [] \<and> status_only (setPhase ph c1) c' \<and> cst_phase (cl_status c') = cst_phase (cl_status (setPhase ph c1))"
    then show "D c' \<and> list_all (\<lambda>x. admissible x) cs"
      using written_status [OF D] that by (simp add: status_only_def setPhase_def)
  qed
  show "scoped (updateStatus (logged_reconciler r) c)"
    unfolding updateStatus_def Let_def logged_reconciler_client logged_kube_calls
    by (intro emits_if_err emits_logged emits_if emits_return set)
      (auto intro!: set split: prod.split simp: childKey_cluster [OF written_key [OF D]] setReplicas_def status_only_def)
qed

lemma scoped_clusterChildren:
  assumes "D c"
  shows "scoped (clusterChildren (logged_reconciler r) c)"
  unfolding clusterChildren_def clusterMonitor_def requeueWith_def
  by (intro emits_rules scoped_children scoped_status scoped_event assms)

lemma traces_setCondition_written:
  assumes "D c"
  shows "traces (setCondition (logged_reconciler r) c x) (\<lambda>c' cs. D c' \<and> list_all (\<lambda>x. admissible x) cs)"
  by (rule traces_mono [OF traces_setCondition]) (use written_status [OF assms] in auto)

lemma traces_statusUpdate_written:
  assumes "D c"
  shows "traces (logged (entry_of (WriteClusterStatus c)) (StatusUpdateOJSCluster (rc_client r) c))
      (\<lambda>x cs. (\<forall>c'. x = Inr c' \<longrightarrow> D c') \<and> list_all (\<lambda>x. admissible x) cs)"
  by (rule traces_logged_answers [OF status_answer [OF assms]]) (simp add: assms written_key)

lemma scoped_clusterBackendFailed:
  assumes "D c"
  shows "scoped (clusterBackendFailed (logged_reconciler r) c e)"
  unfolding clusterBackendFailed_def Let_def logged_reconciler_client logged_kube_calls requeueWith_def
proof (rule emits_bind_traces [OF traces_setCondition_written [OF assms]],
    rule emits_bind_traces [OF traces_setCondition_written], assumption,
    rule emits_bind_traces [OF traces_statusUpdate_written], assumption)
  fix c' :: OJSCluster and x :: "goerror + OJSCluster"
  assume "D c'" "\<forall>c''. x = Inr c'' \<longrightarrow> D c''"
  then show "scoped (State_Monad.bind
      (recordEvent (logged_reconciler r) (case x of Inl _ \<Rightarrow> c' | Inr c'' \<Rightarrow> c'') ''Warning'' ''BackendFailed'' (err_text e))
      (\<lambda>_. State_Monad.return (\<lparr>res_requeueAfter = reconcileRequeueDelay\<rparr>, Some e)))"
    by (intro emits_rules scoped_event) (simp split: sum.split)
qed

lemma scoped_clusterBackend:
  assumes "D c"
  shows "scoped (clusterBackend (logged_reconciler r) c)"
  unfolding clusterBackend_def
  by (intro emits_if emits_if_err scoped_children scoped_clusterChildren scoped_clusterBackendFailed
      emits_bind_traces [OF traces_setCondition_written] assms)

lemma scoped_clusterInitPhase:
  assumes D: "D c"
  shows "traces (clusterInitPhase (logged_reconciler r) c)
    (\<lambda>x cs. (\<forall>c'. x = Inr c' \<longrightarrow> D c') \<and> list_all (\<lambda>x. admissible x) cs)"
proof (cases "cst_phase (cl_status c) = []")
  case False
  then show ?thesis using D by (auto simp: clusterInitPhase_def intro!: traces_return)
next
  case True
  have start: "D (setPhase p c)" for p by (rule written_status [OF D]) simp
  show ?thesis
    unfolding clusterInitPhase_def if_P [OF True] logged_reconciler_client logged_kube_calls recordEvent_def
    by (rule traces_bind, rule traces_mono [OF traces_setCondition_written [OF start]], rule traces_if_err,
        rule traces_mono [OF traces_statusUpdate_written], blast)
      (auto simp: event_of_def written_key intro!: traces_rules)
qed

lemma scoped_clusterEnsureFinalizer:
  assumes D: "D c"
  shows "traces (clusterEnsureFinalizer (logged_reconciler r) c)
    (\<lambda>x cs. (\<forall>c'. x = Inr c' \<longrightarrow> D c') \<and> list_all (\<lambda>x. admissible x) cs)"
proof -
  note answer = update_answer [OF written_finalizers [OF D]]
  show ?thesis
    unfolding clusterEnsureFinalizer_def Let_def logged_reconciler_client logged_kube_calls logged_kube_pure
    by (intro traces_if traces_logged_answers [OF answer] traces_return)
      (simp_all add: D written_key written_finalizers del: key_setFinalizers)
qed

lemma scoped_clusterDeletion:
  assumes "D c"
  shows "scoped (clusterDeletion (logged_reconciler r) c)"
  unfolding clusterDeletion_def Let_def logged_reconciler_client logged_kube_calls
  by (intro emits_rules scoped_event assms) (simp add: assms written_key written_finalizers del: key_setFinalizers)

text \<open>All that follows the read.\<close>

lemma scoped_found:
  assumes "D c"
  shows "scoped (if \<not> IsZero (om_deletionTimestamp (cl_meta c)) then clusterDeletion (logged_reconciler r) c
      else if_err (clusterEnsureFinalizer (logged_reconciler r) c) (\<lambda>err. State_Monad.return (noResult, Some err))
        (\<lambda>c. if_err (clusterInitPhase (logged_reconciler r) c) (\<lambda>err. State_Monad.return (noResult, Some err))
          (clusterBackend (logged_reconciler r))))"
  by (intro emits_if scoped_clusterDeletion assms emits_return
      emits_if_err_traces [OF scoped_clusterEnsureFinalizer [OF assms]]
      emits_if_err_traces [OF scoped_clusterInitPhase] scoped_clusterBackend) simp_all

lemma scoped_read:
  assumes "fst (run_state (GetOJSCluster (rc_client r) req) s) = Inr c" "D c"
    and "observe (Reconcile (logged_reconciler r) req) s = (res, cs)"
  shows "list_all (\<lambda>x. admissible x) cs"
proof -
  have "\<exists>ds. cs = (ReadCluster req, None) # ds \<and> list_all (\<lambda>x. admissible x) ds"
    using assms(3) scoped_found [OF assms(2)] unfolding Reconcile_def logged_reconciler_client logged_kube_calls emits_def
    by (intro observe_first [OF assms(1)]) simp_all
  then show ?thesis by auto
qed

end

text \<open>Two such \<open>D\<close>: to have the name, and to ask for the same as the cluster that was read.\<close>

lemma names_written:
  assumes "api_names (rc_client r)"
  shows "cluster_writes r (\<lambda>c. key_of (cl_meta c) = req) req"
proof (unfold_locales, goal_cases)
  case (4 c) then show ?case using api_names.update_cluster_key [OF assms, of c] by simp
next
  case (5 c) then show ?case using api_names.status_cluster_key [OF assms, of c] by simp
qed (simp_all add: status_only_def)

lemma demands_written:
  assumes "api_echo (rc_client r)"
  shows "cluster_writes r (same_demands c) (key_of (cl_meta c))"
proof (unfold_locales, goal_cases)
  case (4 c')
  then show ?case
    using api_echo.update_cluster_same [OF assms, of c'] same_demands_trans(1) by (auto simp: answers_def)
next
  case (5 c')
  then show ?case
    using api_echo.status_cluster_same [OF assms, of c'] same_demands_trans(1) by (auto simp: answers_def)
qed (auto simp: same_demands_def status_only_def setFinalizers_def key_of_def)

interpretation mem_writes: cluster_writes memReconciler "same_demands demoCluster" "key_of (cl_meta demoCluster)"
  by (rule demands_written) (simp add: mem.api_echo_axioms)

text \<open>What happens when the cluster is not found or cannot be read.\<close>

lemma Reconcile_unread:
  assumes "fst (run_state (GetOJSCluster (rc_client r) req) s) = Inl e"
    and "observe (Reconcile (logged_reconciler r) req) s = (res, cs)"
  shows "cs = [(ReadCluster req, Some e)] \<and> res = (noResult, if IsNotFound e then None else Some e)"
  using assms unfolding Reconcile_def logged_reconciler_client logged_kube_calls observe_def if_err_def
  by (auto simp: logged_def split: prod.splits if_splits)

lemma Reconcile_in_scope:
  assumes "api_names (rc_client r)"
    and "observe (Reconcile (logged_reconciler r) req) s = (res, cs)"
  shows "list_all (\<lambda>x. inScope req (fst x)) cs"
proof (cases "fst (run_state (GetOJSCluster (rc_client r) req) s)")
  case (Inl e)
  then show ?thesis using Reconcile_unread [OF Inl assms(2)] by simp
next
  case (Inr c)
  then have "key_of (cl_meta c) = req" using api_names.get_cluster_key [OF assms(1)] by (simp add: answers_def)
  then show ?thesis
    using cluster_writes.scoped_read [OF names_written [OF assms(1)] Inr _ assms(2)] by (simp add: list_all_iff)
qed

text \<open>C4. Scope. Against an API server that answers with objects of the names asked for, every call of a
  reconciliation of \<open>req\<close> concerns the cluster \<open>req\<close> itself or one of its children \<open>-config\<close>, \<open>-server\<close>
  and \<open>-redis\<close> in its namespace: no other object is read or written, nothing is ever deleted, and
  every event is about the cluster. And if the API server answers updates with what was sent, then every version of the
  cluster that is written has the spec and the identity of the one that was read: the operator changes finalizers and status only.\<close>

theorem Reconcile_scope:
  assumes "api_names (rc_client r)"
    and "observe (Reconcile (logged_reconciler r) req) s = (res, cs)"
  shows "list_all (\<lambda>x. inScope req (fst x)) cs \<and>
    (\<forall>c. api_echo (rc_client r) \<longrightarrow> fst (run_state (GetOJSCluster (rc_client r) req) s) = Inr c \<longrightarrow>
      list_all (\<lambda>x. writes (same_demands c) (fst x)) cs)"
proof (intro conjI allI impI)
  show "list_all (\<lambda>x. inScope req (fst x)) cs" by (rule Reconcile_in_scope [OF assms])
  fix c
  assume echo: "api_echo (rc_client r)" and read: "fst (run_state (GetOJSCluster (rc_client r) req) s) = Inr c"
  then have "key_of (cl_meta c) = req" using api_names.get_cluster_key [OF assms(1)] by (simp add: answers_def)
  then show "list_all (\<lambda>x. writes (same_demands c) (fst x)) cs"
    using cluster_writes.scoped_read [OF demands_written [OF echo, of c], unfolded \<open>key_of _ = _\<close>, OF read _ assms(2)]
    by (simp add: list_all_iff)
qed

theorem Reconcile_scope_witness:
  "list_all (\<lambda>x. inScope (demoKey ''c'') (fst x)) (snd demoRun) \<and> list_all (\<lambda>x. writes (same_demands demoCluster) (fst x)) (snd demoRun)"
  using Reconcile_scope [of memReconciler, unfolded memReconciler_client, OF mem.api_names_axioms
      prod.collapse [symmetric]] demo_read mem.api_echo_axioms by simp

subsection \<open>Deletion\<close>

text \<open>C26. Deletion. For a cluster that is being deleted \<^verbatim>\<open>Reconcile\<close> touches no child object. When the cluster holds
  the operator's finalizer, the one call beside the read is the update that takes it away (and leaves
  the others), and the result is its error; otherwise nothing is called at all. The children
  are left to the garbage collector.\<close>

theorem Reconcile_deletion:
  assumes "finalizer_laws (rc_client r)"
    and "fst (run_state (GetOJSCluster (rc_client r) req) s) = Inr c"
    and "\<not> IsZero (om_deletionTimestamp (cl_meta c))"
    and "observe (Reconcile (logged_reconciler r) req) s = (res, cs)"
  shows "if ContainsFinalizer (rc_client r) (om_finalizers (cl_meta c)) ojsFinalizer
     then \<exists>fs. callsMade cs = [ReadCluster req, WriteCluster (setFinalizers fs c)]
       \<and> \<not> ContainsFinalizer (rc_client r) fs ojsFinalizer
       \<and> (\<forall>g. g \<noteq> ojsFinalizer \<longrightarrow>
            ContainsFinalizer (rc_client r) fs g = ContainsFinalizer (rc_client r) (om_finalizers (cl_meta c)) g)
       \<and> res = (noResult, snd (last cs))
     else cs = [(ReadCluster req, None)] \<and> res = (noResult, None)"
proof -
  let ?K = "rc_client r" and ?fs = "om_finalizers (cl_meta c)"
  let ?Q = "\<lambda>res ds. if ContainsFinalizer ?K ?fs ojsFinalizer
    then callsMade ds = [WriteCluster (setFinalizers (RemoveFinalizer ?K ?fs ojsFinalizer) c)] \<and>
      ds \<noteq> [] \<and> res = (noResult, snd (last ds))
    else ds = [] \<and> res = (noResult, None)"
  have "traces (clusterDeletion (logged_reconciler r) c) ?Q"
    unfolding clusterDeletion_def Let_def logged_reconciler_client logged_kube_calls logged_kube_pure recordEvent_def
    by (auto intro!: traces_rules)
  then have "\<exists>ds. cs = (ReadCluster req, None) # ds \<and> ?Q res ds"
    using assms(4) unfolding Reconcile_def logged_reconciler_client logged_kube_calls
    by (intro observe_first [OF assms(2)]) (simp_all add: assms(3))
  then show ?thesis
    using finalizer_laws.contains_remove [OF assms(1)] finalizer_laws.remove_keeps [OF assms(1)]
    by (auto intro!: exI [of _ "RemoveFinalizer ?K ?fs ojsFinalizer"] split: if_splits)
qed

lemma dying_read: "fst (run_state (GetOJSCluster memKube (demoKey ''c'')) dyingWorld) = Inr dyingCluster"
  by (simp add: memKube_simps dyingWorld_def demoWorld_def key_of_def dyingCluster_def demoCluster_def
      demoMeta_def emptyMeta_def)

theorem Reconcile_deletion_witness:
  "\<exists>fs. callsMade (snd (observe (Reconcile (logged_reconciler memReconciler) (demoKey ''c'')) dyingWorld))
     = [ReadCluster (demoKey ''c''), WriteCluster (setFinalizers fs dyingCluster)] \<and> ojsFinalizer \<notin> set fs"
proof -
  have dying: "\<not> IsZero (om_deletionTimestamp (cl_meta dyingCluster))"
    by (simp add: dyingCluster_def)
  have present: "ContainsFinalizer memKube (om_finalizers (cl_meta dyingCluster)) ojsFinalizer"
    by (simp add: memKube_def dyingCluster_def demoCluster_def demoMeta_def ojsFinalizer_def)
  have contains: "ContainsFinalizer memKube fs f = (f \<in> set fs)" for fs f by (simp add: memKube_def)
  show ?thesis
    using Reconcile_deletion [of memReconciler, unfolded memReconciler_client,
        OF mem_finalizers.finalizer_laws_axioms dying_read dying prod.collapse [symmetric]] present
    by (auto simp: contains)
qed

end
