(* ===== verification/ClusterReporting.thy ===== *)
theory ClusterReporting
  imports ClusterScope Conditions
begin

text \<open>
  What the OJSCluster status says after a reconciliation, given the documented behaviour of
  \<^verbatim>\<open>meta.SetStatusCondition\<close> (\<open>condition_laws\<close>).
\<close>

subsection \<open>Setting conditions\<close>

definition putConditions :: "Condition list \<Rightarrow> OJSCluster \<Rightarrow> OJSCluster" where
  "putConditions cc c = c\<lparr>cl_status := (cl_status c)\<lparr>cst_conditions := cc\<rparr>\<rparr>"

abbreviation condsOf :: "OJSCluster \<Rightarrow> Condition list" where
  "condsOf c \<equiv> cst_conditions (cl_status c)"

abbreviation genOf :: "OJSCluster \<Rightarrow> int64" where
  "genOf c \<equiv> om_generation (cl_meta c)"

lemma putConditions_simps [simp]:
  "putConditions cc (putConditions cd c) = putConditions cc c"
  "putConditions (condsOf c) c = c"
  "condsOf (putConditions cc c) = cc" "cl_meta (putConditions cc c) = cl_meta c"
  "cl_spec (putConditions cc c) = cl_spec c"
  "cst_phase (cl_status (putConditions cc c)) = cst_phase (cl_status c)"
  "cst_replicas (cl_status (putConditions cc c)) = cst_replicas (cl_status c)"
  "cst_readyReplicas (cl_status (putConditions cc c)) = cst_readyReplicas (cl_status c)"
  by (simp_all add: putConditions_def)

lemma traces_setCondition_shown:
  assumes "condition_laws (rc_client r)"
  shows "traces (setCondition (logged_reconciler r) c x) (\<lambda>c' cs. cs = [] \<and>
    (\<exists>cc. c' = putConditions cc c \<and> conditionsSet (genOf c) [x] (condsOf c) cc))"
  unfolding setCondition_def
  by (cases x) (auto simp: putConditions_def conditionsSet_one [OF assms] intro!: traces_rules)

lemma traces_setConditions_shown:
  assumes laws: "condition_laws (rc_client r)"
  shows "distinct (map settingType xs) \<Longrightarrow> traces (setConditions (logged_reconciler r) c xs) (\<lambda>c' cs. cs = [] \<and>
    (\<exists>cc. c' = putConditions cc c \<and> conditionsSet (genOf c) xs (condsOf c) cc))"
proof (induction xs arbitrary: c)
  case Nil
  show ?case
    by (simp, rule traces_return) (use conditionsSet_Nil in \<open>metis putConditions_simps(2)\<close>)
next
  case (Cons x xs)
  show ?case
  proof (simp, rule traces_bind, rule traces_mono [OF traces_setCondition_shown [OF laws]])
    fix c1 and cs :: "entry list"
    assume "cs = [] \<and> (\<exists>cc. c1 = putConditions cc c \<and> conditionsSet (genOf c) [x] (condsOf c) cc)"
    then obtain cc where cs: "cs = []" and c1: "c1 = putConditions cc c" "conditionsSet (genOf c) [x] (condsOf c) cc"
      by blast
    show "traces (setConditions (logged_reconciler r) c1 xs) (\<lambda>c' cs'. cs @ cs' = [] \<and>
      (\<exists>cc. c' = putConditions cc c \<and> conditionsSet (genOf c) (x # xs) (condsOf c) cc))"
      using Cons.prems conditionsSet_append [OF c1(2), of xs] cs c1(1)
      by (intro traces_mono [OF Cons.IH]) auto
  qed
qed

subsection \<open>What updateStatus writes\<close>

definition deploymentReport :: "Deployment option \<Rightarrow> string \<times> condition_setting list" where
  "deploymentReport dep = (case dep of
     None \<Rightarrow> (''Pending'', clusterMissingReport)
   | Some d \<Rightarrow> clusterReport (dst_readyReplicas (dep_status d)) (dst_replicas (dep_status d)))"

definition reflects :: "Deployment option \<Rightarrow> OJSCluster \<Rightarrow> OJSCluster \<Rightarrow> bool" where
  "reflects dep c c' \<longleftrightarrow>
     cl_meta c' = cl_meta c \<and> cl_spec c' = cl_spec c \<and>
     cst_phase (cl_status c') = fst (deploymentReport dep) \<and>
     conditionsSet (genOf c) (snd (deploymentReport dep)) (condsOf c) (condsOf c') \<and>
     (case dep of
        None \<Rightarrow> cst_replicas (cl_status c') = cst_replicas (cl_status c) \<and>
          cst_readyReplicas (cl_status c') = cst_readyReplicas (cl_status c)
      | Some d \<Rightarrow> cst_replicas (cl_status c') = dst_replicas (dep_status d) \<and>
          cst_readyReplicas (cl_status c') = dst_readyReplicas (dep_status d))"

lemma deploymentReport_distinct: "distinct (map settingType (snd (deploymentReport dep)))"
proof (cases dep)
  case None
  then show ?thesis
    by (simp add: deploymentReport_def clusterMissingReport_def settingType_def cond_defs)
next
  case (Some d)
  then show ?thesis by (simp add: deploymentReport_def clusterReport.distinct_types)
qed

definition phaseEvents :: "OJSCluster \<Rightarrow> OJSCluster \<Rightarrow> entry list \<Rightarrow> bool" where
  "phaseEvents c c' cs \<longleftrightarrow> (\<exists>x\<in>set cs. is_event (fst x)) \<longrightarrow>
     cst_phase (cl_status c) \<noteq> [] \<and> cst_phase (cl_status c) \<noteq> cst_phase (cl_status c')"

lemma traces_finishStatus:
  "traces (finishStatus (logged_reconciler r) p c) (\<lambda>res cs. \<exists>e.
     last cs = (WriteClusterStatus c, e) \<and> cs \<noteq> [] \<and> callsMade cs = [WriteClusterStatus c] \<and>
     (e = None \<longleftrightarrow> res = nil) \<and> (\<forall>err. e = Some err \<longleftrightarrow> res = Inl err) \<and>
     ((\<exists>x\<in>set cs. is_event (fst x)) \<longrightarrow> p \<noteq> [] \<and> p \<noteq> cst_phase (cl_status c)))"
  unfolding finishStatus_def recordEvent_def
  by (auto intro!: traces_rules simp: entry_of_def)

definition statusWritten :: "Deployment option \<Rightarrow> OJSCluster \<Rightarrow> goerror + unit \<Rightarrow> entry list \<Rightarrow> bool" where
  "statusWritten dep c res cs \<longleftrightarrow> (\<exists>c' e. reflects dep c c' \<and> cs \<noteq> [] \<and> last cs = (WriteClusterStatus c', e) \<and>
     callsMade cs = [WriteClusterStatus c'] \<and> (\<forall>err. e = Some err \<longleftrightarrow> res = Inl err) \<and> phaseEvents c c' cs)"

lemma traces_report:
  assumes laws: "condition_laws (rc_client r)"
    and c1: "cl_meta c1 = cl_meta c" "condsOf c1 = condsOf c"
    and ok: "\<And>cc. conditionsSet (genOf c) xs (condsOf c) cc \<Longrightarrow> reflects dep c (putConditions cc c1)"
    and dist: "distinct (map settingType xs)"
  shows "traces (State_Monad.bind (setConditions (logged_reconciler r) c1 xs)
      (finishStatus (logged_reconciler r) (cst_phase (cl_status c)))) (statusWritten dep c)"
proof (rule traces_bind, rule traces_mono [OF traces_setConditions_shown [OF laws dist]])
  fix c' and cs :: "entry list"
  assume "cs = [] \<and> (\<exists>cc. c' = putConditions cc c1 \<and> conditionsSet (genOf c1) xs (condsOf c1) cc)"
  then have "cs = []" "reflects dep c c'" using ok c1 by auto
  then show "traces (finishStatus (logged_reconciler r) (cst_phase (cl_status c)) c')
      (\<lambda>res cs'. statusWritten dep c res (cs @ cs'))"
    by (intro traces_mono [OF traces_finishStatus]) (auto simp: statusWritten_def phaseEvents_def)
qed

lemma reflects_intro:
  "conditionsSet (genOf c) clusterMissingReport (condsOf c) cc \<Longrightarrow>
    reflects None c (putConditions cc (setPhase ''Pending'' c))"
  "clusterReport (dst_readyReplicas (dep_status d)) (dst_replicas (dep_status d)) = (ph, xs) \<Longrightarrow>
    conditionsSet (genOf c) xs (condsOf c) cc \<Longrightarrow>
    reflects (Some d) c (putConditions cc (setPhase ph (setReplicas (dep_status d) c)))"
  by (simp_all add: reflects_def deploymentReport_def putConditions_def setPhase_def setReplicas_def)

lemma traces_missing:
  assumes "condition_laws (rc_client r)"
  shows "traces (State_Monad.bind
    (setConditions (logged_reconciler r) (setPhase ''Pending'' c) clusterMissingReport)
    (finishStatus (logged_reconciler r) (cst_phase (cl_status c)))) (statusWritten None c)"
  by (rule traces_report [OF assms])
    (use deploymentReport_distinct [of None] in
      \<open>simp_all add: setPhase_def reflects_intro [unfolded setPhase_def] deploymentReport_def\<close>)

lemma traces_found:
  assumes "condition_laws (rc_client r)"
    and "clusterReport (dst_readyReplicas (dep_status d)) (dst_replicas (dep_status d)) = (ph, xs)"
  shows "traces (State_Monad.bind
    (setConditions (logged_reconciler r) (setPhase ph (setReplicas (dep_status d) c)) xs)
    (finishStatus (logged_reconciler r) (cst_phase (cl_status c)))) (statusWritten (Some d) c)"
  by (rule traces_report [OF assms(1)])
    (use deploymentReport_distinct [of "Some d"] assms(2) reflects_intro(2) [OF assms(2)] in
      \<open>simp_all add: setPhase_def setReplicas_def deploymentReport_def\<close>)

lemma traces_updateStatus:
  assumes "condition_laws (rc_client r)"
  shows "traces (updateStatus (logged_reconciler r) c)
    (\<lambda>res cs. res = nil \<longrightarrow> (\<exists>dep. statusWritten dep c res (tl cs) \<and> tl cs \<noteq> []))"
  unfolding updateStatus_def Let_def logged_reconciler_client logged_kube_calls
proof (rule traces_if_err, rule traces_logged, intro conjI allI impI)
  fix x :: "goerror + Deployment" and e :: goerror
  show "traces (if IsNotFound e then State_Monad.bind
      (setConditions (logged_reconciler r) (setPhase ''Pending'' c) clusterMissingReport)
      (finishStatus (logged_reconciler r) (cst_phase (cl_status c))) else State_Monad.return (Inl e))
    (\<lambda>b cs'. b = nil \<longrightarrow> (\<exists>dep. statusWritten dep c b
      (tl ([entry_of (ReadDeployment \<lparr>nn_namespace = cns c, nn_name = cname c @ ''-server''\<rparr>) x] @ cs')) \<and>
      tl ([entry_of (ReadDeployment \<lparr>nn_namespace = cns c, nn_name = cname c @ ''-server''\<rparr>) x] @ cs') \<noteq> []))"
    by (auto intro!: traces_mono [OF traces_missing [OF assms]] traces_return simp: statusWritten_def)
next
  fix x :: "goerror + Deployment" and d :: Deployment
  show "traces (case clusterReport (dst_readyReplicas (dep_status d)) (dst_replicas (dep_status d)) of
      (phase, conds) \<Rightarrow> State_Monad.bind
        (setConditions (logged_reconciler r) (setPhase phase (setReplicas (dep_status d) c)) conds)
        (finishStatus (logged_reconciler r) (cst_phase (cl_status c))))
    (\<lambda>b cs'. b = nil \<longrightarrow> (\<exists>dep. statusWritten dep c b
      (tl ([entry_of (ReadDeployment \<lparr>nn_namespace = cns c, nn_name = cname c @ ''-server''\<rparr>) x] @ cs')) \<and>
      tl ([entry_of (ReadDeployment \<lparr>nn_namespace = cns c, nn_name = cname c @ ''-server''\<rparr>) x] @ cs') \<noteq> []))"
    by (auto intro!: traces_mono [OF traces_found [OF assms]] simp: statusWritten_def split: prod.split)
qed


lemma running_lookup: "fst (run_state (GetDeployment memKube (demoKey ''c-server'')) runningWorld) = Inr readyDeployment"
  by (simp add: memKube_simps runningWorld_def)


subsection \<open>What Reconcile has written when it succeeds\<close>

definition consistentStatus :: "OJSCluster \<Rightarrow> bool" where
  "consistentStatus c \<longleftrightarrow> consistentReport (cst_phase (cl_status c)) (condsOf c)
     (cst_readyReplicas (cl_status c)) (cst_replicas (cl_status c))"

lemma reflects_consistent:
  assumes "reflects dep c c'"
  shows "consistentStatus c'"
proof (cases dep)
  case None
  then show ?thesis
    using assms missing_consistent [of clusterMissingReport "genOf c" "condsOf c'"]
    by (simp add: consistentStatus_def reflects_def deploymentReport_def conditionsSet_def
        clusterMissingReport_status)
next
  case (Some d)
  then show ?thesis
    using assms clusterReport.shown_consistent [of "genOf c" "condsOf c'"]
    by (simp add: consistentStatus_def reflects_def deploymentReport_def conditionsSet_def)
qed

text \<open>The last call of a successful run is a status write that is consistent.\<close>

fun closing :: "entry \<Rightarrow> bool" where
  "closing (WriteClusterStatus c, None) = consistentStatus c"
| "closing x = False"

lemma closing_iff: "closing x \<longleftrightarrow> (\<exists>c. x = (WriteClusterStatus c, None) \<and> consistentStatus c)"
  by (cases x rule: closing.cases) simp_all

lemma closes_updateStatus:
  assumes "condition_laws (rc_client r)"
  shows "closes closing (if_err (updateStatus (logged_reconciler r) c) requeueWith (\<lambda>_. State_Monad.return (noResult, None)))"
proof (rule closes_last [OF traces_mono [OF traces_updateStatus [OF assms]]])
  fix x :: "goerror + unit" and cs :: "entry list" and a
  assume "x = nil \<longrightarrow> (\<exists>dep. statusWritten dep c x (tl cs) \<and> tl cs \<noteq> [])"
  then show "\<forall>a. x = Inr a \<longrightarrow> cs \<noteq> [] \<and> closing (last cs)"
    by (auto simp: statusWritten_def closing_iff last_tl not_Some_eq dest: reflects_consistent)
qed (intro stop_rules)

lemma emits_any [emits_rules]:
  "emits (\<lambda>_. True) (reconcileConfigMap (logged_reconciler r) c)"
  "emits (\<lambda>_. True) (reconcileDeployment (logged_reconciler r) c)"
  "emits (\<lambda>_. True) (reconcileService (logged_reconciler r) c)"
  "emits (\<lambda>_. True) (reconcilePDB (logged_reconciler r) c)"
  "emits (\<lambda>_. True) (reconcileEmbeddedBackend (logged_reconciler r) c)"
  "emits (\<lambda>_. True) (clusterEnsureFinalizer (logged_reconciler r) c)"
  "emits (\<lambda>_. True) (clusterInitPhase (logged_reconciler r) c)"
  unfolding reconcileConfigMap_def reconcileDeployment_def reconcileService_def reconcilePDB_def
    reconcileEmbeddedBackend_def reconcileEmbeddedRedis_def clusterEnsureFinalizer_def clusterInitPhase_def
    Let_def logged_reconciler_client logged_kube_calls
  by (intro emits_rules; simp)+

lemma closes_clusterBackend:
  assumes "condition_laws (rc_client r)"
  shows "closes closing (clusterBackend (logged_reconciler r) c)"
  unfolding clusterBackend_def clusterChildren_def
  by (intro close_rules stop_rules emits_rules closes_updateStatus assms)

lemma Reconcile_closing:
  assumes "condition_laws (rc_client r)"
    and "fst (run_state (GetOJSCluster (rc_client r) req) s) = Inr c"
    and "IsZero (om_deletionTimestamp (cl_meta c))"
    and "observe (Reconcile (logged_reconciler r) req) s = (res, cs)"
    and "snd res = None"
  shows "cs \<noteq> [] \<and> closing (last cs)"
proof -
  have "closes closing (if_err (clusterEnsureFinalizer (logged_reconciler r) c) (\<lambda>err. State_Monad.return (noResult, Some err))
      (\<lambda>c. if_err (clusterInitPhase (logged_reconciler r) c) (\<lambda>err. State_Monad.return (noResult, Some err))
        (clusterBackend (logged_reconciler r))))"
    by (intro close_rules emits_any stop_rules closes_clusterBackend assms) simp_all
  then have "\<exists>ds. cs = (ReadCluster req, None) # ds \<and> (snd res = None \<longrightarrow> ds \<noteq> [] \<and> closing (last ds))"
    using assms(4) unfolding Reconcile_def logged_reconciler_client logged_kube_calls closes_def
    by (intro observe_first [OF assms(2)]) (simp_all add: assms(3))
  then show ?thesis using assms(5) by auto
qed


lemma running_read: "fst (run_state (GetOJSCluster memKube (demoKey ''c'')) runningWorld) = Inr demoCluster"
  by (simp add: memKube_simps runningWorld_def demoWorld_def key_of_def demoCluster_def demoMeta_def emptyMeta_def)

lemma running_ok: "snd (fst (observe (Reconcile (logged_reconciler memReconciler) (demoKey ''c'')) runningWorld)) = None"
  by code_simp


subsection \<open>A backend that cannot be provided\<close>

definition backendFailureShown :: "goerror \<Rightarrow> OJSCluster \<Rightarrow> bool" where
  "backendFailureShown e c \<longleftrightarrow> showsAll (genOf c) (condsOf c)
     [(condBackend, ConditionFalse, ''BackendFailed'', err_text e), (condDegraded, ConditionTrue, ''BackendFailed'', err_text e)]"

lemma traces_clusterBackendFailed:
  assumes laws: "condition_laws (rc_client r)"
  shows "traces (clusterBackendFailed (logged_reconciler r) c e) (\<lambda>res cs.
    res = (\<lparr>res_requeueAfter = reconcileRequeueDelay\<rparr>, Some e) \<and>
    (\<exists>c'. callsMade cs = [WriteClusterStatus c'] \<and> backendFailureShown e c' \<and> status_only c c' \<and>
      cst_phase (cl_status c') = cst_phase (cl_status c)))"
  unfolding clusterBackendFailed_def Let_def logged_reconciler_client logged_kube_calls requeueWith_def recordEvent_def
proof (rule traces_bind, rule traces_mono [OF traces_setCondition_shown [OF laws]], rule traces_bind,
    rule traces_mono [OF traces_setCondition_shown [OF laws]], rule traces_bind, rule traces_logged)
  fix c1 c2 and cs1 cs2 :: "entry list" and x
  let ?a = "(condBackend, ConditionFalse, ''BackendFailed'', err_text e)"
  let ?b = "(condDegraded, ConditionTrue, ''BackendFailed'', err_text e)"
  assume "cs1 = [] \<and> (\<exists>cc. c1 = putConditions cc c \<and> conditionsSet (genOf c) [?a] (condsOf c) cc)"
    and "cs2 = [] \<and> (\<exists>cc. c2 = putConditions cc c1 \<and> conditionsSet (genOf c1) [?b] (condsOf c1) cc)"
  then obtain cc cd where cs: "cs1 = []" "cs2 = []" and c2: "c2 = putConditions cd c"
    and "conditionsSet (genOf c) [?a] (condsOf c) cc" "conditionsSet (genOf c) [?b] cc cd"
    by auto
  then have "conditionsSet (genOf c) ([?a] @ [?b]) (condsOf c) cd"
    by (intro conditionsSet_append) (auto simp: settingType_def cond_defs)
  then have "backendFailureShown e c2"
    by (simp add: backendFailureShown_def conditionsSet_def c2)
  then show "traces (State_Monad.bind
      (record_event (logged_reconciler r) KCluster (cl_meta (case x of Inl _ \<Rightarrow> c2 | Inr cluster' \<Rightarrow> cluster'))
        ''Warning'' ''BackendFailed'' (err_text e))
      (\<lambda>_. State_Monad.return (\<lparr>res_requeueAfter = reconcileRequeueDelay\<rparr>, Some e)))
    (\<lambda>res cs. res = (\<lparr>res_requeueAfter = reconcileRequeueDelay\<rparr>, Some e) \<and>
      (\<exists>c'. callsMade (cs1 @ cs2 @ [entry_of (WriteClusterStatus c2) x] @ cs) = [WriteClusterStatus c'] \<and>
        backendFailureShown e c' \<and> status_only c c' \<and> cst_phase (cl_status c') = cst_phase (cl_status c)))"
    by (auto intro!: traces_rules exI [of _ c2] simp: cs entry_of_def status_only_def c2)
qed

text \<open>C27. A backend that cannot be provided. When the embedded backend fails (its objects cannot be applied, or its type
  is not redis), the reconciliation stops there: one status write with BackendReady False and Degraded True,
  both carrying the error text, with spec, metadata and phase untouched, then a requeue after ten seconds with that
  error. No server object is created.\<close>

theorem backend_failure_reported:
  assumes "condition_laws (rc_client r)"
    and "be_embedded (cs_backend (cl_spec c))"
    and "observe (reconcileEmbeddedBackend (logged_reconciler r) c) s = (Inl e, bs)"
    and "observe (clusterBackend (logged_reconciler r) c) s = (res, cs)"
  shows "res = (\<lparr>res_requeueAfter = reconcileRequeueDelay\<rparr>, Some e) \<and>
    (\<exists>ds c'. cs = bs @ ds \<and> callsMade ds = [WriteClusterStatus c'] \<and> backendFailureShown e c' \<and>
      status_only c c' \<and> cst_phase (cl_status c') = cst_phase (cl_status c))"
proof -
  have "observe (State_Monad.bind (reconcileEmbeddedBackend (logged_reconciler r) c)
    (\<lambda>x. case x of Inl e \<Rightarrow> clusterBackendFailed (logged_reconciler r) c e | Inr a \<Rightarrow>
      State_Monad.bind (setCondition (logged_reconciler r) c
        (condBackend, ConditionTrue, ''BackendReady'', ''Embedded backend is running''))
        (clusterChildren (logged_reconciler r)))) s = (res, cs)"
    using assms(2,4) by (simp add: clusterBackend_def if_err_def)
  from observe_bind [OF this, of "Inl e"] traces_clusterBackendFailed [OF assms(1), of c e] assms(3)
  show ?thesis by fastforce
qed

theorem backend_failure_reported_witness:
  "fst (observe (clusterBackend (logged_reconciler memReconciler) natsCluster) demoWorld)
     = (\<lparr>res_requeueAfter = 10000000000\<rparr>,
        Some (Errorf (''embedded backend not supported for type '' @ fmt_q (\<lambda>_. True) ''nats'' @
          ''; only '' @ [CHR 0x27] @ ''redis'' @ [CHR 0x27] @ '' is supported'')))"
proof -
  have emb: "be_embedded (cs_backend (cl_spec natsCluster))" by (simp add: natsCluster_def)
  have fails: "observe (reconcileEmbeddedBackend (logged_reconciler memReconciler) natsCluster) demoWorld
    = (Inl (Errorf (''embedded backend not supported for type '' @ fmt_q (\<lambda>_. True) ''nats'' @
          ''; only '' @ [CHR 0x27] @ ''redis'' @ [CHR 0x27] @ '' is supported'')), [])"
    by (simp add: reconcileEmbeddedBackend_def natsCluster_def observe_def memKube_def Let_def)
  show ?thesis
    using backend_failure_reported [of memReconciler, unfolded memReconciler_client,
        OF mem_conditions.condition_laws_axioms emb fails prod.collapse [symmetric]]
    by (simp add: reconcileRequeueDelay_def)
qed

end
