(* ===== verification/WorkerProofs.thy ===== *)
theory WorkerProofs
  imports WorkerController Plans Conditions
begin

text \<open>
  The lemmas about the OJSWorker reconciler: which of its parts stop on a failing call, where their
  errors come from, and the child calls they make.
\<close>

subsection \<open>The status helpers only touch the status\<close>

definition putWorkerConditions :: "Condition list \<Rightarrow> OJSWorker \<Rightarrow> OJSWorker" where
  "putWorkerConditions cc w = w\<lparr>wk_status := (wk_status w)\<lparr>wst_conditions := cc\<rparr>\<rparr>"

abbreviation wcondsOf :: "OJSWorker \<Rightarrow> Condition list" where
  "wcondsOf w \<equiv> wst_conditions (wk_status w)"

abbreviation wgenOf :: "OJSWorker \<Rightarrow> int64" where
  "wgenOf w \<equiv> om_generation (wk_meta w)"

lemma putWorkerConditions_simps [simp]:
  "putWorkerConditions cc (putWorkerConditions cd w) = putWorkerConditions cc w"
  "putWorkerConditions (wcondsOf w) w = w"
  "wcondsOf (putWorkerConditions cc w) = cc" "wk_meta (putWorkerConditions cc w) = wk_meta w"
  "wk_spec (putWorkerConditions cc w) = wk_spec w"
  "wst_phase (wk_status (putWorkerConditions cc w)) = wst_phase (wk_status w)"
  by (simp_all add: putWorkerConditions_def)

lemma setWorkerPhase_simps [simp]:
  "wk_meta (setWorkerPhase p w) = wk_meta w" "wk_spec (setWorkerPhase p w) = wk_spec w"
  "wst_phase (wk_status (setWorkerPhase p w)) = p" "wcondsOf (setWorkerPhase p w) = wcondsOf w"
  by (simp_all add: setWorkerPhase_def)

lemma setWorkerReplicas_simps [simp]:
  "wk_meta (setWorkerReplicas st w) = wk_meta w" "wk_spec (setWorkerReplicas st w) = wk_spec w"
  "wcondsOf (setWorkerReplicas st w) = wcondsOf w"
  by (simp_all add: setWorkerReplicas_def)

lemma traces_setWorkerCondition:
  "traces (setWorkerCondition (logged_reconciler r) w x)
    (\<lambda>w' cs. cs = [] \<and> (\<exists>cc. w' = putWorkerConditions cc w))"
  unfolding setWorkerCondition_def by (cases x) (auto simp: putWorkerConditions_def intro!: traces_rules)

lemma traces_setWorkerConditions:
  "traces (setWorkerConditions (logged_reconciler r) w xs)
    (\<lambda>w' cs. cs = [] \<and> (\<exists>cc. w' = putWorkerConditions cc w))"
proof (induction xs arbitrary: w)
  case Nil
  show ?case by (simp, rule traces_return) (metis putWorkerConditions_simps(2))
next
  case (Cons x xs)
  show ?case
  proof (simp, rule traces_bind, rule traces_mono [OF traces_setWorkerCondition])
    fix w1 and cs :: "entry list"
    assume "cs = [] \<and> (\<exists>cc. w1 = putWorkerConditions cc w)"
    then show "traces (setWorkerConditions (logged_reconciler r) w1 xs)
      (\<lambda>w' cs'. cs @ cs' = [] \<and> (\<exists>cc. w' = putWorkerConditions cc w))"
      by (intro traces_mono [OF Cons.IH]) auto
  qed
qed

lemma emits_setWorkerCondition [emits_rules]:
  "emits R (setWorkerCondition (logged_reconciler r) w x)"
  "emits R (setWorkerConditions (logged_reconciler r) w xs)"
  unfolding emits_def
  by (rule traces_mono [OF traces_setWorkerCondition], simp)
    (rule traces_mono [OF traces_setWorkerConditions], simp)

lemma emits_recordWorkerEvent [emits_rules]:
  "(\<And>ev. R (Emit ev, None)) \<Longrightarrow> emits R (recordWorkerEvent (logged_reconciler r) w t rs msg)"
  unfolding recordWorkerEvent_def by (rule emits_record_event)

subsection \<open>Fail-stop\<close>

lemma sideline_worker [stop_rules]:
  "sideline (setWorkerCondition (logged_reconciler r) w x)"
  "sideline (setWorkerConditions (logged_reconciler r) w xs)"
  "sideline (recordWorkerEvent (logged_reconciler r) w t rs msg)"
  unfolding sideline_def by (auto intro!: emits_rules)

lemma sideline_if [stop_rules]: "sideline m \<Longrightarrow> sideline (if b then m else State_Monad.return a)"
  by (simp add: sideline_def emits_return)

lemma strict_finishWorkerStatus [stop_rules]: "strict (finishWorkerStatus (logged_reconciler r) p w)"
  unfolding finishWorkerStatus_def logged_reconciler_client logged_kube_calls
  by (intro strict_bind_sideline stop_rules)

lemma strict_updateWorkerStatus [stop_rules]: "strict (updateWorkerStatus (logged_reconciler r) w)"
  unfolding updateWorkerStatus_def Let_def logged_reconciler_client logged_kube_calls
  by (rule strict_if_err_get)
    (auto intro!: stop_rules strict_bind_sideline traces_rules split: prod.split)

lemma strict_worker_children [stop_rules]:
  "strict (reconcileWorkerDeployment (logged_reconciler r) w c)"
  "strict (reconcileWorkerHPA (logged_reconciler r) w)"
proof -
  show "strict (reconcileWorkerDeployment (logged_reconciler r) w c)"
    by (simp add: reconcileWorkerDeployment_def strict_call)
  have "strict (if_err (logged (entry_of (ReadHPA k)) (GetHPA (rc_client r) k)) (\<lambda>_. State_Monad.return nil)
      (\<lambda>h. logged (entry_of (RemoveHPA h)) (DeleteHPA (rc_client r) h)))" for k
    by (rule strict_if_err_get) (auto intro!: stop_rules)
  then show "strict (reconcileWorkerHPA (logged_reconciler r) w)"
    by (auto simp: reconcileWorkerHPA_def Let_def strict_call split: option.split)
qed

lemma settles_workerReconcileChildren [stop_rules]:
  "settles (workerReconcileChildren (logged_reconciler r) w c)"
  unfolding workerReconcileChildren_def by (intro settles_if_err stop_rules) simp_all

lemma strict_workerEnsureFinalizer [stop_rules]: "strict (workerEnsureFinalizer (logged_reconciler r) w)"
  unfolding workerEnsureFinalizer_def Let_def logged_reconciler_client logged_kube_calls
  by (intro stop_rules)

lemma settles_workerDeletion [stop_rules]: "settles (workerDeletion (logged_reconciler r) w)"
  unfolding workerDeletion_def Let_def logged_reconciler_client logged_kube_calls
  by (intro stop_rules settles_if_err settles_bind_sideline) simp_all

text \<open>The one path that forgives: the referenced cluster does not exist.\<close>

definition clusterMissing :: "entry list \<Rightarrow> bool" where
  "clusterMissing cs \<longleftrightarrow> (\<exists>k e. (ReadCluster k, Some e) \<in> set cs \<and> IsNotFound e)"

abbreviation settled :: "reconcile_result \<Rightarrow> entry list \<Rightarrow> bool" where
  "settled res cs \<equiv> (has_fatal cs \<longrightarrow> snd res \<noteq> None) \<and> stops cs"

lemma traces_workerResolveCluster:
  "traces (workerResolveCluster (logged_reconciler r) w) (\<lambda>res cs. clusterMissing cs \<or> settled res cs)"
  unfolding workerResolveCluster_def logged_reconciler_client logged_kube_calls
proof (rule traces_if_err, rule traces_logged, intro conjI allI impI)
  fix x :: "goerror + OJSCluster" and e :: goerror
  let ?k = "\<lparr>nn_namespace = wns w, nn_name = ws_clusterRef (wk_spec w)\<rparr>"
  assume x: "x = Inl e"
  show "traces (if IsNotFound e then workerClusterMissing (logged_reconciler r) w else State_Monad.return (noResult, Some e))
    (\<lambda>b cs'. clusterMissing ([entry_of (ReadCluster ?k) x] @ cs') \<or> settled b ([entry_of (ReadCluster ?k) x] @ cs'))"
  proof (cases "IsNotFound e")
    case True
    have "emits (\<lambda>_. True) (workerClusterMissing (logged_reconciler r) w)"
      unfolding workerClusterMissing_def Let_def logged_reconciler_client logged_kube_calls
      by (intro emits_rules) simp_all
    with True x show ?thesis
      by (auto simp: clusterMissing_def intro: traces_mono [OF traces_True])
  next
    case False
    with x show ?thesis by (auto intro!: traces_return)
  qed
next
  fix x :: "goerror + OJSCluster" and c :: OJSCluster
  assume "x = Inr c"
  then show "traces (workerReconcileChildren (logged_reconciler r) w c)
    (\<lambda>b cs'. clusterMissing ([entry_of (ReadCluster \<lparr>nn_namespace = wns w, nn_name = ws_clusterRef (wk_spec w)\<rparr>) x] @ cs') \<or>
      settled b ([entry_of (ReadCluster \<lparr>nn_namespace = wns w, nn_name = ws_clusterRef (wk_spec w)\<rparr>) x] @ cs'))"
    by (intro traces_mono [OF settles_workerReconcileChildren [unfolded settles_def]]) simp
qed

lemma traces_worker_live:
  "traces (if_err (workerEnsureFinalizer (logged_reconciler r) w) (\<lambda>err. State_Monad.return (noResult, Some err))
    (workerResolveCluster (logged_reconciler r))) (\<lambda>res cs. clusterMissing cs \<or> settled res cs)"
  by (rule traces_if_err, rule traces_mono [OF strict_workerEnsureFinalizer [unfolded strict_def]])
    (auto simp: clusterMissing_def stops_append intro!: traces_return
      traces_mono [OF traces_workerResolveCluster, unfolded clusterMissing_def])

lemma traces_ReconcileWorker:
  "traces (ReconcileWorker (logged_reconciler r) req) (\<lambda>res cs. clusterMissing cs \<or> settled res cs)"
  unfolding ReconcileWorker_def logged_reconciler_client logged_kube_calls
proof (rule traces_if_err, rule traces_logged, intro conjI allI impI)
  fix x :: "goerror + OJSWorker" and e :: goerror
  assume "x = Inl e"
  then show "traces (if IsNotFound e then State_Monad.return (noResult, None) else State_Monad.return (noResult, Some e))
    (\<lambda>b cs'. clusterMissing ([entry_of (ReadWorker req) x] @ cs') \<or> settled b ([entry_of (ReadWorker req) x] @ cs'))"
    by (auto intro!: traces_return)
next
  fix x :: "goerror + OJSWorker" and w :: OJSWorker
  assume "x = Inr w"
  then show "traces (if \<not> IsZero (om_deletionTimestamp (wk_meta w)) then workerDeletion (logged_reconciler r) w
      else if_err (workerEnsureFinalizer (logged_reconciler r) w) (\<lambda>err. State_Monad.return (noResult, Some err))
        (workerResolveCluster (logged_reconciler r)))
    (\<lambda>b cs'. clusterMissing ([entry_of (ReadWorker req) x] @ cs') \<or> settled b ([entry_of (ReadWorker req) x] @ cs'))"
    by (auto simp: clusterMissing_def intro!: traces_mono [OF settles_workerDeletion [unfolded settles_def]]
        traces_mono [OF traces_worker_live, unfolded clusterMissing_def])
qed

subsection \<open>Where the reported error comes from\<close>

lemma blames_finishWorkerStatus [blame_rules]: "blames E (finishWorkerStatus (logged_reconciler r) p w)"
  unfolding finishWorkerStatus_def logged_reconciler_client logged_kube_calls
  by (intro blame_rules traces_True emits_rules) simp_all

lemma blames_updateWorkerStatus [blame_rules]: "blames E (updateWorkerStatus (logged_reconciler r) w)"
  unfolding updateWorkerStatus_def Let_def logged_reconciler_client logged_kube_calls
  by (rule blames_lookup)
    (auto intro!: blame_rules traces_True emits_rules traces_return split: prod.split)

lemma blames_worker_children [blame_rules]:
  "blames E (reconcileWorkerDeployment (logged_reconciler r) w c)"
  "blames E (reconcileWorkerHPA (logged_reconciler r) w)"
proof -
  show "blames E (reconcileWorkerDeployment (logged_reconciler r) w c)"
    by (simp add: reconcileWorkerDeployment_def blames_call)
  have "blames E (if_err (logged (entry_of (ReadHPA k)) (GetHPA (rc_client r) k)) (\<lambda>_. State_Monad.return nil)
      (\<lambda>h. logged (entry_of (RemoveHPA h)) (DeleteHPA (rc_client r) h)))" for k
    by (rule blames_lookup) (auto intro!: blame_rules)
  then show "blames E (reconcileWorkerHPA (logged_reconciler r) w)"
    by (auto simp: reconcileWorkerHPA_def Let_def blames_call split: option.split)
qed

lemma accounts_workerClusterMissing [blame_rules]: "accounts E (workerClusterMissing (logged_reconciler r) w)"
  unfolding workerClusterMissing_def Let_def logged_reconciler_client logged_kube_calls
  by (intro blame_rules traces_True emits_rules) simp_all

lemma accounts_workerResolveCluster [blame_rules]: "accounts E (workerResolveCluster (logged_reconciler r) w)"
  unfolding workerResolveCluster_def workerReconcileChildren_def logged_reconciler_client logged_kube_calls
  by (rule accounts_lookup) (auto intro!: blame_rules traces_return)

lemma blames_workerEnsureFinalizer [blame_rules]: "blames E (workerEnsureFinalizer (logged_reconciler r) w)"
  unfolding workerEnsureFinalizer_def Let_def logged_reconciler_client logged_kube_calls
  by (intro blame_rules) simp_all

lemma accounts_workerDeletion [blame_rules]: "accounts E (workerDeletion (logged_reconciler r) w)"
  unfolding workerDeletion_def Let_def logged_reconciler_client logged_kube_calls
  by (intro blame_rules traces_True emits_rules) simp_all

lemma accounts_ReconcileWorker: "accounts E (ReconcileWorker (logged_reconciler r) req)"
  unfolding ReconcileWorker_def logged_reconciler_client logged_kube_calls
  by (rule accounts_lookup) (auto intro!: blame_rules traces_return)

subsection \<open>The plan\<close>

definition hpaKey :: "OJSWorker \<Rightarrow> NamespacedName" where
  "hpaKey w = \<lparr>nn_namespace = wns w, nn_name = wname w @ ''-hpa''\<rparr>"

text \<open>\<open>rm\<close> is the autoscaler found and removed, if any.\<close>

definition hpaPlan :: "set_ref \<Rightarrow> OJSWorker \<Rightarrow> HorizontalPodAutoscaler option \<Rightarrow> call list" where
  "hpaPlan setRef w rm =
     (let removal = (case rm of None \<Rightarrow> [] | Some h \<Rightarrow> [RemoveHPA h]) in
      case ws_autoScaling (wk_spec w) of
        None \<Rightarrow> removal
      | Some a \<Rightarrow> if was_enabled a
          then [ApplyHPA (newHPA (wname w @ ''-hpa'') (wns w)) (hpaCallback setRef w a)] else removal)"

definition workerPlan ::
  "set_ref \<Rightarrow> OJSWorker \<Rightarrow> OJSCluster \<Rightarrow> HorizontalPodAutoscaler option \<Rightarrow> call list" where
  "workerPlan setRef w c rm =
     [ApplyDeployment (newDeployment (wname w) (wns w)) (workerDeploymentCallback setRef w c)] @ hpaPlan setRef w rm"

definition removalOf :: "OJSWorker \<Rightarrow> HorizontalPodAutoscaler option \<Rightarrow> bool" where
  "removalOf w rm \<longleftrightarrow> (\<forall>h. rm = Some h \<longrightarrow> key_of (hpa_meta h) = hpaKey w \<and> \<not> workerScales w)"

lemma traces_removeHPA:
  assumes "api_names (rc_client r)"
  shows "traces (if_err (logged (entry_of (ReadHPA k)) (GetHPA (rc_client r) k)) (\<lambda>_. State_Monad.return nil)
      (\<lambda>h. logged (entry_of (RemoveHPA h)) (DeleteHPA (rc_client r) h)))
    (\<lambda>res cs. \<exists>rm. (\<forall>h. rm = Some h \<longrightarrow> key_of (hpa_meta h) = k) \<and>
      childCalls cs = (case rm of None \<Rightarrow> [] | Some h \<Rightarrow> [RemoveHPA h]))"
proof (rule traces_if_err, rule traces_logged_answers [OF api_names.get_hpa_key [OF assms]], intro conjI allI impI)
  fix x :: "goerror + HorizontalPodAutoscaler" and e :: goerror
  show "traces (State_Monad.return nil) (\<lambda>b cs'. \<exists>rm. (\<forall>h. rm = Some h \<longrightarrow> key_of (hpa_meta h) = k) \<and>
      childCalls ([entry_of (ReadHPA k) x] @ cs') = (case rm of None \<Rightarrow> [] | Some h \<Rightarrow> [RemoveHPA h]))"
    by (rule traces_return, rule exI [of _ None]) simp
next
  fix x :: "goerror + HorizontalPodAutoscaler" and h
  assume "\<forall>h. x = Inr h \<longrightarrow> key_of (hpa_meta h) = k" "x = Inr h"
  then show "traces (logged (entry_of (RemoveHPA h)) (DeleteHPA (rc_client r) h))
    (\<lambda>b cs'. \<exists>rm. (\<forall>h. rm = Some h \<longrightarrow> key_of (hpa_meta h) = k) \<and>
      childCalls ([entry_of (ReadHPA k) x] @ cs') = (case rm of None \<Rightarrow> [] | Some h \<Rightarrow> [RemoveHPA h]))"
    by (intro traces_logged exI [of _ "Some h"]) simp
qed

lemma traces_reconcileWorkerHPA:
  assumes "api_names (rc_client r)"
  shows "traces (reconcileWorkerHPA (logged_reconciler r) w) (\<lambda>res cs. \<exists>rm. removalOf w rm \<and>
    childCalls cs = hpaPlan (SetControllerReference (rc_client r)) w rm)"
proof (cases "workerScales w")
  case True
  then obtain a where "ws_autoScaling (wk_spec w) = Some a" "was_enabled a"
    by (auto simp: workerScales_def split: option.splits)
  then show ?thesis
    by (auto simp: reconcileWorkerHPA_def Let_def hpaPlan_def removalOf_def intro!: traces_logged exI [of _ None])
next
  case False
  then have "hpaPlan (SetControllerReference (rc_client r)) w rm = (case rm of None \<Rightarrow> [] | Some h \<Rightarrow> [RemoveHPA h])" for rm
    by (auto simp: hpaPlan_def workerScales_def Let_def split: option.splits)
  moreover have "reconcileWorkerHPA (logged_reconciler r) w =
    if_err (logged (entry_of (ReadHPA (hpaKey w))) (GetHPA (rc_client r) (hpaKey w))) (\<lambda>_. State_Monad.return nil)
      (\<lambda>h. logged (entry_of (RemoveHPA h)) (DeleteHPA (rc_client r) h))"
    using False by (auto simp: reconcileWorkerHPA_def workerScales_def Let_def hpaKey_def newHPA_def split: option.splits)
  ultimately show ?thesis
    using False by (auto simp: removalOf_def intro!: traces_mono [OF traces_removeHPA [OF assms]])
qed

lemma childless_worker_status [emits_rules]:
  "emits (\<lambda>x. \<not> child_call (fst x)) (finishWorkerStatus (logged_reconciler r) p w)"
  "emits (\<lambda>x. \<not> child_call (fst x)) (updateWorkerStatus (logged_reconciler r) w)"
proof -
  show *: "emits (\<lambda>x. \<not> child_call (fst x)) (finishWorkerStatus (logged_reconciler r) p w)" for p w
    unfolding finishWorkerStatus_def by (auto intro!: emits_rules)
  show "emits (\<lambda>x. \<not> child_call (fst x)) (updateWorkerStatus (logged_reconciler r) w)"
    unfolding updateWorkerStatus_def Let_def by (auto intro!: emits_rules * split: prod.split)
qed

lemma traces_updateWorkerStatus_key:
  assumes names: "api_names (rc_client r)"
  shows "traces (updateWorkerStatus (logged_reconciler r) w) (\<lambda>x cs. childless cs \<and>
    (\<forall>w'. x = Inr w' \<longrightarrow> key_of (wk_meta w') = key_of (wk_meta w)))"
proof -
  have fin: "traces (finishWorkerStatus (logged_reconciler r) p w1) (\<lambda>x cs.
      \<forall>w'. x = Inr w' \<longrightarrow> key_of (wk_meta w') = key_of (wk_meta w1))" for p w1
    unfolding finishWorkerStatus_def recordWorkerEvent_def logged_reconciler_client logged_kube_calls
    by (auto intro!: traces_rules traces_logged_answers [OF api_names.status_worker_key [OF names]])
  have set: "traces (State_Monad.bind (setWorkerConditions (logged_reconciler r) w1 xs)
      (finishWorkerStatus (logged_reconciler r) p)) (\<lambda>x cs.
      \<forall>w'. x = Inr w' \<longrightarrow> key_of (wk_meta w') = key_of (wk_meta w))" if "wk_meta w1 = wk_meta w" for w1 xs p
    by (rule traces_bind, rule traces_mono [OF traces_setWorkerConditions])
      (use that in \<open>auto intro!: traces_mono [OF fin]\<close>)
  have "traces (updateWorkerStatus (logged_reconciler r) w) (\<lambda>x cs.
      \<forall>w'. x = Inr w' \<longrightarrow> key_of (wk_meta w') = key_of (wk_meta w))"
    unfolding updateWorkerStatus_def Let_def logged_reconciler_client logged_kube_calls
    by (rule traces_if_err, rule traces_logged)
      (auto intro!: set traces_return split: prod.split)
  then show ?thesis
    using childless_worker_status(2) [unfolded emits_def] by (intro traces_conj)
qed

definition workerFollows ::
  "'s kube \<Rightarrow> OJSWorker \<Rightarrow> OJSCluster \<Rightarrow> reconcile_result \<Rightarrow> entry list \<Rightarrow> bool" where
  "workerFollows K w c res cs \<longleftrightarrow> (\<exists>rm. removalOf w rm \<and>
     prefix (childCalls cs) (workerPlan (SetControllerReference K) w c rm) \<and>
     (snd res = None \<longrightarrow> childCalls cs = workerPlan (SetControllerReference K) w c rm \<and>
       (\<exists>w'. key_of (wk_meta w') = key_of (wk_meta w) \<and> fst res = requeueInterval K w')))"

lemma workerFollows_failed:
  "prefix (childCalls cs) (workerPlan (SetControllerReference K) w c rm) \<Longrightarrow> removalOf w rm \<Longrightarrow>
    workerFollows K w c (res, Some e) cs"
  by (auto simp: workerFollows_def)

lemma traces_workerReconcileChildren:
  assumes names: "api_names (rc_client r)"
  shows "traces (workerReconcileChildren (logged_reconciler r) w c) (workerFollows (rc_client r) w c)"
  unfolding workerReconcileChildren_def
proof (rule traces_if_err)
  let ?lr = "logged_reconciler r" and ?K = "rc_client r"
  let ?dep = "ApplyDeployment (newDeployment (wname w) (wns w)) (workerDeploymentCallback (SetControllerReference ?K) w c)"
  let ?hpa = "if_err (reconcileWorkerHPA ?lr w) (\<lambda>err. State_Monad.return (noResult, Some err))
    (\<lambda>_. if_err (updateWorkerStatus ?lr w) (\<lambda>err. State_Monad.return (noResult, Some err))
      (\<lambda>w'. State_Monad.return (requeueInterval (rc_client ?lr) w', None)))"
  have none: "removalOf w None" by (simp add: removalOf_def)
  have interval: "requeueInterval (logged_kube ?K) w' = requeueInterval ?K w'" for w'
    by (simp add: requeueInterval_def Let_def cong: option.case_cong if_cong)
  have hpa: "traces ?hpa (\<lambda>b cs'. workerFollows ?K w c b (x # cs'))" if "fst x = ?dep" for x
  proof (rule traces_if_err, rule traces_mono [OF traces_reconcileWorkerHPA [OF names]], intro conjI allI impI)
    fix y :: "goerror + unit" and e and cs :: "entry list"
    assume "\<exists>rm. removalOf w rm \<and> childCalls cs = hpaPlan (SetControllerReference ?K) w rm"
    then show "traces (State_Monad.return (noResult, Some e)) (\<lambda>b cs'. workerFollows ?K w c b (x # cs @ cs'))"
      using that by (auto simp: workerPlan_def intro!: traces_return workerFollows_failed)
  next
    fix y :: "goerror + unit" and a and cs :: "entry list"
    assume "\<exists>rm. removalOf w rm \<and> childCalls cs = hpaPlan (SetControllerReference ?K) w rm"
    then obtain rm where rm: "removalOf w rm" "childCalls cs = hpaPlan (SetControllerReference ?K) w rm" by blast
    show "traces (if_err (updateWorkerStatus ?lr w) (\<lambda>err. State_Monad.return (noResult, Some err))
      (\<lambda>w'. State_Monad.return (requeueInterval (rc_client ?lr) w', None))) (\<lambda>b cs'. workerFollows ?K w c b (x # cs @ cs'))"
      by (rule traces_if_err, rule traces_mono [OF traces_updateWorkerStatus_key [OF names]])
        (use rm that in \<open>auto simp: workerPlan_def workerFollows_def childCalls_Nil interval intro!: traces_return exI [of _ rm]\<close>)
  qed
  show "traces (reconcileWorkerDeployment ?lr w c)
    (\<lambda>x cs. (\<forall>e. x = Inl e \<longrightarrow> traces (State_Monad.return (noResult, Some e)) (\<lambda>b cs'. workerFollows ?K w c b (cs @ cs'))) \<and>
      (\<forall>a. x = Inr a \<longrightarrow> traces ?hpa (\<lambda>b cs'. workerFollows ?K w c b (cs @ cs'))))"
    unfolding reconcileWorkerDeployment_def logged_reconciler_client logged_kube_calls logged_kube_pure
    by (rule traces_logged) (auto intro!: traces_return workerFollows_failed [OF _ none] hpa [unfolded logged_reconciler_client] simp: workerPlan_def)
qed

end
