(* ===== verification/WorkerProperties.thy ===== *)
theory WorkerProperties
  imports WorkerProofs Demo
begin

text \<open>
  The properties of the OJSWorker reconciler, for a logged run of \<open>ReconcileWorker\<close> from an
  arbitrary state of the environment.
\<close>

subsection \<open>Runs of the demonstration\<close>

abbreviation workerRun :: "world \<Rightarrow> reconcile_result \<times> entry list" where
  "workerRun w \<equiv> observe (ReconcileWorker (logged_reconciler memReconciler) (demoKey ''w'')) w"

lemma workerRun_ok: "snd (fst (workerRun demoWorld)) = None"
  by code_simp

lemma workerRun_found: "\<not> list_ex (\<lambda>x. case x of (ReadCluster k, Some e) \<Rightarrow> True | _ \<Rightarrow> False) (snd (workerRun demoWorld))"
  by code_simp

lemma foreignWorker_fatal: "has_fatal (snd (workerRun foreignWorkerWorld))"
  by code_simp

lemma foreignWorker_error: "snd (fst (workerRun foreignWorkerWorld)) \<noteq> None"
  by code_simp

lemma foreignWorker_found:
  "\<not> list_ex (\<lambda>x. case x of (ReadCluster k, Some e) \<Rightarrow> True | _ \<Rightarrow> False) (snd (workerRun foreignWorkerWorld))"
  by code_simp

lemma worker_read: "fst (run_state (GetOJSWorker memKube (demoKey ''w'')) demoWorld) = Inr demoWorker"
  by (simp add: memKube_simps demoWorld_def key_of_def demoWorker_def demoMeta_def emptyMeta_def)

lemma worker_live: "IsZero (om_deletionTimestamp (wk_meta demoWorker))"
  by (simp add: demoWorker_def demoMeta_def emptyMeta_def)

lemma not_clusterMissing:
  "\<not> list_ex (\<lambda>x. case x of (ReadCluster k, Some e) \<Rightarrow> True | _ \<Rightarrow> False) cs \<Longrightarrow> \<not> clusterMissing cs"
  by (force simp: clusterMissing_def list_ex_iff)

subsection \<open>Fail-stop and the origin of errors\<close>

text \<open>C11. Fail-stop of the worker reconciler. When a call fails fatally and the referenced cluster is not reported missing,
  \<^verbatim>\<open>Reconcile\<close> reports an error, and after the failing call no child object is applied or removed.\<close>

theorem ReconcileWorker_fail_stop:
  assumes "observe (ReconcileWorker (logged_reconciler r) req) s = (res, cs)"
    and "cs = xs @ (c, Some e) # ys" and "fatal (c, Some e)" and "\<not> clusterMissing cs"
  shows "snd res \<noteq> None \<and> childless ys"
  using observeD [OF traces_ReconcileWorker assms(1)] stops_split [of xs "(c, Some e)" ys] assms(2-4) by auto

theorem ReconcileWorker_fail_stop_witness:
  "\<exists>res xs c e ys. workerRun foreignWorkerWorld = (res, xs @ (c, Some e) # ys) \<and> fatal (c, Some e) \<and>
     snd res \<noteq> None \<and> childless ys"
proof -
  obtain xs c e ys where cs: "snd (workerRun foreignWorkerWorld) = xs @ (c, Some e) # ys" and f: "fatal (c, Some e)"
    using has_fatal_split [OF foreignWorker_fatal] by blast
  have run: "workerRun foreignWorkerWorld = (fst (workerRun foreignWorkerWorld), xs @ (c, Some e) # ys)"
    unfolding cs [symmetric] by (rule prod.collapse [symmetric])
  have "\<not> clusterMissing (xs @ (c, Some e) # ys)"
    unfolding cs [symmetric] by (rule not_clusterMissing [OF foreignWorker_found])
  note stop = ReconcileWorker_fail_stop [OF run refl f this]
  show ?thesis by (intro exI conjI, rule run, rule f, rule stop [THEN conjunct1], rule stop [THEN conjunct2])
qed

text \<open>Every error the worker reconciler reports is, unchanged, the error of one of its calls that failed
  fatally.\<close>

lemma ReconcileWorker_error_source:
  assumes "observe (ReconcileWorker (logged_reconciler r) req) s = (res, cs)" and "snd res = Some e"
  shows "\<exists>c. (c, Some e) \<in> set cs \<and> fatal (c, Some e)"
  using observeD [OF accounts_ReconcileWorker [of "\<lambda>_. False", unfolded accounts_def] assms(1)] assms(2)
  by (simp add: sourced_def)

subsection \<open>The plan is followed\<close>

definition hasWorkerFinalizer :: "'s kube \<Rightarrow> OJSWorker \<Rightarrow> bool" where
  "hasWorkerFinalizer K w \<longleftrightarrow> ContainsFinalizer K (om_finalizers (wk_meta w)) workerFinalizer"

lemma key_setWorkerFinalizers [simp]: "key_of (wk_meta (setWorkerFinalizers fs w)) = key_of (wk_meta w)"
  by (simp add: setWorkerFinalizers_def key_of_def)

text \<open>\<open>workerKept K w w'\<close>: the reconciliation that starts from the worker \<open>w\<close> may go on with \<open>w'\<close>.\<close>

definition workerKept :: "'s kube \<Rightarrow> OJSWorker \<Rightarrow> OJSWorker \<Rightarrow> bool" where
  "workerKept K w w' \<longleftrightarrow> key_of (wk_meta w') = key_of (wk_meta w) \<and> (hasWorkerFinalizer K w \<longrightarrow> w' = w) \<and>
     (api_echo K \<longrightarrow> same_worker_demands w w')"

lemma traces_workerEnsureFinalizer:
  assumes "api_names (rc_client r)"
  shows "traces (workerEnsureFinalizer (logged_reconciler r) w)
    (\<lambda>x cs. childless cs \<and> (\<forall>w'. x = Inr w' \<longrightarrow> workerKept (rc_client r) w w'))"
proof -
  have answer: "answers (UpdateOJSWorker (rc_client r) (setWorkerFinalizers fs w)) (\<lambda>x. \<forall>w'. x = Inr w' \<longrightarrow>
      key_of (wk_meta w') = key_of (wk_meta w) \<and> (api_echo (rc_client r) \<longrightarrow> same_worker_demands w w'))" for fs
    using api_names.update_worker_key [OF assms, of "setWorkerFinalizers fs w"]
      api_echo.update_worker_same [of "rc_client r" "setWorkerFinalizers fs w"]
    by (auto simp: answers_def same_worker_demands_def setWorkerFinalizers_def key_of_def)
  show ?thesis
    unfolding workerEnsureFinalizer_def Let_def logged_reconciler_client logged_kube_calls logged_kube_pure
    by (intro traces_if traces_logged_answers [OF answer] traces_return)
      (simp_all add: workerKept_def hasWorkerFinalizer_def)
qed

definition waitsForCluster :: "reconcile_result \<Rightarrow> entry list \<Rightarrow> bool" where
  "waitsForCluster res cs \<longleftrightarrow> clusterMissing cs \<and> childCalls cs = [] \<and>
     res = (\<lparr>res_requeueAfter = 30 * second\<rparr>, None)"

lemma traces_workerClusterMissing:
  "traces (workerClusterMissing (logged_reconciler r) w)
    (\<lambda>res cs. childless cs \<and> res = (\<lparr>res_requeueAfter = 30 * second\<rparr>, None))"
  unfolding workerClusterMissing_def Let_def logged_reconciler_client logged_kube_calls recordWorkerEvent_def
  by (auto intro!: traces_rules traces_setWorkerCondition [THEN traces_mono])

text \<open>With the cluster missing no child is touched.\<close>

lemma children_read_no_cluster:
  "emits (\<lambda>x. \<forall>k. fst x \<noteq> ReadCluster k) (workerReconcileChildren (logged_reconciler r) w c)"
proof -
  have fin: "emits (\<lambda>x. \<forall>k. fst x \<noteq> ReadCluster k) (finishWorkerStatus (logged_reconciler r) p w)" for p w
    unfolding finishWorkerStatus_def recordWorkerEvent_def logged_reconciler_client logged_kube_calls
    by (intro emits_rules) simp_all
  have set: "emits (\<lambda>x. \<forall>k. fst x \<noteq> ReadCluster k) (setWorkerConditions (logged_reconciler r) w xs)" for w xs
    unfolding emits_def by (rule traces_mono [OF traces_setWorkerConditions]) simp
  show ?thesis
    unfolding workerReconcileChildren_def reconcileWorkerDeployment_def reconcileWorkerHPA_def updateWorkerStatus_def Let_def
      logged_reconciler_client logged_kube_calls
    by (intro emits_rules fin set) (auto split: prod.split intro!: emits_rules fin set)
qed

lemma missing_childless:
  assumes "observe (ReconcileWorker (logged_reconciler r) req) s = (res, cs)" "clusterMissing cs"
  shows "childCalls cs = []"
proof -
  let ?Q = "\<lambda>res cs. clusterMissing cs \<longrightarrow> childless cs"
  have children: "traces (workerReconcileChildren (logged_reconciler r) w c) (\<lambda>_ cs. \<not> clusterMissing cs)" for w c
    by (rule traces_mono [OF children_read_no_cluster [unfolded emits_def]])
      (force simp: clusterMissing_def list_all_iff)
  have resolve: "traces (workerResolveCluster (logged_reconciler r) w) ?Q" for w
    unfolding workerResolveCluster_def logged_reconciler_client logged_kube_calls
    by (rule traces_if_err, rule traces_logged, intro conjI allI impI)
      (auto simp: clusterMissing_def intro!: traces_if traces_return traces_mono [OF traces_workerClusterMissing]
        traces_mono [OF children])
  have ensure: "traces (workerEnsureFinalizer (logged_reconciler r) w) (\<lambda>_ cs. childless cs \<and> \<not> clusterMissing cs)" for w
    unfolding workerEnsureFinalizer_def Let_def logged_reconciler_client logged_kube_calls
    by (intro traces_if traces_logged traces_return) (simp_all add: clusterMissing_def entry_of_def)
  have deletion: "traces (workerDeletion (logged_reconciler r) w) (\<lambda>_ cs. childless cs)" for w
    unfolding workerDeletion_def recordWorkerEvent_def Let_def logged_reconciler_client logged_kube_calls
    by (auto intro!: traces_rules)
  have append: "clusterMissing (cs @ ds) \<longleftrightarrow> clusterMissing cs \<or> clusterMissing ds" for cs ds
    by (auto simp: clusterMissing_def)
  have live: "traces (if_err (workerEnsureFinalizer (logged_reconciler r) w) (\<lambda>err. State_Monad.return (noResult, Some err))
      (workerResolveCluster (logged_reconciler r))) ?Q" for w
    by (rule traces_if_err, rule traces_mono [OF ensure])
      (auto simp: append intro!: traces_return traces_mono [OF resolve])
  have "traces (ReconcileWorker (logged_reconciler r) req) ?Q"
    unfolding ReconcileWorker_def logged_reconciler_client logged_kube_calls
    by (rule traces_if_err, rule traces_logged)
      (auto simp: clusterMissing_def intro!: traces_return traces_mono [OF deletion]
        traces_mono [OF live, unfolded clusterMissing_def])
  from observeD [OF this assms(1)] show ?thesis using assms(2) by (simp add: childCalls_Nil)
qed

lemma childCalls_clusterMissing_append: "clusterMissing ds \<Longrightarrow> clusterMissing (cs @ ds)"
  by (auto simp: clusterMissing_def)

definition workerPlanned :: "'s kube \<Rightarrow> OJSWorker \<Rightarrow> reconcile_result \<Rightarrow> entry list \<Rightarrow> bool" where
  "workerPlanned K w res cs \<longleftrightarrow> waitsForCluster res cs \<or>
     (\<exists>c. key_of (cl_meta c) = \<lparr>nn_namespace = wns w, nn_name = ws_clusterRef (wk_spec w)\<rparr> \<and> workerFollows K w c res cs) \<or>
     (childCalls cs = [] \<and> snd res \<noteq> None)"

lemma traces_workerResolve_planned:
  assumes names: "api_names (rc_client r)"
  shows "traces (workerResolveCluster (logged_reconciler r) w) (workerPlanned (rc_client r) w)"
  unfolding workerResolveCluster_def logged_reconciler_client logged_kube_calls
proof (rule traces_if_err, rule traces_logged_answers [OF api_names.get_cluster_key [OF names]], intro conjI allI impI)
  let ?k = "\<lparr>nn_namespace = wns w, nn_name = ws_clusterRef (wk_spec w)\<rparr>"
  fix x :: "goerror + OJSCluster" and e :: goerror
  assume x: "x = Inl e"
  show "traces (if IsNotFound e then workerClusterMissing (logged_reconciler r) w else State_Monad.return (noResult, Some e))
    (\<lambda>b cs'. workerPlanned (rc_client r) w b ([entry_of (ReadCluster ?k) x] @ cs'))"
    by (rule traces_if, rule traces_mono [OF traces_workerClusterMissing])
      (auto simp: workerPlanned_def waitsForCluster_def clusterMissing_def x childCalls_Nil intro!: traces_return)
next
  let ?k = "\<lparr>nn_namespace = wns w, nn_name = ws_clusterRef (wk_spec w)\<rparr>"
  fix x :: "goerror + OJSCluster" and c :: OJSCluster
  assume "\<forall>c. x = Inr c \<longrightarrow> key_of (cl_meta c) = ?k" "x = Inr c"
  then show "traces (workerReconcileChildren (logged_reconciler r) w c)
    (\<lambda>b cs'. workerPlanned (rc_client r) w b ([entry_of (ReadCluster ?k) x] @ cs'))"
    by (intro traces_mono [OF traces_workerReconcileChildren [OF names]])
      (auto simp: workerPlanned_def workerFollows_def)
qed

lemma workerPlanned_append: "workerPlanned K w res cs \<Longrightarrow> childless ds \<Longrightarrow> workerPlanned K w res (ds @ cs)"
  by (auto simp: workerPlanned_def workerFollows_def waitsForCluster_def childCalls_Nil childCalls_clusterMissing_append)

lemma ReconcileWorker_plan:
  assumes names: "api_names (rc_client r)"
    and read: "fst (run_state (GetOJSWorker (rc_client r) req) s) = Inr w0"
    and live: "IsZero (om_deletionTimestamp (wk_meta w0))"
    and run: "observe (ReconcileWorker (logged_reconciler r) req) s = (res, cs)"
  shows "\<exists>w. key_of (wk_meta w) = req \<and> (hasWorkerFinalizer (rc_client r) w0 \<longrightarrow> w = w0) \<and>
     (api_echo (rc_client r) \<longrightarrow> same_worker_demands w0 w) \<and> workerPlanned (rc_client r) w res cs"
proof -
  let ?K = "rc_client r"
  let ?P = "\<lambda>res cs. \<exists>w. workerKept ?K w0 w \<and> workerPlanned ?K w res cs"
  have "traces (if_err (workerEnsureFinalizer (logged_reconciler r) w0) (\<lambda>err. State_Monad.return (noResult, Some err))
      (workerResolveCluster (logged_reconciler r))) ?P"
  proof (rule traces_prepared [where P = ?P, OF traces_workerEnsureFinalizer [OF names]])
    show "traces (workerResolveCluster (logged_reconciler r) w) ?P" if "workerKept ?K w0 w" for w
      by (rule traces_mono [OF traces_workerResolve_planned [OF names]]) (use that in blast)
    show "?P res cs" if "snd res \<noteq> None" "childless cs" for res and cs :: "entry list"
      using that by (intro exI [of _ w0]) (simp add: workerKept_def workerPlanned_def childCalls_Nil)
    show "?P res (cs0 @ cs)" if "childless cs0" "?P res cs" for res and cs0 cs :: "entry list"
      using that workerPlanned_append by blast
  qed
  then have "\<exists>ds. cs = (ReadWorker req, None) # ds \<and> ?P res ds"
    using run unfolding ReconcileWorker_def logged_reconciler_client logged_kube_calls
    by (intro observe_first [OF read]) (simp_all add: live)
  then obtain ds w where cs: "cs = [(ReadWorker req, None)] @ ds" and w: "workerKept ?K w0 w" "workerPlanned ?K w res ds"
    by auto
  have "workerPlanned ?K w res cs" unfolding cs by (rule workerPlanned_append [OF w(2)]) simp
  moreover have "key_of (wk_meta w0) = req"
    using api_names.get_worker_key [OF names] read by (simp add: answers_def)
  ultimately show ?thesis using w(1) by (auto simp: workerKept_def)
qed

text \<open>C9. The plan of a live worker is followed. One \<^verbatim>\<open>Reconcile\<close> of a live worker either finds its cluster missing, touches no
  child and asks to be called again after 30 seconds; or it fails before any child call; or its child calls are a prefix of the
  worker's plan: the Deployment against the referenced cluster's server, then the autoscaler, applied when autoscaling is enabled,
  removed only when it is not. Without an error it is the whole plan, and the requeue interval is that of the worker as the status write answered it. The worker is the
  one read when that has its finalizer, and else one of the same spec and identity, if the API server answers updates with what was sent.\<close>

theorem ReconcileWorker_follows_plan:
  assumes "api_names (rc_client r)"
    and "fst (run_state (GetOJSWorker (rc_client r) req) s) = Inr w0"
    and "IsZero (om_deletionTimestamp (wk_meta w0))"
    and "observe (ReconcileWorker (logged_reconciler r) req) s = (res, cs)"
  shows "\<exists>w. key_of (wk_meta w) = req \<and> (hasWorkerFinalizer (rc_client r) w0 \<longrightarrow> w = w0) \<and>
     (api_echo (rc_client r) \<longrightarrow> same_worker_demands w0 w) \<and> workerPlanned (rc_client r) w res cs"
  by (rule ReconcileWorker_plan [OF assms])

lemma demo_hasWorkerFinalizer: "hasWorkerFinalizer memKube demoWorker"
  by (simp add: hasWorkerFinalizer_def memKube_def demoWorker_def demoMeta_def emptyMeta_def workerFinalizer_def)

theorem ReconcileWorker_follows_plan_witness:
  "\<exists>c rm. key_of (cl_meta c) = demoKey ''c'' \<and>
     childCalls (snd (workerRun demoWorld)) = workerPlan memSetRef demoWorker c rm"
proof -
  have run: "workerRun demoWorld = (fst (workerRun demoWorld), snd (workerRun demoWorld))" by simp
  have "workerPlanned memKube demoWorker (fst (workerRun demoWorld)) (snd (workerRun demoWorld))"
    using ReconcileWorker_follows_plan [of memReconciler, unfolded memReconciler_client,
        OF mem.api_names_axioms worker_read worker_live run] demo_hasWorkerFinalizer by blast
  moreover have "\<not> waitsForCluster (fst (workerRun demoWorld)) (snd (workerRun demoWorld))"
    using not_clusterMissing [OF workerRun_found] by (simp add: waitsForCluster_def)
  moreover have "\<lparr>nn_namespace = wns demoWorker, nn_name = ws_clusterRef (wk_spec demoWorker)\<rparr> = demoKey ''c''"
    by (simp add: demoWorker_def demoWorkerSpec_def demoMeta_def emptyMeta_def)
  moreover have "SetControllerReference memKube = memSetRef" by (simp add: memKube_def)
  ultimately show ?thesis using workerRun_ok by (auto simp: workerPlanned_def workerFollows_def)
qed

end
