(* ===== verification/WorkerReporting.thy ===== *)
theory WorkerReporting
  imports WorkerProperties
begin

text \<open>
  What a reconciliation of an OJSWorker may touch, how deletion and a missing cluster are handled,
  what the status says afterwards and when the next run is due.
\<close>

subsection \<open>Logging is transparent\<close>

lemma mirrors_setWorkerCondition [mirrors_rules]:
  "mirrors (setWorkerCondition (logged_reconciler r) w x) (setWorkerCondition r w x)"
  unfolding setWorkerCondition_def by (auto intro!: mirrors_rules split: prod.split)

lemma mirrors_setWorkerConditions [mirrors_rules]:
  "mirrors (setWorkerConditions (logged_reconciler r) w xs) (setWorkerConditions r w xs)"
  by (induction xs arbitrary: w) (auto intro!: mirrors_rules)

lemma mirrors_updateWorkerStatus [mirrors_rules]:
  "mirrors (updateWorkerStatus (logged_reconciler r) w) (updateWorkerStatus r w)"
  unfolding updateWorkerStatus_def finishWorkerStatus_def recordWorkerEvent_def Let_def
  by (auto intro!: mirrors_rules split: prod.split)

lemma requeueInterval_logged [simp]: "requeueInterval (logged_kube K) w = requeueInterval K w"
  by (simp add: requeueInterval_def Let_def cong: option.case_cong if_cong)

lemma clusterNotFoundMsg_logged [simp]: "clusterNotFoundMsg (logged_kube K) w = clusterNotFoundMsg K w"
  by (simp add: clusterNotFoundMsg_def)

lemma mirrors_workerChildren [mirrors_rules]:
  "mirrors (workerReconcileChildren (logged_reconciler r) w c) (workerReconcileChildren r w c)"
  unfolding workerReconcileChildren_def reconcileWorkerDeployment_def reconcileWorkerHPA_def Let_def
  by (auto intro!: mirrors_rules)

lemma mirrors_workerClusterMissing [mirrors_rules]:
  "mirrors (workerClusterMissing (logged_reconciler r) w) (workerClusterMissing r w)"
  unfolding workerClusterMissing_def recordWorkerEvent_def Let_def
  by (auto intro!: mirrors_rules)

text \<open>Logging changes nothing for the worker either: the logged run of its \<^verbatim>\<open>Reconcile\<close> returns what \<^verbatim>\<open>Reconcile\<close>
  returns and leaves the environment in the same state.\<close>

lemma ReconcileWorker_log_transparent:
  "fst (run_state (ReconcileWorker (logged_reconciler r) req) (s, tr)) = fst (run_state (ReconcileWorker r req) s) \<and>
   fst (snd (run_state (ReconcileWorker (logged_reconciler r) req) (s, tr))) = snd (run_state (ReconcileWorker r req) s)"
proof -
  have "mirrors (ReconcileWorker (logged_reconciler r) req) (ReconcileWorker r req)"
    unfolding ReconcileWorker_def workerDeletion_def workerEnsureFinalizer_def workerResolveCluster_def
      recordWorkerEvent_def Let_def
    by (auto intro!: mirrors_rules)
  then show ?thesis by (simp add: mirrors_def)
qed

subsection \<open>Scope\<close>

fun inWorkerScope :: "NamespacedName \<Rightarrow> call \<Rightarrow> bool" where
  "inWorkerScope req (ReadWorker k) = (k = req)"
| "inWorkerScope req (WriteWorker w) = (key_of (wk_meta w) = req)"
| "inWorkerScope req (WriteWorkerStatus w) = (key_of (wk_meta w) = req)"
| "inWorkerScope req (ReadCluster k) = (nn_namespace k = nn_namespace req)"
| "inWorkerScope req (ReadDeployment k) = (k = req)"
| "inWorkerScope req (ApplyDeployment d f) = (key_of (dep_meta d) = req)"
| "inWorkerScope req (ReadHPA k) = (k = \<lparr>nn_namespace = nn_namespace req, nn_name = nn_name req @ ''-hpa''\<rparr>)"
| "inWorkerScope req (ApplyHPA h f) =
     (key_of (hpa_meta h) = \<lparr>nn_namespace = nn_namespace req, nn_name = nn_name req @ ''-hpa''\<rparr>)"
| "inWorkerScope req (RemoveHPA h) =
     (key_of (hpa_meta h) = \<lparr>nn_namespace = nn_namespace req, nn_name = nn_name req @ ''-hpa''\<rparr>)"
| "inWorkerScope req (Emit ev) = (evt_kind ev = KWorker \<and> evt_object ev = req)"
| "inWorkerScope req c = False"

lemma key_parts: "key_of m = req \<Longrightarrow> om_namespace m = nn_namespace req \<and> om_name m = nn_name req"
  by (auto simp: key_of_def)

text \<open>\<open>writesWorker D\<close>: a worker that is written satisfies \<open>D\<close>. As for clusters, \<open>D\<close> is something that holds of
  workers named \<open>req\<close> only and that neither status nor finalizers nor answers disturb.\<close>

fun writesWorker :: "(OJSWorker \<Rightarrow> bool) \<Rightarrow> call \<Rightarrow> bool" where
  "writesWorker D (WriteWorker w) = D w"
| "writesWorker D (WriteWorkerStatus w) = D w"
| "writesWorker D _ = True"

locale worker_writes =
  fixes r :: "'s reconciler" and D :: "OJSWorker \<Rightarrow> bool" and req :: NamespacedName
  assumes names: "api_names (rc_client r)" and written_key: "D w \<Longrightarrow> key_of (wk_meta w) = req"
    and written_status: "D w \<Longrightarrow> wk_meta w' = wk_meta w \<Longrightarrow> wk_spec w' = wk_spec w \<Longrightarrow> D w'"
    and written_finalizers: "D w \<Longrightarrow> D (setWorkerFinalizers fs w)"
    and update_answer: "D w \<Longrightarrow> answers (UpdateOJSWorker (rc_client r) w) (\<lambda>x. \<forall>w'. x = Inr w' \<longrightarrow> D w')"
    and status_answer: "D w \<Longrightarrow> answers (StatusUpdateOJSWorker (rc_client r) w) (\<lambda>x. \<forall>w'. x = Inr w' \<longrightarrow> D w')"
begin

abbreviation "admissible x \<equiv> inWorkerScope req (fst x) \<and> writesWorker D (fst x)"

abbreviation wscoped :: "('s \<times> entry list, 'a) state \<Rightarrow> bool" where
  "wscoped \<equiv> emits (\<lambda>x. admissible x)"

lemma wscoped_event: "D w \<Longrightarrow> wscoped (recordWorkerEvent (logged_reconciler r) w t rs msg)"
  unfolding recordWorkerEvent_def by (rule emits_record_event) (simp add: event_of_def written_key)

lemma wscoped_children:
  assumes D: "D w"
  shows "wscoped (reconcileWorkerDeployment (logged_reconciler r) w c)"
    "wscoped (reconcileWorkerHPA (logged_reconciler r) w)"
proof -
  note k = key_parts [OF written_key [OF D]]
  show "wscoped (reconcileWorkerDeployment (logged_reconciler r) w c)"
    unfolding reconcileWorkerDeployment_def logged_reconciler_client logged_kube_calls
    by (intro emits_logged) (simp add: k newDeployment_def)
  let ?hk = "key_of (hpa_meta (newHPA (wname w @ ''-hpa'') (wns w)))"
  have hk: "?hk = \<lparr>nn_namespace = nn_namespace req, nn_name = nn_name req @ ''-hpa''\<rparr>"
    by (simp add: newHPA_def k)
  have removal: "wscoped (if_err (logged (entry_of (ReadHPA ?hk)) (GetHPA (rc_client r) ?hk))
    (\<lambda>_. State_Monad.return nil) (\<lambda>h. logged (entry_of (RemoveHPA h)) (DeleteHPA (rc_client r) h)))"
    by (rule emits_if_err_traces [OF traces_logged_answers [OF api_names.get_hpa_key [OF names, of ?hk]],
          where G = "\<lambda>x. \<forall>h. x = Inr h \<longrightarrow> key_of (hpa_meta h) = ?hk"])
      (auto simp: hk intro!: emits_return emits_logged)
  show "wscoped (reconcileWorkerHPA (logged_reconciler r) w)"
    unfolding reconcileWorkerHPA_def Let_def logged_reconciler_client logged_kube_calls
    by (intro emits_case_option emits_if removal emits_logged) (simp add: hk)
qed

lemma wscoped_status:
  assumes D: "D w"
  shows "wscoped (updateWorkerStatus (logged_reconciler r) w)"
proof -
  have fin: "wscoped (finishWorkerStatus (logged_reconciler r) p w)" if "D w" for p w
    unfolding finishWorkerStatus_def logged_reconciler_client logged_kube_calls
    by (intro emits_rules wscoped_event that) (simp add: that written_key)
  have set: "wscoped (State_Monad.bind (setWorkerConditions (logged_reconciler r) w1 xs)
      (finishWorkerStatus (logged_reconciler r) p))" if "wk_meta w1 = wk_meta w" "wk_spec w1 = wk_spec w" for w1 xs p
    by (rule emits_bind_traces [OF traces_mono [OF traces_setWorkerConditions], rotated], erule fin)
      (use that written_status [OF D] in auto)
  show ?thesis
    unfolding updateWorkerStatus_def Let_def logged_reconciler_client logged_kube_calls
    by (intro emits_if_err emits_logged emits_if emits_return set)
      (use written_key [OF D] key_parts [OF written_key [OF D]] in
        \<open>auto intro!: set split: prod.split simp: key_of_def setWorkerPhase_def setWorkerReplicas_def\<close>)
qed

lemma traces_setWorkerCondition_written:
  assumes "D w"
  shows "traces (setWorkerCondition (logged_reconciler r) w x) (\<lambda>w' cs. D w' \<and> list_all (\<lambda>x. admissible x) cs)"
  by (rule traces_mono [OF traces_setWorkerCondition]) (use written_status [OF assms] in auto)

lemma wscoped_workerClusterMissing:
  assumes "D w"
  shows "wscoped (workerClusterMissing (logged_reconciler r) w)"
  unfolding workerClusterMissing_def Let_def logged_reconciler_client logged_kube_calls
proof (rule emits_bind_traces [OF traces_setWorkerCondition_written [OF assms]],
    rule emits_bind_traces [OF traces_setWorkerCondition_written], assumption, rule emits_bind_traces)
  fix w2 :: OJSWorker
  assume "D w2"
  then have k: "D (setWorkerPhase ''Error'' w2)" by (rule written_status) (simp_all add: setWorkerPhase_def)
  show "traces (logged (entry_of (WriteWorkerStatus (setWorkerPhase ''Error'' w2)))
      (StatusUpdateOJSWorker (rc_client r) (setWorkerPhase ''Error'' w2)))
    (\<lambda>x cs. (\<forall>w'. x = Inr w' \<longrightarrow> D w') \<and> list_all (\<lambda>x. admissible x) cs)"
    by (rule traces_logged_answers [OF status_answer [OF k]]) (use k written_key [OF k] in simp)
  fix x :: "goerror + OJSWorker"
  assume "\<forall>w'. x = Inr w' \<longrightarrow> D w'"
  then show "wscoped (State_Monad.bind
     (recordWorkerEvent (logged_reconciler r) (case x of Inl _ \<Rightarrow> setWorkerPhase ''Error'' w2 | Inr worker' \<Rightarrow> worker')
       ''Warning'' ''ClusterNotFound'' (''Referenced '' @ clusterNotFoundMsg (logged_kube (rc_client r))
         (case x of Inl _ \<Rightarrow> setWorkerPhase ''Error'' w2 | Inr worker' \<Rightarrow> worker')))
     (\<lambda>_. State_Monad.return (\<lparr>res_requeueAfter = 30 * second\<rparr>, None)))"
    using k by (intro emits_rules wscoped_event) (simp split: sum.split)
qed

lemma wscoped_resolve:
  assumes "D w"
  shows "wscoped (workerResolveCluster (logged_reconciler r) w)"
  unfolding workerResolveCluster_def workerReconcileChildren_def logged_reconciler_client logged_kube_calls
  by (intro emits_if_err emits_logged emits_if emits_return wscoped_workerClusterMissing wscoped_children wscoped_status
      assms) (simp add: key_parts [OF written_key [OF assms]])

lemma wscoped_ensure:
  assumes D: "D w"
  shows "traces (workerEnsureFinalizer (logged_reconciler r) w)
    (\<lambda>x cs. (\<forall>w'. x = Inr w' \<longrightarrow> D w') \<and> list_all (\<lambda>x. admissible x) cs)"
proof -
  note answer = update_answer [OF written_finalizers [OF D]]
  show ?thesis
    unfolding workerEnsureFinalizer_def Let_def logged_reconciler_client logged_kube_calls logged_kube_pure
    by (intro traces_if traces_logged_answers [OF answer] traces_return)
      (simp_all add: D written_key written_finalizers del: key_setWorkerFinalizers)
qed

lemma wscoped_deletion:
  assumes "D w"
  shows "wscoped (workerDeletion (logged_reconciler r) w)"
  unfolding workerDeletion_def Let_def logged_reconciler_client logged_kube_calls
  by (intro emits_rules wscoped_event assms) (simp add: assms written_key written_finalizers del: key_setWorkerFinalizers)

lemma wscoped_read:
  assumes read: "fst (run_state (GetOJSWorker (rc_client r) req) s) = Inr w" and D: "D w"
    and run: "observe (ReconcileWorker (logged_reconciler r) req) s = (res, cs)"
  shows "list_all (\<lambda>x. admissible x) cs"
proof -
  have "wscoped (if \<not> IsZero (om_deletionTimestamp (wk_meta w)) then workerDeletion (logged_reconciler r) w
      else if_err (workerEnsureFinalizer (logged_reconciler r) w) (\<lambda>err. State_Monad.return (noResult, Some err))
        (workerResolveCluster (logged_reconciler r)))"
    by (intro emits_if wscoped_deletion D emits_return emits_if_err_traces [OF wscoped_ensure [OF D]] wscoped_resolve) simp_all
  then have "\<exists>ds. cs = (ReadWorker req, None) # ds \<and> list_all (\<lambda>x. admissible x) ds"
    using run unfolding ReconcileWorker_def logged_reconciler_client logged_kube_calls emits_def
    by (intro observe_first [OF read]) simp_all
  then show ?thesis by auto
qed

end

lemma names_written_worker:
  assumes "api_names (rc_client r)"
  shows "worker_writes r (\<lambda>w. key_of (wk_meta w) = req) req"
proof (rule worker_writes.intro, rule assms, goal_cases)
  case (4 w) then show ?case using api_names.update_worker_key [OF assms, of w] by simp
next
  case (5 w) then show ?case using api_names.status_worker_key [OF assms, of w] by simp
qed simp_all

lemma demands_written_worker:
  assumes "api_echo (rc_client r)"
  shows "worker_writes r (same_worker_demands w) (key_of (wk_meta w))"
proof (rule worker_writes.intro, rule api_echo.axioms(1) [OF assms], goal_cases)
  case (4 w')
  then show ?case
    using api_echo.update_worker_same [OF assms, of w'] same_demands_trans(2) by (auto simp: answers_def)
next
  case (5 w')
  then show ?case
    using api_echo.status_worker_same [OF assms, of w'] same_demands_trans(2) by (auto simp: answers_def)
qed (auto simp: same_worker_demands_def setWorkerFinalizers_def key_of_def)

interpretation mem_worker_writes: worker_writes memReconciler "same_worker_demands demoWorker" "key_of (wk_meta demoWorker)"
  by (rule demands_written_worker) (simp add: mem.api_echo_axioms)

lemma ReconcileWorker_unread:
  assumes "fst (run_state (GetOJSWorker (rc_client r) req) s) = Inl e"
    and "observe (ReconcileWorker (logged_reconciler r) req) s = (res, cs)"
  shows "cs = [(ReadWorker req, Some e)] \<and> res = (noResult, if IsNotFound e then None else Some e)"
  using assms unfolding ReconcileWorker_def logged_reconciler_client logged_kube_calls observe_def if_err_def
  by (auto simp: logged_def split: prod.splits if_splits)

text \<open>Scope of the worker reconciler. Every call of a reconciliation of \<open>req\<close> concerns the worker \<open>req\<close>, the Deployment of
  the same name, its autoscaler \<open>-hpa\<close>, or reads a cluster of the same namespace; events are about the worker.
  The one object it ever deletes is that autoscaler. And what it writes of the worker has the spec and identity of the one
  that was read, if the API server answers updates with what was sent.\<close>

lemma ReconcileWorker_scope:
  assumes "api_names (rc_client r)"
    and "observe (ReconcileWorker (logged_reconciler r) req) s = (res, cs)"
  shows "list_all (\<lambda>x. inWorkerScope req (fst x)) cs"
proof (cases "fst (run_state (GetOJSWorker (rc_client r) req) s)")
  case (Inl e)
  then show ?thesis using ReconcileWorker_unread [OF Inl assms(2)] by simp
next
  case (Inr w)
  then have "key_of (wk_meta w) = req" using api_names.get_worker_key [OF assms(1)] by (simp add: answers_def)
  then show ?thesis
    using worker_writes.wscoped_read [OF names_written_worker [OF assms(1)] Inr _ assms(2)] by (simp add: list_all_iff)
qed

lemma ReconcileWorker_writes:
  assumes "api_echo (rc_client r)" and "fst (run_state (GetOJSWorker (rc_client r) req) s) = Inr w"
    and "observe (ReconcileWorker (logged_reconciler r) req) s = (res, cs)"
  shows "list_all (\<lambda>x. writesWorker (same_worker_demands w) (fst x)) cs"
proof -
  have "key_of (wk_meta w) = req"
    using api_names.get_worker_key [OF api_echo.axioms(1) [OF assms(1)]] assms(2) by (simp add: answers_def)
  then show ?thesis
    using worker_writes.wscoped_read [OF demands_written_worker [OF assms(1), of w], unfolded \<open>key_of _ = _\<close>, OF assms(2) _ assms(3)]
    by (simp add: list_all_iff)
qed

subsection \<open>Deletion\<close>

text \<open>Deletion of a worker. For a worker that is being deleted \<^verbatim>\<open>Reconcile\<close> touches no child and does not look at the cluster: it takes
  the operator's finalizer away in one update (leaving the others), or calls nothing at all when it is gone.\<close>

lemma ReconcileWorker_deletion:
  assumes "finalizer_laws (rc_client r)"
    and "fst (run_state (GetOJSWorker (rc_client r) req) s) = Inr w"
    and "\<not> IsZero (om_deletionTimestamp (wk_meta w))"
    and "observe (ReconcileWorker (logged_reconciler r) req) s = (res, cs)"
  shows "if ContainsFinalizer (rc_client r) (om_finalizers (wk_meta w)) workerFinalizer
     then \<exists>fs. callsMade cs = [ReadWorker req, WriteWorker (setWorkerFinalizers fs w)]
       \<and> \<not> ContainsFinalizer (rc_client r) fs workerFinalizer
       \<and> (\<forall>g. g \<noteq> workerFinalizer \<longrightarrow>
            ContainsFinalizer (rc_client r) fs g = ContainsFinalizer (rc_client r) (om_finalizers (wk_meta w)) g)
       \<and> res = (noResult, snd (last cs))
     else cs = [(ReadWorker req, None)] \<and> res = (noResult, None)"
proof -
  let ?K = "rc_client r" and ?fs = "om_finalizers (wk_meta w)"
  let ?Q = "\<lambda>res ds. if ContainsFinalizer ?K ?fs workerFinalizer
    then callsMade ds = [WriteWorker (setWorkerFinalizers (RemoveFinalizer ?K ?fs workerFinalizer) w)] \<and>
      ds \<noteq> [] \<and> res = (noResult, snd (last ds))
    else ds = [] \<and> res = (noResult, None)"
  have "traces (workerDeletion (logged_reconciler r) w) ?Q"
    unfolding workerDeletion_def Let_def logged_reconciler_client logged_kube_calls logged_kube_pure recordWorkerEvent_def
    by (auto intro!: traces_rules)
  then have "\<exists>ds. cs = (ReadWorker req, None) # ds \<and> ?Q res ds"
    using assms(4) unfolding ReconcileWorker_def logged_reconciler_client logged_kube_calls
    by (intro observe_first [OF assms(2)]) (simp_all add: assms(3))
  then show ?thesis
    using finalizer_laws.contains_remove [OF assms(1)] finalizer_laws.remove_keeps [OF assms(1)]
    by (auto intro!: exI [of _ "RemoveFinalizer ?K ?fs workerFinalizer"] split: if_splits)
qed

lemma dying_worker_read: "fst (run_state (GetOJSWorker memKube (demoKey ''w'')) dyingWorkerWorld) = Inr dyingWorker"
  by (simp add: memKube_simps dyingWorkerWorld_def demoWorld_def key_of_def dyingWorker_def demoWorker_def
      demoMeta_def emptyMeta_def)

subsection \<open>The status\<close>

lemma traces_setWorkerCondition_shown:
  assumes "condition_laws (rc_client r)"
  shows "traces (setWorkerCondition (logged_reconciler r) w x) (\<lambda>w' cs. cs = [] \<and>
    (\<exists>cc. w' = putWorkerConditions cc w \<and> conditionsSet (wgenOf w) [x] (wcondsOf w) cc))"
  unfolding setWorkerCondition_def
  by (cases x) (auto simp: putWorkerConditions_def conditionsSet_one [OF assms] intro!: traces_rules)

lemma traces_setWorkerConditions_shown:
  assumes laws: "condition_laws (rc_client r)"
  shows "distinct (map settingType xs) \<Longrightarrow> traces (setWorkerConditions (logged_reconciler r) w xs) (\<lambda>w' cs. cs = [] \<and>
    (\<exists>cc. w' = putWorkerConditions cc w \<and> conditionsSet (wgenOf w) xs (wcondsOf w) cc))"
proof (induction xs arbitrary: w)
  case Nil
  show ?case
    by (simp, rule traces_return) (use conditionsSet_Nil in \<open>metis putWorkerConditions_simps(2)\<close>)
next
  case (Cons x xs)
  show ?case
  proof (simp, rule traces_bind, rule traces_mono [OF traces_setWorkerCondition_shown [OF laws]])
    fix w1 and cs :: "entry list"
    assume "cs = [] \<and> (\<exists>cc. w1 = putWorkerConditions cc w \<and> conditionsSet (wgenOf w) [x] (wcondsOf w) cc)"
    then obtain cc where cs: "cs = []" and w1: "w1 = putWorkerConditions cc w" "conditionsSet (wgenOf w) [x] (wcondsOf w) cc"
      by blast
    show "traces (setWorkerConditions (logged_reconciler r) w1 xs) (\<lambda>w' cs'. cs @ cs' = [] \<and>
      (\<exists>cc. w' = putWorkerConditions cc w \<and> conditionsSet (wgenOf w) (x # xs) (wcondsOf w) cc))"
      using Cons.prems conditionsSet_append [OF w1(2), of xs] cs w1(1)
      by (intro traces_mono [OF Cons.IH]) auto
  qed
qed

definition workerDeploymentReport :: "Deployment option \<Rightarrow> string \<times> condition_setting list" where
  "workerDeploymentReport dep = (case dep of
     None \<Rightarrow> (''Pending'', workerMissingReport)
   | Some d \<Rightarrow> workerReport (dst_readyReplicas (dep_status d)) (dst_replicas (dep_status d)))"

definition workerReflects :: "Deployment option \<Rightarrow> OJSWorker \<Rightarrow> OJSWorker \<Rightarrow> bool" where
  "workerReflects dep w w' \<longleftrightarrow>
     wk_meta w' = wk_meta w \<and> wk_spec w' = wk_spec w \<and>
     wst_phase (wk_status w') = fst (workerDeploymentReport dep) \<and>
     conditionsSet (wgenOf w) (snd (workerDeploymentReport dep)) (wcondsOf w) (wcondsOf w') \<and>
     (case dep of
        None \<Rightarrow> wst_replicas (wk_status w') = wst_replicas (wk_status w) \<and>
          wst_readyReplicas (wk_status w') = wst_readyReplicas (wk_status w)
      | Some d \<Rightarrow> wst_replicas (wk_status w') = dst_replicas (dep_status d) \<and>
          wst_readyReplicas (wk_status w') = dst_readyReplicas (dep_status d))"

lemma workerDeploymentReport_distinct: "distinct (map settingType (snd (workerDeploymentReport dep)))"
proof (cases dep)
  case None
  then show ?thesis
    by (simp add: workerDeploymentReport_def workerMissingReport_def settingType_def worker_cond_defs)
next
  case (Some d)
  then show ?thesis by (simp add: workerDeploymentReport_def workerReport.distinct_types)
qed

definition workerStatusWritten :: "Deployment option \<Rightarrow> OJSWorker \<Rightarrow> goerror + OJSWorker \<Rightarrow> entry list \<Rightarrow> bool" where
  "workerStatusWritten dep w res cs \<longleftrightarrow> (\<exists>w' e. workerReflects dep w w' \<and> cs \<noteq> [] \<and>
     last cs = (WriteWorkerStatus w', e) \<and> callsMade cs = [WriteWorkerStatus w'] \<and>
     (\<forall>err. e = Some err \<longleftrightarrow> res = Inl err) \<and>
     ((\<exists>x\<in>set cs. is_event (fst x)) \<longrightarrow>
        wst_phase (wk_status w) \<noteq> [] \<and> wst_phase (wk_status w) \<noteq> wst_phase (wk_status w')))"

lemma traces_finishWorkerStatus:
  "traces (finishWorkerStatus (logged_reconciler r) p w) (\<lambda>res cs. \<exists>e.
     last cs = (WriteWorkerStatus w, e) \<and> cs \<noteq> [] \<and> callsMade cs = [WriteWorkerStatus w] \<and>
     (\<forall>err. e = Some err \<longleftrightarrow> res = Inl err) \<and>
     ((\<exists>x\<in>set cs. is_event (fst x)) \<longrightarrow> p \<noteq> [] \<and> p \<noteq> wst_phase (wk_status w)))"
  unfolding finishWorkerStatus_def recordWorkerEvent_def
  by (auto intro!: traces_rules simp: entry_of_def split: sum.splits)

lemma traces_workerReport:
  assumes laws: "condition_laws (rc_client r)"
    and w1: "wk_meta w1 = wk_meta w" "wcondsOf w1 = wcondsOf w"
    and ok: "\<And>cc. conditionsSet (wgenOf w) xs (wcondsOf w) cc \<Longrightarrow> workerReflects dep w (putWorkerConditions cc w1)"
    and dist: "distinct (map settingType xs)"
  shows "traces (State_Monad.bind (setWorkerConditions (logged_reconciler r) w1 xs)
      (finishWorkerStatus (logged_reconciler r) (wst_phase (wk_status w)))) (workerStatusWritten dep w)"
proof (rule traces_bind, rule traces_mono [OF traces_setWorkerConditions_shown [OF laws dist]])
  fix w' and cs :: "entry list"
  assume "cs = [] \<and> (\<exists>cc. w' = putWorkerConditions cc w1 \<and> conditionsSet (wgenOf w1) xs (wcondsOf w1) cc)"
  then have "cs = []" "workerReflects dep w w'" using ok w1 by auto
  then show "traces (finishWorkerStatus (logged_reconciler r) (wst_phase (wk_status w)) w')
      (\<lambda>res cs'. workerStatusWritten dep w res (cs @ cs'))"
    by (intro traces_mono [OF traces_finishWorkerStatus]) (auto simp: workerStatusWritten_def)
qed

lemma workerReflects_intro:
  "conditionsSet (wgenOf w) workerMissingReport (wcondsOf w) cc \<Longrightarrow>
    workerReflects None w (putWorkerConditions cc (setWorkerPhase ''Pending'' w))"
  "workerReport (dst_readyReplicas (dep_status d)) (dst_replicas (dep_status d)) = (ph, xs) \<Longrightarrow>
    conditionsSet (wgenOf w) xs (wcondsOf w) cc \<Longrightarrow>
    workerReflects (Some d) w (putWorkerConditions cc (setWorkerPhase ph (setWorkerReplicas (dep_status d) w)))"
  by (simp_all add: workerReflects_def workerDeploymentReport_def putWorkerConditions_def setWorkerPhase_def
      setWorkerReplicas_def)

lemma traces_worker_missing:
  assumes "condition_laws (rc_client r)"
  shows "traces (State_Monad.bind
    (setWorkerConditions (logged_reconciler r) (setWorkerPhase ''Pending'' w) workerMissingReport)
    (finishWorkerStatus (logged_reconciler r) (wst_phase (wk_status w)))) (workerStatusWritten None w)"
  by (rule traces_workerReport [OF assms])
    (use workerDeploymentReport_distinct [of None] workerReflects_intro(1) in
      \<open>simp_all add: workerDeploymentReport_def\<close>)

lemma traces_worker_found:
  assumes "condition_laws (rc_client r)"
    and "workerReport (dst_readyReplicas (dep_status d)) (dst_replicas (dep_status d)) = (ph, xs)"
  shows "traces (State_Monad.bind
    (setWorkerConditions (logged_reconciler r) (setWorkerPhase ph (setWorkerReplicas (dep_status d) w)) xs)
    (finishWorkerStatus (logged_reconciler r) (wst_phase (wk_status w)))) (workerStatusWritten (Some d) w)"
  by (rule traces_workerReport [OF assms(1)])
    (use workerDeploymentReport_distinct [of "Some d"] assms(2) workerReflects_intro(2) [OF assms(2)] in
      \<open>simp_all add: workerDeploymentReport_def\<close>)


lemma worker_lookup: "fst (run_state (GetDeployment memKube (demoKey ''w'')) foreignWorkerWorld) =
    Inr ((newDeployment ''w'' ''ns'')\<lparr>dep_meta := foreignMeta ''w''\<rparr>)"
  by (simp add: memKube_simps foreignWorkerWorld_def)


lemma workerReflects_consistent:
  assumes "workerReflects dep w w'"
  shows "consistentReport (wst_phase (wk_status w')) (wcondsOf w')
    (wst_readyReplicas (wk_status w')) (wst_replicas (wk_status w'))"
proof (cases dep)
  case None
  then show ?thesis
    using assms missing_consistent [of workerMissingReport "wgenOf w" "wcondsOf w'"]
    by (simp add: workerReflects_def workerDeploymentReport_def conditionsSet_def workerMissingReport_status)
next
  case (Some d)
  then show ?thesis
    using assms workerReport.shown_consistent [of "wgenOf w" "wcondsOf w'"]
    by (simp add: workerReflects_def workerDeploymentReport_def conditionsSet_def)
qed

fun workerClosing :: "entry \<Rightarrow> bool" where
  "workerClosing (WriteWorkerStatus w, None) = consistentReport (wst_phase (wk_status w)) (wcondsOf w)
     (wst_readyReplicas (wk_status w)) (wst_replicas (wk_status w))"
| "workerClosing x = False"

lemma workerStatusWritten_closing: "workerStatusWritten dep w (Inr a) cs \<Longrightarrow> cs \<noteq> [] \<and> workerClosing (last cs)"
  by (auto simp: workerStatusWritten_def not_Some_eq dest: workerReflects_consistent)

lemma traces_updateWorkerStatus_closing:
  assumes laws: "condition_laws (rc_client r)"
  shows "traces (updateWorkerStatus (logged_reconciler r) w)
    (\<lambda>x cs. \<forall>a. x = Inr a \<longrightarrow> cs \<noteq> [] \<and> workerClosing (last cs))"
  unfolding updateWorkerStatus_def Let_def logged_reconciler_client logged_kube_calls
  by (rule traces_if_err, rule traces_logged)
    (auto intro!: traces_return traces_mono [OF traces_worker_missing [OF laws]]
      traces_mono [OF traces_worker_found [OF laws]] dest: workerStatusWritten_closing split: prod.split)

lemma emits_any_worker [emits_rules]:
  "emits (\<lambda>_. True) (reconcileWorkerDeployment (logged_reconciler r) w c)"
  "emits (\<lambda>_. True) (reconcileWorkerHPA (logged_reconciler r) w)"
  "emits (\<lambda>_. True) (workerEnsureFinalizer (logged_reconciler r) w)"
  "emits (\<lambda>_. True) (workerClusterMissing (logged_reconciler r) w)"
  unfolding reconcileWorkerDeployment_def reconcileWorkerHPA_def workerEnsureFinalizer_def workerClusterMissing_def
    Let_def logged_reconciler_client logged_kube_calls
  by (intro emits_rules; simp)+

lemma closes_workerReconcileChildren:
  assumes laws: "condition_laws (rc_client r)"
  shows "closes workerClosing (workerReconcileChildren (logged_reconciler r) w c)"
proof -
  have last: "closes workerClosing (if_err (updateWorkerStatus (logged_reconciler r) w)
      (\<lambda>err. State_Monad.return (noResult, Some err))
      (\<lambda>w'. State_Monad.return (requeueInterval (rc_client (logged_reconciler r)) w', None)))"
    by (rule closes_last [OF traces_updateWorkerStatus_closing [OF laws]]) (simp add: stop_rules)
  show ?thesis
    unfolding workerReconcileChildren_def
    by (rule closes_if_err [OF emits_any_worker(1)], simp add: stop_rules,
        rule closes_if_err [OF emits_any_worker(2)], simp add: stop_rules, rule last)
qed

abbreviation truthful :: "reconcile_result \<Rightarrow> entry list \<Rightarrow> bool" where
  "truthful res cs \<equiv> clusterMissing cs \<or> (snd res = None \<longrightarrow> cs \<noteq> [] \<and> workerClosing (last cs))"

lemma truthful_append: "truthful res ds \<Longrightarrow> truthful res (cs @ ds)"
  by (auto simp: clusterMissing_def)

lemma traces_resolve_truthful:
  assumes laws: "condition_laws (rc_client r)"
  shows "traces (workerResolveCluster (logged_reconciler r) w) truthful"
  unfolding workerResolveCluster_def logged_reconciler_client logged_kube_calls
proof (rule traces_if_err, rule traces_logged, intro conjI allI impI)
  let ?k = "\<lparr>nn_namespace = wns w, nn_name = ws_clusterRef (wk_spec w)\<rparr>"
  fix x :: "goerror + OJSCluster" and e :: goerror
  assume x: "x = Inl e"
  show "traces (if IsNotFound e then workerClusterMissing (logged_reconciler r) w else State_Monad.return (noResult, Some e))
    (\<lambda>b cs'. truthful b ([entry_of (ReadCluster ?k) x] @ cs'))"
    by (rule traces_if, rule traces_mono [OF traces_True [OF emits_any_worker(4)]])
      (auto simp: clusterMissing_def x intro!: traces_return)
next
  let ?k = "\<lparr>nn_namespace = wns w, nn_name = ws_clusterRef (wk_spec w)\<rparr>"
  fix x :: "goerror + OJSCluster" and c :: OJSCluster
  show "traces (workerReconcileChildren (logged_reconciler r) w c)
    (\<lambda>b cs'. truthful b ([entry_of (ReadCluster ?k) x] @ cs'))"
    by (rule traces_mono [OF closes_workerReconcileChildren [OF laws, unfolded closes_def]]) auto
qed

lemma traces_live_truthful:
  assumes laws: "condition_laws (rc_client r)"
  shows "traces (if_err (workerEnsureFinalizer (logged_reconciler r) w) (\<lambda>err. State_Monad.return (noResult, Some err))
    (workerResolveCluster (logged_reconciler r))) truthful"
  by (rule traces_if_err, rule traces_mono [OF traces_True [OF emits_any_worker(3)]])
    (use truthful_append in \<open>auto intro!: traces_return traces_mono [OF traces_resolve_truthful [OF laws]]\<close>)



subsection \<open>A worker without its cluster\<close>

definition clusterMissingShown :: "'s kube \<Rightarrow> OJSWorker \<Rightarrow> OJSWorker \<Rightarrow> bool" where
  "clusterMissingShown K w w' \<longleftrightarrow> wk_meta w' = wk_meta w \<and> wk_spec w' = wk_spec w \<and>
     wst_phase (wk_status w') = ''Error'' \<and>
     showsAll (wgenOf w) (wcondsOf w')
       [(condWorkerReady, ConditionFalse, ''ClusterNotFound'', clusterNotFoundMsg K w),
        (condWorkerDegraded, ConditionTrue, ''ClusterNotFound'', clusterNotFoundMsg K w)]"

lemma traces_missing_shown:
  assumes laws: "condition_laws (rc_client r)"
  shows "traces (workerClusterMissing (logged_reconciler r) w) (\<lambda>res cs.
    res = (\<lparr>res_requeueAfter = 30 * second\<rparr>, None) \<and>
    (\<exists>w'. callsMade cs = [WriteWorkerStatus w'] \<and> clusterMissingShown (rc_client r) w w'))"
  unfolding workerClusterMissing_def Let_def logged_reconciler_client logged_kube_calls recordWorkerEvent_def
proof (rule traces_bind, rule traces_mono [OF traces_setWorkerCondition_shown [OF laws]], rule traces_bind,
    rule traces_mono [OF traces_setWorkerCondition_shown [OF laws]], rule traces_bind, rule traces_logged)
  fix w1 w2 and cs1 cs2 :: "entry list" and x :: "goerror + OJSWorker"
  let ?m = "clusterNotFoundMsg (rc_client r) w"
  let ?a = "(condWorkerReady, ConditionFalse, ''ClusterNotFound'', clusterNotFoundMsg (logged_kube (rc_client r)) w)"
  let ?b = "(condWorkerDegraded, ConditionTrue, ''ClusterNotFound'', clusterNotFoundMsg (logged_kube (rc_client r)) w1)"
  assume "cs1 = [] \<and> (\<exists>cc. w1 = putWorkerConditions cc w \<and> conditionsSet (wgenOf w) [?a] (wcondsOf w) cc)"
    and "cs2 = [] \<and> (\<exists>cc. w2 = putWorkerConditions cc w1 \<and> conditionsSet (wgenOf w1) [?b] (wcondsOf w1) cc)"
  then obtain cc cd where cs: "cs1 = []" "cs2 = []" and w: "w1 = putWorkerConditions cc w" "w2 = putWorkerConditions cd w"
    and set: "conditionsSet (wgenOf w) [?a] (wcondsOf w) cc" "conditionsSet (wgenOf w) [?b] cc cd"
    by auto
  have "?b = (condWorkerDegraded, ConditionTrue, ''ClusterNotFound'', ?m)"
    by (simp add: w clusterNotFoundMsg_def)
  with set have "conditionsSet (wgenOf w) ([(condWorkerReady, ConditionFalse, ''ClusterNotFound'', ?m)] @
      [(condWorkerDegraded, ConditionTrue, ''ClusterNotFound'', ?m)]) (wcondsOf w) cd"
    by (intro conditionsSet_append) (auto simp: settingType_def worker_cond_defs)
  then have "clusterMissingShown (rc_client r) w (setWorkerPhase ''Error'' w2)"
    by (simp add: clusterMissingShown_def conditionsSet_def w)
  then show "traces (State_Monad.bind (record_event (logged_reconciler r) KWorker
      (wk_meta (case x of Inl _ \<Rightarrow> setWorkerPhase ''Error'' w2 | Inr worker' \<Rightarrow> worker'))
      ''Warning'' ''ClusterNotFound'' (''Referenced '' @ clusterNotFoundMsg (logged_kube (rc_client r))
        (case x of Inl _ \<Rightarrow> setWorkerPhase ''Error'' w2 | Inr worker' \<Rightarrow> worker')))
      (\<lambda>_. State_Monad.return (\<lparr>res_requeueAfter = 30 * second\<rparr>, None)))
    (\<lambda>res cs. res = (\<lparr>res_requeueAfter = 30 * second\<rparr>, None) \<and>
      (\<exists>w'. callsMade (cs1 @ cs2 @ [entry_of (WriteWorkerStatus (setWorkerPhase ''Error'' w2)) x] @ cs) = [WriteWorkerStatus w'] \<and>
        clusterMissingShown (rc_client r) w w'))"
    by (auto intro!: traces_rules exI [of _ "setWorkerPhase ''Error'' w2"] simp: cs entry_of_def)
qed

text \<open>C28. A worker without its cluster. When the cluster a worker refers to does not exist, one status write reports phase Error with
  Ready False and Degraded True, both naming the missing cluster; no child is touched, no error is
  returned, and the next attempt is due in 30 seconds, whether or not the status could be written.\<close>

theorem missing_cluster_reported:
  assumes "condition_laws (rc_client r)"
    and "lookedUp (fst (run_state (GetOJSCluster (rc_client r)
      \<lparr>nn_namespace = wns w, nn_name = ws_clusterRef (wk_spec w)\<rparr>) s)) = Some None"
    and "observe (workerResolveCluster (logged_reconciler r) w) s = (res, cs)"
  shows "res = (\<lparr>res_requeueAfter = 30 * second\<rparr>, None) \<and>
    (\<exists>w'. callsMade cs = [ReadCluster \<lparr>nn_namespace = wns w, nn_name = ws_clusterRef (wk_spec w)\<rparr>, WriteWorkerStatus w'] \<and>
      clusterMissingShown (rc_client r) w w')"
proof -
  let ?k = "\<lparr>nn_namespace = wns w, nn_name = ws_clusterRef (wk_spec w)\<rparr>"
  obtain e where e: "fst (run_state (GetOJSCluster (rc_client r) ?k) s) = Inl e" "IsNotFound e"
    using assms(2) by (cases "fst (run_state (GetOJSCluster (rc_client r) ?k) s)") (auto split: if_splits)
  have "\<exists>ds. cs = (ReadCluster ?k, Some e) # ds \<and> res = (\<lparr>res_requeueAfter = 30 * second\<rparr>, None) \<and>
      (\<exists>w'. callsMade ds = [WriteWorkerStatus w'] \<and> clusterMissingShown (rc_client r) w w')"
    by (rule observe_first_err [OF e(1) _ assms(3) [unfolded workerResolveCluster_def logged_reconciler_client logged_kube_calls]])
      (use e(2) traces_missing_shown [OF assms(1), of w] in simp)
  then show ?thesis by auto
qed

theorem missing_cluster_reported_witness:
  "fst (observe (workerResolveCluster (logged_reconciler memReconciler) demoWorker) orphanWorld)
     = (\<lparr>res_requeueAfter = 30000000000\<rparr>, None)"
proof -
  have look: "lookedUp (fst (run_state (GetOJSCluster memKube
      \<lparr>nn_namespace = wns demoWorker, nn_name = ws_clusterRef (wk_spec demoWorker)\<rparr>) orphanWorld)) = Some None"
    by (simp add: memKube_simps orphanWorld_def demoWorld_def IsNotFound_def notFound_def)
  show ?thesis
    using missing_cluster_reported [of memReconciler, unfolded memReconciler_client,
        OF mem_conditions.condition_laws_axioms look prod.collapse [symmetric]]
    by (simp add: second_def)
qed

subsection \<open>When the next run is due\<close>

text \<open>C38. The polling interval. Without autoscaling a worker is not called again by itself. With autoscaling, a
  polling interval written as a whole number of seconds (below 2^63 nanoseconds) is exactly the time to the next run,
  an absent one or one that Go's \<^verbatim>\<open>ParseDuration\<close> rejects counts as 30 seconds, and a negative one is
  taken as it is: the requeue time is then negative, and no further run is due.\<close>

theorem requeueInterval_cases:
  "(\<not> workerScales w \<longrightarrow> requeueInterval K w = noResult) \<and>
   (\<forall>a. ws_autoScaling (wk_spec w) = Some a \<and> was_enabled a \<longrightarrow>
     (was_pollingInterval a = [] \<or> ParseDuration (floatFraction K) (was_pollingInterval a) = None \<longrightarrow>
        sint (res_requeueAfter (requeueInterval K w)) = 30 * 10 ^ 9) \<and>
     (\<forall>n < 9223372036.
        (was_pollingInterval a = nat_digits n @ ''s'' \<longrightarrow>
          sint (res_requeueAfter (requeueInterval K w)) = int n * 10 ^ 9) \<and>
        (was_pollingInterval a = ''-'' @ nat_digits n @ ''s'' \<longrightarrow>
          sint (res_requeueAfter (requeueInterval K w)) = - (int n * 10 ^ 9))))"
proof (intro conjI allI impI)
  assume "\<not> workerScales w"
  then show "requeueInterval K w = noResult"
    by (auto simp: workerScales_def requeueInterval_def split: option.split)
next
  fix a
  assume a: "ws_autoScaling (wk_spec w) = Some a \<and> was_enabled a"
    and "was_pollingInterval a = [] \<or> ParseDuration (floatFraction K) (was_pollingInterval a) = None"
  then show "sint (res_requeueAfter (requeueInterval K w)) = 30 * 10 ^ 9"
    by (auto simp: requeueInterval_def second_def)
next
  fix a and n :: nat
  assume a: "ws_autoScaling (wk_spec w) = Some a \<and> was_enabled a" and n: "n < 9223372036"
    and p: "was_pollingInterval a = nat_digits n @ ''s''"
  have "ParseDuration (floatFraction K) (was_pollingInterval a) = Some (word_of_int (int (n * 1000000000)))"
    unfolding p by (rule ParseDuration_units(1)) (use n in \<open>simp_all add: unitMap_def is_unit_char_def is_digit_def\<close>)
  moreover have "sint (word_of_int (int (n * 1000000000)) :: int64) = int n * 10 ^ 9"
    using n by (subst sint_word_of_int_id) simp_all
  ultimately show "sint (res_requeueAfter (requeueInterval K w)) = int n * 10 ^ 9"
    using a p by (simp add: requeueInterval_def)
next
  fix a and n :: nat
  assume a: "ws_autoScaling (wk_spec w) = Some a \<and> was_enabled a" and n: "n < 9223372036"
    and p: "was_pollingInterval a = ''-'' @ nat_digits n @ ''s''"
  have "ParseDuration (floatFraction K) (was_pollingInterval a) = Some (word_of_int (- int (n * 1000000000)))"
    unfolding p append.simps
    by (rule ParseDuration_units(2)) (use n in \<open>simp_all add: unitMap_def is_unit_char_def is_digit_def\<close>)
  moreover have "sint (word_of_int (- int (n * 1000000000)) :: int64) = - (int n * 10 ^ 9)"
    using n by (subst sint_word_of_int_id) simp_all
  ultimately show "sint (res_requeueAfter (requeueInterval K w)) = - (int n * 10 ^ 9)"
    using a p by (simp add: requeueInterval_def)
qed

theorem requeueInterval_cases_witness:
  "sint (res_requeueAfter (requeueInterval memKube demoWorker)) = 15000000000"
proof -
  have a: "ws_autoScaling (wk_spec demoWorker) = Some \<lparr>was_enabled = True, was_minReplicas = 1, was_maxReplicas = 4,
       was_targetJobsPerWorker = 10, was_scaleUpThreshold = 0, was_scaleDownDelay = [],
       was_pollingInterval = ''15s''\<rparr>"
    by (simp add: demoWorker_def demoWorkerSpec_def)
  have d: "nat_digits 15 @ ''s'' = ''15s''" by code_simp
  show ?thesis
    using requeueInterval_cases [of demoWorker memKube] a d [symmetric] by (auto dest!: spec [of _ 15])
qed

end
