(* ===== verification/ResourceProperties.thy ===== *)
theory ResourceProperties
  imports Builders Demo
begin

text \<open>
  The properties of the objects the two controllers create: stability, ownership, who selects whom,
  how server, backend, Service and worker find each other, names, and the pod settings.
\<close>

subsection \<open>Stability and ownership\<close>

text \<open>C22. Stability. Given the documented behaviour of \<^verbatim>\<open>SetControllerReference\<close>, every callback of the two controllers is idempotent: applied
  to the object it produced it produces the same object, so a second reconciliation of an unchanged
  resource asks for no change of any child held in memory.\<close>

theorem children_idempotent:
  assumes "owner_laws setRef"
  shows "settledBy (configMapCallback setRef c) \<and> settledBy (serverDeploymentCallback setRef c) \<and>
    settledBy (serviceCallback setRef c) \<and> settledBy (redisDeploymentCallback setRef c) \<and>
    settledBy (redisServiceCallback setRef c) \<and> settledBy (pdbCallback setRef c) \<and>
    settledBy (serviceMonitorCallback setRef c) \<and> settledBy (workerDeploymentCallback setRef w c) \<and>
    settledBy (hpaCallback setRef w a)"
  by (intro conjI configMap.settled_by serverDeployment.settled_by serverService.settled_by redisDeployment.settled_by
      redisService.settled_by pdb.settled_by serviceMonitor.settled_by workerDeployment.settled_by hpa.settled_by assms)

theorem children_idempotent_witness:
  "\<exists>dep. serverDeploymentCallback memSetRef demoCluster (newDeployment ''c-server'' ''ns'') = Inr dep \<and>
     serverDeploymentCallback memSetRef demoCluster dep = Inr dep"
proof -
  have "\<not> isl (serverDeploymentCallback memSetRef demoCluster (newDeployment ''c-server'' ''ns''))"
    by (simp add: serverDeployment.fails_iff memSetRef_def newDeployment_def emptyMeta_def)
  then obtain dep where dep: "serverDeploymentCallback memSetRef demoCluster (newDeployment ''c-server'' ''ns'') = Inr dep"
    by (cases "serverDeploymentCallback memSetRef demoCluster (newDeployment ''c-server'' ''ns'')") auto
  then show ?thesis
    using children_idempotent [OF mem_owner.owner_laws_axioms, of demoCluster] by (auto simp: settledBy_def)
qed

text \<open>C23. Ownership. Every object that one of the controllers stores is controlled by the resource it belongs to, keeps its name and
  carries the labels of its component; an object that another resource controls is never
  overwritten, the callback fails instead.\<close>

theorem children_owned:
  assumes "owner_laws setRef"
  shows "ownsResults (cl_meta c) cm_meta (labelsForCluster (cname c)) (configMapCallback setRef c) \<and>
    ownsResults (cl_meta c) dep_meta (labelsForCluster (cname c)) (serverDeploymentCallback setRef c) \<and>
    ownsResults (cl_meta c) svc_meta (labelsForCluster (cname c)) (serviceCallback setRef c) \<and>
    ownsResults (cl_meta c) dep_meta (labelsForRedis (cname c)) (redisDeploymentCallback setRef c) \<and>
    ownsResults (cl_meta c) svc_meta (labelsForRedis (cname c)) (redisServiceCallback setRef c) \<and>
    ownsResults (cl_meta c) pdb_meta (labelsForCluster (cname c)) (pdbCallback setRef c) \<and>
    ownsResults (cl_meta c) us_meta (labelsForCluster (cname c)) (serviceMonitorCallback setRef c) \<and>
    ownsResults (wk_meta w) dep_meta (labelsForWorker (wname w) (cname c)) (workerDeploymentCallback setRef w c) \<and>
    ownsResults (wk_meta w) hpa_meta (labelsForWorker (wname w) (ws_clusterRef (wk_spec w))) (hpaCallback setRef w a)"
  by (intro conjI configMap.owns_results serverDeployment.owns_results serverService.owns_results
      redisDeployment.owns_results redisService.owns_results pdb.owns_results serviceMonitor.owns_results
      workerDeployment.owns_results hpa.owns_results assms)

theorem children_owned_witness:
  "isl (configMapCallback memSetRef demoCluster \<lparr>cm_meta = foreignMeta ''c-config'', cm_data = Map.empty\<rparr>)"
proof -
  have "ownsResults (cl_meta demoCluster) cm_meta (labelsForCluster (cname demoCluster)) (configMapCallback memSetRef demoCluster)"
    using children_owned [OF mem_owner.owner_laws_axioms] by blast
  then show ?thesis
    by (simp add: ownsResults_def foreignMeta_def demoCluster_def demoMeta_def)
qed

subsection \<open>Selectors\<close>

text \<open>The Deployments of the operator: what they are for, their names and their callbacks.\<close>

datatype workload = ServerOf OJSCluster | RedisOf OJSCluster | WorkerOf OJSWorker OJSCluster

fun buildWorkload :: "set_ref \<Rightarrow> workload \<Rightarrow> Deployment callback" where
  "buildWorkload setRef (ServerOf c) = serverDeploymentCallback setRef c"
| "buildWorkload setRef (RedisOf c) = redisDeploymentCallback setRef c"
| "buildWorkload setRef (WorkerOf w c) = workerDeploymentCallback setRef w c"

fun workloadName :: "workload \<Rightarrow> string" where
  "workloadName (ServerOf c) = cname c @ ''-server''"
| "workloadName (RedisOf c) = cname c @ ''-redis''"
| "workloadName (WorkerOf w c) = wname w"

fun workloadLabels :: "workload \<Rightarrow> labels" where
  "workloadLabels (ServerOf c) = labelsForCluster (cname c)"
| "workloadLabels (RedisOf c) = labelsForRedis (cname c)"
| "workloadLabels (WorkerOf w c) = labelsForWorker (wname w) (cname c)"

fun sameWorkload :: "workload \<Rightarrow> workload \<Rightarrow> bool" where
  "sameWorkload (ServerOf c) (ServerOf c') = (cname c = cname c')"
| "sameWorkload (RedisOf c) (RedisOf c') = (cname c = cname c')"
| "sameWorkload (WorkerOf w c) (WorkerOf w' c') = (wname w = wname w' \<and> cname c = cname c')"
| "sameWorkload u v = False"

lemma buildWorkload_labels:
  "buildWorkload setRef u ob = Inr d \<Longrightarrow> ds_selector (dep_spec d) = Some (workloadLabels u) \<and>
     pt_labels (ds_template (dep_spec d)) = workloadLabels u"
  by (cases u) (auto simp: serverDeploymentCallback_def redisDeploymentCallback_def workerDeploymentCallback_def
      Let_def split: sum.splits)

lemma workloadLabels_selects: "selects (workloadLabels u) (workloadLabels v) \<longleftrightarrow> sameWorkload u v"
proof (cases "(u, v)" rule: sameWorkload.cases)
  case (1 c c')
  then show ?thesis using server.selects_same_instance [of "cname c" "cname c'"] by auto
next
  case (2 c c')
  then show ?thesis using redis.selects_same_instance [of "cname c" "cname c'"] by auto
next
  case (3 w c w' c')
  then show ?thesis by (simp add: labelsForWorker_selects)
qed (use server_redis.never_selects server_redis.never_selected server_worker.never_selects
    server_worker.never_selected redis_worker.never_selects redis_worker.never_selected in \<open>auto; force\<close>)+

text \<open>C20. Selectors are exact. Of any two Deployments the operator builds (servers, embedded Redis, workers, of any resources), the
  selector of one matches the pods of the other only when they are the same component of the same
  resource, and it matches the pods of its own template.\<close>

theorem selectors_exact:
  assumes "buildWorkload setRef u ob = Inr d" and "buildWorkload setRef v ob' = Inr d'"
  shows "\<exists>sel. ds_selector (dep_spec d) = Some sel \<and> selects sel (pt_labels (ds_template (dep_spec d))) \<and>
    (selects sel (pt_labels (ds_template (dep_spec d'))) \<longleftrightarrow> sameWorkload u v)"
  using buildWorkload_labels [OF assms(1)] buildWorkload_labels [OF assms(2)] workloadLabels_selects [of u v]
  by simp

lemma demo_builds: "\<exists>d. buildWorkload memSetRef u (newDeployment n ''ns'') = Inr d"
proof -
  have ref: "\<exists>m. memSetRef k owner (dep_meta (newDeployment n ''ns'')) = Inr m" for k owner
    by (simp add: memSetRef_def newDeployment_def emptyMeta_def)
  show ?thesis
  proof (cases u)
    case (ServerOf c)
    then show ?thesis using ref [of KCluster "cl_meta c"] by (auto simp: serverDeploymentCallback_def Let_def)
  next
    case (RedisOf c)
    then show ?thesis using ref [of KCluster "cl_meta c"] by (auto simp: redisDeploymentCallback_def Let_def)
  next
    case (WorkerOf w c)
    then show ?thesis using ref [of KWorker "wk_meta w"] by (auto simp: workerDeploymentCallback_def Let_def)
  qed
qed

theorem selectors_exact_witness:
  "\<exists>d d' sel. buildWorkload memSetRef (ServerOf demoCluster) (newDeployment ''c-server'' ''ns'') = Inr d \<and>
     buildWorkload memSetRef (WorkerOf demoWorker demoCluster) (newDeployment ''w'' ''ns'') = Inr d' \<and>
     ds_selector (dep_spec d) = Some sel \<and> \<not> selects sel (pt_labels (ds_template (dep_spec d')))"
proof -
  obtain d d' where d: "buildWorkload memSetRef (ServerOf demoCluster) (newDeployment ''c-server'' ''ns'') = Inr d"
      "buildWorkload memSetRef (WorkerOf demoWorker demoCluster) (newDeployment ''w'' ''ns'') = Inr d'"
    using demo_builds by meson
  then show ?thesis using selectors_exact [OF d] by auto
qed

fun workloadOwner :: "workload \<Rightarrow> ObjectMeta" where
  "workloadOwner (ServerOf c) = cl_meta c"
| "workloadOwner (RedisOf c) = cl_meta c"
| "workloadOwner (WorkerOf w c) = wk_meta w"

lemma buildWorkload_owner:
  assumes "owner_laws setRef" "buildWorkload setRef u ob = Inr d"
  shows "\<exists>ref\<in>set (om_ownerReferences (dep_meta d)). or_controller ref \<and> or_uid ref = om_uid (workloadOwner u)"
proof (cases u)
  case (ServerOf c)
  then show ?thesis using assms(2) serverDeployment.owned [OF assms(1)] by fastforce
next
  case (RedisOf c)
  then show ?thesis using assms(2) redisDeployment.owned [OF assms(1)] by fastforce
next
  case (WorkerOf w c)
  then show ?thesis using assms(2) workerDeployment.owned [OF assms(1)] by fastforce
qed

lemma buildWorkload_refuses:
  assumes "owner_laws setRef" "ref \<in> set (om_ownerReferences (dep_meta d))" "or_controller ref"
    "or_uid ref \<noteq> om_uid (workloadOwner v)"
  shows "isl (buildWorkload setRef v d)"
  using assms serverDeployment.refuses [OF assms(1,2)] redisDeployment.refuses [OF assms(1,2)]
    workerDeployment.refuses [OF assms(1,2)] by (cases v) simp_all

lemma workload_names:
  "workloadName (ServerOf c) = workloadName (ServerOf c') \<longleftrightarrow> cname c = cname c'"
  "workloadName (RedisOf c) = workloadName (RedisOf c') \<longleftrightarrow> cname c = cname c'"
  "workloadName (ServerOf c) \<noteq> workloadName (RedisOf c')"
proof -
  show "workloadName (ServerOf c) \<noteq> workloadName (RedisOf c')"
  proof
    assume "workloadName (ServerOf c) = workloadName (RedisOf c')"
    then have "last (workloadName (ServerOf c)) = last (workloadName (RedisOf c'))" by (rule arg_cong)
    then show False by (simp add: last_append)
  qed
qed simp_all



subsection \<open>How server, backend, Service and worker find each other\<close>

definition namedPort :: "Deployment \<Rightarrow> string \<Rightarrow> int32 option" where
  "namedPort d n = map_of (map (\<lambda>p. (cp_name p, cp_containerPort p))
     (concat (map ct_ports (ps_containers (pt_spec (ds_template (dep_spec d))))))) n"

definition reaches :: "Service \<Rightarrow> Deployment \<Rightarrow> bool" where
  "reaches svc d \<longleftrightarrow> selects (svc_selector svc) (pt_labels (ds_template (dep_spec d))) \<and>
     list_all (\<lambda>p. case sp_targetPort p of FromString n \<Rightarrow> namedPort d n = Some (sp_port p) | FromInt i \<Rightarrow> False) (svc_ports svc)"

text \<open>The Services lead somewhere. The Service of a cluster selects the pods of its server Deployment and each of its ports targets a named
  container port of the same number there; the same holds of the embedded Redis. No Service selects the pods of the other.\<close>

lemma services_reach:
  assumes "serviceCallback setRef c svc0 = Inr svc" and "serverDeploymentCallback setRef c dep0 = Inr dep"
    and "redisServiceCallback setRef c rsvc0 = Inr rsvc" and "redisDeploymentCallback setRef c rdep0 = Inr rdep"
  shows "reaches svc dep \<and> reaches rsvc rdep \<and> \<not> reaches svc rdep \<and> \<not> reaches rsvc dep \<and>
    svc_ports svc \<noteq> [] \<and> svc_ports rsvc \<noteq> []"
proof -
  have s: "svc_selector svc = labelsForCluster (cname c)" "svc_selector rsvc = labelsForRedis (cname c)"
    using assms(1,3) by (auto simp: serviceCallback_def redisServiceCallback_def Let_def split: sum.splits)
  have p: "svc_ports svc = [\<lparr>sp_name = ''http'', sp_port = defaultPort, sp_targetPort = FromString ''http'', sp_protocol = ''TCP''\<rparr>,
       \<lparr>sp_name = ''metrics'', sp_port = metricsPort, sp_targetPort = FromString ''metrics'', sp_protocol = ''TCP''\<rparr>]"
    "svc_ports rsvc = [\<lparr>sp_name = ''redis'', sp_port = 6379, sp_targetPort = FromString ''redis'', sp_protocol = ''TCP''\<rparr>]"
    using assms(1,3) by (auto simp: serviceCallback_def redisServiceCallback_def Let_def split: sum.splits)
  have l: "pt_labels (ds_template (dep_spec dep)) = labelsForCluster (cname c)"
    "pt_labels (ds_template (dep_spec rdep)) = labelsForRedis (cname c)"
    using buildWorkload_labels [of setRef "ServerOf c" dep0 dep] buildWorkload_labels [of setRef "RedisOf c" rdep0 rdep]
      assms(2,4) by simp_all
  have "ps_containers (pt_spec (ds_template (dep_spec dep))) = [serverContainer c]"
    using assms(2) by (auto simp: serverDeploymentCallback_def serverPodSpec_def Let_def split: sum.splits)
  then have n: "namedPort dep ''http'' = Some defaultPort" "namedPort dep ''metrics'' = Some metricsPort"
    by (simp_all add: namedPort_def serverContainer_def)
  have "ps_containers (pt_spec (ds_template (dep_spec rdep))) = [redisContainer]"
    using assms(4) by (auto simp: redisDeploymentCallback_def redisPodSpec_def Let_def split: sum.splits)
  then have "namedPort rdep ''redis'' = Some 6379" by (simp add: namedPort_def redisContainer_def)
  then show ?thesis
    using server_redis.never_selects server_redis.never_selected by (simp add: reaches_def s p l n)
qed

lemma demo_service_builds:
  "\<exists>svc. serviceCallback memSetRef c (newService n ''ns'') = Inr svc"
  "\<exists>svc. redisServiceCallback memSetRef c (newService n ''ns'') = Inr svc"
  "\<exists>cm. configMapCallback memSetRef c (newConfigMap n ''ns'') = Inr cm"
  "\<exists>p. pdbCallback memSetRef c (newPDB n ''ns'') = Inr p"
  "\<exists>h. hpaCallback memSetRef w a (newHPA n ''ns'') = Inr h"
  "\<exists>u. serviceMonitorCallback memSetRef c (newUnstructured g n ''ns'') = Inr u"
proof -
  have ref: "\<exists>m. memSetRef k owner (emptyMeta n ''ns'') = Inr m" for k owner
    by (simp add: memSetRef_def emptyMeta_def)
  note c = ref [of KCluster "cl_meta c"] and w = ref [of KWorker "wk_meta w"]
  show "\<exists>svc. serviceCallback memSetRef c (newService n ''ns'') = Inr svc"
    "\<exists>svc. redisServiceCallback memSetRef c (newService n ''ns'') = Inr svc"
    "\<exists>cm. configMapCallback memSetRef c (newConfigMap n ''ns'') = Inr cm"
    "\<exists>p. pdbCallback memSetRef c (newPDB n ''ns'') = Inr p"
    "\<exists>u. serviceMonitorCallback memSetRef c (newUnstructured g n ''ns'') = Inr u"
    using c by (auto simp: serviceCallback_def redisServiceCallback_def configMapCallback_def pdbCallback_def
        serviceMonitorCallback_def new_object_defs Let_def)
  show "\<exists>h. hpaCallback memSetRef w a (newHPA n ''ns'') = Inr h"
    using w by (auto simp: hpaCallback_def new_object_defs)
qed

text \<open>The address of port \<open>p\<close> of a Service in the cluster's DNS.\<close>

definition serviceHost :: "Service \<Rightarrow> int32 \<Rightarrow> string" where
  "serviceHost svc p = om_name (svc_meta svc) @ ''.'' @ om_namespace (svc_meta svc) @ ''.svc.cluster.local:'' @ fmt_d (sint p)"

text \<open>The server URL given to a worker names the cluster's own Service and a port it serves; and for an embedded Redis without
  an explicit URL, the backend URL put into the ConfigMap names the embedded Redis Service and a port it serves.\<close>

lemma server_address:
  assumes "owner_laws setRef"
    and "serviceCallback setRef c (newService (cname c @ ''-server'') (cns c)) = Inr svc"
  shows "\<exists>p\<in>set (svc_ports svc). workerServerURL c = ''http://'' @ serviceHost svc (sp_port p)"
proof -
  have k: "key_of (svc_meta svc) = \<lparr>nn_namespace = cns c, nn_name = cname c @ ''-server''\<rparr>"
    using serverService.owned [OF assms] by (simp add: newService_def)
  have "\<lparr>sp_name = ''http'', sp_port = defaultPort, sp_targetPort = FromString ''http'', sp_protocol = ''TCP''\<rparr> \<in> set (svc_ports svc)"
    using assms(2) by (auto simp: serviceCallback_def Let_def split: sum.splits)
  then show ?thesis
    using k by (intro bexI) (auto simp: workerServerURL_def serviceHost_def key_of_def)
qed

lemma redis_address:
  assumes "owner_laws setRef"
    and "redisServiceCallback setRef c (newService (cname c @ ''-redis'') (cns c)) = Inr rsvc"
    and "be_embedded (cs_backend (cl_spec c))" and "be_type (cs_backend (cl_spec c)) = ''redis''"
    and "be_url (cs_backend (cl_spec c)) = []"
  shows "\<exists>p\<in>set (svc_ports rsvc). resolveBackendURL c = ''redis://'' @ serviceHost rsvc (sp_port p)"
proof -
  have k: "key_of (svc_meta rsvc) = \<lparr>nn_namespace = cns c, nn_name = cname c @ ''-redis''\<rparr>"
    using redisService.owned [OF assms(1,2)] by (simp add: newService_def)
  have "\<lparr>sp_name = ''redis'', sp_port = 6379, sp_targetPort = FromString ''redis'', sp_protocol = ''TCP''\<rparr> \<in> set (svc_ports rsvc)"
    using assms(2) by (auto simp: redisServiceCallback_def Let_def split: sum.splits)
  moreover have "fmt_d (sint (6379 :: int32)) = ''6379''" by code_simp
  ultimately show ?thesis
    using k assms(3-5) by (intro bexI) (auto simp: resolveBackendURL_def serviceHost_def key_of_def Let_def)
qed



text \<open>The environment of the server resolves. Every ConfigMap key that the server container's environment refers to is a key of the
  ConfigMap the operator maintains for the same cluster, and the value of BACKEND_TYPE there is the spec's type.
  When the spec gives a secret, the backend URL variable refers to that secret, otherwise to the
  ConfigMap.\<close>

lemma server_env_resolves:
  assumes "owner_laws setRef"
    and "configMapCallback setRef c (newConfigMap (cname c @ ''-config'') (cns c)) = Inr cm"
  shows "(\<forall>ev\<in>set (serverEnvVars c).
      (\<exists>k\<in>dom (cm_data cm). ev_valueFrom ev = Some (noSource\<lparr>es_configMapKeyRef := Some (keyOf (om_name (cm_meta cm)) k)\<rparr>)) \<or>
      (\<exists>ref. be_urlSecretRef (cs_backend (cl_spec c)) = Some ref \<and>
        ev_valueFrom ev = Some (noSource\<lparr>es_secretKeyRef := Some (keyOf (skr_name ref) (skr_key ref))\<rparr>))) \<and>
    cm_data cm ''BACKEND_TYPE'' = Some (be_type (cs_backend (cl_spec c))) \<and>
    distinct (map ev_name (serverEnvVars c))"
proof -
  have "key_of (cm_meta cm) = \<lparr>nn_namespace = cns c, nn_name = cname c @ ''-config''\<rparr>"
    using configMap.owned [OF assms] by (simp add: newConfigMap_def)
  then have n: "om_name (cm_meta cm) = cname c @ ''-config''" by (simp add: key_of_def)
  have d: "cm_data cm = [''BACKEND_TYPE'' \<mapsto> be_type (cs_backend (cl_spec c)), ''BACKEND_URL'' \<mapsto> resolveBackendURL c]"
    using assms(2) by (auto simp: configMapCallback_def split: sum.splits)
  show ?thesis
    by (auto simp: serverEnvVars_def n d backendURLEnvVar_def split: option.split)
qed

end
