(* ===== verification/PodProperties.thy ===== *)
theory PodProperties
  imports ResourceProperties Webhook
begin

text \<open>
  The settings of the pods and policies: disruption budget, security, the worker's environment and
  grace period, autoscaling, the ServiceMonitor; and what the admission webhooks guarantee of them.
\<close>

subsection \<open>The PodDisruptionBudget\<close>

text \<open>The disruption budget is well formed. Whatever the budget held before, the callback sets exactly one of
  minAvailable and maxUnavailable: minAvailable when the spec gives it (also when it gives both), else
  maxUnavailable from the spec, else maxUnavailable 1; and it selects the server's pods.\<close>

lemma pdb_one_limit:
  assumes "pdbCallback setRef c p = Inr p'" and "serverDeploymentCallback setRef c d = Inr d'"
  shows "(pdb_minAvailable p' = None) \<noteq> (pdb_maxUnavailable p' = None) \<and>
    (\<forall>s n. cs_podDisruptionBudget (cl_spec c) = Some s \<and> pdbs_minAvailable s = Some n \<longrightarrow>
       pdb_minAvailable p' = Some (FromInt n)) \<and>
    (\<forall>s. cs_podDisruptionBudget (cl_spec c) = Some s \<and> pdbs_minAvailable s = None \<longrightarrow>
       pdb_maxUnavailable p' = Some (FromInt (case pdbs_maxUnavailable s of Some n \<Rightarrow> n | None \<Rightarrow> 1))) \<and>
    (cs_podDisruptionBudget (cl_spec c) = None \<longrightarrow> pdb_maxUnavailable p' = Some (FromInt 1)) \<and>
    (\<exists>sel. pdb_selector p' = Some sel \<and> selects sel (pt_labels (ds_template (dep_spec d'))))"
proof -
  obtain m where p': "p' = p\<lparr>pdb_meta := m, pdb_selector := Some (labelsForCluster (cname c)),
      pdb_minAvailable := fst (pdbLimits c), pdb_maxUnavailable := snd (pdbLimits c)\<rparr>"
    using assms(1) by (rule pdb.callback_cases) blast
  have "pt_labels (ds_template (dep_spec d')) = labelsForCluster (cname c)"
    using buildWorkload_labels [of setRef "ServerOf c" d d'] assms(2) by simp
  then show ?thesis
    by (auto simp: p' pdbLimits_def Let_def bind_eq_None_conv split: option.split)
qed

definition limitedCluster :: OJSCluster where
  "limitedCluster = demoCluster\<lparr>cl_spec := demoClusterSpec\<lparr>cs_podDisruptionBudget :=
     Some \<lparr>pdbs_enabled = None, pdbs_minAvailable = Some 2, pdbs_maxUnavailable = Some 1\<rparr>\<rparr>\<rparr>"

subsection \<open>Pod security\<close>

definition overridden :: "'a option \<Rightarrow> 'a \<Rightarrow> 'a option" where
  "overridden x d = (case x of None \<Rightarrow> Some d | Some y \<Rightarrow> Some y)"

definition secOf :: "OJSCluster \<Rightarrow> (PodSecuritySpec \<Rightarrow> 'a option) \<Rightarrow> 'a option" where
  "secOf c f = Option.bind (cs_securityContext (cl_spec c)) f"

lemma buildPodSecurityContext_fields:
  "psc_runAsNonRoot (buildPodSecurityContext c) = overridden (secOf c sec_runAsNonRoot) True"
  "psc_runAsUser (buildPodSecurityContext c) = overridden (secOf c sec_runAsUser) 65534"
  "psc_runAsGroup (buildPodSecurityContext c) = overridden (secOf c sec_runAsGroup) 65534"
  "psc_fsGroup (buildPodSecurityContext c) = secOf c sec_fsGroup"
  "psc_seccompProfile (buildPodSecurityContext c) = Some ''RuntimeDefault''"
  by (auto simp: buildPodSecurityContext_def overridden_def secOf_def Let_def split: option.split)

definition hardened :: "Container \<Rightarrow> bool" where
  "hardened ct \<longleftrightarrow> (\<exists>s. ct_securityContext ct = Some s \<and> sc_allowPrivilegeEscalation s = Some False \<and>
     sc_dropCapabilities s = Some [''ALL''])"



subsection \<open>The worker's environment\<close>

text \<open>How a worker reads a comma-separated list.\<close>

fun splitComma :: "string \<Rightarrow> string \<Rightarrow> string list" where
  "splitComma acc [] = [acc]"
| "splitComma acc (c # cs) = (if c = CHR '','' then acc # splitComma [] cs else splitComma (acc @ [c]) cs)"

lemma splitComma_plain: "CHR '','' \<notin> set s \<Longrightarrow> splitComma acc (s @ rest) = splitComma (acc @ s) rest"
  by (induction s arbitrary: acc) auto

lemma joinLoop_later: "joinLoop (Suc i) result ss = result @ concat (map (\<lambda>s. '','' @ s) ss)"
  by (induction ss arbitrary: i result) simp_all

lemma splitComma_tail:
  "list_all (\<lambda>s. CHR '','' \<notin> set s) ss \<Longrightarrow> splitComma acc (concat (map (\<lambda>s. '','' @ s) ss)) = acc # ss"
proof (induction ss arbitrary: acc)
  case (Cons s ss)
  then show ?case using splitComma_plain [of s "[]"] by simp
qed simp

definition envValue :: "EnvVar list \<Rightarrow> string \<Rightarrow> string option" where
  "envValue evs n = map_of (map (\<lambda>ev. (ev_name ev, ev_value ev)) evs) n"

lemma joinStrings_split:
  assumes "ss \<noteq> []" "list_all (\<lambda>s. CHR '','' \<notin> set s) ss"
  shows "splitComma [] (joinStrings ss) = ss"
proof (cases ss)
  case (Cons s rest)
  then have "joinStrings ss = s @ concat (map (\<lambda>s. '','' @ s) rest)"
    by (simp add: joinStrings_def joinLoop_later)
  then show ?thesis using assms(2) Cons splitComma_plain [of s "[]"] splitComma_tail [of rest s] by simp
qed (use assms(1) in simp)


lemma demo_valid_worker: "valid_worker demoWorker"
  by (simp add: valid_worker_def demoWorker_def demoWorkerSpec_def scaling_range_ok_def)


text \<open>A worker pod always gets a positive grace period: the configured
  number of seconds, widened from 32 to 64 bits, when it is positive, and 30 otherwise.\<close>

lemma grace_period:
  "0 < sint (terminationGracePeriod w) \<and>
   sint (terminationGracePeriod w) = (case ws_gracefulShutdown (wk_spec w) of
     None \<Rightarrow> 30 | Some g \<Rightarrow> if 0 < sint (gs_timeoutSeconds g) then sint (gs_timeoutSeconds g) else 30)"
proof -
  have "sint (scast x :: int64) = sint x" for x :: int32
    by (rule sint_up_scast) (simp add: is_up)
  then show ?thesis by (simp add: terminationGracePeriod_def split: option.split)
qed

subsection \<open>Autoscaling and the ServiceMonitor\<close>

text \<open>The autoscaler of an admitted worker is well formed: it scales the worker's own Deployment, its bounds are those of the spec
  with 1 <= min <= max, and its target is 80 percent CPU utilisation, the same for every worker: the queue depth targets
  of the spec do not reach it.\<close>

lemma hpa_of_admitted:
  assumes "valid_worker w" and "ws_autoScaling (wk_spec w) = Some a" and "was_enabled a"
    and "hpaCallback setRef w a h = Inr h'"
  shows "xr_kind (hpa_scaleTargetRef h') = ''Deployment'' \<and>
    xr_name (hpa_scaleTargetRef h') = workloadName (WorkerOf w c) \<and>
    (\<exists>lo. hpa_minReplicas h' = Some lo \<and> 1 \<le> sint lo \<and> sint lo \<le> sint (hpa_maxReplicas h') \<and>
      lo = was_minReplicas a \<and> hpa_maxReplicas h' = was_maxReplicas a) \<and>
    hpa_metrics h' = [\<lparr>ms_type = ''Resource'', ms_resource = ''cpu'', ms_targetType = ''Utilization'',
      ms_averageUtilization = Some 80\<rparr>]"
proof -
  have "scaling_range_ok (was_minReplicas a) (was_maxReplicas a)"
    using assms(1-3) by (simp add: valid_worker_def)
  then show ?thesis
    using assms(4) by (auto simp: hpaCallback_def scaling_range_ok_def split: sum.splits)
qed

text \<open>The autoscaler's work is undone. The worker callback always puts the replica count of the spec (1 by default) back into
  the Deployment, also when autoscaling is enabled and the HorizontalPodAutoscaler has set another one: any count different from the spec's is
  reset by the next reconciliation.\<close>

lemma worker_replicas_reset:
  assumes "workerDeploymentCallback setRef w c d = Inr d'" and "workerScales w"
    and "ds_replicas (dep_spec d) = Some n" and "n \<noteq> workerReplicas w"
  shows "ds_replicas (dep_spec d') = Some (workerReplicas w) \<and> d' \<noteq> d"
proof -
  have "ds_replicas (dep_spec d') = Some (workerReplicas w)"
    using assms(1) by (auto simp: workerDeploymentCallback_def Let_def split: sum.splits)
  then show ?thesis using assms(3,4) by auto
qed

text \<open>An unstructured object as a client reads it back after it was written.\<close>

definition reread :: "Unstructured \<Rightarrow> Unstructured" where
  "reread u = u\<lparr>us_object := (\<lambda>k. map_option json_reread (us_object u k))\<rparr>"

text \<open>C40. The ServiceMonitor never settles. The spec the operator writes holds a \<^verbatim>\<open>map[string]string\<close>, which comes back from the API server as a
  \<^verbatim>\<open>map[string]interface{}\<close>; so the callback changes every ServiceMonitor read back, also the one it
  wrote itself, and every reconciliation updates it again.\<close>

theorem serviceMonitor_never_settles:
  assumes "serviceMonitorCallback setRef c (reread sm) = Inr sm'"
  shows "sm' \<noteq> reread sm"
proof
  assume eq: "sm' = reread sm"
  have "us_object sm' ''spec'' = Some (serviceMonitorSpec c)"
    using assms by (auto simp: serviceMonitorCallback_def split: sum.splits)
  then obtain j where "json_reread j = serviceMonitorSpec c" by (auto simp: eq reread_def)
  moreover have "\<not> keepsStrMap (json_reread j)" by (rule json_reread_no_StrMap)
  moreover have "keepsStrMap (serviceMonitorSpec c)"
    by (auto simp: serviceMonitorSpec_def intro!: exI [of _ "''selector''"] exI [of _ "''matchLabels''"])
  ultimately show False by simp
qed

theorem serviceMonitor_never_settles_witness:
  "\<exists>sm'. serviceMonitorCallback memSetRef demoCluster (reread (newUnstructured serviceMonitorGVK ''c-server'' ''ns'')) = Inr sm' \<and>
     sm' \<noteq> reread (newUnstructured serviceMonitorGVK ''c-server'' ''ns'')"
proof -
  have r: "reread (newUnstructured serviceMonitorGVK ''c-server'' ''ns'') = newUnstructured serviceMonitorGVK ''c-server'' ''ns''"
    by (simp add: reread_def newUnstructured_def fun_eq_iff)
  obtain sm' where sm': "serviceMonitorCallback memSetRef demoCluster (reread (newUnstructured serviceMonitorGVK ''c-server'' ''ns'')) = Inr sm'"
    unfolding r using demo_service_builds by meson
  from serviceMonitor_never_settles [OF sm'] sm' show ?thesis by blast
qed

subsection \<open>Admission\<close>

text \<open>C18. Admission is exact. Creation and update of an OJSCluster are accepted exactly when the new object is an
  OJSCluster whose backend type is a supported one, whose replica count is absent or at least 1 and whose enabled
  autoscaling has 1 <= min <= max. Those of an OJSWorker are accepted exactly when cluster reference and image are
  present, it names at least one job type and no blank job type or queue, its concurrency is not negative, and its
  enabled autoscaling has 1 <= min <= max. The old object plays no part in an update, an object of another type is
  refused, and deletion is always accepted. Hence whatever sequence of create, update and delete requests is made
  against one object name, each decided by the webhook, the object stored at the end, if any, is a valid one.\<close>

theorem admission_exact:
  "(ValidateCreateCluster obj = None \<longleftrightarrow> (\<exists>c. obj = ObjCluster c \<and> valid_cluster c)) \<and>
   (ValidateCreateWorker obj = None \<longleftrightarrow> (\<exists>w. obj = ObjWorker w \<and> valid_worker w)) \<and>
   ValidateUpdateCluster old obj = ValidateCreateCluster obj \<and> ValidateUpdateWorker old obj = ValidateCreateWorker obj \<and>
   ValidateDeleteCluster obj = None \<and> ValidateDeleteWorker obj = None \<and>
   (fold (\<lambda>req st. cluster_validator.admit st req) reqs None = Some obj \<longrightarrow> (\<exists>c. obj = ObjCluster c \<and> valid_cluster c)) \<and>
   (fold (\<lambda>req st. worker_validator.admit st req) reqs None = Some obj \<longrightarrow> (\<exists>w. obj = ObjWorker w \<and> valid_worker w))"
  using cluster_validator.create_accepts [of obj] cluster_validator.update_as_create [of old obj]
    cluster_validator.delete_accepts [of obj] worker_validator.create_accepts [of obj]
    worker_validator.update_as_create [of old obj] worker_validator.delete_accepts [of obj]
    cluster_validator.always_valid [of reqs obj] worker_validator.always_valid [of reqs obj]
  by (cases obj) auto

theorem admission_exact_witness:
  "\<exists>c. fold (\<lambda>req st. cluster_validator.admit st req) [Create (ObjCluster demoCluster)] None = Some (ObjCluster c) \<and>
     valid_cluster c"
proof -
  have "fold (\<lambda>req st. cluster_validator.admit st req) [Create (ObjCluster demoCluster)] None = Some (ObjCluster demoCluster)"
    by (simp add: validateOJSCluster_def demoCluster_def demoClusterSpec_def ValidBackendTypes_def Let_def)
  with admission_exact [of "ObjCluster demoCluster" "ObjCluster demoCluster" "[Create (ObjCluster demoCluster)]"]
  show ?thesis by blast
qed

end
