(* ===== verification/GoHeap.thy ===== *)
theory GoHeap
  imports Prelude
begin

text \<open>
  Go memory for the code that is about aliasing. A pointer, slice or map value is the address of a
  cell, or nil; \<^verbatim>\<open>new\<close> and \<^verbatim>\<open>make\<close> take an address never used before. A \<open>reader\<close> is the value
  behind a pointer structure together with its footprint, the set of addresses it occupies; it
  is \<open>None\<close> when a pointer is dangling or of the wrong type, which Go excludes. On top of it, the
  logic of copying: \<open>made h0 h r v S\<close> says that \<open>r\<close> reads \<open>v\<close> in \<open>h\<close> and occupies exactly
  the addresses \<open>S\<close> of the older memory \<open>h0\<close>, and \<open>clones r m R S\<close> that \<open>m\<close> builds such a
  structure of the value of \<open>r\<close>, whatever was allocated in between.
\<close>

subsection \<open>Memory\<close>

record 'c mem =
  mem_next :: nat
  mem_cell :: "nat \<rightharpoonup> 'c"

type_synonym ptr = "nat option"

text \<open>How the values of one Go type lie in a cell.\<close>

record ('c, 'v) cellkind =
  ck_make :: "'v \<Rightarrow> 'c"
  ck_get :: "'c \<Rightarrow> 'v option"

definition lawful :: "('c, 'v) cellkind \<Rightarrow> bool" where
  "lawful k \<longleftrightarrow> (\<forall>c v. ck_get k c = Some v \<longleftrightarrow> c = ck_make k v)"

text \<open>The kind of the cells made by one constructor, given its discriminator and selector.\<close>

definition variant :: "('v \<Rightarrow> 'c) \<Rightarrow> ('c \<Rightarrow> bool) \<Rightarrow> ('c \<Rightarrow> 'v) \<Rightarrow> ('c, 'v) cellkind" where
  "variant mk is un = \<lparr>ck_make = mk, ck_get = (\<lambda>c. if is c then Some (un c) else None)\<rparr>"

lemma lawful_variant:
  assumes "\<And>v. is (mk v)" "\<And>v. un (mk v) = v" "\<And>c. is c \<Longrightarrow> mk (un c) = c"
  shows "lawful (variant mk is un)"
  using assms by (auto simp: lawful_def variant_def)

definition good_mem :: "'c mem \<Rightarrow> bool" where
  "good_mem h \<longleftrightarrow> (\<forall>a \<in> dom (mem_cell h). a < mem_next h)"

definition grows :: "'c mem \<Rightarrow> 'c mem \<Rightarrow> bool" where
  "grows h h' \<longleftrightarrow> mem_cell h \<subseteq>\<^sub>m mem_cell h'"

lemma grows_refl [simp, intro]: "grows h h"
  by (simp add: grows_def)

lemma grows_trans: "grows h h' \<Longrightarrow> grows h' h'' \<Longrightarrow> grows h h''"
  unfolding grows_def by (rule map_le_trans)

lemma grows_agree: "grows h h' \<Longrightarrow> A \<subseteq> dom (mem_cell h) \<Longrightarrow> \<forall>a\<in>A. mem_cell h' a = mem_cell h a"
  by (metis grows_def map_le_def subset_iff)

subsection \<open>Operations\<close>

text \<open>Allocation of an initialised cell. The zero value that Go stores first is overwritten before the
  address is known to anyone.\<close>

definition new_cell :: "('c, 'v) cellkind \<Rightarrow> 'v \<Rightarrow> ('c mem, nat) state" where
  "new_cell k v = State (\<lambda>h. (mem_next h,
     h\<lparr>mem_next := Suc (mem_next h), mem_cell := (mem_cell h)(mem_next h \<mapsto> ck_make k v)\<rparr>))"

definition deref :: "('c, 'v) cellkind \<Rightarrow> nat \<Rightarrow> ('c mem, 'v) state" where
  "deref k a = State (\<lambda>h. (the (ck_get k (the (mem_cell h a))), h))"

definition store_cell :: "('c, 'v) cellkind \<Rightarrow> nat \<Rightarrow> 'v \<Rightarrow> 'c mem \<Rightarrow> 'c mem" where
  "store_cell k a v h = h\<lparr>mem_cell := (mem_cell h)(a \<mapsto> ck_make k v)\<rparr>"

fun copy_each :: "('a \<Rightarrow> ('s, 'b) state) \<Rightarrow> 'a list \<Rightarrow> ('s, 'b list) state" where
  "copy_each f [] = State_Monad.return []"
| "copy_each f (x # xs) = do { y \<leftarrow> f x; ys \<leftarrow> copy_each f xs; State_Monad.return (y # ys) }"

text \<open>\<^verbatim>\<open>if in != nil { out = new(T); copy *in into *out }\<close>, which is also the shape of a \<^verbatim>\<open>DeepCopy\<close> method.\<close>

definition copy_ptr :: "('c, 'v) cellkind \<Rightarrow> ('v \<Rightarrow> ('c mem, 'v) state) \<Rightarrow> ptr \<Rightarrow> ('c mem, ptr) state" where
  "copy_ptr k into p = (case p of
     None \<Rightarrow> State_Monad.return None
   | Some a \<Rightarrow> do {
       x \<leftarrow> deref k a;
       y \<leftarrow> into x;
       out \<leftarrow> new_cell k y;
       State_Monad.return (Some out)
     })"

subsection \<open>Readers\<close>

type_synonym ('c, 'v) reader = "'c mem \<Rightarrow> ('v \<times> nat set) option"

definition rret :: "'v \<Rightarrow> ('c, 'v) reader" where
  "rret v = (\<lambda>h. Some (v, {}))"

definition rbind :: "('c, 'v) reader \<Rightarrow> ('v \<Rightarrow> ('c, 'w) reader) \<Rightarrow> ('c, 'w) reader" where
  "rbind r k = (\<lambda>h. case r h of None \<Rightarrow> None
     | Some (v, A) \<Rightarrow> (case k v h of None \<Rightarrow> None | Some (w, B) \<Rightarrow> Some (w, A \<union> B)))"

definition rderef :: "('c, 'v) cellkind \<Rightarrow> nat \<Rightarrow> ('c, 'v) reader" where
  "rderef k a = (\<lambda>h. case mem_cell h a of None \<Rightarrow> None
     | Some c \<Rightarrow> map_option (\<lambda>v. (v, {a})) (ck_get k c))"

definition look_ptr :: "('c, 'x) cellkind \<Rightarrow> ('x \<Rightarrow> ('c, 'v) reader) \<Rightarrow> ptr \<Rightarrow> ('c, 'v option) reader" where
  "look_ptr k look p = (case p of
     None \<Rightarrow> rret None
   | Some a \<Rightarrow> rbind (rderef k a) (\<lambda>x. rbind (look x) (\<lambda>v. rret (Some v))))"

fun look_each :: "('x \<Rightarrow> ('c, 'v) reader) \<Rightarrow> 'x list \<Rightarrow> ('c, 'v list) reader" where
  "look_each look [] = rret []"
| "look_each look (x # xs) = rbind (look x) (\<lambda>v. rbind (look_each look xs) (\<lambda>vs. rret (v # vs)))"

definition footprint :: "('c, 'v) reader \<Rightarrow> 'c mem \<Rightarrow> nat set" where
  "footprint r h = (case r h of None \<Rightarrow> {} | Some (v, A) \<Rightarrow> A)"

text \<open>A reader depends on the cells of its footprint only.\<close>

definition local_reader :: "('c, 'v) reader \<Rightarrow> bool" where
  "local_reader r \<longleftrightarrow> (\<forall>h v A. r h = Some (v, A) \<longrightarrow> A \<subseteq> dom (mem_cell h) \<and>
     (\<forall>h'. (\<forall>a\<in>A. mem_cell h' a = mem_cell h a) \<longrightarrow> r h' = Some (v, A)))"

named_theorems local_rules

lemma local_rret [local_rules]: "local_reader (rret v)"
  by (simp add: local_reader_def rret_def)

lemma local_readerD:
  "local_reader r \<Longrightarrow> r h = Some (v, A) \<Longrightarrow> \<forall>a\<in>A. mem_cell h' a = mem_cell h a \<Longrightarrow> r h' = Some (v, A)"
  unfolding local_reader_def by blast

lemma local_dom: "local_reader r \<Longrightarrow> r h = Some (v, A) \<Longrightarrow> A \<subseteq> dom (mem_cell h)"
  unfolding local_reader_def by metis

lemma local_rbind [local_rules]:
  assumes "local_reader r" "\<And>v. local_reader (k v)"
  shows "local_reader (rbind r k)"
  unfolding local_reader_def
proof (intro allI impI)
  fix h w C
  assume "rbind r k h = Some (w, C)"
  then obtain v A B where parts: "r h = Some (v, A)" "k v h = Some (w, B)" and C: "C = A \<union> B"
    by (auto simp: rbind_def split: option.splits)
  have "C \<subseteq> dom (mem_cell h)"
    unfolding C using local_dom [OF assms(1) parts(1)] local_dom [OF assms(2) parts(2)] by simp
  moreover have "rbind r k h' = Some (w, C)" if "\<forall>a\<in>C. mem_cell h' a = mem_cell h a" for h'
  proof -
    have "r h' = Some (v, A)" by (rule local_readerD [OF assms(1) parts(1)]) (use that C in simp)
    moreover have "k v h' = Some (w, B)" by (rule local_readerD [OF assms(2) parts(2)]) (use that C in simp)
    ultimately show ?thesis by (simp add: rbind_def C)
  qed
  ultimately show "C \<subseteq> dom (mem_cell h) \<and>
      (\<forall>h'. (\<forall>a\<in>C. mem_cell h' a = mem_cell h a) \<longrightarrow> rbind r k h' = Some (w, C))"
    by simp
qed

lemma local_rderef [local_rules]: "local_reader (rderef k a)"
  by (auto simp: local_reader_def rderef_def split: option.splits)

lemma local_look_ptr [local_rules]:
  "(\<And>x. local_reader (look x)) \<Longrightarrow> local_reader (look_ptr k look p)"
  unfolding look_ptr_def
  by (cases p) (simp_all only: option.case local_rret, intro local_rbind local_rderef local_rret)

lemma local_look_each [local_rules]:
  assumes "\<And>x. local_reader (look x)"
  shows "local_reader (look_each look xs)"
  by (induction xs) (simp_all only: look_each.simps local_rret, intro local_rbind local_rret assms)

lemma local_grows: "local_reader r \<Longrightarrow> r h = Some (v, A) \<Longrightarrow> grows h h' \<Longrightarrow> r h' = Some (v, A)"
  by (rule local_readerD [OF _ _ grows_agree [OF _ local_dom]])

subsection \<open>The logic of copying\<close>

definition made :: "'c mem \<Rightarrow> 'c mem \<Rightarrow> ('c, 'v) reader \<Rightarrow> 'v \<Rightarrow> nat set \<Rightarrow> bool" where
  "made h0 h r v S \<longleftrightarrow> local_reader r \<and> (\<exists>A. r h = Some (v, A) \<and> A \<inter> dom (mem_cell h0) = S)"

definition clones_if ::
  "('c mem \<Rightarrow> 'c mem \<Rightarrow> bool) \<Rightarrow> ('c, 'v) reader \<Rightarrow> ('c mem, 'a) state \<Rightarrow> ('a \<Rightarrow> ('c, 'v) reader) \<Rightarrow>
   ('c mem \<Rightarrow> nat set) \<Rightarrow> bool" where
  "clones_if G r m R S \<longleftrightarrow> (\<forall>h0 h v A. good_mem h \<longrightarrow> grows h0 h \<longrightarrow> G h0 h \<longrightarrow> r h0 = Some (v, A) \<longrightarrow>
     (\<exists>x h'. run_state m h = (x, h') \<and> good_mem h' \<and> grows h h' \<and> made h0 h' (R x) v (S h0)))"

abbreviation clones :: "('c, 'v) reader \<Rightarrow> ('c mem, 'a) state \<Rightarrow> ('a \<Rightarrow> ('c, 'v) reader) \<Rightarrow> ('c mem \<Rightarrow> nat set) \<Rightarrow> bool" where
  "clones r m R S \<equiv> clones_if (\<lambda>_ _. True) r m R S"

definition stable :: "('c mem \<Rightarrow> 'c mem \<Rightarrow> bool) \<Rightarrow> bool" where
  "stable G \<longleftrightarrow> (\<forall>h0 h h'. G h0 h \<longrightarrow> grows h h' \<longrightarrow> G h0 h')"

lemma stable_True [simp]: "stable (\<lambda>_ _. True)"
  by (simp add: stable_def)

lemma stable_conj [simp]: "stable G \<Longrightarrow> stable H \<Longrightarrow> stable (\<lambda>h0 h. G h0 h \<and> H h0 h)"
  unfolding stable_def by blast

lemma stable_made [simp]: "stable (\<lambda>h0 h. made h0 h r v (S h0))"
  unfolding stable_def made_def by (blast intro: local_grows)

lemma made_grows: "made h0 h r v S \<Longrightarrow> grows h h' \<Longrightarrow> made h0 h' r v S"
  unfolding made_def by (blast intro: local_grows)

lemma made_rret [simp]: "made h0 h (rret v) w S \<longleftrightarrow> w = v \<and> S = {}"
  by (auto simp: made_def local_rules) (auto simp: rret_def)

lemma made_bind:
  assumes "made h0 h r v S" "made h0 h (k v) w T" "\<And>v. local_reader (k v)"
  shows "made h0 h (rbind r k) w (S \<union> T)"
proof -
  obtain A B where "local_reader r" "r h = Some (v, A)" "A \<inter> dom (mem_cell h0) = S"
    "k v h = Some (w, B)" "B \<inter> dom (mem_cell h0) = T"
    using assms(1,2) by (auto simp: made_def)
  moreover from this have "rbind r k h = Some (w, A \<union> B)" by (simp add: rbind_def)
  ultimately show ?thesis using local_rbind [of r k] assms(3) by (auto simp: made_def Int_Un_distrib2)
qed

lemma made_bind_fresh:
  "made h0 h r v {} \<Longrightarrow> made h0 h (k v) w S \<Longrightarrow> (\<And>v. local_reader (k v)) \<Longrightarrow> made h0 h (rbind r k) w S"
  using made_bind [of h0 h r v "{}" k w S] by simp

lemma made_shared: "made h0 h r v S \<Longrightarrow> S = T \<Longrightarrow> made h0 h r v T"
  by simp

text \<open>One field is copied, then the rest.\<close>

lemma clones_bind:
  assumes "clones r1 m1 R1 S1" "stable G"
    and "\<And>x v. clones_if (\<lambda>h0 h. G h0 h \<and> made h0 h (R1 x) v (S1 h0)) (k v) (m2 x) R S"
  shows "clones_if G (rbind r1 k) (State_Monad.bind m1 m2) R S"
  unfolding clones_if_def
proof (intro allI impI)
  fix h0 h w C
  assume h: "good_mem h" "grows h0 h" "G h0 h" and "rbind r1 k h0 = Some (w, C)"
  then obtain v A B where r1: "r1 h0 = Some (v, A)" and k: "k v h0 = Some (w, B)"
    by (auto simp: rbind_def split: option.splits)
  obtain x h1 where one: "run_state m1 h = (x, h1)" "good_mem h1" "grows h h1" "made h0 h1 (R1 x) v (S1 h0)"
    using assms(1) h(1,2) r1 unfolding clones_if_def by blast
  moreover have "grows h0 h1" "G h0 h1"
    using grows_trans h(2,3) one(3) assms(2) unfolding stable_def by blast+
  ultimately obtain y h2 where "run_state (m2 x) h1 = (y, h2)" "good_mem h2" "grows h1 h2" "made h0 h2 (R y) w (S h0)"
    using assms(3) [of x v] k unfolding clones_if_def by blast
  then show "\<exists>y h'. run_state (State_Monad.bind m1 m2) h = (y, h') \<and> good_mem h' \<and> grows h h' \<and> made h0 h' (R y) w (S h0)"
    using one grows_trans by (auto simp: State_Monad.bind_def)
qed

text \<open>A field that the code leaves as it is stays shared.\<close>

lemma clones_keep:
  assumes "local_reader r1"
    and "\<And>v. clones_if (\<lambda>h0 h. G h0 h \<and> made h0 h r1 v (footprint r1 h0)) (k v) m R S"
  shows "clones_if G (rbind r1 k) m R S"
  unfolding clones_if_def
proof (intro allI impI)
  fix h0 h w C
  assume h: "good_mem h" "grows h0 h" "G h0 h" and "rbind r1 k h0 = Some (w, C)"
  then obtain v A B where r1: "r1 h0 = Some (v, A)" and k: "k v h0 = Some (w, B)"
    by (auto simp: rbind_def split: option.splits)
  have "made h0 h r1 v (footprint r1 h0)"
    using assms(1) local_grows [OF assms(1) r1 h(2)] local_dom [OF assms(1) r1] r1
    by (auto simp: made_def footprint_def)
  then show "\<exists>y h'. run_state m h = (y, h') \<and> good_mem h' \<and> grows h h' \<and> made h0 h' (R y) w (S h0)"
    using assms(2) [of v] h k unfolding clones_if_def by blast
qed

lemma clones_return:
  assumes "\<And>h0 h. G h0 h \<Longrightarrow> made h0 h (R x) v (S h0)"
  shows "clones_if G (rret v) (State_Monad.return x) R S"
  using assms by (auto simp: clones_if_def rret_def)

subsection \<open>Copiers\<close>

text \<open>\<open>copies_sharing copy look S\<close>: the copy of \<open>x\<close> reads like \<open>x\<close>, and shares with the memory before it
  exactly the addresses \<open>S x\<close>. A deep copy shares none.\<close>

definition copies_sharing ::
  "('a \<Rightarrow> ('c mem, 'a) state) \<Rightarrow> ('a \<Rightarrow> ('c, 'v) reader) \<Rightarrow> ('a \<Rightarrow> 'c mem \<Rightarrow> nat set) \<Rightarrow> bool" where
  "copies_sharing copy look S \<longleftrightarrow>
     (\<forall>x. local_reader (look x) \<and> clones (look x) (copy x) look (S x))"

abbreviation deep_copies :: "('a \<Rightarrow> ('c mem, 'a) state) \<Rightarrow> ('a \<Rightarrow> ('c, 'v) reader) \<Rightarrow> bool" where
  "deep_copies copy look \<equiv> copies_sharing copy look (\<lambda>_ _. {})"

definition shared_ptr :: "('c, 'a) cellkind \<Rightarrow> ('a \<Rightarrow> 'c mem \<Rightarrow> nat set) \<Rightarrow> ptr \<Rightarrow> 'c mem \<Rightarrow> nat set" where
  "shared_ptr k S p h = (case p of None \<Rightarrow> {} | Some a \<Rightarrow>
     (case rderef k a h of None \<Rightarrow> {} | Some (x, _) \<Rightarrow> S x h))"

definition shared_each :: "('a \<Rightarrow> 'c mem \<Rightarrow> nat set) \<Rightarrow> 'a list \<Rightarrow> 'c mem \<Rightarrow> nat set" where
  "shared_each S xs h = (\<Union>x\<in>set xs. S x h)"

lemma shared_nothing [simp]:
  "shared_ptr k (\<lambda>_ _. {}) = (\<lambda>_ _. {})" "shared_each (\<lambda>_ _. {}) = (\<lambda>_ _. {})"
  by (auto simp: fun_eq_iff shared_ptr_def shared_each_def split: option.split)

lemma copies_local: "copies_sharing copy look S \<Longrightarrow> local_reader (look x)"
  by (simp add: copies_sharing_def)

lemma copies_clones: "copies_sharing copy look S \<Longrightarrow> clones (look x) (copy x) look (S x)"
  by (simp add: copies_sharing_def)

lemma copies_bind:
  assumes "copies_sharing c l S1" "stable G"
    and "\<And>y v. clones_if (\<lambda>h0 h. G h0 h \<and> made h0 h (l y) v (S1 x h0)) (k v) (m y) R S"
  shows "clones_if G (rbind (l x) k) (State_Monad.bind (c x) m) R S"
  by (rule clones_bind [OF copies_clones [OF assms(1)] assms(2,3)])

lemma copies_return: "deep_copies State_Monad.return rret"
  by (auto simp: copies_sharing_def local_rules intro: clones_return)

text \<open>A view of what was copied.\<close>

lemma copies_view:
  assumes "copies_sharing copy look S"
  shows "copies_sharing copy (\<lambda>x. rbind (look x) (\<lambda>v. rret (f v))) S"
proof -
  note loc = copies_local [OF assms]
  have "clones (rbind (look x) (\<lambda>v. rret (f v))) (copy x) (\<lambda>y. rbind (look y) (\<lambda>v. rret (f v))) (S x)" for x
    unfolding clones_if_def
  proof (intro allI impI)
    fix h0 h w C
    assume h: "good_mem h" "grows h0 h" and "rbind (look x) (\<lambda>v. rret (f v)) h0 = Some (w, C)"
    then obtain v A where v: "look x h0 = Some (v, A)" and w: "w = f v"
      by (auto simp: rbind_def rret_def split: option.splits)
    then obtain y h' where y: "run_state (copy x) h = (y, h')" "good_mem h'" "grows h h'" "made h0 h' (look y) v (S x h0)"
      using copies_clones [OF assms, of x] h unfolding clones_if_def by blast
    have "made h0 h' (rbind (look y) (\<lambda>v. rret (f v))) w (S x h0 \<union> {})"
      by (rule made_bind [OF y(4)]) (simp_all add: w local_rules)
    then show "\<exists>y h'. run_state (copy x) h = (y, h') \<and> good_mem h' \<and> grows h h' \<and>
        made h0 h' (rbind (look y) (\<lambda>v. rret (f v))) w (S x h0)"
      using y by auto
  qed
  then show ?thesis by (simp add: copies_sharing_def loc local_rules)
qed

lemma copies_each:
  assumes "copies_sharing copy look S"
  shows "copies_sharing (copy_each copy) (look_each look) (shared_each S)"
proof -
  have loc: "local_reader (look_each look xs)" for xs
    by (rule local_look_each) (rule copies_local [OF assms])
  have "clones (look_each look xs) (copy_each copy xs) (look_each look) (shared_each S xs)" for xs
  proof (induction xs)
    case Nil
    show ?case by (auto intro!: clones_return simp: shared_each_def)
  next
    case (Cons x xs)
    have "made h0 h (look_each look (y # ys)) (v # vs) (shared_each S (x # xs) h0)"
      if "made h0 h (look y) v (S x h0)" "made h0 h (look_each look ys) vs (shared_each S xs h0)" for h0 h y v ys vs
    proof -
      have "made h0 h (rbind (look_each look ys) (\<lambda>vs. rret (v # vs))) (v # vs) (shared_each S xs h0 \<union> {})"
        by (rule made_bind [OF that(2)]) (simp_all add: local_rules)
      from made_bind [OF that(1), of "\<lambda>v. rbind (look_each look ys) (\<lambda>vs. rret (v # vs))", OF this]
      show ?thesis by (simp add: shared_each_def local_rules loc)
    qed
    then show ?case
      unfolding copy_each.simps look_each.simps(2) [of look x]
      by (intro clones_bind [OF copies_clones [OF assms]] clones_bind [OF Cons.IH] clones_return)
        simp_all
  qed
  with loc show ?thesis by (simp add: copies_sharing_def)
qed

lemma lawful_get [simp]: "lawful k \<Longrightarrow> ck_get k (ck_make k v) = Some v"
  by (simp add: lawful_def)

lemma new_cell_grows:
  assumes "good_mem h" "run_state (new_cell k v) h = (a, h')"
  shows "a \<notin> dom (mem_cell h)" "good_mem h'" "grows h h'" "mem_cell h' a = Some (ck_make k v)"
  using assms by (auto simp: new_cell_def good_mem_def grows_def map_le_def less_Suc_eq)

lemma made_look_ptr:
  assumes "lawful k" "mem_cell h a = Some (ck_make k y)" "a \<notin> dom (mem_cell h0)" "made h0 h (look y) v S"
    and loc: "\<And>y. local_reader (look y)"
  shows "made h0 h (look_ptr k look (Some a)) (Some v) S"
proof -
  have "made h0 h (rderef k a) y {}"
    using assms(1-3) local_rderef [of k a] by (auto simp: made_def rderef_def)
  moreover have "made h0 h (rbind (look y) (\<lambda>v. rret (Some v))) (Some v) S"
    using made_bind [OF assms(4), of "\<lambda>v. rret (Some v)" "Some v" "{}"] by (simp add: local_rules)
  ultimately show ?thesis
    by (simp add: look_ptr_def made_bind_fresh loc local_rules)
qed

lemma copies_ptr:
  assumes copies: "copies_sharing copy look S" and k: "lawful k"
  shows "copies_sharing (copy_ptr k copy) (look_ptr k look) (shared_ptr k S)"
  unfolding copies_sharing_def
proof (intro allI conjI)
  fix p :: ptr
  note loc = copies_local [OF copies]
  show "local_reader (look_ptr k look p)" by (rule local_look_ptr) (rule loc)
  show "clones (look_ptr k look p) (copy_ptr k copy p) (look_ptr k look) (shared_ptr k S p)"
  proof (cases p)
    case None
    then show ?thesis by (auto simp: copy_ptr_def look_ptr_def shared_ptr_def intro!: clones_return)
  next
    case (Some a)
    show ?thesis
      unfolding clones_if_def
    proof (intro allI impI)
      fix h0 h w C
      assume h: "good_mem h" "grows h0 h" and "look_ptr k look p h0 = Some (w, C)"
      then obtain c x v A where c: "mem_cell h0 a = Some c" "ck_get k c = Some x"
        and v: "look x h0 = Some (v, A)" and w: "w = Some v"
        by (auto simp: Some look_ptr_def rbind_def rderef_def rret_def split: option.splits)
      obtain y h1 where y: "run_state (copy x) h = (y, h1)" "good_mem h1" "grows h h1" "made h0 h1 (look y) v (S x h0)"
        using copies_clones [OF copies, of x] h v unfolding clones_if_def by blast
      obtain out h2 where out: "run_state (new_cell k y) h1 = (out, h2)" by fastforce
      note new = new_cell_grows [OF y(2) out]
      have "mem_cell h a = Some c"
        using h(2) c(1) by (metis domI grows_def map_le_def)
      then have "run_state (copy_ptr k copy p) h = (Some out, h2)"
        using c(2) y(1) out by (simp add: Some copy_ptr_def deref_def State_Monad.bind_def State_Monad.return_def)
      moreover have "made h0 h2 (look_ptr k look (Some out)) w (shared_ptr k S p h0)"
      proof -
        have "made h0 h2 (look y) v (S x h0)"
          by (rule made_grows [OF y(4) new(3)])
        moreover have "out \<notin> dom (mem_cell h0)"
          using new(1) grows_trans [OF h(2) y(3)] unfolding grows_def by (auto dest: map_le_implies_dom_le)
        moreover have "shared_ptr k S p h0 = S x h0"
          using c by (simp add: Some shared_ptr_def rderef_def)
        ultimately show ?thesis using made_look_ptr [OF k new(4)] loc w by metis
      qed
      ultimately show "\<exists>q h'. run_state (copy_ptr k copy p) h = (q, h') \<and> good_mem h' \<and> grows h h' \<and>
          made h0 h' (look_ptr k look q) w (shared_ptr k S p h0)"
        using new(2,3) grows_trans [OF y(3)] by blast
    qed
  qed
qed

subsection \<open>What a deep copy is good for\<close>

text \<open>Two memories that agree on a set of addresses.\<close>

definition same_at :: "nat set \<Rightarrow> 'c mem \<Rightarrow> 'c mem \<Rightarrow> bool" where
  "same_at A h h' \<longleftrightarrow> (\<forall>a\<in>A. mem_cell h a = mem_cell h' a)"

text \<open>\<open>separate_copy look x v h y h'\<close>: \<open>y\<close> is a copy of \<open>x\<close>; both read \<open>v\<close>; later writes to memory that did
  not exist before the copy (all that is reached through \<open>y\<close>) never show in \<open>x\<close>, and writes to older
  memory (all that is reached through \<open>x\<close>) never show in \<open>y\<close>.\<close>

definition separate_copy :: "('a \<Rightarrow> ('c, 'v) reader) \<Rightarrow> 'a \<Rightarrow> 'v \<Rightarrow> 'c mem \<Rightarrow> 'a \<Rightarrow> 'c mem \<Rightarrow> bool" where
  "separate_copy look x v h y h' \<longleftrightarrow> grows h h' \<and>
     (\<forall>h''. same_at (dom (mem_cell h)) h'' h' \<longrightarrow> map_option fst (look x h'') = Some v) \<and>
     (\<forall>h''. same_at (- dom (mem_cell h)) h'' h' \<longrightarrow> map_option fst (look y h'') = Some v)"

lemma separate_copyI:
  assumes loc: "\<And>x. local_reader (look x)" and x: "look x h = Some (v, A)"
    and grows: "grows h h'" and made: "made h h' (look y) v {}"
  shows "separate_copy look x v h y h'"
  unfolding separate_copy_def
proof (intro conjI allI impI)
  obtain B where y: "look y h' = Some (v, B)" and B: "B \<inter> dom (mem_cell h) = {}"
    using made by (auto simp: made_def)
  show "grows h h'" by (rule grows)
  show "map_option fst (look x h'') = Some v" if "same_at (dom (mem_cell h)) h'' h'" for h''
  proof -
    have "\<forall>a\<in>A. mem_cell h'' a = mem_cell h a"
      using that grows_agree [OF grows local_dom [OF loc x]] local_dom [OF loc x]
      unfolding same_at_def by (metis subset_iff)
    then show ?thesis using local_readerD [OF loc x] by simp
  qed
  show "map_option fst (look y h'') = Some v" if "same_at (- dom (mem_cell h)) h'' h'" for h''
  proof -
    have "\<forall>a\<in>B. mem_cell h'' a = mem_cell h' a"
      using that B unfolding same_at_def by blast
    then show ?thesis using local_readerD [OF loc y] by simp
  qed
qed

locale deep_copier =
  fixes copy :: "'a \<Rightarrow> ('c mem, 'a) state" and look :: "'a \<Rightarrow> ('c, 'v) reader"
  assumes deep: "deep_copies copy look"
begin

lemma result:
  assumes "good_mem h" "look x h = Some (v, A)" "run_state (copy x) h = (y, h')"
  shows "good_mem h'" "grows h h'" "made h h' (look y) v {}"
  using copies_clones [OF deep, of x] assms unfolding clones_if_def
  by (metis grows_refl prod.inject)+

lemma separates:
  assumes "good_mem h" "look x h = Some (v, A)" "run_state (copy x) h = (y, h')"
  shows "separate_copy look x v h y h'"
  by (rule separate_copyI [OF copies_local [OF deep] assms(2) result(2,3) [OF assms]])

end

end
