(* ===== verification/ApiMemory.thy ===== *)
theory ApiMemory
  imports GoHeap ApiTypes
begin

text \<open>
  How the custom resources lie in Go memory: the structs of \<^verbatim>\<open>api/v1alpha1\<close> again, now with their
  pointers, slices and maps as addresses (suffix \<open>_mem\<close>; a struct without any is used as it is), and
  the cells they point to.
\<close>

subsection \<open>Structs with their pointers\<close>

text \<open>Types of the Kubernetes libraries, with the pointers that the program can reach.\<close>

record TypeMeta =
  tm_kind :: string
  tm_apiVersion :: string

record ObjectMeta_mem =
  mom_name :: string
  mom_namespace :: string
  mom_uid :: string
  mom_resourceVersion :: string
  mom_generation :: int64
  mom_labels :: ptr
  mom_finalizers :: ptr
  mom_ownerReferences :: ptr
  mom_deletionTimestamp :: ptr

record ListMeta =
  lm_resourceVersion :: string
  lm_continue :: string
  lm_remainingItemCount :: "int64 option"

record ListMeta_mem =
  mlm_resourceVersion :: string
  mlm_continue :: string
  mlm_remainingItemCount :: ptr

record ResourceRequirements_mem =
  mrr_limits :: ptr
  mrr_requests :: ptr
  mrr_claims :: ptr

record EnvVar_mem =
  mev_name :: string
  mev_value :: string
  mev_valueFrom :: ptr

text \<open>The types of the program.\<close>

record BackendSpec_mem =
  mbe_type :: string
  mbe_url :: string
  mbe_urlSecretRef :: ptr
  mbe_embedded :: bool

record PodSecuritySpec_mem =
  msec_runAsNonRoot :: ptr
  msec_runAsUser :: ptr
  msec_runAsGroup :: ptr
  msec_fsGroup :: ptr
  msec_readOnlyRootFilesystem :: ptr

record PDBSpec_mem =
  mpdb_enabled :: ptr
  mpdb_minAvailable :: ptr
  mpdb_maxUnavailable :: ptr

record OJSClusterSpec_mem =
  mcs_backend :: BackendSpec_mem
  mcs_replicas :: ptr
  mcs_image :: string
  mcs_autoScaling :: ptr
  mcs_resources :: ResourceRequirements_mem
  mcs_monitoring :: ptr
  mcs_securityContext :: ptr
  mcs_podDisruptionBudget :: ptr
  mcs_topologySpreadConstraints :: ptr
  mcs_serviceAccountName :: string

record OJSClusterStatus_mem =
  mcst_phase :: string
  mcst_replicas :: int32
  mcst_readyReplicas :: int32
  mcst_queueDepth :: int64
  mcst_activeJobs :: int64
  mcst_conditions :: ptr

record OJSCluster_mem =
  mcl_type :: TypeMeta
  mcl_meta :: ObjectMeta_mem
  mcl_spec :: OJSClusterSpec_mem
  mcl_status :: OJSClusterStatus_mem

record OJSClusterList_mem =
  mcll_type :: TypeMeta
  mcll_meta :: ListMeta_mem
  mcll_items :: ptr

record OJSWorkerSpec_mem =
  mws_clusterRef :: string
  mws_jobTypes :: ptr
  mws_queues :: ptr
  mws_concurrency :: int32
  mws_replicas :: ptr
  mws_image :: string
  mws_command :: ptr
  mws_env :: ptr
  mws_resources :: ResourceRequirements_mem
  mws_autoScaling :: ptr
  mws_gracefulShutdown :: ptr

record OJSWorkerStatus_mem =
  mwst_phase :: string
  mwst_replicas :: int32
  mwst_readyReplicas :: int32
  mwst_activeJobs :: int64
  mwst_queueDepth :: int64
  mwst_lastScaleTime :: ptr
  mwst_conditions :: ptr

record OJSWorker_mem =
  mwk_type :: TypeMeta
  mwk_meta :: ObjectMeta_mem
  mwk_spec :: OJSWorkerSpec_mem
  mwk_status :: OJSWorkerStatus_mem

record OJSWorkerList_mem =
  mwkl_type :: TypeMeta
  mwkl_meta :: ListMeta_mem
  mwkl_items :: ptr

record ModelPolicy_mem =
  mmp_allowedModels :: ptr
  mmp_requireFingerprint :: bool

record OJSAttestationPolicySpec_mem =
  mpo_mode :: string
  mpo_jobTypes :: ptr
  mpo_hardware :: ptr
  mpo_regions :: ptr
  mpo_minKeyClass :: string
  mpo_modelPolicy :: ptr

record OJSAttestationPolicyStatus_mem =
  mpos_active :: bool
  mpos_conditions :: ptr

record OJSAttestationPolicy_mem =
  mpol_type :: TypeMeta
  mpol_meta :: ObjectMeta_mem
  mpol_spec :: OJSAttestationPolicySpec_mem
  mpol_status :: OJSAttestationPolicyStatus_mem

record OJSAttestationPolicyList_mem =
  mpoll_type :: TypeMeta
  mpoll_meta :: ListMeta_mem
  mpoll_items :: ptr

subsection \<open>Cells\<close>

text \<open>A slice cell is the whole array of its slice: the code never takes a part of one.\<close>

datatype (plugins only: code) cell =
    isInt32: Int32Cell (unInt32: "int32")
  | isInt64: Int64Cell (unInt64: "int64")
  | isBool: BoolCell (unBool: "bool")
  | isTime: TimeCell (unTime: "gotime")
  | isStrings: StringsCell (unStrings: "string list")
  | isLabels: LabelsCell (unLabels: "labels")
  | isOwnerReferences: OwnerReferencesCell (unOwnerReferences: "OwnerReference list")
  | isQuantities: QuantitiesCell (unQuantities: "string \<rightharpoonup> quantity")
  | isResourceClaims: ResourceClaimsCell (unResourceClaims: "ResourceClaim list")
  | isEnvVars: EnvVarsCell (unEnvVars: "EnvVar_mem list")
  | isEnvVarSource: EnvVarSourceCell (unEnvVarSource: "EnvVarSource")
  | isConditions: ConditionsCell (unConditions: "Condition list")
  | isTopologySpreadConstraints: TopologySpreadConstraintsCell (unTopologySpreadConstraints: "TopologySpreadConstraint list")
  | isSecretKeyRef: SecretKeyRefCell (unSecretKeyRef: "SecretKeyRef")
  | isAutoScalingSpec: AutoScalingSpecCell (unAutoScalingSpec: "AutoScalingSpec")
  | isMonitoringSpec: MonitoringSpecCell (unMonitoringSpec: "MonitoringSpec")
  | isPodSecuritySpec: PodSecuritySpecCell (unPodSecuritySpec: "PodSecuritySpec_mem")
  | isPDBSpec: PDBSpecCell (unPDBSpec: "PDBSpec_mem")
  | isBackendSpec: BackendSpecCell (unBackendSpec: "BackendSpec_mem")
  | isOJSClusterSpec: OJSClusterSpecCell (unOJSClusterSpec: "OJSClusterSpec_mem")
  | isOJSClusterStatus: OJSClusterStatusCell (unOJSClusterStatus: "OJSClusterStatus_mem")
  | isOJSCluster: OJSClusterCell (unOJSCluster: "OJSCluster_mem")
  | isOJSClusters: OJSClustersCell (unOJSClusters: "OJSCluster_mem list")
  | isOJSClusterList: OJSClusterListCell (unOJSClusterList: "OJSClusterList_mem")
  | isWorkerAutoScalingSpec: WorkerAutoScalingSpecCell (unWorkerAutoScalingSpec: "WorkerAutoScalingSpec")
  | isGracefulShutdownSpec: GracefulShutdownSpecCell (unGracefulShutdownSpec: "GracefulShutdownSpec")
  | isOJSWorkerSpec: OJSWorkerSpecCell (unOJSWorkerSpec: "OJSWorkerSpec_mem")
  | isOJSWorkerStatus: OJSWorkerStatusCell (unOJSWorkerStatus: "OJSWorkerStatus_mem")
  | isOJSWorker: OJSWorkerCell (unOJSWorker: "OJSWorker_mem")
  | isOJSWorkers: OJSWorkersCell (unOJSWorkers: "OJSWorker_mem list")
  | isOJSWorkerList: OJSWorkerListCell (unOJSWorkerList: "OJSWorkerList_mem")
  | isHardwareRequirement: HardwareRequirementCell (unHardwareRequirement: "HardwareRequirement")
  | isHardwareRequirements: HardwareRequirementsCell (unHardwareRequirements: "HardwareRequirement list")
  | isModelPolicy: ModelPolicyCell (unModelPolicy: "ModelPolicy_mem")
  | isOJSAttestationPolicySpec: OJSAttestationPolicySpecCell (unOJSAttestationPolicySpec: "OJSAttestationPolicySpec_mem")
  | isOJSAttestationPolicyStatus: OJSAttestationPolicyStatusCell (unOJSAttestationPolicyStatus: "OJSAttestationPolicyStatus_mem")
  | isOJSAttestationPolicy: OJSAttestationPolicyCell (unOJSAttestationPolicy: "OJSAttestationPolicy_mem")
  | isOJSAttestationPolicies: OJSAttestationPoliciesCell (unOJSAttestationPolicies: "OJSAttestationPolicy_mem list")
  | isOJSAttestationPolicyList: OJSAttestationPolicyListCell (unOJSAttestationPolicyList: "OJSAttestationPolicyList_mem")

type_synonym memory = "cell mem"

named_theorems cell_laws

definition inInt32 :: "(cell, int32) cellkind" where
  "inInt32 = variant Int32Cell isInt32 unInt32"
definition inInt64 :: "(cell, int64) cellkind" where
  "inInt64 = variant Int64Cell isInt64 unInt64"
definition inBool :: "(cell, bool) cellkind" where
  "inBool = variant BoolCell isBool unBool"
definition inTime :: "(cell, gotime) cellkind" where
  "inTime = variant TimeCell isTime unTime"
definition inStrings :: "(cell, string list) cellkind" where
  "inStrings = variant StringsCell isStrings unStrings"
definition inLabels :: "(cell, labels) cellkind" where
  "inLabels = variant LabelsCell isLabels unLabels"
definition inOwnerReferences :: "(cell, OwnerReference list) cellkind" where
  "inOwnerReferences = variant OwnerReferencesCell isOwnerReferences unOwnerReferences"
definition inQuantities :: "(cell, string \<rightharpoonup> quantity) cellkind" where
  "inQuantities = variant QuantitiesCell isQuantities unQuantities"
definition inResourceClaims :: "(cell, ResourceClaim list) cellkind" where
  "inResourceClaims = variant ResourceClaimsCell isResourceClaims unResourceClaims"
definition inEnvVars :: "(cell, EnvVar_mem list) cellkind" where
  "inEnvVars = variant EnvVarsCell isEnvVars unEnvVars"
definition inEnvVarSource :: "(cell, EnvVarSource) cellkind" where
  "inEnvVarSource = variant EnvVarSourceCell isEnvVarSource unEnvVarSource"
definition inConditions :: "(cell, Condition list) cellkind" where
  "inConditions = variant ConditionsCell isConditions unConditions"
definition inTopologySpreadConstraints :: "(cell, TopologySpreadConstraint list) cellkind" where
  "inTopologySpreadConstraints = variant TopologySpreadConstraintsCell isTopologySpreadConstraints unTopologySpreadConstraints"
definition inSecretKeyRef :: "(cell, SecretKeyRef) cellkind" where
  "inSecretKeyRef = variant SecretKeyRefCell isSecretKeyRef unSecretKeyRef"
definition inAutoScalingSpec :: "(cell, AutoScalingSpec) cellkind" where
  "inAutoScalingSpec = variant AutoScalingSpecCell isAutoScalingSpec unAutoScalingSpec"
definition inMonitoringSpec :: "(cell, MonitoringSpec) cellkind" where
  "inMonitoringSpec = variant MonitoringSpecCell isMonitoringSpec unMonitoringSpec"
definition inPodSecuritySpec :: "(cell, PodSecuritySpec_mem) cellkind" where
  "inPodSecuritySpec = variant PodSecuritySpecCell isPodSecuritySpec unPodSecuritySpec"
definition inPDBSpec :: "(cell, PDBSpec_mem) cellkind" where
  "inPDBSpec = variant PDBSpecCell isPDBSpec unPDBSpec"
definition inBackendSpec :: "(cell, BackendSpec_mem) cellkind" where
  "inBackendSpec = variant BackendSpecCell isBackendSpec unBackendSpec"
definition inOJSClusterSpec :: "(cell, OJSClusterSpec_mem) cellkind" where
  "inOJSClusterSpec = variant OJSClusterSpecCell isOJSClusterSpec unOJSClusterSpec"
definition inOJSClusterStatus :: "(cell, OJSClusterStatus_mem) cellkind" where
  "inOJSClusterStatus = variant OJSClusterStatusCell isOJSClusterStatus unOJSClusterStatus"
definition inOJSCluster :: "(cell, OJSCluster_mem) cellkind" where
  "inOJSCluster = variant OJSClusterCell isOJSCluster unOJSCluster"
definition inOJSClusters :: "(cell, OJSCluster_mem list) cellkind" where
  "inOJSClusters = variant OJSClustersCell isOJSClusters unOJSClusters"
definition inOJSClusterList :: "(cell, OJSClusterList_mem) cellkind" where
  "inOJSClusterList = variant OJSClusterListCell isOJSClusterList unOJSClusterList"
definition inWorkerAutoScalingSpec :: "(cell, WorkerAutoScalingSpec) cellkind" where
  "inWorkerAutoScalingSpec = variant WorkerAutoScalingSpecCell isWorkerAutoScalingSpec unWorkerAutoScalingSpec"
definition inGracefulShutdownSpec :: "(cell, GracefulShutdownSpec) cellkind" where
  "inGracefulShutdownSpec = variant GracefulShutdownSpecCell isGracefulShutdownSpec unGracefulShutdownSpec"
definition inOJSWorkerSpec :: "(cell, OJSWorkerSpec_mem) cellkind" where
  "inOJSWorkerSpec = variant OJSWorkerSpecCell isOJSWorkerSpec unOJSWorkerSpec"
definition inOJSWorkerStatus :: "(cell, OJSWorkerStatus_mem) cellkind" where
  "inOJSWorkerStatus = variant OJSWorkerStatusCell isOJSWorkerStatus unOJSWorkerStatus"
definition inOJSWorker :: "(cell, OJSWorker_mem) cellkind" where
  "inOJSWorker = variant OJSWorkerCell isOJSWorker unOJSWorker"
definition inOJSWorkers :: "(cell, OJSWorker_mem list) cellkind" where
  "inOJSWorkers = variant OJSWorkersCell isOJSWorkers unOJSWorkers"
definition inOJSWorkerList :: "(cell, OJSWorkerList_mem) cellkind" where
  "inOJSWorkerList = variant OJSWorkerListCell isOJSWorkerList unOJSWorkerList"
definition inHardwareRequirement :: "(cell, HardwareRequirement) cellkind" where
  "inHardwareRequirement = variant HardwareRequirementCell isHardwareRequirement unHardwareRequirement"
definition inHardwareRequirements :: "(cell, HardwareRequirement list) cellkind" where
  "inHardwareRequirements = variant HardwareRequirementsCell isHardwareRequirements unHardwareRequirements"
definition inModelPolicy :: "(cell, ModelPolicy_mem) cellkind" where
  "inModelPolicy = variant ModelPolicyCell isModelPolicy unModelPolicy"
definition inOJSAttestationPolicySpec :: "(cell, OJSAttestationPolicySpec_mem) cellkind" where
  "inOJSAttestationPolicySpec = variant OJSAttestationPolicySpecCell isOJSAttestationPolicySpec unOJSAttestationPolicySpec"
definition inOJSAttestationPolicyStatus :: "(cell, OJSAttestationPolicyStatus_mem) cellkind" where
  "inOJSAttestationPolicyStatus = variant OJSAttestationPolicyStatusCell isOJSAttestationPolicyStatus unOJSAttestationPolicyStatus"
definition inOJSAttestationPolicy :: "(cell, OJSAttestationPolicy_mem) cellkind" where
  "inOJSAttestationPolicy = variant OJSAttestationPolicyCell isOJSAttestationPolicy unOJSAttestationPolicy"
definition inOJSAttestationPolicies :: "(cell, OJSAttestationPolicy_mem list) cellkind" where
  "inOJSAttestationPolicies = variant OJSAttestationPoliciesCell isOJSAttestationPolicies unOJSAttestationPolicies"
definition inOJSAttestationPolicyList :: "(cell, OJSAttestationPolicyList_mem) cellkind" where
  "inOJSAttestationPolicyList = variant OJSAttestationPolicyListCell isOJSAttestationPolicyList unOJSAttestationPolicyList"

lemma lawful_Int32 [cell_laws]: "lawful inInt32"
  unfolding inInt32_def by (rule lawful_variant) (simp_all only: cell.disc cell.sel cell.collapse)
lemma lawful_Int64 [cell_laws]: "lawful inInt64"
  unfolding inInt64_def by (rule lawful_variant) (simp_all only: cell.disc cell.sel cell.collapse)
lemma lawful_Bool [cell_laws]: "lawful inBool"
  unfolding inBool_def by (rule lawful_variant) (simp_all only: cell.disc cell.sel cell.collapse)
lemma lawful_Time [cell_laws]: "lawful inTime"
  unfolding inTime_def by (rule lawful_variant) (simp_all only: cell.disc cell.sel cell.collapse)
lemma lawful_Strings [cell_laws]: "lawful inStrings"
  unfolding inStrings_def by (rule lawful_variant) (simp_all only: cell.disc cell.sel cell.collapse)
lemma lawful_Labels [cell_laws]: "lawful inLabels"
  unfolding inLabels_def by (rule lawful_variant) (simp_all only: cell.disc cell.sel cell.collapse)
lemma lawful_OwnerReferences [cell_laws]: "lawful inOwnerReferences"
  unfolding inOwnerReferences_def by (rule lawful_variant) (simp_all only: cell.disc cell.sel cell.collapse)
lemma lawful_Quantities [cell_laws]: "lawful inQuantities"
  unfolding inQuantities_def by (rule lawful_variant) (simp_all only: cell.disc cell.sel cell.collapse)
lemma lawful_ResourceClaims [cell_laws]: "lawful inResourceClaims"
  unfolding inResourceClaims_def by (rule lawful_variant) (simp_all only: cell.disc cell.sel cell.collapse)
lemma lawful_EnvVars [cell_laws]: "lawful inEnvVars"
  unfolding inEnvVars_def by (rule lawful_variant) (simp_all only: cell.disc cell.sel cell.collapse)
lemma lawful_EnvVarSource [cell_laws]: "lawful inEnvVarSource"
  unfolding inEnvVarSource_def by (rule lawful_variant) (simp_all only: cell.disc cell.sel cell.collapse)
lemma lawful_Conditions [cell_laws]: "lawful inConditions"
  unfolding inConditions_def by (rule lawful_variant) (simp_all only: cell.disc cell.sel cell.collapse)
lemma lawful_TopologySpreadConstraints [cell_laws]: "lawful inTopologySpreadConstraints"
  unfolding inTopologySpreadConstraints_def by (rule lawful_variant) (simp_all only: cell.disc cell.sel cell.collapse)
lemma lawful_SecretKeyRef [cell_laws]: "lawful inSecretKeyRef"
  unfolding inSecretKeyRef_def by (rule lawful_variant) (simp_all only: cell.disc cell.sel cell.collapse)
lemma lawful_AutoScalingSpec [cell_laws]: "lawful inAutoScalingSpec"
  unfolding inAutoScalingSpec_def by (rule lawful_variant) (simp_all only: cell.disc cell.sel cell.collapse)
lemma lawful_MonitoringSpec [cell_laws]: "lawful inMonitoringSpec"
  unfolding inMonitoringSpec_def by (rule lawful_variant) (simp_all only: cell.disc cell.sel cell.collapse)
lemma lawful_PodSecuritySpec [cell_laws]: "lawful inPodSecuritySpec"
  unfolding inPodSecuritySpec_def by (rule lawful_variant) (simp_all only: cell.disc cell.sel cell.collapse)
lemma lawful_PDBSpec [cell_laws]: "lawful inPDBSpec"
  unfolding inPDBSpec_def by (rule lawful_variant) (simp_all only: cell.disc cell.sel cell.collapse)
lemma lawful_BackendSpec [cell_laws]: "lawful inBackendSpec"
  unfolding inBackendSpec_def by (rule lawful_variant) (simp_all only: cell.disc cell.sel cell.collapse)
lemma lawful_OJSClusterSpec [cell_laws]: "lawful inOJSClusterSpec"
  unfolding inOJSClusterSpec_def by (rule lawful_variant) (simp_all only: cell.disc cell.sel cell.collapse)
lemma lawful_OJSClusterStatus [cell_laws]: "lawful inOJSClusterStatus"
  unfolding inOJSClusterStatus_def by (rule lawful_variant) (simp_all only: cell.disc cell.sel cell.collapse)
lemma lawful_OJSCluster [cell_laws]: "lawful inOJSCluster"
  unfolding inOJSCluster_def by (rule lawful_variant) (simp_all only: cell.disc cell.sel cell.collapse)
lemma lawful_OJSClusters [cell_laws]: "lawful inOJSClusters"
  unfolding inOJSClusters_def by (rule lawful_variant) (simp_all only: cell.disc cell.sel cell.collapse)
lemma lawful_OJSClusterList [cell_laws]: "lawful inOJSClusterList"
  unfolding inOJSClusterList_def by (rule lawful_variant) (simp_all only: cell.disc cell.sel cell.collapse)
lemma lawful_WorkerAutoScalingSpec [cell_laws]: "lawful inWorkerAutoScalingSpec"
  unfolding inWorkerAutoScalingSpec_def by (rule lawful_variant) (simp_all only: cell.disc cell.sel cell.collapse)
lemma lawful_GracefulShutdownSpec [cell_laws]: "lawful inGracefulShutdownSpec"
  unfolding inGracefulShutdownSpec_def by (rule lawful_variant) (simp_all only: cell.disc cell.sel cell.collapse)
lemma lawful_OJSWorkerSpec [cell_laws]: "lawful inOJSWorkerSpec"
  unfolding inOJSWorkerSpec_def by (rule lawful_variant) (simp_all only: cell.disc cell.sel cell.collapse)
lemma lawful_OJSWorkerStatus [cell_laws]: "lawful inOJSWorkerStatus"
  unfolding inOJSWorkerStatus_def by (rule lawful_variant) (simp_all only: cell.disc cell.sel cell.collapse)
lemma lawful_OJSWorker [cell_laws]: "lawful inOJSWorker"
  unfolding inOJSWorker_def by (rule lawful_variant) (simp_all only: cell.disc cell.sel cell.collapse)
lemma lawful_OJSWorkers [cell_laws]: "lawful inOJSWorkers"
  unfolding inOJSWorkers_def by (rule lawful_variant) (simp_all only: cell.disc cell.sel cell.collapse)
lemma lawful_OJSWorkerList [cell_laws]: "lawful inOJSWorkerList"
  unfolding inOJSWorkerList_def by (rule lawful_variant) (simp_all only: cell.disc cell.sel cell.collapse)
lemma lawful_HardwareRequirement [cell_laws]: "lawful inHardwareRequirement"
  unfolding inHardwareRequirement_def by (rule lawful_variant) (simp_all only: cell.disc cell.sel cell.collapse)
lemma lawful_HardwareRequirements [cell_laws]: "lawful inHardwareRequirements"
  unfolding inHardwareRequirements_def by (rule lawful_variant) (simp_all only: cell.disc cell.sel cell.collapse)
lemma lawful_ModelPolicy [cell_laws]: "lawful inModelPolicy"
  unfolding inModelPolicy_def by (rule lawful_variant) (simp_all only: cell.disc cell.sel cell.collapse)
lemma lawful_OJSAttestationPolicySpec [cell_laws]: "lawful inOJSAttestationPolicySpec"
  unfolding inOJSAttestationPolicySpec_def by (rule lawful_variant) (simp_all only: cell.disc cell.sel cell.collapse)
lemma lawful_OJSAttestationPolicyStatus [cell_laws]: "lawful inOJSAttestationPolicyStatus"
  unfolding inOJSAttestationPolicyStatus_def by (rule lawful_variant) (simp_all only: cell.disc cell.sel cell.collapse)
lemma lawful_OJSAttestationPolicy [cell_laws]: "lawful inOJSAttestationPolicy"
  unfolding inOJSAttestationPolicy_def by (rule lawful_variant) (simp_all only: cell.disc cell.sel cell.collapse)
lemma lawful_OJSAttestationPolicies [cell_laws]: "lawful inOJSAttestationPolicies"
  unfolding inOJSAttestationPolicies_def by (rule lawful_variant) (simp_all only: cell.disc cell.sel cell.collapse)
lemma lawful_OJSAttestationPolicyList [cell_laws]: "lawful inOJSAttestationPolicyList"
  unfolding inOJSAttestationPolicyList_def by (rule lawful_variant) (simp_all only: cell.disc cell.sel cell.collapse)

end
