(* ===== verification/ApiReaders.thy ===== *)
theory ApiReaders
  imports ApiMemory
begin

text \<open>
  For each type of \<open>ApiMemory\<close> the reader that gives the value behind it: the record of
  \<open>ApiTypes\<close> that the rest of the development uses in its place. Nil and empty slices read the
  same, but for the items of a list, whose JSON shows the difference.
\<close>

definition look_list :: "(cell, 'x list) cellkind \<Rightarrow> ('x list \<Rightarrow> (cell, 'v list) reader) \<Rightarrow> ptr \<Rightarrow> (cell, 'v list) reader" where
  "look_list k look p = rbind (look_ptr k look p) (\<lambda>xs. rret (case xs of None \<Rightarrow> [] | Some xs \<Rightarrow> xs))"

definition look_map :: "(cell, string \<rightharpoonup> 'v) cellkind \<Rightarrow> ptr \<Rightarrow> (cell, string \<rightharpoonup> 'v) reader" where
  "look_map k p = rbind (look_ptr k rret p) (\<lambda>m. rret (case m of None \<Rightarrow> Map.empty | Some m \<Rightarrow> m))"

subsection \<open>Kubernetes types\<close>

definition look_ObjectMeta :: "ObjectMeta_mem \<Rightarrow> (cell, ObjectMeta) reader" where
  "look_ObjectMeta m =
     rbind (look_map inLabels (mom_labels m)) (\<lambda>labels.
     rbind (look_list inStrings rret (mom_finalizers m)) (\<lambda>finalizers.
     rbind (look_list inOwnerReferences rret (mom_ownerReferences m)) (\<lambda>owners.
     rbind (look_ptr inTime rret (mom_deletionTimestamp m)) (\<lambda>deleted.
     rret \<lparr>om_name = mom_name m, om_namespace = mom_namespace m, om_uid = mom_uid m,
       om_resourceVersion = mom_resourceVersion m, om_generation = mom_generation m,
       om_labels = labels, om_finalizers = finalizers, om_ownerReferences = owners,
       om_deletionTimestamp = deleted\<rparr>))))"

definition look_ListMeta :: "ListMeta_mem \<Rightarrow> (cell, ListMeta) reader" where
  "look_ListMeta m =
     rbind (look_ptr inInt64 rret (mlm_remainingItemCount m)) (\<lambda>n.
     rret \<lparr>lm_resourceVersion = mlm_resourceVersion m, lm_continue = mlm_continue m, lm_remainingItemCount = n\<rparr>)"

definition look_Resources :: "ResourceRequirements_mem \<Rightarrow> (cell, ResourceRequirements) reader" where
  "look_Resources r =
     rbind (look_ptr inQuantities rret (mrr_limits r)) (\<lambda>limits.
     rbind (look_ptr inQuantities rret (mrr_requests r)) (\<lambda>requests.
     rbind (look_list inResourceClaims rret (mrr_claims r)) (\<lambda>claims.
     rret \<lparr>rr_limits = limits, rr_requests = requests, rr_claims = claims\<rparr>)))"

definition look_EnvVar :: "EnvVar_mem \<Rightarrow> (cell, EnvVar) reader" where
  "look_EnvVar e =
     rbind (look_ptr inEnvVarSource rret (mev_valueFrom e)) (\<lambda>src.
     rret \<lparr>ev_name = mev_name e, ev_value = mev_value e, ev_valueFrom = src\<rparr>)"

subsection \<open>OJSCluster\<close>

definition look_Backend :: "BackendSpec_mem \<Rightarrow> (cell, BackendSpec) reader" where
  "look_Backend b =
     rbind (look_ptr inSecretKeyRef rret (mbe_urlSecretRef b)) (\<lambda>ref.
     rret \<lparr>be_type = mbe_type b, be_url = mbe_url b, be_urlSecretRef = ref, be_embedded = mbe_embedded b\<rparr>)"

definition look_PodSecurity :: "PodSecuritySpec_mem \<Rightarrow> (cell, PodSecuritySpec) reader" where
  "look_PodSecurity p =
     rbind (look_ptr inBool rret (msec_runAsNonRoot p)) (\<lambda>nonRoot.
     rbind (look_ptr inInt64 rret (msec_runAsUser p)) (\<lambda>user.
     rbind (look_ptr inInt64 rret (msec_runAsGroup p)) (\<lambda>group.
     rbind (look_ptr inInt64 rret (msec_fsGroup p)) (\<lambda>fsGroup.
     rbind (look_ptr inBool rret (msec_readOnlyRootFilesystem p)) (\<lambda>readOnly.
     rret \<lparr>sec_runAsNonRoot = nonRoot, sec_runAsUser = user, sec_runAsGroup = group,
       sec_fsGroup = fsGroup, sec_readOnlyRootFilesystem = readOnly\<rparr>)))))"

definition look_PDB :: "PDBSpec_mem \<Rightarrow> (cell, PDBSpec) reader" where
  "look_PDB p =
     rbind (look_ptr inBool rret (mpdb_enabled p)) (\<lambda>enabled.
     rbind (look_ptr inInt32 rret (mpdb_minAvailable p)) (\<lambda>minimum.
     rbind (look_ptr inInt32 rret (mpdb_maxUnavailable p)) (\<lambda>maximum.
     rret \<lparr>pdbs_enabled = enabled, pdbs_minAvailable = minimum, pdbs_maxUnavailable = maximum\<rparr>)))"

definition look_ClusterSpec :: "OJSClusterSpec_mem \<Rightarrow> (cell, OJSClusterSpec) reader" where
  "look_ClusterSpec s =
     rbind (look_Backend (mcs_backend s)) (\<lambda>backend.
     rbind (look_ptr inInt32 rret (mcs_replicas s)) (\<lambda>replicas.
     rbind (look_ptr inAutoScalingSpec rret (mcs_autoScaling s)) (\<lambda>scaling.
     rbind (look_Resources (mcs_resources s)) (\<lambda>resources.
     rbind (look_ptr inMonitoringSpec rret (mcs_monitoring s)) (\<lambda>monitoring.
     rbind (look_ptr inPodSecuritySpec look_PodSecurity (mcs_securityContext s)) (\<lambda>security.
     rbind (look_ptr inPDBSpec look_PDB (mcs_podDisruptionBudget s)) (\<lambda>pdb.
     rbind (look_list inTopologySpreadConstraints rret (mcs_topologySpreadConstraints s)) (\<lambda>spread.
     rret \<lparr>cs_backend = backend, cs_replicas = replicas, cs_image = mcs_image s, cs_autoScaling = scaling,
       cs_resources = resources, cs_monitoring = monitoring, cs_securityContext = security,
       cs_podDisruptionBudget = pdb, cs_topologySpreadConstraints = spread,
       cs_serviceAccountName = mcs_serviceAccountName s\<rparr>))))))))"

definition look_ClusterStatus :: "OJSClusterStatus_mem \<Rightarrow> (cell, OJSClusterStatus) reader" where
  "look_ClusterStatus s =
     rbind (look_list inConditions rret (mcst_conditions s)) (\<lambda>conditions.
     rret \<lparr>cst_phase = mcst_phase s, cst_replicas = mcst_replicas s, cst_readyReplicas = mcst_readyReplicas s,
       cst_queueDepth = mcst_queueDepth s, cst_activeJobs = mcst_activeJobs s, cst_conditions = conditions\<rparr>)"

definition look_Cluster :: "OJSCluster_mem \<Rightarrow> (cell, TypeMeta \<times> OJSCluster) reader" where
  "look_Cluster c =
     rbind (look_ObjectMeta (mcl_meta c)) (\<lambda>meta.
     rbind (look_ClusterSpec (mcl_spec c)) (\<lambda>spec.
     rbind (look_ClusterStatus (mcl_status c)) (\<lambda>status.
     rret (mcl_type c, \<lparr>cl_meta = meta, cl_spec = spec, cl_status = status\<rparr>))))"

record 'v object_list =
  ol_type :: TypeMeta
  ol_meta :: ListMeta
  ol_items :: "'v list option"

definition look_ClusterList :: "OJSClusterList_mem \<Rightarrow> (cell, (TypeMeta \<times> OJSCluster) object_list) reader" where
  "look_ClusterList l =
     rbind (look_ListMeta (mcll_meta l)) (\<lambda>meta.
     rbind (look_ptr inOJSClusters (look_each look_Cluster) (mcll_items l)) (\<lambda>items.
     rret \<lparr>ol_type = mcll_type l, ol_meta = meta, ol_items = items\<rparr>))"

subsection \<open>OJSWorker\<close>

definition look_WorkerSpec :: "OJSWorkerSpec_mem \<Rightarrow> (cell, OJSWorkerSpec) reader" where
  "look_WorkerSpec s =
     rbind (look_list inStrings rret (mws_jobTypes s)) (\<lambda>jobTypes.
     rbind (look_list inStrings rret (mws_queues s)) (\<lambda>queues.
     rbind (look_ptr inInt32 rret (mws_replicas s)) (\<lambda>replicas.
     rbind (look_list inStrings rret (mws_command s)) (\<lambda>command.
     rbind (look_list inEnvVars (look_each look_EnvVar) (mws_env s)) (\<lambda>env.
     rbind (look_Resources (mws_resources s)) (\<lambda>resources.
     rbind (look_ptr inWorkerAutoScalingSpec rret (mws_autoScaling s)) (\<lambda>scaling.
     rbind (look_ptr inGracefulShutdownSpec rret (mws_gracefulShutdown s)) (\<lambda>graceful.
     rret \<lparr>ws_clusterRef = mws_clusterRef s, ws_jobTypes = jobTypes, ws_queues = queues,
       ws_concurrency = mws_concurrency s, ws_replicas = replicas, ws_image = mws_image s, ws_command = command,
       ws_env = env, ws_resources = resources, ws_autoScaling = scaling, ws_gracefulShutdown = graceful\<rparr>))))))))"

definition look_WorkerStatus :: "OJSWorkerStatus_mem \<Rightarrow> (cell, OJSWorkerStatus) reader" where
  "look_WorkerStatus s =
     rbind (look_ptr inTime rret (mwst_lastScaleTime s)) (\<lambda>lastScale.
     rbind (look_list inConditions rret (mwst_conditions s)) (\<lambda>conditions.
     rret \<lparr>wst_phase = mwst_phase s, wst_replicas = mwst_replicas s, wst_readyReplicas = mwst_readyReplicas s,
       wst_activeJobs = mwst_activeJobs s, wst_queueDepth = mwst_queueDepth s,
       wst_lastScaleTime = lastScale, wst_conditions = conditions\<rparr>))"

definition look_Worker :: "OJSWorker_mem \<Rightarrow> (cell, TypeMeta \<times> OJSWorker) reader" where
  "look_Worker w =
     rbind (look_ObjectMeta (mwk_meta w)) (\<lambda>meta.
     rbind (look_WorkerSpec (mwk_spec w)) (\<lambda>spec.
     rbind (look_WorkerStatus (mwk_status w)) (\<lambda>status.
     rret (mwk_type w, \<lparr>wk_meta = meta, wk_spec = spec, wk_status = status\<rparr>))))"

definition look_WorkerList :: "OJSWorkerList_mem \<Rightarrow> (cell, (TypeMeta \<times> OJSWorker) object_list) reader" where
  "look_WorkerList l =
     rbind (look_ListMeta (mwkl_meta l)) (\<lambda>meta.
     rbind (look_ptr inOJSWorkers (look_each look_Worker) (mwkl_items l)) (\<lambda>items.
     rret \<lparr>ol_type = mwkl_type l, ol_meta = meta, ol_items = items\<rparr>))"

subsection \<open>OJSAttestationPolicy\<close>

definition look_ModelPolicy :: "ModelPolicy_mem \<Rightarrow> (cell, ModelPolicy) reader" where
  "look_ModelPolicy p =
     rbind (look_list inStrings rret (mmp_allowedModels p)) (\<lambda>models.
     rret \<lparr>mp_allowedModels = models, mp_requireFingerprint = mmp_requireFingerprint p\<rparr>)"

definition look_PolicySpec :: "OJSAttestationPolicySpec_mem \<Rightarrow> (cell, OJSAttestationPolicySpec) reader" where
  "look_PolicySpec s =
     rbind (look_list inStrings rret (mpo_jobTypes s)) (\<lambda>jobTypes.
     rbind (look_list inHardwareRequirements rret (mpo_hardware s)) (\<lambda>hardware.
     rbind (look_list inStrings rret (mpo_regions s)) (\<lambda>regions.
     rbind (look_ptr inModelPolicy look_ModelPolicy (mpo_modelPolicy s)) (\<lambda>model.
     rret \<lparr>ap_mode = mpo_mode s, ap_jobTypes = jobTypes, ap_hardware = hardware, ap_regions = regions,
       ap_minKeyClass = mpo_minKeyClass s, ap_modelPolicy = model\<rparr>))))"

definition look_PolicyStatus :: "OJSAttestationPolicyStatus_mem \<Rightarrow> (cell, OJSAttestationPolicyStatus) reader" where
  "look_PolicyStatus s =
     rbind (look_list inConditions rret (mpos_conditions s)) (\<lambda>conditions.
     rret \<lparr>aps_active = mpos_active s, aps_conditions = conditions\<rparr>)"

definition look_Policy :: "OJSAttestationPolicy_mem \<Rightarrow> (cell, TypeMeta \<times> OJSAttestationPolicy) reader" where
  "look_Policy p =
     rbind (look_ObjectMeta (mpol_meta p)) (\<lambda>meta.
     rbind (look_PolicySpec (mpol_spec p)) (\<lambda>spec.
     rbind (look_PolicyStatus (mpol_status p)) (\<lambda>status.
     rret (mpol_type p, \<lparr>pol_meta = meta, pol_spec = spec, pol_status = status\<rparr>))))"

definition look_PolicyList ::
  "OJSAttestationPolicyList_mem \<Rightarrow> (cell, (TypeMeta \<times> OJSAttestationPolicy) object_list) reader" where
  "look_PolicyList l =
     rbind (look_ListMeta (mpoll_meta l)) (\<lambda>meta.
     rbind (look_ptr inOJSAttestationPolicies (look_each look_Policy) (mpoll_items l)) (\<lambda>items.
     rret \<lparr>ol_type = mpoll_type l, ol_meta = meta, ol_items = items\<rparr>))"

subsection \<open>Readers are local\<close>

lemma local_look_list [local_rules]:
  "(\<And>x. local_reader (look x)) \<Longrightarrow> local_reader (look_list k look p)"
  unfolding look_list_def by (rule local_rbind [OF local_look_ptr local_rret])

lemma local_look_map [local_rules]: "local_reader (look_map k p)"
  unfolding look_map_def by (rule local_rbind [OF local_look_ptr [OF local_rret] local_rret])

lemma local_look_ObjectMeta [local_rules]: "local_reader (look_ObjectMeta x)"
  unfolding look_ObjectMeta_def by (intro local_rules)

lemma local_look_ListMeta [local_rules]: "local_reader (look_ListMeta x)"
  unfolding look_ListMeta_def by (intro local_rules)

lemma local_look_Resources [local_rules]: "local_reader (look_Resources x)"
  unfolding look_Resources_def by (intro local_rules)

lemma local_look_EnvVar [local_rules]: "local_reader (look_EnvVar x)"
  unfolding look_EnvVar_def by (intro local_rules)

lemma local_look_Backend [local_rules]: "local_reader (look_Backend x)"
  unfolding look_Backend_def by (intro local_rules)

lemma local_look_PodSecurity [local_rules]: "local_reader (look_PodSecurity x)"
  unfolding look_PodSecurity_def by (intro local_rules)

lemma local_look_PDB [local_rules]: "local_reader (look_PDB x)"
  unfolding look_PDB_def by (intro local_rules)

lemma local_look_ClusterSpec [local_rules]: "local_reader (look_ClusterSpec x)"
  unfolding look_ClusterSpec_def by (intro local_rules)

lemma local_look_ClusterStatus [local_rules]: "local_reader (look_ClusterStatus x)"
  unfolding look_ClusterStatus_def by (intro local_rules)

lemma local_look_Cluster [local_rules]: "local_reader (look_Cluster x)"
  unfolding look_Cluster_def by (intro local_rules)

lemma local_look_ClusterList [local_rules]: "local_reader (look_ClusterList x)"
  unfolding look_ClusterList_def by (intro local_rules)

lemma local_look_WorkerSpec [local_rules]: "local_reader (look_WorkerSpec x)"
  unfolding look_WorkerSpec_def by (intro local_rules)

lemma local_look_WorkerStatus [local_rules]: "local_reader (look_WorkerStatus x)"
  unfolding look_WorkerStatus_def by (intro local_rules)

lemma local_look_Worker [local_rules]: "local_reader (look_Worker x)"
  unfolding look_Worker_def by (intro local_rules)

lemma local_look_WorkerList [local_rules]: "local_reader (look_WorkerList x)"
  unfolding look_WorkerList_def by (intro local_rules)

lemma local_look_ModelPolicy [local_rules]: "local_reader (look_ModelPolicy x)"
  unfolding look_ModelPolicy_def by (intro local_rules)

lemma local_look_PolicySpec [local_rules]: "local_reader (look_PolicySpec x)"
  unfolding look_PolicySpec_def by (intro local_rules)

lemma local_look_PolicyStatus [local_rules]: "local_reader (look_PolicyStatus x)"
  unfolding look_PolicyStatus_def by (intro local_rules)

lemma local_look_Policy [local_rules]: "local_reader (look_Policy x)"
  unfolding look_Policy_def by (intro local_rules)

lemma local_look_PolicyList [local_rules]: "local_reader (look_PolicyList x)"
  unfolding look_PolicyList_def by (intro local_rules)

end
