(* ===== verification/DeepCopy.thy ===== *)
theory DeepCopy
  imports ApiReaders
begin

text \<open>
  The generated methods of \<^verbatim>\<open>api/v1alpha1/zz_generated_deepcopy.go\<close> over Go memory. A method
  \<^verbatim>\<open>(in *T) DeepCopyInto(out *T)\<close> is a function from the struct \<^verbatim>\<open>*in\<close> to the struct \<^verbatim>\<open>*out\<close> that
  allocates; it starts from \<^verbatim>\<open>*out = *in\<close>, so a field that is not named below keeps the value of \<open>inp\<close>,
  a pointer included. \<^verbatim>\<open>(in *T) DeepCopy()\<close> is \<open>copy_ptr\<close> of it: nil for nil, else a new struct. The
  methods of the Kubernetes types are the parameter \<open>library\<close>.
\<close>

record library =
  ObjectMeta_DeepCopyInto :: "ObjectMeta_mem \<Rightarrow> (memory, ObjectMeta_mem) state"
  ListMeta_DeepCopyInto :: "ListMeta_mem \<Rightarrow> (memory, ListMeta_mem) state"
  ResourceRequirements_DeepCopyInto :: "ResourceRequirements_mem \<Rightarrow> (memory, ResourceRequirements_mem) state"
  EnvVar_DeepCopyInto :: "EnvVar_mem \<Rightarrow> (memory, EnvVar_mem) state"
  Condition_DeepCopyInto :: "Condition \<Rightarrow> (memory, Condition) state"
  Time_DeepCopy :: "ptr \<Rightarrow> (memory, ptr) state"

subsection \<open>OJSCluster\<close>

definition SecretKeyRef_DeepCopyInto :: "SecretKeyRef \<Rightarrow> (memory, SecretKeyRef) state" where
  "SecretKeyRef_DeepCopyInto inp = State_Monad.return inp"

definition SecretKeyRef_DeepCopy :: "ptr \<Rightarrow> (memory, ptr) state" where
  "SecretKeyRef_DeepCopy = copy_ptr inSecretKeyRef SecretKeyRef_DeepCopyInto"

definition BackendSpec_DeepCopyInto :: "BackendSpec_mem \<Rightarrow> (memory, BackendSpec_mem) state" where
  "BackendSpec_DeepCopyInto inp = do {
     urlSecretRef \<leftarrow> copy_ptr inSecretKeyRef State_Monad.return (mbe_urlSecretRef inp);
     State_Monad.return (inp\<lparr>mbe_urlSecretRef := urlSecretRef\<rparr>)
   }"

definition BackendSpec_DeepCopy :: "ptr \<Rightarrow> (memory, ptr) state" where
  "BackendSpec_DeepCopy = copy_ptr inBackendSpec BackendSpec_DeepCopyInto"

definition AutoScalingSpec_DeepCopyInto :: "AutoScalingSpec \<Rightarrow> (memory, AutoScalingSpec) state" where
  "AutoScalingSpec_DeepCopyInto inp = State_Monad.return inp"

definition AutoScalingSpec_DeepCopy :: "ptr \<Rightarrow> (memory, ptr) state" where
  "AutoScalingSpec_DeepCopy = copy_ptr inAutoScalingSpec AutoScalingSpec_DeepCopyInto"

definition MonitoringSpec_DeepCopyInto :: "MonitoringSpec \<Rightarrow> (memory, MonitoringSpec) state" where
  "MonitoringSpec_DeepCopyInto inp = State_Monad.return inp"

definition MonitoringSpec_DeepCopy :: "ptr \<Rightarrow> (memory, ptr) state" where
  "MonitoringSpec_DeepCopy = copy_ptr inMonitoringSpec MonitoringSpec_DeepCopyInto"

text \<open>SecurityContext, PodDisruptionBudget and TopologySpreadConstraints are not copied.\<close>

definition OJSClusterSpec_DeepCopyInto :: "library \<Rightarrow> OJSClusterSpec_mem \<Rightarrow> (memory, OJSClusterSpec_mem) state" where
  "OJSClusterSpec_DeepCopyInto L inp = do {
     backend \<leftarrow> BackendSpec_DeepCopyInto (mcs_backend inp);
     replicas \<leftarrow> copy_ptr inInt32 State_Monad.return (mcs_replicas inp);
     autoScaling \<leftarrow> copy_ptr inAutoScalingSpec State_Monad.return (mcs_autoScaling inp);
     resources \<leftarrow> ResourceRequirements_DeepCopyInto L (mcs_resources inp);
     monitoring \<leftarrow> copy_ptr inMonitoringSpec State_Monad.return (mcs_monitoring inp);
     State_Monad.return (inp\<lparr>mcs_backend := backend, mcs_replicas := replicas,
       mcs_autoScaling := autoScaling, mcs_resources := resources, mcs_monitoring := monitoring\<rparr>)
   }"

definition OJSClusterSpec_DeepCopy :: "library \<Rightarrow> ptr \<Rightarrow> (memory, ptr) state" where
  "OJSClusterSpec_DeepCopy L = copy_ptr inOJSClusterSpec (OJSClusterSpec_DeepCopyInto L)"

definition OJSClusterStatus_DeepCopyInto ::
  "library \<Rightarrow> OJSClusterStatus_mem \<Rightarrow> (memory, OJSClusterStatus_mem) state" where
  "OJSClusterStatus_DeepCopyInto L inp = do {
     conditions \<leftarrow> copy_ptr inConditions (copy_each (Condition_DeepCopyInto L)) (mcst_conditions inp);
     State_Monad.return (inp\<lparr>mcst_conditions := conditions\<rparr>)
   }"

definition OJSClusterStatus_DeepCopy :: "library \<Rightarrow> ptr \<Rightarrow> (memory, ptr) state" where
  "OJSClusterStatus_DeepCopy L = copy_ptr inOJSClusterStatus (OJSClusterStatus_DeepCopyInto L)"

definition OJSCluster_DeepCopyInto :: "library \<Rightarrow> OJSCluster_mem \<Rightarrow> (memory, OJSCluster_mem) state" where
  "OJSCluster_DeepCopyInto L inp = do {
     let out = inp\<lparr>mcl_type := mcl_type inp\<rparr>;
     meta \<leftarrow> ObjectMeta_DeepCopyInto L (mcl_meta inp);
     spec \<leftarrow> OJSClusterSpec_DeepCopyInto L (mcl_spec inp);
     status \<leftarrow> OJSClusterStatus_DeepCopyInto L (mcl_status inp);
     State_Monad.return (out\<lparr>mcl_meta := meta, mcl_spec := spec, mcl_status := status\<rparr>)
   }"

definition OJSCluster_DeepCopy :: "library \<Rightarrow> ptr \<Rightarrow> (memory, ptr) state" where
  "OJSCluster_DeepCopy L = copy_ptr inOJSCluster (OJSCluster_DeepCopyInto L)"

definition OJSClusterList_DeepCopyInto :: "library \<Rightarrow> OJSClusterList_mem \<Rightarrow> (memory, OJSClusterList_mem) state" where
  "OJSClusterList_DeepCopyInto L inp = do {
     let out = inp\<lparr>mcll_type := mcll_type inp\<rparr>;
     meta \<leftarrow> ListMeta_DeepCopyInto L (mcll_meta inp);
     items \<leftarrow> copy_ptr inOJSClusters (copy_each (OJSCluster_DeepCopyInto L)) (mcll_items inp);
     State_Monad.return (out\<lparr>mcll_meta := meta, mcll_items := items\<rparr>)
   }"

definition OJSClusterList_DeepCopy :: "library \<Rightarrow> ptr \<Rightarrow> (memory, ptr) state" where
  "OJSClusterList_DeepCopy L = copy_ptr inOJSClusterList (OJSClusterList_DeepCopyInto L)"

subsection \<open>OJSWorker\<close>

definition WorkerAutoScalingSpec_DeepCopyInto :: "WorkerAutoScalingSpec \<Rightarrow> (memory, WorkerAutoScalingSpec) state" where
  "WorkerAutoScalingSpec_DeepCopyInto inp = State_Monad.return inp"

definition WorkerAutoScalingSpec_DeepCopy :: "ptr \<Rightarrow> (memory, ptr) state" where
  "WorkerAutoScalingSpec_DeepCopy = copy_ptr inWorkerAutoScalingSpec WorkerAutoScalingSpec_DeepCopyInto"

definition GracefulShutdownSpec_DeepCopyInto :: "GracefulShutdownSpec \<Rightarrow> (memory, GracefulShutdownSpec) state" where
  "GracefulShutdownSpec_DeepCopyInto inp = State_Monad.return inp"

definition GracefulShutdownSpec_DeepCopy :: "ptr \<Rightarrow> (memory, ptr) state" where
  "GracefulShutdownSpec_DeepCopy = copy_ptr inGracefulShutdownSpec GracefulShutdownSpec_DeepCopyInto"

definition OJSWorkerSpec_DeepCopyInto :: "library \<Rightarrow> OJSWorkerSpec_mem \<Rightarrow> (memory, OJSWorkerSpec_mem) state" where
  "OJSWorkerSpec_DeepCopyInto L inp = do {
     jobTypes \<leftarrow> copy_ptr inStrings State_Monad.return (mws_jobTypes inp);
     queues \<leftarrow> copy_ptr inStrings State_Monad.return (mws_queues inp);
     replicas \<leftarrow> copy_ptr inInt32 State_Monad.return (mws_replicas inp);
     command \<leftarrow> copy_ptr inStrings State_Monad.return (mws_command inp);
     env \<leftarrow> copy_ptr inEnvVars (copy_each (EnvVar_DeepCopyInto L)) (mws_env inp);
     resources \<leftarrow> ResourceRequirements_DeepCopyInto L (mws_resources inp);
     autoScaling \<leftarrow> copy_ptr inWorkerAutoScalingSpec State_Monad.return (mws_autoScaling inp);
     gracefulShutdown \<leftarrow> copy_ptr inGracefulShutdownSpec State_Monad.return (mws_gracefulShutdown inp);
     State_Monad.return (inp\<lparr>mws_jobTypes := jobTypes, mws_queues := queues, mws_replicas := replicas,
       mws_command := command, mws_env := env, mws_resources := resources, mws_autoScaling := autoScaling,
       mws_gracefulShutdown := gracefulShutdown\<rparr>)
   }"

definition OJSWorkerSpec_DeepCopy :: "library \<Rightarrow> ptr \<Rightarrow> (memory, ptr) state" where
  "OJSWorkerSpec_DeepCopy L = copy_ptr inOJSWorkerSpec (OJSWorkerSpec_DeepCopyInto L)"

text \<open>\<^verbatim>\<open>if in.LastScaleTime != nil\<close> guards a method that is nil on nil anyway.\<close>

definition OJSWorkerStatus_DeepCopyInto ::
  "library \<Rightarrow> OJSWorkerStatus_mem \<Rightarrow> (memory, OJSWorkerStatus_mem) state" where
  "OJSWorkerStatus_DeepCopyInto L inp = do {
     lastScaleTime \<leftarrow> (if mwst_lastScaleTime inp \<noteq> None then Time_DeepCopy L (mwst_lastScaleTime inp)
       else State_Monad.return (mwst_lastScaleTime inp));
     conditions \<leftarrow> copy_ptr inConditions (copy_each (Condition_DeepCopyInto L)) (mwst_conditions inp);
     State_Monad.return (inp\<lparr>mwst_lastScaleTime := lastScaleTime, mwst_conditions := conditions\<rparr>)
   }"

definition OJSWorkerStatus_DeepCopy :: "library \<Rightarrow> ptr \<Rightarrow> (memory, ptr) state" where
  "OJSWorkerStatus_DeepCopy L = copy_ptr inOJSWorkerStatus (OJSWorkerStatus_DeepCopyInto L)"

definition OJSWorker_DeepCopyInto :: "library \<Rightarrow> OJSWorker_mem \<Rightarrow> (memory, OJSWorker_mem) state" where
  "OJSWorker_DeepCopyInto L inp = do {
     let out = inp\<lparr>mwk_type := mwk_type inp\<rparr>;
     meta \<leftarrow> ObjectMeta_DeepCopyInto L (mwk_meta inp);
     spec \<leftarrow> OJSWorkerSpec_DeepCopyInto L (mwk_spec inp);
     status \<leftarrow> OJSWorkerStatus_DeepCopyInto L (mwk_status inp);
     State_Monad.return (out\<lparr>mwk_meta := meta, mwk_spec := spec, mwk_status := status\<rparr>)
   }"

definition OJSWorker_DeepCopy :: "library \<Rightarrow> ptr \<Rightarrow> (memory, ptr) state" where
  "OJSWorker_DeepCopy L = copy_ptr inOJSWorker (OJSWorker_DeepCopyInto L)"

definition OJSWorkerList_DeepCopyInto :: "library \<Rightarrow> OJSWorkerList_mem \<Rightarrow> (memory, OJSWorkerList_mem) state" where
  "OJSWorkerList_DeepCopyInto L inp = do {
     let out = inp\<lparr>mwkl_type := mwkl_type inp\<rparr>;
     meta \<leftarrow> ListMeta_DeepCopyInto L (mwkl_meta inp);
     items \<leftarrow> copy_ptr inOJSWorkers (copy_each (OJSWorker_DeepCopyInto L)) (mwkl_items inp);
     State_Monad.return (out\<lparr>mwkl_meta := meta, mwkl_items := items\<rparr>)
   }"

definition OJSWorkerList_DeepCopy :: "library \<Rightarrow> ptr \<Rightarrow> (memory, ptr) state" where
  "OJSWorkerList_DeepCopy L = copy_ptr inOJSWorkerList (OJSWorkerList_DeepCopyInto L)"

subsection \<open>OJSAttestationPolicy\<close>

definition HardwareRequirement_DeepCopyInto :: "HardwareRequirement \<Rightarrow> (memory, HardwareRequirement) state" where
  "HardwareRequirement_DeepCopyInto inp = State_Monad.return inp"

definition HardwareRequirement_DeepCopy :: "ptr \<Rightarrow> (memory, ptr) state" where
  "HardwareRequirement_DeepCopy = copy_ptr inHardwareRequirement HardwareRequirement_DeepCopyInto"

definition ModelPolicy_DeepCopyInto :: "ModelPolicy_mem \<Rightarrow> (memory, ModelPolicy_mem) state" where
  "ModelPolicy_DeepCopyInto inp = do {
     allowedModels \<leftarrow> copy_ptr inStrings State_Monad.return (mmp_allowedModels inp);
     State_Monad.return (inp\<lparr>mmp_allowedModels := allowedModels\<rparr>)
   }"

definition ModelPolicy_DeepCopy :: "ptr \<Rightarrow> (memory, ptr) state" where
  "ModelPolicy_DeepCopy = copy_ptr inModelPolicy ModelPolicy_DeepCopyInto"

definition OJSAttestationPolicySpec_DeepCopyInto ::
  "OJSAttestationPolicySpec_mem \<Rightarrow> (memory, OJSAttestationPolicySpec_mem) state" where
  "OJSAttestationPolicySpec_DeepCopyInto inp = do {
     jobTypes \<leftarrow> copy_ptr inStrings State_Monad.return (mpo_jobTypes inp);
     hardware \<leftarrow> copy_ptr inHardwareRequirements State_Monad.return (mpo_hardware inp);
     regions \<leftarrow> copy_ptr inStrings State_Monad.return (mpo_regions inp);
     modelPolicy \<leftarrow> copy_ptr inModelPolicy ModelPolicy_DeepCopyInto (mpo_modelPolicy inp);
     State_Monad.return (inp\<lparr>mpo_jobTypes := jobTypes, mpo_hardware := hardware, mpo_regions := regions,
       mpo_modelPolicy := modelPolicy\<rparr>)
   }"

definition OJSAttestationPolicySpec_DeepCopy :: "ptr \<Rightarrow> (memory, ptr) state" where
  "OJSAttestationPolicySpec_DeepCopy = copy_ptr inOJSAttestationPolicySpec OJSAttestationPolicySpec_DeepCopyInto"

definition OJSAttestationPolicyStatus_DeepCopyInto ::
  "library \<Rightarrow> OJSAttestationPolicyStatus_mem \<Rightarrow> (memory, OJSAttestationPolicyStatus_mem) state" where
  "OJSAttestationPolicyStatus_DeepCopyInto L inp = do {
     conditions \<leftarrow> copy_ptr inConditions (copy_each (Condition_DeepCopyInto L)) (mpos_conditions inp);
     State_Monad.return (inp\<lparr>mpos_conditions := conditions\<rparr>)
   }"

definition OJSAttestationPolicyStatus_DeepCopy :: "library \<Rightarrow> ptr \<Rightarrow> (memory, ptr) state" where
  "OJSAttestationPolicyStatus_DeepCopy L =
     copy_ptr inOJSAttestationPolicyStatus (OJSAttestationPolicyStatus_DeepCopyInto L)"

definition OJSAttestationPolicy_DeepCopyInto ::
  "library \<Rightarrow> OJSAttestationPolicy_mem \<Rightarrow> (memory, OJSAttestationPolicy_mem) state" where
  "OJSAttestationPolicy_DeepCopyInto L inp = do {
     let out = inp\<lparr>mpol_type := mpol_type inp\<rparr>;
     meta \<leftarrow> ObjectMeta_DeepCopyInto L (mpol_meta inp);
     spec \<leftarrow> OJSAttestationPolicySpec_DeepCopyInto (mpol_spec inp);
     status \<leftarrow> OJSAttestationPolicyStatus_DeepCopyInto L (mpol_status inp);
     State_Monad.return (out\<lparr>mpol_meta := meta, mpol_spec := spec, mpol_status := status\<rparr>)
   }"

definition OJSAttestationPolicy_DeepCopy :: "library \<Rightarrow> ptr \<Rightarrow> (memory, ptr) state" where
  "OJSAttestationPolicy_DeepCopy L = copy_ptr inOJSAttestationPolicy (OJSAttestationPolicy_DeepCopyInto L)"

definition OJSAttestationPolicyList_DeepCopyInto ::
  "library \<Rightarrow> OJSAttestationPolicyList_mem \<Rightarrow> (memory, OJSAttestationPolicyList_mem) state" where
  "OJSAttestationPolicyList_DeepCopyInto L inp = do {
     let out = inp\<lparr>mpoll_type := mpoll_type inp\<rparr>;
     meta \<leftarrow> ListMeta_DeepCopyInto L (mpoll_meta inp);
     items \<leftarrow> copy_ptr inOJSAttestationPolicies (copy_each (OJSAttestationPolicy_DeepCopyInto L)) (mpoll_items inp);
     State_Monad.return (out\<lparr>mpoll_meta := meta, mpoll_items := items\<rparr>)
   }"

definition OJSAttestationPolicyList_DeepCopy :: "library \<Rightarrow> ptr \<Rightarrow> (memory, ptr) state" where
  "OJSAttestationPolicyList_DeepCopy L =
     copy_ptr inOJSAttestationPolicyList (OJSAttestationPolicyList_DeepCopyInto L)"

subsection \<open>DeepCopyObject\<close>

text \<open>A value of the interface \<^verbatim>\<open>runtime.Object\<close>: nil, or a dynamic type and a pointer, which may itself
  be nil.\<close>

datatype object_type = TCluster | TClusterList | TWorker | TWorkerList | TPolicy | TPolicyList

type_synonym object_value = "(object_type \<times> ptr) option"

text \<open>\<^verbatim>\<open>if c := in.DeepCopy(); c != nil { return c }; return nil\<close>\<close>

definition as_object :: "object_type \<Rightarrow> (memory, ptr) state \<Rightarrow> (memory, object_value) state" where
  "as_object t deepCopy = do {
     c \<leftarrow> deepCopy;
     State_Monad.return (if c \<noteq> None then Some (t, c) else None)
   }"

definition OJSCluster_DeepCopyObject :: "library \<Rightarrow> ptr \<Rightarrow> (memory, object_value) state" where
  "OJSCluster_DeepCopyObject L inp = as_object TCluster (OJSCluster_DeepCopy L inp)"

definition OJSClusterList_DeepCopyObject :: "library \<Rightarrow> ptr \<Rightarrow> (memory, object_value) state" where
  "OJSClusterList_DeepCopyObject L inp = as_object TClusterList (OJSClusterList_DeepCopy L inp)"

definition OJSWorker_DeepCopyObject :: "library \<Rightarrow> ptr \<Rightarrow> (memory, object_value) state" where
  "OJSWorker_DeepCopyObject L inp = as_object TWorker (OJSWorker_DeepCopy L inp)"

definition OJSWorkerList_DeepCopyObject :: "library \<Rightarrow> ptr \<Rightarrow> (memory, object_value) state" where
  "OJSWorkerList_DeepCopyObject L inp = as_object TWorkerList (OJSWorkerList_DeepCopy L inp)"

definition OJSAttestationPolicy_DeepCopyObject :: "library \<Rightarrow> ptr \<Rightarrow> (memory, object_value) state" where
  "OJSAttestationPolicy_DeepCopyObject L inp = as_object TPolicy (OJSAttestationPolicy_DeepCopy L inp)"

definition OJSAttestationPolicyList_DeepCopyObject :: "library \<Rightarrow> ptr \<Rightarrow> (memory, object_value) state" where
  "OJSAttestationPolicyList_DeepCopyObject L inp = as_object TPolicyList (OJSAttestationPolicyList_DeepCopy L inp)"

end
