(* ===== verification/DeepCopyProofs.thy ===== *)
theory DeepCopyProofs
  imports DeepCopy
begin

text \<open>
  Every generated method but those of OJSClusterSpec and the types around it makes a deep copy,
  when the methods of the Kubernetes types do.
\<close>

named_theorems copy_rules

lemma copies_look_list:
  assumes "copies_sharing copy look S" "lawful k"
  shows "copies_sharing (copy_ptr k copy) (look_list k look) (shared_ptr k S)"
  unfolding look_list_def by (rule copies_view [OF copies_ptr [OF assms]])

lemmas field_rules = copies_return copies_ptr copies_each copies_look_list cell_laws

lemma deep_ptr: "deep_copies copy look \<Longrightarrow> lawful k \<Longrightarrow> deep_copies (copy_ptr k copy) (look_ptr k look)"
  using copies_ptr [of copy look "\<lambda>_ _. {}" k] by simp

lemma deep_list: "deep_copies copy look \<Longrightarrow> lawful k \<Longrightarrow> deep_copies (copy_ptr k copy) (look_list k look)"
  using copies_look_list [of copy look "\<lambda>_ _. {}" k] by simp

lemma deep_each: "deep_copies copy look \<Longrightarrow> deep_copies (copy_each copy) (look_each look)"
  using copies_each [of copy look "\<lambda>_ _. {}"] by simp

lemma look_each_rret: "look_each rret xs = rret xs"
  by (induction xs) (simp_all add: rbind_def rret_def)

lemma deep_each_plain: "deep_copies copy rret \<Longrightarrow> deep_copies (copy_each copy) rret"
  using deep_each [of copy rret] by (simp add: look_each_rret [abs_def])

text \<open>Pointers and slices of plain values.\<close>

lemmas plain_ptr = deep_ptr [OF copies_return]
lemmas plain_list = deep_list [OF copies_return]
lemmas bind_plain = plain_ptr [THEN copies_bind] plain_list [THEN copies_bind]


lemma ModelPolicy_deep: "deep_copies ModelPolicy_DeepCopyInto look_ModelPolicy"
proof -
  have "clones (look_ModelPolicy x) (ModelPolicy_DeepCopyInto x) look_ModelPolicy (\<lambda>_. {})" for x
    unfolding ModelPolicy_DeepCopyInto_def look_ModelPolicy_def [of x] Let_def
    apply (intro bind_plain  clones_return cell_laws)
    apply (simp_all add: look_ModelPolicy_def)
    apply ((elim conjE)?, (rule made_bind_fresh, assumption)+)
    apply (simp_all add: local_rules)
    done
  then show ?thesis by (simp add: copies_sharing_def local_rules)
qed

lemma BackendSpec_deep: "deep_copies BackendSpec_DeepCopyInto look_Backend"
proof -
  have "clones (look_Backend x) (BackendSpec_DeepCopyInto x) look_Backend (\<lambda>_. {})" for x
    unfolding BackendSpec_DeepCopyInto_def look_Backend_def [of x] Let_def
    apply (intro bind_plain  clones_return cell_laws)
    apply (simp_all add: look_Backend_def)
    apply ((elim conjE)?, (rule made_bind_fresh, assumption)+)
    apply (simp_all add: local_rules)
    done
  then show ?thesis by (simp add: copies_sharing_def local_rules)
qed

lemma OJSAttestationPolicySpec_deep: "deep_copies OJSAttestationPolicySpec_DeepCopyInto look_PolicySpec"
proof -
  have "clones (look_PolicySpec x) (OJSAttestationPolicySpec_DeepCopyInto x) look_PolicySpec (\<lambda>_. {})" for x
    unfolding OJSAttestationPolicySpec_DeepCopyInto_def look_PolicySpec_def [of x] Let_def
    apply (intro bind_plain deep_ptr [OF ModelPolicy_deep, THEN copies_bind] clones_return cell_laws)
    apply (simp_all add: look_PolicySpec_def)
    apply ((elim conjE)?, (rule made_bind_fresh, assumption)+)
    apply (simp_all add: local_rules)
    done
  then show ?thesis by (simp add: copies_sharing_def local_rules)
qed

text \<open>What a copied OJSClusterSpec shares with its original: the structures its method does not name.\<close>

definition spec_shared :: "OJSClusterSpec_mem \<Rightarrow> memory \<Rightarrow> nat set" where
  "spec_shared s h =
     footprint (look_ptr inPodSecuritySpec look_PodSecurity (mcs_securityContext s)) h \<union>
     footprint (look_ptr inPDBSpec look_PDB (mcs_podDisruptionBudget s)) h \<union>
     footprint (look_list inTopologySpreadConstraints rret (mcs_topologySpreadConstraints s)) h"

definition list_shared :: "OJSClusterList_mem \<Rightarrow> memory \<Rightarrow> nat set" where
  "list_shared l = shared_ptr inOJSClusters (shared_each (\<lambda>c. spec_shared (mcl_spec c))) (mcll_items l)"

subsection \<open>With the methods of the Kubernetes types\<close>

text \<open>The documented behaviour of the methods of the Kubernetes types: each of them makes a deep copy.\<close>

locale library_laws =
  fixes L :: library
  assumes meta: "deep_copies (ObjectMeta_DeepCopyInto L) look_ObjectMeta"
    and list_meta: "deep_copies (ListMeta_DeepCopyInto L) look_ListMeta"
    and resources: "deep_copies (ResourceRequirements_DeepCopyInto L) look_Resources"
    and env: "deep_copies (EnvVar_DeepCopyInto L) look_EnvVar"
    and condition: "deep_copies (Condition_DeepCopyInto L) rret"
    and time: "deep_copies (Time_DeepCopy L) (look_ptr inTime rret)"
begin

lemma time_if: "deep_copies (\<lambda>p. if p \<noteq> None then Time_DeepCopy L p else State_Monad.return p) (look_ptr inTime rret)"
  using time by (auto simp: copies_sharing_def look_ptr_def intro!: clones_return)

lemma OJSClusterStatus_deep: "deep_copies (OJSClusterStatus_DeepCopyInto L) look_ClusterStatus"
proof -
  have "clones (look_ClusterStatus x) ((OJSClusterStatus_DeepCopyInto L) x) look_ClusterStatus (\<lambda>_. {})" for x
    unfolding OJSClusterStatus_DeepCopyInto_def look_ClusterStatus_def [of x] Let_def
    apply (intro bind_plain deep_list [OF deep_each_plain, OF condition, THEN copies_bind] clones_return cell_laws)
    apply (simp_all add: look_ClusterStatus_def)
    apply ((elim conjE)?, (rule made_bind_fresh, assumption)+)
    apply (simp_all add: local_rules)
    done
  then show ?thesis by (simp add: copies_sharing_def local_rules)
qed

lemma OJSWorkerSpec_deep: "deep_copies (OJSWorkerSpec_DeepCopyInto L) look_WorkerSpec"
proof -
  have "clones (look_WorkerSpec x) ((OJSWorkerSpec_DeepCopyInto L) x) look_WorkerSpec (\<lambda>_. {})" for x
    unfolding OJSWorkerSpec_DeepCopyInto_def look_WorkerSpec_def [of x] Let_def
    apply (intro bind_plain deep_list [OF deep_each, OF env, THEN copies_bind] resources [THEN copies_bind] clones_return cell_laws)
    apply (simp_all add: look_WorkerSpec_def)
    apply ((elim conjE)?, (rule made_bind_fresh, assumption)+)
    apply (simp_all add: local_rules)
    done
  then show ?thesis by (simp add: copies_sharing_def local_rules)
qed

lemma OJSWorkerStatus_deep: "deep_copies (OJSWorkerStatus_DeepCopyInto L) look_WorkerStatus"
proof -
  have "clones (look_WorkerStatus x) ((OJSWorkerStatus_DeepCopyInto L) x) look_WorkerStatus (\<lambda>_. {})" for x
    unfolding OJSWorkerStatus_DeepCopyInto_def look_WorkerStatus_def [of x] Let_def
    apply (intro bind_plain deep_list [OF deep_each_plain, OF condition, THEN copies_bind] time_if [THEN copies_bind] clones_return cell_laws)
    apply (simp_all add: look_WorkerStatus_def)
    apply ((elim conjE)?, (rule made_bind_fresh, assumption)+)
    apply (simp_all add: local_rules)
    done
  then show ?thesis by (simp add: copies_sharing_def local_rules)
qed

lemma OJSAttestationPolicyStatus_deep: "deep_copies (OJSAttestationPolicyStatus_DeepCopyInto L) look_PolicyStatus"
proof -
  have "clones (look_PolicyStatus x) ((OJSAttestationPolicyStatus_DeepCopyInto L) x) look_PolicyStatus (\<lambda>_. {})" for x
    unfolding OJSAttestationPolicyStatus_DeepCopyInto_def look_PolicyStatus_def [of x] Let_def
    apply (intro bind_plain deep_list [OF deep_each_plain, OF condition, THEN copies_bind] clones_return cell_laws)
    apply (simp_all add: look_PolicyStatus_def)
    apply ((elim conjE)?, (rule made_bind_fresh, assumption)+)
    apply (simp_all add: local_rules)
    done
  then show ?thesis by (simp add: copies_sharing_def local_rules)
qed

lemma OJSWorker_deep: "deep_copies (OJSWorker_DeepCopyInto L) look_Worker"
proof -
  have "clones (look_Worker x) ((OJSWorker_DeepCopyInto L) x) look_Worker (\<lambda>_. {})" for x
    unfolding OJSWorker_DeepCopyInto_def look_Worker_def [of x] Let_def
    apply (intro bind_plain meta [THEN copies_bind] OJSWorkerSpec_deep [THEN copies_bind] OJSWorkerStatus_deep [THEN copies_bind] clones_return cell_laws)
    apply (simp_all add: look_Worker_def)
    apply ((elim conjE)?, (rule made_bind_fresh, assumption)+)
    apply (simp_all add: local_rules)
    done
  then show ?thesis by (simp add: copies_sharing_def local_rules)
qed

lemma OJSWorkerList_deep: "deep_copies (OJSWorkerList_DeepCopyInto L) look_WorkerList"
proof -
  have "clones (look_WorkerList x) ((OJSWorkerList_DeepCopyInto L) x) look_WorkerList (\<lambda>_. {})" for x
    unfolding OJSWorkerList_DeepCopyInto_def look_WorkerList_def [of x] Let_def
    apply (intro bind_plain list_meta [THEN copies_bind] deep_ptr [OF deep_each, OF OJSWorker_deep, THEN copies_bind] clones_return cell_laws)
    apply (simp_all add: look_WorkerList_def)
    apply ((elim conjE)?, (rule made_bind_fresh, assumption)+)
    apply (simp_all add: local_rules)
    done
  then show ?thesis by (simp add: copies_sharing_def local_rules)
qed

lemma OJSAttestationPolicy_deep: "deep_copies (OJSAttestationPolicy_DeepCopyInto L) look_Policy"
proof -
  have "clones (look_Policy x) ((OJSAttestationPolicy_DeepCopyInto L) x) look_Policy (\<lambda>_. {})" for x
    unfolding OJSAttestationPolicy_DeepCopyInto_def look_Policy_def [of x] Let_def
    apply (intro bind_plain meta [THEN copies_bind] OJSAttestationPolicySpec_deep [THEN copies_bind] OJSAttestationPolicyStatus_deep [THEN copies_bind] clones_return cell_laws)
    apply (simp_all add: look_Policy_def)
    apply ((elim conjE)?, (rule made_bind_fresh, assumption)+)
    apply (simp_all add: local_rules)
    done
  then show ?thesis by (simp add: copies_sharing_def local_rules)
qed

lemma OJSAttestationPolicyList_deep: "deep_copies (OJSAttestationPolicyList_DeepCopyInto L) look_PolicyList"
proof -
  have "clones (look_PolicyList x) ((OJSAttestationPolicyList_DeepCopyInto L) x) look_PolicyList (\<lambda>_. {})" for x
    unfolding OJSAttestationPolicyList_DeepCopyInto_def look_PolicyList_def [of x] Let_def
    apply (intro bind_plain list_meta [THEN copies_bind] deep_ptr [OF deep_each, OF OJSAttestationPolicy_deep, THEN copies_bind] clones_return cell_laws)
    apply (simp_all add: look_PolicyList_def)
    apply ((elim conjE)?, (rule made_bind_fresh, assumption)+)
    apply (simp_all add: local_rules)
    done
  then show ?thesis by (simp add: copies_sharing_def local_rules)
qed

lemma OJSClusterSpec_shares: "copies_sharing (OJSClusterSpec_DeepCopyInto L) look_ClusterSpec spec_shared"
proof -
  have "clones (look_ClusterSpec x) (OJSClusterSpec_DeepCopyInto L x) look_ClusterSpec (spec_shared x)" for x
    unfolding OJSClusterSpec_DeepCopyInto_def look_ClusterSpec_def [of x] Let_def
    apply (intro bind_plain BackendSpec_deep [THEN copies_bind] resources [THEN copies_bind] cell_laws)
         apply simp_all
    apply (rule clones_keep [OF local_look_ptr [OF local_look_PodSecurity]])
    apply (rule clones_keep [OF local_look_ptr [OF local_look_PDB]])
    apply (rule clones_keep [OF local_look_list [OF local_rret]])
    apply (rule clones_return)
    apply (simp add: look_ClusterSpec_def)
    apply (elim conjE, rule made_shared, (rule made_bind, assumption)+)
    apply (simp_all add: local_rules spec_shared_def Un_assoc)
    apply simp
    done
  then show ?thesis by (simp add: copies_sharing_def local_rules)
qed

lemma OJSCluster_shares:
  "copies_sharing (OJSCluster_DeepCopyInto L) look_Cluster (\<lambda>c. spec_shared (mcl_spec c))"
proof -
  have "clones (look_Cluster x) (OJSCluster_DeepCopyInto L x) look_Cluster (spec_shared (mcl_spec x))" for x
    unfolding OJSCluster_DeepCopyInto_def look_Cluster_def [of x] Let_def
    apply (intro meta [THEN copies_bind] OJSClusterSpec_shares [THEN copies_bind]
        OJSClusterStatus_deep [THEN copies_bind] clones_return)
       apply (simp_all add: look_Cluster_def)
    apply (elim conjE, rule made_shared, (rule made_bind, assumption)+)
    apply (simp_all add: local_rules)
    apply simp
    done
  then show ?thesis by (simp add: copies_sharing_def local_rules)
qed

lemma OJSClusterList_shares: "copies_sharing (OJSClusterList_DeepCopyInto L) look_ClusterList list_shared"
proof -
  note items = copies_ptr [OF copies_each, OF OJSCluster_shares]
  have "clones (look_ClusterList x) (OJSClusterList_DeepCopyInto L x) look_ClusterList (list_shared x)" for x
    unfolding OJSClusterList_DeepCopyInto_def look_ClusterList_def [of x] Let_def
    apply (intro list_meta [THEN copies_bind] items [THEN copies_bind] clones_return cell_laws)
      apply (simp_all add: look_ClusterList_def)
    apply (elim conjE, rule made_shared, (rule made_bind, assumption)+)
    apply (simp_all add: local_rules list_shared_def)
    apply simp
    done
  then show ?thesis by (simp add: copies_sharing_def local_rules)
qed

end

end
