(* ===== verification/DeepCopyProperties.thy ===== *)
theory DeepCopyProperties
  imports DeepCopyProofs
begin

text \<open>
  What the generated copies guarantee their callers (controller-runtime hands out copies of cached
  objects, and the fake client of the tests relies on them too), and where they do not.
\<close>

subsection \<open>A library to run them with\<close>

text \<open>The methods of the Kubernetes types, written for the structs of \<open>ApiMemory\<close> the way the generator
  writes them; this is the concrete library at which the theorems are instantiated.\<close>

definition memLibrary :: library where
  "memLibrary = \<lparr>
     ObjectMeta_DeepCopyInto = (\<lambda>m. do {
       labels \<leftarrow> copy_ptr inLabels State_Monad.return (mom_labels m);
       finalizers \<leftarrow> copy_ptr inStrings State_Monad.return (mom_finalizers m);
       owners \<leftarrow> copy_ptr inOwnerReferences State_Monad.return (mom_ownerReferences m);
       deleted \<leftarrow> copy_ptr inTime State_Monad.return (mom_deletionTimestamp m);
       State_Monad.return (m\<lparr>mom_labels := labels, mom_finalizers := finalizers,
         mom_ownerReferences := owners, mom_deletionTimestamp := deleted\<rparr>) }),
     ListMeta_DeepCopyInto = (\<lambda>m. do {
       n \<leftarrow> copy_ptr inInt64 State_Monad.return (mlm_remainingItemCount m);
       State_Monad.return (m\<lparr>mlm_remainingItemCount := n\<rparr>) }),
     ResourceRequirements_DeepCopyInto = (\<lambda>r. do {
       limits \<leftarrow> copy_ptr inQuantities State_Monad.return (mrr_limits r);
       requests \<leftarrow> copy_ptr inQuantities State_Monad.return (mrr_requests r);
       claims \<leftarrow> copy_ptr inResourceClaims State_Monad.return (mrr_claims r);
       State_Monad.return (r\<lparr>mrr_limits := limits, mrr_requests := requests, mrr_claims := claims\<rparr>) }),
     EnvVar_DeepCopyInto = (\<lambda>e. do {
       src \<leftarrow> copy_ptr inEnvVarSource State_Monad.return (mev_valueFrom e);
       State_Monad.return (e\<lparr>mev_valueFrom := src\<rparr>) }),
     Condition_DeepCopyInto = State_Monad.return,
     Time_DeepCopy = copy_ptr inTime State_Monad.return\<rparr>"

lemma copies_look_map: "lawful k \<Longrightarrow> deep_copies (copy_ptr k State_Monad.return) (look_map k)"
  unfolding look_map_def by (rule copies_view [OF plain_ptr])

lemma memLibrary_ObjectMeta: "deep_copies (ObjectMeta_DeepCopyInto memLibrary) look_ObjectMeta"
proof -
  have "clones (look_ObjectMeta x) (ObjectMeta_DeepCopyInto memLibrary x) look_ObjectMeta (\<lambda>_. {})" for x
    unfolding memLibrary_def library.simps look_ObjectMeta_def [of x]
    apply (intro bind_plain copies_look_map [THEN copies_bind] clones_return cell_laws)
        apply (simp_all add: look_ObjectMeta_def)
    apply (elim conjE, (rule made_bind_fresh, assumption)+)
        apply (simp_all add: local_rules)
    done
  then show ?thesis by (simp add: copies_sharing_def local_rules)
qed

lemma memLibrary_ListMeta: "deep_copies (ListMeta_DeepCopyInto memLibrary) look_ListMeta"
proof -
  have "clones (look_ListMeta x) (ListMeta_DeepCopyInto memLibrary x) look_ListMeta (\<lambda>_. {})" for x
    unfolding memLibrary_def library.simps look_ListMeta_def [of x]
    by (intro bind_plain clones_return cell_laws)
      (auto simp: look_ListMeta_def local_rules intro: made_bind_fresh)
  then show ?thesis by (simp add: copies_sharing_def local_rules)
qed

lemma memLibrary_Resources: "deep_copies (ResourceRequirements_DeepCopyInto memLibrary) look_Resources"
proof -
  have "clones (look_Resources x) (ResourceRequirements_DeepCopyInto memLibrary x) look_Resources (\<lambda>_. {})" for x
    unfolding memLibrary_def library.simps look_Resources_def [of x]
    apply (intro bind_plain clones_return cell_laws)
      apply (simp_all add: look_Resources_def)
    apply (elim conjE, (rule made_bind_fresh, assumption)+)
      apply (simp_all add: local_rules)
    done
  then show ?thesis by (simp add: copies_sharing_def local_rules)
qed

lemma memLibrary_EnvVar: "deep_copies (EnvVar_DeepCopyInto memLibrary) look_EnvVar"
proof -
  have "clones (look_EnvVar x) (EnvVar_DeepCopyInto memLibrary x) look_EnvVar (\<lambda>_. {})" for x
    unfolding memLibrary_def library.simps look_EnvVar_def [of x]
    by (intro bind_plain clones_return cell_laws)
      (auto simp: look_EnvVar_def local_rules intro: made_bind_fresh)
  then show ?thesis by (simp add: copies_sharing_def local_rules)
qed

interpretation memLib: library_laws memLibrary
proof unfold_locales
  show "deep_copies (Condition_DeepCopyInto memLibrary) rret"
    by (simp add: memLibrary_def copies_return)
  show "deep_copies (Time_DeepCopy memLibrary) (look_ptr inTime rret)"
    by (simp add: memLibrary_def plain_ptr cell_laws)
qed (rule memLibrary_ObjectMeta memLibrary_ListMeta memLibrary_Resources memLibrary_EnvVar)+

subsection \<open>Copies through pointers\<close>

text \<open>\<open>separates deepCopy look\<close>: for every pointer that reads as something, \<^verbatim>\<open>DeepCopy\<close> returns a separate
  copy of it, and nil exactly for nil.\<close>

definition separates :: "(ptr \<Rightarrow> (memory, ptr) state) \<Rightarrow> (ptr \<Rightarrow> (cell, 'v) reader) \<Rightarrow> bool" where
  "separates deepCopy look \<longleftrightarrow> (\<forall>h p v A q h'. good_mem h \<longrightarrow> look p h = Some (v, A) \<longrightarrow>
     run_state (deepCopy p) h = (q, h') \<longrightarrow> separate_copy look p v h q h' \<and> (q = None \<longleftrightarrow> p = None))"

lemma copy_ptr_nil_iff: "run_state (copy_ptr k copy p) h = (q, h') \<Longrightarrow> q = None \<longleftrightarrow> p = None"
  by (auto simp: copy_ptr_def State_Monad.bind_def State_Monad.return_def split: option.splits prod.splits)

locale struct_copier = deep_copier copy look
  for copy :: "'a \<Rightarrow> (memory, 'a) state" and look :: "'a \<Rightarrow> (cell, 'v) reader" +
  fixes k :: "(cell, 'a) cellkind"
  assumes cells: "lawful k"
begin

lemma pointers: "separates (copy_ptr k copy) (look_ptr k look)"
proof -
  have "deep_copier (copy_ptr k copy) (look_ptr k look)"
    by unfold_locales (rule deep_ptr [OF deep cells])
  then show ?thesis
    unfolding separates_def using deep_copier.separates copy_ptr_nil_iff by metis
qed

end

interpretation SecretKeyRef_copy: struct_copier SecretKeyRef_DeepCopyInto rret inSecretKeyRef
  by unfold_locales (simp_all add: SecretKeyRef_DeepCopyInto_def [abs_def] copies_return cell_laws)

interpretation AutoScalingSpec_copy: struct_copier AutoScalingSpec_DeepCopyInto rret inAutoScalingSpec
  by unfold_locales (simp_all add: AutoScalingSpec_DeepCopyInto_def [abs_def] copies_return cell_laws)

interpretation MonitoringSpec_copy: struct_copier MonitoringSpec_DeepCopyInto rret inMonitoringSpec
  by unfold_locales (simp_all add: MonitoringSpec_DeepCopyInto_def [abs_def] copies_return cell_laws)

interpretation WorkerAutoScalingSpec_copy: struct_copier WorkerAutoScalingSpec_DeepCopyInto rret inWorkerAutoScalingSpec
  by unfold_locales (simp_all add: WorkerAutoScalingSpec_DeepCopyInto_def [abs_def] copies_return cell_laws)

interpretation GracefulShutdownSpec_copy: struct_copier GracefulShutdownSpec_DeepCopyInto rret inGracefulShutdownSpec
  by unfold_locales (simp_all add: GracefulShutdownSpec_DeepCopyInto_def [abs_def] copies_return cell_laws)

interpretation HardwareRequirement_copy: struct_copier HardwareRequirement_DeepCopyInto rret inHardwareRequirement
  by unfold_locales (simp_all add: HardwareRequirement_DeepCopyInto_def [abs_def] copies_return cell_laws)

interpretation BackendSpec_copy: struct_copier BackendSpec_DeepCopyInto look_Backend inBackendSpec
  by unfold_locales (rule BackendSpec_deep cell_laws)+

interpretation ModelPolicy_copy: struct_copier ModelPolicy_DeepCopyInto look_ModelPolicy inModelPolicy
  by unfold_locales (rule ModelPolicy_deep cell_laws)+

interpretation OJSAttestationPolicySpec_copy: struct_copier OJSAttestationPolicySpec_DeepCopyInto look_PolicySpec inOJSAttestationPolicySpec
  by unfold_locales (rule OJSAttestationPolicySpec_deep cell_laws)+

sublocale library_laws \<subseteq> OJSClusterStatus_copy: struct_copier "OJSClusterStatus_DeepCopyInto L" look_ClusterStatus inOJSClusterStatus
  by unfold_locales (rule OJSClusterStatus_deep cell_laws)+

sublocale library_laws \<subseteq> OJSWorkerSpec_copy: struct_copier "OJSWorkerSpec_DeepCopyInto L" look_WorkerSpec inOJSWorkerSpec
  by unfold_locales (rule OJSWorkerSpec_deep cell_laws)+

sublocale library_laws \<subseteq> OJSWorkerStatus_copy: struct_copier "OJSWorkerStatus_DeepCopyInto L" look_WorkerStatus inOJSWorkerStatus
  by unfold_locales (rule OJSWorkerStatus_deep cell_laws)+

sublocale library_laws \<subseteq> OJSWorker_copy: struct_copier "OJSWorker_DeepCopyInto L" look_Worker inOJSWorker
  by unfold_locales (rule OJSWorker_deep cell_laws)+

sublocale library_laws \<subseteq> OJSWorkerList_copy: struct_copier "OJSWorkerList_DeepCopyInto L" look_WorkerList inOJSWorkerList
  by unfold_locales (rule OJSWorkerList_deep cell_laws)+

sublocale library_laws \<subseteq> OJSAttestationPolicyStatus_copy: struct_copier "OJSAttestationPolicyStatus_DeepCopyInto L" look_PolicyStatus inOJSAttestationPolicyStatus
  by unfold_locales (rule OJSAttestationPolicyStatus_deep cell_laws)+

sublocale library_laws \<subseteq> OJSAttestationPolicy_copy: struct_copier "OJSAttestationPolicy_DeepCopyInto L" look_Policy inOJSAttestationPolicy
  by unfold_locales (rule OJSAttestationPolicy_deep cell_laws)+

sublocale library_laws \<subseteq> OJSAttestationPolicyList_copy: struct_copier "OJSAttestationPolicyList_DeepCopyInto L" look_PolicyList inOJSAttestationPolicyList
  by unfold_locales (rule OJSAttestationPolicyList_deep cell_laws)+

context library_laws
begin

lemmas struct_pointers = OJSClusterStatus_copy.pointers OJSWorkerSpec_copy.pointers OJSWorkerStatus_copy.pointers OJSWorker_copy.pointers OJSWorkerList_copy.pointers OJSAttestationPolicyStatus_copy.pointers OJSAttestationPolicy_copy.pointers OJSAttestationPolicyList_copy.pointers

end

text \<open>C15. Deep copies. For every type but OJSClusterSpec and the two that contain it, \<^verbatim>\<open>DeepCopy\<close> returns nil for
  nil and otherwise a new structure with the same value that shares no memory with the original: no later
  write through one of the two is ever seen through the other. This is what justifies treating these
  objects as values everywhere else. The methods of the Kubernetes types are assumed to be deep.\<close>

theorem deep_copies_separate:
  assumes "library_laws L"
  shows "separates SecretKeyRef_DeepCopy (look_ptr inSecretKeyRef rret) \<and>
     separates AutoScalingSpec_DeepCopy (look_ptr inAutoScalingSpec rret) \<and>
     separates MonitoringSpec_DeepCopy (look_ptr inMonitoringSpec rret) \<and>
     separates WorkerAutoScalingSpec_DeepCopy (look_ptr inWorkerAutoScalingSpec rret) \<and>
     separates GracefulShutdownSpec_DeepCopy (look_ptr inGracefulShutdownSpec rret) \<and>
     separates HardwareRequirement_DeepCopy (look_ptr inHardwareRequirement rret) \<and>
     separates BackendSpec_DeepCopy (look_ptr inBackendSpec look_Backend) \<and>
     separates ModelPolicy_DeepCopy (look_ptr inModelPolicy look_ModelPolicy) \<and>
     separates OJSAttestationPolicySpec_DeepCopy (look_ptr inOJSAttestationPolicySpec look_PolicySpec) \<and>
     separates (OJSClusterStatus_DeepCopy L) (look_ptr inOJSClusterStatus look_ClusterStatus) \<and>
     separates (OJSWorkerSpec_DeepCopy L) (look_ptr inOJSWorkerSpec look_WorkerSpec) \<and>
     separates (OJSWorkerStatus_DeepCopy L) (look_ptr inOJSWorkerStatus look_WorkerStatus) \<and>
     separates (OJSWorker_DeepCopy L) (look_ptr inOJSWorker look_Worker) \<and>
     separates (OJSWorkerList_DeepCopy L) (look_ptr inOJSWorkerList look_WorkerList) \<and>
     separates (OJSAttestationPolicyStatus_DeepCopy L) (look_ptr inOJSAttestationPolicyStatus look_PolicyStatus) \<and>
     separates (OJSAttestationPolicy_DeepCopy L) (look_ptr inOJSAttestationPolicy look_Policy) \<and>
     separates (OJSAttestationPolicyList_DeepCopy L) (look_ptr inOJSAttestationPolicyList look_PolicyList)"
  unfolding SecretKeyRef_DeepCopy_def
    AutoScalingSpec_DeepCopy_def
    MonitoringSpec_DeepCopy_def
    WorkerAutoScalingSpec_DeepCopy_def
    GracefulShutdownSpec_DeepCopy_def
    HardwareRequirement_DeepCopy_def
    BackendSpec_DeepCopy_def
    ModelPolicy_DeepCopy_def
    OJSAttestationPolicySpec_DeepCopy_def
    OJSClusterStatus_DeepCopy_def
    OJSWorkerSpec_DeepCopy_def
    OJSWorkerStatus_DeepCopy_def
    OJSWorker_DeepCopy_def
    OJSWorkerList_DeepCopy_def
    OJSAttestationPolicyStatus_DeepCopy_def
    OJSAttestationPolicy_DeepCopy_def
    OJSAttestationPolicyList_DeepCopy_def
  by (intro conjI library_laws.struct_pointers [OF assms] SecretKeyRef_copy.pointers
    AutoScalingSpec_copy.pointers
    MonitoringSpec_copy.pointers
    WorkerAutoScalingSpec_copy.pointers
    GracefulShutdownSpec_copy.pointers
    HardwareRequirement_copy.pointers
    BackendSpec_copy.pointers
    ModelPolicy_copy.pointers
    OJSAttestationPolicySpec_copy.pointers)

subsection \<open>A memory to look at\<close>

definition nilMeta :: ObjectMeta_mem where
  "nilMeta = \<lparr>mom_name = ''c'', mom_namespace = ''d'', mom_uid = [], mom_resourceVersion = [], mom_generation = 1,
     mom_labels = None, mom_finalizers = None, mom_ownerReferences = None, mom_deletionTimestamp = None\<rparr>"

definition nilResources :: ResourceRequirements_mem where
  "nilResources = \<lparr>mrr_limits = None, mrr_requests = None, mrr_claims = None\<rparr>"

definition memWorker :: OJSWorker_mem where
  "memWorker = \<lparr>mwk_type = \<lparr>tm_kind = ''OJSWorker'', tm_apiVersion = ''v1''\<rparr>, mwk_meta = nilMeta,
     mwk_spec = \<lparr>mws_clusterRef = ''c'', mws_jobTypes = Some 0, mws_queues = None, mws_concurrency = 0,
       mws_replicas = None, mws_image = ''i'', mws_command = None, mws_env = None, mws_resources = nilResources,
       mws_autoScaling = None, mws_gracefulShutdown = None\<rparr>,
     mwk_status = \<lparr>mwst_phase = [], mwst_replicas = 0, mwst_readyReplicas = 0, mwst_activeJobs = 0,
       mwst_queueDepth = 0, mwst_lastScaleTime = None, mwst_conditions = None\<rparr>\<rparr>"

definition nilSecurity :: PodSecuritySpec_mem where
  "nilSecurity = \<lparr>msec_runAsNonRoot = None, msec_runAsUser = None, msec_runAsGroup = None, msec_fsGroup = None,
     msec_readOnlyRootFilesystem = None\<rparr>"

definition memCluster :: OJSCluster_mem where
  "memCluster = \<lparr>mcl_type = \<lparr>tm_kind = ''OJSCluster'', tm_apiVersion = ''v1''\<rparr>, mcl_meta = nilMeta,
     mcl_spec = \<lparr>mcs_backend = \<lparr>mbe_type = ''redis'', mbe_url = [], mbe_urlSecretRef = None, mbe_embedded = True\<rparr>,
       mcs_replicas = None, mcs_image = [], mcs_autoScaling = None, mcs_resources = nilResources,
       mcs_monitoring = None, mcs_securityContext = Some 3, mcs_podDisruptionBudget = None,
       mcs_topologySpreadConstraints = None, mcs_serviceAccountName = []\<rparr>,
     mcl_status = \<lparr>mcst_phase = [], mcst_replicas = 0, mcst_readyReplicas = 0, mcst_queueDepth = 0,
       mcst_activeJobs = 0, mcst_conditions = None\<rparr>\<rparr>"

text \<open>Job types at 0, a worker at 1, a boolean at 2, a security context at 3 that points to it, a cluster at 4.\<close>

definition demoMemory :: memory where
  "demoMemory = \<lparr>mem_next = 5, mem_cell = [0 \<mapsto> StringsCell [''mail''], 1 \<mapsto> OJSWorkerCell memWorker,
     2 \<mapsto> BoolCell True, 3 \<mapsto> PodSecuritySpecCell (nilSecurity\<lparr>msec_runAsNonRoot := Some 2\<rparr>),
     4 \<mapsto> OJSClusterCell memCluster]\<rparr>"

lemma good_demoMemory: "good_mem demoMemory"
  by (auto simp: good_mem_def demoMemory_def split: if_splits)

lemmas look_defs = look_ptr_def look_list_def look_map_def rbind_def rret_def rderef_def variant_def
  look_ObjectMeta_def look_Resources_def

lemma demo_worker_reads: "\<exists>v A. look_ptr inOJSWorker look_Worker (Some 1) demoMemory = Some (Some v, A)"
  by (simp add: look_defs look_Worker_def look_WorkerSpec_def look_WorkerStatus_def demoMemory_def memWorker_def
      nilMeta_def nilResources_def inOJSWorker_def inStrings_def)

lemma demo_cluster_reads:
  "\<exists>v A. look_Cluster memCluster demoMemory = Some (v, A)"
  "\<exists>v A. look_ptr inOJSCluster look_Cluster (Some 4) demoMemory = Some (Some v, A)"
  by (simp_all add: look_defs look_Cluster_def look_ClusterSpec_def look_ClusterStatus_def look_Backend_def
      look_PodSecurity_def demoMemory_def memCluster_def nilMeta_def nilResources_def nilSecurity_def
      inOJSCluster_def inPodSecuritySpec_def inBool_def)

theorem deep_copies_separate_witness:
  "\<exists>v q h'. run_state (OJSWorker_DeepCopy memLibrary (Some 1)) demoMemory = (q, h') \<and> q \<noteq> None \<and>
     separate_copy (look_ptr inOJSWorker look_Worker) (Some 1) (Some v) demoMemory q h'"
proof -
  have sep: "separates (OJSWorker_DeepCopy memLibrary) (look_ptr inOJSWorker look_Worker)"
    using deep_copies_separate [OF memLib.library_laws_axioms] by blast
  obtain v A where v: "look_ptr inOJSWorker look_Worker (Some 1) demoMemory = Some (Some v, A)"
    using demo_worker_reads by blast
  obtain q h' where run: "run_state (OJSWorker_DeepCopy memLibrary (Some 1)) demoMemory = (q, h')"
    by fastforce
  show ?thesis using sep [unfolded separates_def] good_demoMemory v run by blast
qed

subsection \<open>OJSCluster\<close>

lemma spec_copy_keeps:
  assumes "run_state (OJSClusterSpec_DeepCopyInto L s) h = (t, h')"
  shows "mcs_securityContext t = mcs_securityContext s"
  using assms unfolding OJSClusterSpec_DeepCopyInto_def
  by (auto split: prod.splits)

lemma cluster_copy_keeps:
  assumes "run_state (OJSCluster_DeepCopyInto L c) h = (d, h')"
  shows "mcs_securityContext (mcl_spec d) = mcs_securityContext (mcl_spec c)"
  using assms unfolding OJSCluster_DeepCopyInto_def Let_def
  by (auto split: prod.splits dest: spec_copy_keeps)

lemma look_stored:
  assumes "lawful k" "look p (store_cell k a p h) = Some (q, B)"
  shows "map_option fst (look_ptr k look (Some a) (store_cell k a p h)) = Some (Some q)"
  using assms by (simp add: look_ptr_def rbind_def rret_def rderef_def store_cell_def)

text \<open>C16. The copy of an OJSCluster is not deep. It has the same value, but it shares with the original exactly the memory
  of SecurityContext, PodDisruptionBudget and TopologySpreadConstraints; when the cluster has none of these, it is
  separate. Sharing is harmful: what is stored through the SecurityContext of the copy is what a reader of
  the original sees from then on.\<close>

theorem cluster_copy_shares:
  assumes "library_laws L" "good_mem h" "look_Cluster c h = Some (v, A)"
    and "run_state (OJSCluster_DeepCopyInto L c) h = (d, h')"
  shows "(\<exists>B. look_Cluster d h' = Some (v, B) \<and> B \<inter> dom (mem_cell h) = spec_shared (mcl_spec c) h) \<and>
    (spec_shared (mcl_spec c) h = {} \<longrightarrow> separate_copy look_Cluster c v h d h') \<and>
    (\<forall>a p q B. mcs_securityContext (mcl_spec d) = Some a \<longrightarrow>
       look_PodSecurity p (store_cell inPodSecuritySpec a p h') = Some (q, B) \<longrightarrow>
       map_option fst (look_ptr inPodSecuritySpec look_PodSecurity (mcs_securityContext (mcl_spec c))
         (store_cell inPodSecuritySpec a p h')) = Some (Some q))"
proof (intro conjI allI impI)
  have made: "grows h h'" "made h h' (look_Cluster d) v (spec_shared (mcl_spec c) h)"
    using copies_clones [OF library_laws.OJSCluster_shares [OF assms(1)], of c] assms(2-4)
    unfolding clones_if_def by (metis grows_refl prod.inject)+
  then show "separate_copy look_Cluster c v h d h'" if "spec_shared (mcl_spec c) h = {}"
    using that separate_copyI [where look = look_Cluster, OF local_look_Cluster assms(3)] by simp
  from made show "\<exists>B. look_Cluster d h' = Some (v, B) \<and> B \<inter> dom (mem_cell h) = spec_shared (mcl_spec c) h"
    by (simp add: made_def)
qed (metis cluster_copy_keeps [OF assms(4)] look_stored lawful_PodSecuritySpec)

theorem cluster_copy_shares_witness:
  "\<exists>d h' B v. run_state (OJSCluster_DeepCopyInto memLibrary memCluster) demoMemory = (d, h') \<and>
     look_Cluster d h' = Some (v, B) \<and> B \<inter> dom (mem_cell demoMemory) = {2, 3}"
proof -
  obtain v A where v: "look_Cluster memCluster demoMemory = Some (v, A)" using demo_cluster_reads(1) by blast
  obtain d h' where run: "run_state (OJSCluster_DeepCopyInto memLibrary memCluster) demoMemory = (d, h')"
    by fastforce
  have "spec_shared (mcl_spec memCluster) demoMemory = {2, 3}"
    by (auto simp: spec_shared_def footprint_def look_defs look_PodSecurity_def memCluster_def demoMemory_def
        nilSecurity_def inPodSecuritySpec_def inBool_def)
  then show ?thesis
    using cluster_copy_shares [OF memLib.library_laws_axioms good_demoMemory v run] run by metis
qed

subsection \<open>DeepCopyObject\<close>

text \<open>\<open>copies_object t obj look\<close>: \<^verbatim>\<open>DeepCopyObject\<close> of nil is the nil interface and allocates nothing; of any other
  pointer it is a new object of dynamic type \<open>t\<close> with the value of the original.\<close>

definition copies_object ::
  "object_type \<Rightarrow> (ptr \<Rightarrow> (memory, object_value) state) \<Rightarrow> (ptr \<Rightarrow> (cell, 'v option) reader) \<Rightarrow> bool" where
  "copies_object t obj look \<longleftrightarrow> (\<forall>h. run_state (obj None) h = (None, h)) \<and>
     (\<forall>h a v A. good_mem h \<longrightarrow> look (Some a) h = Some (Some v, A) \<longrightarrow>
       (\<exists>b h'. run_state (obj (Some a)) h = (Some (t, Some b), h') \<and> b \<notin> dom (mem_cell h) \<and>
          good_mem h' \<and> grows h h' \<and> map_option fst (look (Some b) h') = Some (Some v)))"

lemma copy_ptr_new:
  assumes copies: "copies_sharing copy look S" and "lawful k" "good_mem h"
    and read: "look_ptr k look (Some a) h = Some (w, A)" and run: "run_state (copy_ptr k copy (Some a)) h = (Some b, h')"
  shows "b \<notin> dom (mem_cell h)"
proof -
  obtain c x v B where c: "mem_cell h a = Some c" "ck_get k c = Some x" "look x h = Some (v, B)"
    using read by (auto simp: look_ptr_def rbind_def rderef_def rret_def split: option.splits)
  obtain y h1 where y: "run_state (copy x) h = (y, h1)" "good_mem h1" "grows h h1"
    using copies_clones [OF copies, of x] assms(3) c(3) unfolding clones_if_def by blast
  then have "run_state (new_cell k y) h1 = (b, h')"
    using run c(1,2) by (auto simp: copy_ptr_def deref_def State_Monad.bind_def State_Monad.return_def split: prod.splits)
  then show ?thesis
    using new_cell_grows(1) y(2,3) unfolding grows_def by (metis map_le_implies_dom_le subsetD)
qed

lemma copies_object_ptr:
  assumes copies: "copies_sharing copy look S" and k: "lawful k"
  shows "copies_object t (\<lambda>p. as_object t (copy_ptr k copy p)) (look_ptr k look)"
  unfolding copies_object_def
proof (intro conjI allI impI)
  show "run_state (as_object t (copy_ptr k copy None)) h = (None, h)" for h
    by (simp add: as_object_def copy_ptr_def State_Monad.bind_def State_Monad.return_def)
next
  fix h a v A
  assume h: "good_mem h" and v: "look_ptr k look (Some a) h = Some (Some v, A)"
  obtain q h' where q: "run_state (copy_ptr k copy (Some a)) h = (q, h')" "good_mem h'" "grows h h'"
    "made h h' (look_ptr k look q) (Some v) (shared_ptr k S (Some a) h)"
    using copies_clones [OF copies_ptr [OF copies k], of "Some a"] h v unfolding clones_if_def by blast
  then obtain b where b: "q = Some b" using copy_ptr_nil_iff by blast
  have "run_state (as_object t (copy_ptr k copy (Some a))) h = (Some (t, Some b), h')"
    using q(1) b by (simp add: as_object_def State_Monad.bind_def State_Monad.return_def)
  moreover have "b \<notin> dom (mem_cell h)" by (rule copy_ptr_new [OF copies k h v q(1) [unfolded b]])
  ultimately show "\<exists>b h'. run_state (as_object t (copy_ptr k copy (Some a))) h = (Some (t, Some b), h') \<and>
      b \<notin> dom (mem_cell h) \<and> good_mem h' \<and> grows h h' \<and> map_option fst (look_ptr k look (Some b) h') = Some (Some v)"
    using q b by (auto simp: made_def)
qed

text \<open>C31. \<^verbatim>\<open>DeepCopyObject\<close> keeps the type. For each of the six kinds of the API, \<^verbatim>\<open>DeepCopyObject\<close> of a nil pointer is the nil
  interface (never an interface holding a nil pointer) and allocates nothing; of any other pointer it is a newly
  allocated object of the same Go type and the same value.\<close>

theorem DeepCopyObject_typed:
  assumes "library_laws L"
  shows "copies_object TCluster (OJSCluster_DeepCopyObject L) (look_ptr inOJSCluster look_Cluster) \<and>
     copies_object TClusterList (OJSClusterList_DeepCopyObject L) (look_ptr inOJSClusterList look_ClusterList) \<and>
     copies_object TWorker (OJSWorker_DeepCopyObject L) (look_ptr inOJSWorker look_Worker) \<and>
     copies_object TWorkerList (OJSWorkerList_DeepCopyObject L) (look_ptr inOJSWorkerList look_WorkerList) \<and>
     copies_object TPolicy (OJSAttestationPolicy_DeepCopyObject L) (look_ptr inOJSAttestationPolicy look_Policy) \<and>
     copies_object TPolicyList (OJSAttestationPolicyList_DeepCopyObject L) (look_ptr inOJSAttestationPolicyList look_PolicyList)"
  unfolding OJSCluster_DeepCopyObject_def [abs_def] OJSClusterList_DeepCopyObject_def [abs_def]
    OJSWorker_DeepCopyObject_def [abs_def] OJSWorkerList_DeepCopyObject_def [abs_def]
    OJSAttestationPolicy_DeepCopyObject_def [abs_def] OJSAttestationPolicyList_DeepCopyObject_def [abs_def]
    OJSCluster_DeepCopy_def OJSClusterList_DeepCopy_def OJSWorker_DeepCopy_def OJSWorkerList_DeepCopy_def
    OJSAttestationPolicy_DeepCopy_def OJSAttestationPolicyList_DeepCopy_def
  using library_laws.OJSCluster_shares [OF assms] library_laws.OJSClusterList_shares [OF assms]
    library_laws.OJSWorker_deep [OF assms] library_laws.OJSWorkerList_deep [OF assms]
    library_laws.OJSAttestationPolicy_deep [OF assms] library_laws.OJSAttestationPolicyList_deep [OF assms]
  by (intro conjI) (rule copies_object_ptr, assumption, rule cell_laws)+

theorem DeepCopyObject_typed_witness:
  "\<exists>b h'. run_state (OJSCluster_DeepCopyObject memLibrary (Some 4)) demoMemory = (Some (TCluster, Some b), h') \<and>
     b \<notin> dom (mem_cell demoMemory)"
proof -
  have "copies_object TCluster (OJSCluster_DeepCopyObject memLibrary) (look_ptr inOJSCluster look_Cluster)"
    using DeepCopyObject_typed [OF memLib.library_laws_axioms] by blast
  then show ?thesis
    using demo_cluster_reads(2) good_demoMemory unfolding copies_object_def by blast
qed

end
