(* ===== verification/Manager.thy ===== *)
theory Manager
  imports Plans DeepCopy
begin

text \<open>
  The process around the controllers: \<^verbatim>\<open>cmd/manager/main.go\<close>, the registration of the API types, and
  \<^verbatim>\<open>SetupWithManager\<close> of both reconcilers. controller-runtime is the parameter \<open>'s runtime\<close>. Log lines
  and the logger's options are left out.
\<close>

subsection \<open>What is set up\<close>

text \<open>The types that the \<^verbatim>\<open>init\<close> functions of \<^verbatim>\<open>api/v1alpha1\<close> register, in the group and version of
  \<^verbatim>\<open>groupversion_info.go\<close>.\<close>

definition GroupVersion :: "string \<times> string" where
  "GroupVersion = (''ojs.openjobspec.dev'', ''v1alpha1'')"

definition policyTypes :: "object_type list" where "policyTypes = [TPolicy, TPolicyList]"
definition clusterTypes :: "object_type list" where "clusterTypes = [TCluster, TClusterList]"
definition workerTypes :: "object_type list" where "workerTypes = [TWorker, TWorkerList]"

definition registeredTypes :: "object_type list" where
  "registeredTypes = policyTypes @ clusterTypes @ workerTypes"

record ManagerOptions =
  mo_HealthProbeBindAddress :: string
  mo_LeaderElection :: bool
  mo_LeaderElectionID :: string

definition managerOptions :: ManagerOptions where
  "managerOptions = \<lparr>mo_HealthProbeBindAddress = '':8081'', mo_LeaderElection = True,
     mo_LeaderElectionID = ''ojs-k8s-operator.openjobspec.dev''\<rparr>"

record Controller =
  ctl_for :: kind
  ctl_owns :: "kind list"
  ctl_named :: string
  ctl_recorder :: string \<comment> \<open>the source of its events\<close>

definition clusterController :: "string \<Rightarrow> Controller" where
  "clusterController recorder = \<lparr>ctl_for = KCluster, ctl_owns = [KDeployment, KService, KConfigMap, KPDB],
     ctl_named = ''ojscluster'', ctl_recorder = recorder\<rparr>"

definition workerController :: "string \<Rightarrow> Controller" where
  "workerController recorder = \<lparr>ctl_for = KWorker, ctl_owns = [KDeployment, KHPA],
     ctl_named = ''ojsworker'', ctl_recorder = recorder\<rparr>"

datatype validator = OJSClusterValidator | OJSWorkerValidator

subsection \<open>The parameter\<close>

record 's runtime =
  AddToScheme :: "object_type list \<Rightarrow> ('s, goerror option) state" \<comment> \<open>[] stands for the scheme of client-go\<close>
  GetConfigOrDie :: "('s, goerror option) state"
  NewManager :: "ManagerOptions \<Rightarrow> ('s, goerror option) state"
  CompleteController :: "Controller \<Rightarrow> ('s, goerror option) state"
  Getenv :: "string \<Rightarrow> ('s, string) state"
  CompleteWebhook :: "kind \<Rightarrow> validator \<Rightarrow> ('s, goerror option) state"
  AddHealthzCheck :: "string \<Rightarrow> ('s, goerror option) state"
  AddReadyzCheck :: "string \<Rightarrow> ('s, goerror option) state"
  StartManager :: "('s, goerror option) state"

subsection \<open>main\<close>

datatype exit = Returned | Exited int | Panicked goerror

definition or_end :: "('s, goerror option) state \<Rightarrow> (goerror \<Rightarrow> exit) \<Rightarrow> ('s, exit) state \<Rightarrow> ('s, exit) state" where
  "or_end m ending k = State_Monad.bind m (\<lambda>err. case err of Some e \<Rightarrow> State_Monad.return (ending e) | None \<Rightarrow> k)"

text \<open>\<^verbatim>\<open>if err != nil { setupLog.Error(..); os.Exit(1) }\<close>\<close>

abbreviation or_exit :: "('s, goerror option) state \<Rightarrow> ('s, exit) state \<Rightarrow> ('s, exit) state" where
  "or_exit m k \<equiv> or_end m (\<lambda>_. Exited 1) k"

definition clusterSetupWithManager :: "'s runtime \<Rightarrow> string \<Rightarrow> ('s, goerror option) state" where
  "clusterSetupWithManager A recorder = CompleteController A (clusterController recorder)"

definition workerSetupWithManager :: "'s runtime \<Rightarrow> string \<Rightarrow> ('s, goerror option) state" where
  "workerSetupWithManager A recorder = CompleteController A (workerController recorder)"

definition mainChecks :: "'s runtime \<Rightarrow> ('s, exit) state" where
  "mainChecks A =
     or_exit (AddHealthzCheck A ''healthz'')
     (or_exit (AddReadyzCheck A ''readyz'')
     (or_exit (StartManager A)
     (State_Monad.return Returned)))"

definition mainWebhooks :: "'s runtime \<Rightarrow> ('s, exit) state" where
  "mainWebhooks A = State_Monad.bind (Getenv A ''ENABLE_WEBHOOKS'') (\<lambda>v.
     if v \<noteq> ''false'' then
       or_exit (CompleteWebhook A KCluster OJSClusterValidator)
       (or_exit (CompleteWebhook A KWorker OJSWorkerValidator)
       (mainChecks A))
     else mainChecks A)"

definition main :: "'s runtime \<Rightarrow> ('s, exit) state" where
  "main A =
     or_exit (GetConfigOrDie A)
     (or_exit (NewManager A managerOptions)
     (or_exit (clusterSetupWithManager A ''ojscluster-controller'')
     (or_exit (workerSetupWithManager A ''ojsworker-controller'')
     (mainWebhooks A))))"

text \<open>The \<^verbatim>\<open>init\<close> of the package runs first; \<^verbatim>\<open>utilruntime.Must\<close> panics on an error.\<close>

definition startProcess :: "'s runtime \<Rightarrow> ('s, exit) state" where
  "startProcess A =
     or_end (AddToScheme A []) Panicked
     (or_end (AddToScheme A registeredTypes) Panicked
     (main A))"

subsection \<open>Logged\<close>

datatype setup_call =
    CallAddToScheme "object_type list"
  | CallGetConfig
  | CallNewManager ManagerOptions
  | CallController Controller
  | CallGetenv string string \<comment> \<open>name and answer\<close>
  | CallWebhook kind validator
  | CallHealthz string
  | CallReadyz string
  | CallStart

type_synonym setup_entry = "setup_call \<times> goerror option"

definition logged_runtime :: "'s runtime \<Rightarrow> ('s \<times> setup_entry list) runtime" where
  "logged_runtime A = \<lparr>
     AddToScheme = (\<lambda>ts. logged (Pair (CallAddToScheme ts)) (AddToScheme A ts)),
     GetConfigOrDie = logged (Pair CallGetConfig) (GetConfigOrDie A),
     NewManager = (\<lambda>o'. logged (Pair (CallNewManager o')) (NewManager A o')),
     CompleteController = (\<lambda>c. logged (Pair (CallController c)) (CompleteController A c)),
     Getenv = (\<lambda>n. logged (\<lambda>v. (CallGetenv n v, None)) (Getenv A n)),
     CompleteWebhook = (\<lambda>k v. logged (Pair (CallWebhook k v)) (CompleteWebhook A k v)),
     AddHealthzCheck = (\<lambda>n. logged (Pair (CallHealthz n)) (AddHealthzCheck A n)),
     AddReadyzCheck = (\<lambda>n. logged (Pair (CallReadyz n)) (AddReadyzCheck A n)),
     StartManager = logged (Pair CallStart) (StartManager A)\<rparr>"

end
