(* ===== verification/ManagerProperties.thy ===== *)
theory ManagerProperties
  imports Manager ClusterProofs WorkerProofs Demo
begin

text \<open>
  What the process sets up before it starts, how it ends, and that the watches registered by
  \<^verbatim>\<open>SetupWithManager\<close> fit what the reconcilers create.
\<close>

subsection \<open>Setup in order\<close>

text \<open>The calls of a complete setup, when \<^verbatim>\<open>ENABLE_WEBHOOKS\<close> has the value \<open>v\<close>.\<close>

definition setupPlan :: "string \<Rightarrow> setup_call list" where
  "setupPlan v =
     [CallAddToScheme [], CallAddToScheme registeredTypes, CallGetConfig, CallNewManager managerOptions,
      CallController (clusterController ''ojscluster-controller''),
      CallController (workerController ''ojsworker-controller''), CallGetenv ''ENABLE_WEBHOOKS'' v] @
     (if v = ''false'' then [] else [CallWebhook KCluster OJSClusterValidator, CallWebhook KWorker OJSWorkerValidator]) @
     [CallHealthz ''healthz'', CallReadyz ''readyz'', CallStart]"

text \<open>\<open>sets_up p x cs\<close>: the calls \<open>cs\<close> all succeed and are the whole plan, and the process returns; or they succeed up
  to one, the last, whose error ends the process.\<close>

definition sets_up :: "setup_call list \<Rightarrow> exit \<Rightarrow> setup_entry list \<Rightarrow> bool" where
  "sets_up p x cs \<longleftrightarrow> (if x = Returned then cs = map (\<lambda>c. (c, None)) p
     else \<exists>done c e rest. p = done @ c # rest \<and> cs = map (\<lambda>c. (c, None)) done @ [(c, Some e)] \<and>
       x = (case c of CallAddToScheme ts \<Rightarrow> Panicked e | _ \<Rightarrow> Exited 1))"

lemma sets_up_Nil: "sets_up [] Returned []"
  by (simp add: sets_up_def)

lemma sets_up_failed:
  "x \<noteq> Returned \<Longrightarrow> x = (case c of CallAddToScheme ts \<Rightarrow> Panicked e | _ \<Rightarrow> Exited 1) \<Longrightarrow> sets_up (c # p) x [(c, Some e)]"
  unfolding sets_up_def by (auto intro: exI [of _ "[]"])

lemma sets_up_Cons: "sets_up p x cs \<Longrightarrow> sets_up (c # p) x ((c, None) # cs)"
  unfolding sets_up_def by (auto split: if_splits) (metis append_Cons list.simps(9))+

lemma traces_or_end:
  assumes "\<And>e. ending e \<noteq> Returned" "\<And>e. ending e = (case c of CallAddToScheme ts \<Rightarrow> Panicked e | _ \<Rightarrow> Exited 1)"
    and "traces k (sets_up p)"
  shows "traces (or_end (logged (Pair c) m) ending k) (sets_up (c # p))"
  unfolding or_end_def
  by (intro traces_bind traces_logged traces_case_option traces_return traces_mono [OF assms(3)])
    (auto intro: sets_up_Cons sets_up_failed [OF assms(1,2)])

lemma traces_mainChecks:
  "traces (mainChecks (logged_runtime A)) (sets_up [CallHealthz ''healthz'', CallReadyz ''readyz'', CallStart])"
  unfolding mainChecks_def logged_runtime_def runtime.simps
  by (intro traces_or_end traces_return sets_up_Nil) simp_all

lemma traces_webhooks:
  "traces (or_exit (CompleteWebhook (logged_runtime A) KCluster OJSClusterValidator)
      (or_exit (CompleteWebhook (logged_runtime A) KWorker OJSWorkerValidator) (mainChecks (logged_runtime A))))
    (sets_up ([CallWebhook KCluster OJSClusterValidator, CallWebhook KWorker OJSWorkerValidator] @
      [CallHealthz ''healthz'', CallReadyz ''readyz'', CallStart]))"
proof -
  note checks = traces_mainChecks [of A]
  show ?thesis
    unfolding logged_runtime_def runtime.simps append.simps
    by (intro traces_or_end checks [unfolded logged_runtime_def]) simp_all
qed

lemma traces_or_end_some:
  assumes "\<And>e. ending e \<noteq> Returned" "\<And>e. ending e = (case c of CallAddToScheme ts \<Rightarrow> Panicked e | _ \<Rightarrow> Exited 1)"
    and "traces k (\<lambda>x cs. \<exists>v. sets_up (p v) x cs)"
  shows "traces (or_end (logged (Pair c) m) ending k) (\<lambda>x cs. \<exists>v. sets_up (c # p v) x cs)"
  unfolding or_end_def
  by (intro traces_bind traces_logged traces_case_option traces_return traces_mono [OF assms(3)])
    (auto intro: sets_up_Cons sets_up_failed [OF assms(1,2)])

lemma traces_mainWebhooks:
  "traces (mainWebhooks (logged_runtime A)) (\<lambda>x cs. \<exists>v. sets_up (CallGetenv ''ENABLE_WEBHOOKS'' v #
     (if v = ''false'' then [] else [CallWebhook KCluster OJSClusterValidator, CallWebhook KWorker OJSWorkerValidator]) @
     [CallHealthz ''healthz'', CallReadyz ''readyz'', CallStart]) x cs)"
proof -
  have getenv: "Getenv (logged_runtime A) n = logged (\<lambda>v. (CallGetenv n v, None)) (Getenv A n)" for n
    by (simp add: logged_runtime_def)
  show ?thesis
    unfolding mainWebhooks_def getenv
  proof (intro traces_bind traces_logged traces_if)
    show "traces (or_exit (CompleteWebhook (logged_runtime A) KCluster OJSClusterValidator)
          (or_exit (CompleteWebhook (logged_runtime A) KWorker OJSWorkerValidator) (mainChecks (logged_runtime A))))
        (\<lambda>x cs. \<exists>v. sets_up (CallGetenv ''ENABLE_WEBHOOKS'' v # (if v = ''false'' then [] else
           [CallWebhook KCluster OJSClusterValidator, CallWebhook KWorker OJSWorkerValidator]) @
           [CallHealthz ''healthz'', CallReadyz ''readyz'', CallStart]) x ([(CallGetenv ''ENABLE_WEBHOOKS'' u, None)] @ cs))"
      if "u \<noteq> ''false''" for u
      by (rule traces_mono [OF traces_webhooks]) (rule exI [of _ u], use that in \<open>simp add: sets_up_Cons\<close>)
    show "traces (mainChecks (logged_runtime A))
        (\<lambda>x cs. \<exists>v. sets_up (CallGetenv ''ENABLE_WEBHOOKS'' v # (if v = ''false'' then [] else
           [CallWebhook KCluster OJSClusterValidator, CallWebhook KWorker OJSWorkerValidator]) @
           [CallHealthz ''healthz'', CallReadyz ''readyz'', CallStart]) x ([(CallGetenv ''ENABLE_WEBHOOKS'' u, None)] @ cs))"
      if "\<not> u \<noteq> ''false''" for u
      by (rule traces_mono [OF traces_mainChecks]) (rule exI [of _ u], use that in \<open>simp add: sets_up_Cons\<close>)
  qed
qed

lemma traces_startProcess: "traces (startProcess (logged_runtime A)) (\<lambda>x cs. \<exists>v. sets_up (setupPlan v) x cs)"
proof -
  note rest = traces_mainWebhooks [of A, unfolded logged_runtime_def]
  show ?thesis
    unfolding startProcess_def main_def clusterSetupWithManager_def workerSetupWithManager_def
      logged_runtime_def runtime.simps setupPlan_def append.simps
    by (intro traces_or_end_some rest) simp_all
qed

text \<open>C17. The manager starts last and only on a complete setup. Whatever the libraries answer, the process registers
  the types, creates the manager with leader election, sets up both controllers, then both webhooks unless
  \<^verbatim>\<open>ENABLE_WEBHOOKS\<close> is false, both health checks, and starts, in this order. It returns only when all of it
  succeeded; the first failure is the last call made and ends the process (a panic while registering types,
  exit code 1 afterwards).\<close>

theorem startProcess_sets_up:
  assumes "observe (startProcess (logged_runtime A)) s = (x, cs)"
  shows "\<exists>v. if x = Returned then cs = map (\<lambda>c. (c, None)) (setupPlan v)
    else \<exists>done c e rest. setupPlan v = done @ c # rest \<and> cs = map (\<lambda>c. (c, None)) done @ [(c, Some e)] \<and>
      x = (case c of CallAddToScheme ts \<Rightarrow> Panicked e | _ \<Rightarrow> Exited 1)"
  using observeD [OF traces_startProcess assms] unfolding sets_up_def .

definition okRuntime :: "unit runtime" where
  "okRuntime = \<lparr>AddToScheme = (\<lambda>_. State_Monad.return None), GetConfigOrDie = State_Monad.return None,
     NewManager = (\<lambda>_. State_Monad.return None), CompleteController = (\<lambda>_. State_Monad.return None),
     Getenv = (\<lambda>_. State_Monad.return []), CompleteWebhook = (\<lambda>_ _. State_Monad.return None),
     AddHealthzCheck = (\<lambda>_. State_Monad.return None), AddReadyzCheck = (\<lambda>_. State_Monad.return None),
     StartManager = State_Monad.return None\<rparr>"

lemma okRuntime_returns: "fst (observe (startProcess (logged_runtime okRuntime)) ()) = Returned"
  by code_simp

theorem startProcess_sets_up_witness:
  "\<exists>v. snd (observe (startProcess (logged_runtime okRuntime)) ()) = map (\<lambda>c. (c, None)) (setupPlan v)"
  using startProcess_sets_up [OF prod.collapse [symmetric], of okRuntime "()"] unfolding okRuntime_returns by simp

subsection \<open>Watches\<close>

fun childKind :: "call \<Rightarrow> kind option" where
  "childKind (ApplyConfigMap cm f) = Some KConfigMap"
| "childKind (ApplyDeployment d f) = Some KDeployment"
| "childKind (ApplyService sv f) = Some KService"
| "childKind (ApplyPDB p f) = Some KPDB"
| "childKind (ApplyServiceMonitor u f) = Some KServiceMonitor"
| "childKind (ApplyHPA hp f) = Some KHPA"
| "childKind (RemoveHPA hp) = Some KHPA"
| "childKind c = None"

text \<open>The watches fit the children. Every kind of object that a reconciliation of a cluster applies is one its
  controller is called back for, except the ServiceMonitor (whose loss or change is noticed only at the next event
  for something else); for workers there is no exception. Both resources are registered with the scheme under which
  the manager runs.\<close>

lemma watches_fit:
  "set (map childKind (clusterPlan setRef c)) - {Some KServiceMonitor} \<subseteq> Some ` set (ctl_owns (clusterController rec)) \<and>
   KServiceMonitor \<notin> set (ctl_owns (clusterController rec)) \<and>
   set (map childKind (workerPlan setRef w c rm)) \<subseteq> Some ` set (ctl_owns (workerController rec)) \<and>
   ctl_for (clusterController rec) = KCluster \<and> {TCluster, TClusterList} \<subseteq> set registeredTypes \<and>
   ctl_for (workerController rec) = KWorker \<and> {TWorker, TWorkerList} \<subseteq> set registeredTypes"
  by (auto simp: clusterPlan_def redisPlan_def serverPlan_def workerPlan_def hpaPlan_def clusterController_def
      workerController_def registeredTypes_def clusterTypes_def workerTypes_def Let_def
      split: option.splits if_splits)

end
