(* ===== verification/Permissions.thy ===== *)
theory Permissions
  imports ClusterProperties WorkerProperties
begin

text \<open>
  The permissions of the operator: the \<^verbatim>\<open>kubebuilder:rbac\<close> markers of the two controllers and the role
  that is deployed, \<^verbatim>\<open>config/rbac/role.yaml\<close>, against the API requests behind the calls of the reconcilers.
\<close>

subsection \<open>Rules\<close>

record rule =
  rule_groups :: "string list"
  rule_resources :: "string list"
  rule_verbs :: "string list"

record api_request =
  rq_group :: string
  rq_resource :: string
  rq_verb :: string

definition allows :: "rule list \<Rightarrow> api_request \<Rightarrow> bool" where
  "allows rules q \<longleftrightarrow> list_ex (\<lambda>r. rq_group q \<in> set (rule_groups r) \<and>
     rq_resource q \<in> set (rule_resources r) \<and> rq_verb q \<in> set (rule_verbs r)) rules"

definition allVerbs :: "string list" where
  "allVerbs = [''get'', ''list'', ''watch'', ''create'', ''update'', ''patch'', ''delete'']"

definition ojsGroup :: string where "ojsGroup = ''ojs.openjobspec.dev''"

definition rbac :: "string \<Rightarrow> string list \<Rightarrow> string list \<Rightarrow> rule" where
  "rbac g resources verbs = \<lparr>rule_groups = [g], rule_resources = resources, rule_verbs = verbs\<rparr>"

definition clusterMarkers :: "rule list" where
  "clusterMarkers = [
     rbac ojsGroup [''ojsclusters''] allVerbs,
     rbac ojsGroup [''ojsclusters/status''] [''get'', ''update'', ''patch''],
     rbac ojsGroup [''ojsclusters/finalizers''] [''update''],
     rbac ''apps'' [''deployments''] allVerbs,
     rbac ''core'' [''services'', ''configmaps''] allVerbs,
     rbac ''core'' [''events''] [''create'', ''patch''],
     rbac ''policy'' [''poddisruptionbudgets''] allVerbs,
     rbac ''monitoring.coreos.com'' [''servicemonitors''] allVerbs]"

definition workerMarkers :: "rule list" where
  "workerMarkers = [
     rbac ojsGroup [''ojsworkers''] allVerbs,
     rbac ojsGroup [''ojsworkers/status''] [''get'', ''update'', ''patch''],
     rbac ojsGroup [''ojsworkers/scale''] [''get'', ''update'', ''patch''],
     rbac ojsGroup [''ojsworkers/finalizers''] [''update''],
     rbac ''apps'' [''deployments''] allVerbs,
     rbac ''autoscaling'' [''horizontalpodautoscalers''] allVerbs,
     rbac ''core'' [''events''] [''create'', ''patch'']]"

text \<open>The role names the core group by its real name, the empty string; the order of its verbs does not matter.\<close>

definition deployedRole :: "rule list" where
  "deployedRole = [
     rbac ojsGroup [''ojsclusters'', ''ojsworkers''] allVerbs,
     rbac ojsGroup [''ojsclusters/status'', ''ojsworkers/status''] [''get'', ''patch'', ''update''],
     rbac ojsGroup [''ojsclusters/finalizers'', ''ojsworkers/finalizers''] [''update''],
     rbac ojsGroup [''ojsworkers/scale''] [''get'', ''patch'', ''update''],
     rbac ''apps'' [''deployments''] allVerbs,
     rbac '''' [''services'', ''configmaps''] allVerbs,
     rbac '''' [''events''] [''create'', ''patch''],
     rbac ''autoscaling'' [''horizontalpodautoscalers''] allVerbs,
     rbac ''monitoring.coreos.com'' [''servicemonitors''] allVerbs]"

text \<open>The role of the Helm chart is the same, but its last rule is an option, \<^verbatim>\<open>serviceMonitor.rbac.enabled\<close>.\<close>

definition chartRole :: "bool \<Rightarrow> rule list" where
  "chartRole monitors = [
     rbac ojsGroup [''ojsclusters'', ''ojsworkers''] allVerbs,
     rbac ojsGroup [''ojsclusters/status'', ''ojsworkers/status''] [''get'', ''patch'', ''update''],
     rbac ojsGroup [''ojsclusters/finalizers'', ''ojsworkers/finalizers''] [''update''],
     rbac ojsGroup [''ojsworkers/scale''] [''get'', ''patch'', ''update''],
     rbac ''apps'' [''deployments''] allVerbs,
     rbac '''' [''services'', ''configmaps''] allVerbs,
     rbac '''' [''events''] [''create'', ''patch''],
     rbac ''autoscaling'' [''horizontalpodautoscalers''] allVerbs] @
     (if monitors then [rbac ''monitoring.coreos.com'' [''servicemonitors''] allVerbs] else [])"

subsection \<open>Requests\<close>

text \<open>The API requests that a call of the client may make: a read goes to the server or to a cache that lists and
  watches; \<^verbatim>\<open>CreateOrUpdate\<close> reads, then creates or updates. \<open>core\<close> is the name of the core group in the rules.\<close>

definition requests :: "string \<Rightarrow> string \<Rightarrow> string list \<Rightarrow> api_request list" where
  "requests g resource verbs = map (\<lambda>v. \<lparr>rq_group = g, rq_resource = resource, rq_verb = v\<rparr>) verbs"

definition reading :: "string list" where "reading = [''get'', ''list'', ''watch'']"
definition applying :: "string list" where "applying = reading @ [''create'', ''update'']"

fun needs :: "string \<Rightarrow> call \<Rightarrow> api_request list" where
  "needs core (ReadCluster k) = requests ojsGroup ''ojsclusters'' reading"
| "needs core (ReadWorker k) = requests ojsGroup ''ojsworkers'' reading"
| "needs core (ReadDeployment k) = requests ''apps'' ''deployments'' reading"
| "needs core (ReadHPA k) = requests ''autoscaling'' ''horizontalpodautoscalers'' reading"
| "needs core (WriteCluster c) = requests ojsGroup ''ojsclusters'' [''update'']"
| "needs core (WriteWorker w) = requests ojsGroup ''ojsworkers'' [''update'']"
| "needs core (WriteClusterStatus c) = requests ojsGroup ''ojsclusters/status'' [''update'']"
| "needs core (WriteWorkerStatus w) = requests ojsGroup ''ojsworkers/status'' [''update'']"
| "needs core (RemoveHPA h) = requests ''autoscaling'' ''horizontalpodautoscalers'' [''delete'']"
| "needs core (ApplyConfigMap cm f) = requests core ''configmaps'' applying"
| "needs core (ApplyDeployment d f) = requests ''apps'' ''deployments'' applying"
| "needs core (ApplyService sv f) = requests core ''services'' applying"
| "needs core (ApplyPDB p f) = requests ''policy'' ''poddisruptionbudgets'' applying"
| "needs core (ApplyServiceMonitor u f) = requests ''monitoring.coreos.com'' ''servicemonitors'' applying"
| "needs core (ApplyHPA h f) = requests ''autoscaling'' ''horizontalpodautoscalers'' applying"
| "needs core (Emit ev) = requests core ''events'' [''create'', ''patch'']"

definition permitted :: "string \<Rightarrow> rule list \<Rightarrow> call \<Rightarrow> bool" where
  "permitted core rules c \<longleftrightarrow> list_all (allows rules) (needs core c)"

lemmas rule_defs = permitted_def allows_def requests_def reading_def applying_def rbac_def allVerbs_def
  clusterMarkers_def workerMarkers_def deployedRole_def chartRole_def ojsGroup_def

fun isBudget :: "call \<Rightarrow> bool" where
  "isBudget (ApplyPDB p f) = True"
| "isBudget c = False"

fun isMonitor :: "call \<Rightarrow> bool" where
  "isMonitor (ApplyServiceMonitor u f) = True"
| "isMonitor c = False"

text \<open>The markers in the source permit every call of the two reconcilers. The deployed role permits every call but one: it
  lacks poddisruptionbudgets, so a request for a PodDisruptionBudget is always forbidden; so does the chart.\<close>

lemma permissions:
  "permitted ''core'' (clusterMarkers @ workerMarkers) c \<and> (permitted '''' deployedRole c \<longleftrightarrow> \<not> isBudget c) \<and>
   (permitted '''' (chartRole monitors) c \<longleftrightarrow> \<not> isBudget c \<and> (monitors \<or> \<not> isMonitor c))"
  by (cases c; cases monitors) (simp_all add: rule_defs)

text \<open>An API server with these rules refuses what they do not permit.\<close>

definition enforces :: "'s kube \<Rightarrow> rule list \<Rightarrow> bool" where
  "enforces K rules \<longleftrightarrow>
     (\<forall>p f. \<not> permitted '''' rules (ApplyPDB p f) \<longrightarrow> answers (CreateOrUpdatePDB K p f) isl) \<and>
     (\<forall>u f. \<not> permitted '''' rules (ApplyServiceMonitor u f) \<longrightarrow> answers (CreateOrUpdateUnstructured K u f) isl)"

lemma enforced_budget:
  "enforces K deployedRole \<Longrightarrow> answers (CreateOrUpdatePDB K p f) isl"
  "enforces K (chartRole monitors) \<Longrightarrow> answers (CreateOrUpdatePDB K p f) isl"
  using permissions by (auto simp: enforces_def)

subsection \<open>What the missing permission does\<close>

lemma traces_refusedPDB:
  assumes "\<And>p f. answers (CreateOrUpdatePDB (rc_client r) p f) isl" "pdbWanted c"
  shows "traces (clusterChildren (logged_reconciler r) c) (\<lambda>res cs. snd res \<noteq> None)"
proof -
  have answer: "answers (CreateOrUpdatePDB (rc_client r) p f) isl" for p f by (rule assms(1))
  show ?thesis
    using assms(2)
    unfolding clusterChildren_def reconcileConfigMap_def reconcileDeployment_def reconcileService_def
      reconcilePDB_def requeueWith_def logged_reconciler_client logged_kube_calls
    by (auto intro!: traces_if_err traces_logged traces_return traces_logged_answers [OF answer])
qed

lemma traces_refusedBackend:
  assumes "\<And>p f. answers (CreateOrUpdatePDB (rc_client r) p f) isl" "pdbWanted c"
  shows "traces (clusterBackend (logged_reconciler r) c) (\<lambda>res cs. snd res \<noteq> None)"
proof -
  have children: "traces (clusterChildren (logged_reconciler r) c') (\<lambda>res cs. snd res \<noteq> None)"
    if same: "status_only c c'" for c'
  proof -
    obtain st where c': "c' = c\<lparr>cl_status := st\<rparr>" using status_only_update [OF same] by blast
    show ?thesis unfolding c' by (rule traces_refusedPDB [OF assms(1)]) (simp add: assms(2))
  qed
  have failed: "traces (clusterBackendFailed (logged_reconciler r) c e) (\<lambda>res cs. snd res \<noteq> None)" for e
    using fails_clusterBackendFailed [unfolded fails_def] by (rule traces_mono) simp
  let ?cond = "(condBackend, ConditionTrue, ''BackendReady'', ''Embedded backend is running'')"
  have ready: "traces (State_Monad.bind (setCondition (logged_reconciler r) c ?cond) (clusterChildren (logged_reconciler r)))
      (\<lambda>res cs. snd res \<noteq> None)"
    by (rule traces_bind, rule traces_mono [OF traces_setCondition]) (use children in auto)
  have embedded: "traces (reconcileEmbeddedBackend (logged_reconciler r) c) (\<lambda>x cs. True)"
    by (rule traces_mono [OF blames_embedded [unfolded blames_def]]) simp
  show ?thesis
    unfolding clusterBackend_def
    by (intro traces_if traces_if_err traces_mono [OF embedded])
      (simp_all del: not_None_eq add: failed ready children [OF status_only_refl])
qed

text \<open>When the API server refuses every PodDisruptionBudget, as it does under the deployed role, then every
  reconciliation of a live cluster that wants one (more than one replica and not disabled) reports an error. The default cluster with two replicas is of this kind.\<close>

lemma forbidden_budget_never_reconciled:
  assumes refused: "\<And>p f. answers (CreateOrUpdatePDB (rc_client r) p f) isl" and echo: "api_echo (rc_client r)"
    and read: "fst (run_state (GetOJSCluster (rc_client r) req) s) = Inr c"
    and live: "IsZero (om_deletionTimestamp (cl_meta c))" and wanted: "pdbWanted c"
    and run: "observe (Reconcile (logged_reconciler r) req) s = (res, cs)"
  shows "snd res \<noteq> None"
proof -
  have "pdbWanted c'" if "kept (rc_client r) c c'" for c'
    using that echo wanted by (simp add: kept_def same_demands_def pdbWanted_def clusterReplicas_def cong: option.case_cong split: if_splits)
  then have "\<exists>ds. cs = (ReadCluster req, None) # ds \<and> snd res \<noteq> None"
    by (intro live_run [OF api_echo.axioms(1) [OF echo] read live run] traces_refusedBackend [OF refused]) simp_all
  then show ?thesis by simp
qed

text \<open>The API server of the deployed role, in memory.\<close>

definition forbidden :: goerror where
  "forbidden = \<lparr>err_notfound = False, err_text = ''forbidden''\<rparr>"

definition roleReconciler :: "world reconciler" where
  "roleReconciler = memReconciler\<lparr>rc_client :=
     memKube\<lparr>CreateOrUpdatePDB := (\<lambda>_ _. State_Monad.return (Inl forbidden))\<rparr>\<rparr>"

lemma role_enforced: "enforces (rc_client roleReconciler) deployedRole"
  using permissions by (simp add: enforces_def roleReconciler_def answers_def)

lemma role_echo: "api_echo (rc_client roleReconciler)"
proof -
  note laws = mem.api_echo_axioms [unfolded api_echo_def api_names_def api_echo_axioms_def]
  show ?thesis
    unfolding api_echo_def api_names_def api_echo_axioms_def roleReconciler_def using laws by simp
qed

end
