(* ===== verification/LoggedRuns.thy ===== *)
theory LoggedRuns
  imports ClusterController WorkerController
begin

text \<open>
  What a reconciliation does to its environment, read off its log. A relation \<open>R s cs s'\<close> between two states of the
  environment and the calls made between them holds of a whole reconciliation as soon as it holds of no calls at all,
  passes from parts to sequences, and holds of every single call of the client. The locale \<open>log_relation\<close> is
  such a relation, \<open>client_relation\<close> one that a client respects; the lemmas inside it say that both reconcilers respect it
  too. ChildStore and ControlLoop instantiate it.
\<close>

subsection \<open>Runs and calls within a relation\<close>

definition runs_in :: "('s \<Rightarrow> entry list \<Rightarrow> 's \<Rightarrow> bool) \<Rightarrow> ('s \<times> entry list, 'a) state \<Rightarrow> bool" where
  "runs_in R m \<longleftrightarrow> (\<forall>s tr a s' tr'. run_state m (s, tr) = (a, (s', tr')) \<longrightarrow> (\<exists>cs. tr' = tr @ cs \<and> R s cs s'))"

definition call_in :: "('s \<Rightarrow> entry list \<Rightarrow> 's \<Rightarrow> bool) \<Rightarrow> call \<Rightarrow> ('s, goerror + 'a) state \<Rightarrow> bool" where
  "call_in R c m \<longleftrightarrow> (\<forall>s x s'. run_state m s = (x, s') \<longrightarrow> R s [entry_of c x] s')"

definition quiet_in :: "('s \<Rightarrow> entry list \<Rightarrow> 's \<Rightarrow> bool) \<Rightarrow> ('s, 'a) state \<Rightarrow> bool" where
  "quiet_in R m \<longleftrightarrow> (\<forall>s x s'. run_state m s = (x, s') \<longrightarrow> R s [] s')"

definition recorder_in :: "('s \<Rightarrow> entry list \<Rightarrow> 's \<Rightarrow> bool) \<Rightarrow> 's reconciler \<Rightarrow> bool" where
  "recorder_in R r \<longleftrightarrow> (\<forall>rec e s x s'. rc_recorder r = Some rec \<longrightarrow> run_state (rec e) s = (x, s') \<longrightarrow> R s [(Emit e, None)] s')"

lemma observe_in:
  assumes "runs_in R m" "run_state m (s, []) = (a, (s', cs))"
  shows "R s cs s'"
  using assms unfolding runs_in_def by fastforce

locale log_relation =
  fixes R :: "'s \<Rightarrow> entry list \<Rightarrow> 's \<Rightarrow> bool"
  assumes related_nil: "R s [] s"
    and related_append: "R s cs s' \<Longrightarrow> R s' ds s'' \<Longrightarrow> R s (cs @ ds) s''"
begin

lemma in_return: "runs_in R (State_Monad.return a)"
  by (simp add: runs_in_def related_nil)

lemma in_logged: "call_in R c m \<Longrightarrow> runs_in R (logged (entry_of c) m)"
  by (auto simp: runs_in_def call_in_def logged_def split: prod.splits)

lemma in_silent: "quiet_in R m \<Longrightarrow> runs_in R (silent m)"
  by (auto simp: runs_in_def quiet_in_def silent_def split: prod.splits)

lemma in_bind:
  assumes "runs_in R m" "\<And>a. runs_in R (f a)"
  shows "runs_in R (State_Monad.bind m f)"
  unfolding runs_in_def
proof (intro allI impI)
  fix s tr b s' tr'
  assume "run_state (State_Monad.bind m f) (s, tr) = (b, (s', tr'))"
  then obtain a s1 tr1 where "run_state m (s, tr) = (a, (s1, tr1))" "run_state (f a) (s1, tr1) = (b, (s', tr'))"
    by (auto split: prod.splits)
  then obtain cs ds where "tr1 = tr @ cs" "R s cs s1" "tr' = tr1 @ ds" "R s1 ds s'"
    using assms unfolding runs_in_def by meson
  then show "\<exists>cs. tr' = tr @ cs \<and> R s cs s'" by (auto intro: related_append)
qed

lemma in_if_err:
  "runs_in R m \<Longrightarrow> (\<And>e. runs_in R (h e)) \<Longrightarrow> (\<And>a. runs_in R (k a)) \<Longrightarrow> runs_in R (if_err m h k)"
  unfolding if_err_def by (rule in_bind) (auto split: sum.split)

lemma in_if: "(b \<Longrightarrow> runs_in R m) \<Longrightarrow> (\<not> b \<Longrightarrow> runs_in R n) \<Longrightarrow> runs_in R (if b then m else n)"
  by simp

lemma in_case_option:
  "(x = None \<Longrightarrow> runs_in R m) \<Longrightarrow> (\<And>y. x = Some y \<Longrightarrow> runs_in R (n y)) \<Longrightarrow>
   runs_in R (case x of None \<Rightarrow> m | Some y \<Rightarrow> n y)"
  by (cases x) simp_all

lemma in_case_prod: "(\<And>a b. x = (a, b) \<Longrightarrow> runs_in R (m a b)) \<Longrightarrow> runs_in R (case x of (a, b) \<Rightarrow> m a b)"
  by (cases x) simp

lemma in_record_event:
  assumes "recorder_in R r"
  shows "runs_in R (record_event (logged_reconciler r) knd m t rs msg)"
proof (cases "rc_recorder r")
  case None
  then show ?thesis by (simp add: record_event_def logged_reconciler_def in_return)
next
  case (Some rec)
  have "runs_in R (logged (\<lambda>_. (Emit e, None)) (rec e))" for e
    using assms Some by (auto simp: recorder_in_def runs_in_def logged_def split: prod.splits)
  then show ?thesis by (simp add: record_event_def logged_reconciler_def Some)
qed

lemmas in_rules = in_return in_logged in_silent in_bind in_if_err in_if in_case_option in_case_prod in_record_event

end

subsection \<open>A client that respects the relation\<close>

locale client_relation = log_relation R
  for R :: "'s \<Rightarrow> entry list \<Rightarrow> 's \<Rightarrow> bool" and K :: "'s kube" +
  assumes GetOJSCluster_in: "call_in R (ReadCluster k) (GetOJSCluster K k)"
    and GetOJSWorker_in: "call_in R (ReadWorker k) (GetOJSWorker K k)"
    and GetDeployment_in: "call_in R (ReadDeployment k) (GetDeployment K k)"
    and GetHPA_in: "call_in R (ReadHPA k) (GetHPA K k)"
    and UpdateOJSCluster_in: "call_in R (WriteCluster c) (UpdateOJSCluster K c)"
    and UpdateOJSWorker_in: "call_in R (WriteWorker w) (UpdateOJSWorker K w)"
    and StatusUpdateOJSCluster_in: "call_in R (WriteClusterStatus c) (StatusUpdateOJSCluster K c)"
    and StatusUpdateOJSWorker_in: "call_in R (WriteWorkerStatus w) (StatusUpdateOJSWorker K w)"
    and DeleteHPA_in: "call_in R (RemoveHPA h) (DeleteHPA K h)"
    and CreateOrUpdateConfigMap_in: "call_in R (ApplyConfigMap cm f) (CreateOrUpdateConfigMap K cm f)"
    and CreateOrUpdateDeployment_in: "call_in R (ApplyDeployment d g) (CreateOrUpdateDeployment K d g)"
    and CreateOrUpdateService_in: "call_in R (ApplyService sv h') (CreateOrUpdateService K sv h')"
    and CreateOrUpdatePDB_in: "call_in R (ApplyPDB p i) (CreateOrUpdatePDB K p i)"
    and CreateOrUpdateUnstructured_in: "call_in R (ApplyServiceMonitor u j) (CreateOrUpdateUnstructured K u j)"
    and CreateOrUpdateHPA_in: "call_in R (ApplyHPA hp l) (CreateOrUpdateHPA K hp l)"
    and Now_in: "quiet_in R (Now K)"
begin

lemmas call_rules = GetOJSCluster_in GetOJSWorker_in GetDeployment_in GetHPA_in UpdateOJSCluster_in UpdateOJSWorker_in
  StatusUpdateOJSCluster_in StatusUpdateOJSWorker_in DeleteHPA_in CreateOrUpdateConfigMap_in CreateOrUpdateDeployment_in
  CreateOrUpdateService_in CreateOrUpdatePDB_in CreateOrUpdateUnstructured_in CreateOrUpdateHPA_in Now_in

lemma in_updateStatus:
  assumes r: "rc_client r = K" and q: "recorder_in R r"
  shows "runs_in R (setCondition (logged_reconciler r) c x)" "runs_in R (updateStatus (logged_reconciler r) c)"
proof -
  show set: "runs_in R (setCondition (logged_reconciler r) c x)" for c x
    unfolding setCondition_def logged_reconciler_client logged_kube_calls r
    by (intro in_rules call_rules)
  have sets: "runs_in R (setConditions (logged_reconciler r) c xs)" for c xs
    by (induction xs arbitrary: c) (auto intro!: in_rules set)
  have fin: "runs_in R (finishStatus (logged_reconciler r) p c)" for p c
    unfolding finishStatus_def recordEvent_def logged_reconciler_client logged_kube_calls r
    by (intro in_rules call_rules q)
  show "runs_in R (updateStatus (logged_reconciler r) c)"
    unfolding updateStatus_def Let_def logged_reconciler_client logged_kube_calls r
    by (intro in_rules call_rules sets fin)
qed

lemma in_Reconcile:
  assumes r: "rc_client r = K" and q: "recorder_in R r"
  shows "runs_in R (Reconcile (logged_reconciler r) req)"
  unfolding Reconcile_def clusterDeletion_def clusterEnsureFinalizer_def clusterInitPhase_def clusterBackend_def
    clusterBackendFailed_def clusterChildren_def clusterMonitor_def reconcileConfigMap_def reconcileDeployment_def
    reconcileService_def reconcilePDB_def reconcileServiceMonitor_def reconcileEmbeddedBackend_def
    reconcileEmbeddedRedis_def recordEvent_def requeueWith_def Let_def logged_reconciler_client logged_kube_calls
    logged_kube_pure r
  by (intro in_rules call_rules q in_updateStatus r)

lemma in_updateWorkerStatus:
  assumes r: "rc_client r = K" and q: "recorder_in R r"
  shows "runs_in R (setWorkerCondition (logged_reconciler r) w x)" "runs_in R (updateWorkerStatus (logged_reconciler r) w)"
proof -
  show set: "runs_in R (setWorkerCondition (logged_reconciler r) w x)" for w x
    unfolding setWorkerCondition_def logged_reconciler_client logged_kube_calls r
    by (intro in_rules call_rules)
  have sets: "runs_in R (setWorkerConditions (logged_reconciler r) w xs)" for w xs
    by (induction xs arbitrary: w) (auto intro!: in_rules set)
  have fin: "runs_in R (finishWorkerStatus (logged_reconciler r) p w)" for p w
    unfolding finishWorkerStatus_def recordWorkerEvent_def logged_reconciler_client logged_kube_calls r
    by (intro in_rules call_rules q)
  show "runs_in R (updateWorkerStatus (logged_reconciler r) w)"
    unfolding updateWorkerStatus_def Let_def logged_reconciler_client logged_kube_calls r
    by (intro in_rules call_rules sets fin)
qed

lemma in_ReconcileWorker:
  assumes r: "rc_client r = K" and q: "recorder_in R r"
  shows "runs_in R (ReconcileWorker (logged_reconciler r) req)"
  unfolding ReconcileWorker_def workerDeletion_def workerEnsureFinalizer_def workerResolveCluster_def
    workerClusterMissing_def workerReconcileChildren_def reconcileWorkerDeployment_def reconcileWorkerHPA_def
    recordWorkerEvent_def Let_def logged_reconciler_client logged_kube_calls logged_kube_pure r
  by (intro in_rules call_rules q in_updateWorkerStatus r)

end

end
