(* ===== verification/Admission.thy ===== *)
theory Admission
  imports MemKube
begin

text \<open>
  What an API server does to a child object before it stores it: it writes the metadata that are its own, keeps the
  status, and fills in defaults. The function is a parameter; the locale \<open>admission\<close> states the documented
  behaviour that matters here, and the in-memory server of \<open>MemKube\<close> interprets it.
\<close>

subsection \<open>Child objects\<close>

datatype child =
    ChDeployment Deployment
  | ChService Service
  | ChConfigMap ConfigMap
  | ChPDB PodDisruptionBudget
  | ChMonitor Unstructured
  | ChHPA HorizontalPodAutoscaler

fun kindOf :: "child \<Rightarrow> kind" where
  "kindOf (ChDeployment d) = KDeployment"
| "kindOf (ChService sv) = KService"
| "kindOf (ChConfigMap cm) = KConfigMap"
| "kindOf (ChPDB p) = KPDB"
| "kindOf (ChMonitor u) = KServiceMonitor"
| "kindOf (ChHPA h) = KHPA"

fun metaOf :: "child \<Rightarrow> ObjectMeta" where
  "metaOf (ChDeployment d) = dep_meta d"
| "metaOf (ChService sv) = svc_meta sv"
| "metaOf (ChConfigMap cm) = cm_meta cm"
| "metaOf (ChPDB p) = pdb_meta p"
| "metaOf (ChMonitor u) = us_meta u"
| "metaOf (ChHPA h) = hpa_meta h"

text \<open>What a client says with an object: all but the server's metadata and the status, which other requests write.\<close>

fun sent :: "child \<Rightarrow> child" where
  "sent (ChDeployment d) = ChDeployment (d\<lparr>dep_meta := sentMeta (dep_meta d),
     dep_status := \<lparr>dst_replicas = 0, dst_readyReplicas = 0\<rparr>\<rparr>)"
| "sent (ChService sv) = ChService (sv\<lparr>svc_meta := sentMeta (svc_meta sv)\<rparr>)"
| "sent (ChConfigMap cm) = ChConfigMap (cm\<lparr>cm_meta := sentMeta (cm_meta cm)\<rparr>)"
| "sent (ChPDB p) = ChPDB (p\<lparr>pdb_meta := sentMeta (pdb_meta p)\<rparr>)"
| "sent (ChMonitor u) = ChMonitor (u\<lparr>us_meta := sentMeta (us_meta u)\<rparr>)"
| "sent (ChHPA h) = ChHPA (h\<lparr>hpa_meta := sentMeta (hpa_meta h)\<rparr>)"

subsection \<open>The laws\<close>

text \<open>\<open>A old x\<close> is what is stored when \<open>x\<close> is sent and \<open>old\<close> is there, if anything is. The kind stays, and of the metadata
  all that a client says. Defaults depend on what is sent only: sending once more what was sent leaves what is
  stored as it is (an update without effect is not even counted as a new version).\<close>

locale admission =
  fixes A :: "child option \<Rightarrow> child \<Rightarrow> child"
  assumes keeps_kind: "kindOf (A old x) = kindOf x"
    and keeps_meta: "sentMeta (metaOf (A old x)) = sentMeta (metaOf x)"
    and resend: "sent y = sent x \<Longrightarrow> A (Some (A old x)) y = A old x"

subsection \<open>The server in memory\<close>

fun memAdmit :: "child option \<Rightarrow> child \<Rightarrow> child" where
  "memAdmit old (ChDeployment d) =
     ChDeployment (memAdmitDeployment (case old of Some (ChDeployment o') \<Rightarrow> Some o' | _ \<Rightarrow> None) d)"
| "memAdmit old (ChService sv) =
     ChService (memAdmitService (case old of Some (ChService o') \<Rightarrow> Some o' | _ \<Rightarrow> None) sv)"
| "memAdmit old (ChConfigMap cm) =
     ChConfigMap (memAdmitConfigMap (case old of Some (ChConfigMap o') \<Rightarrow> Some o' | _ \<Rightarrow> None) cm)"
| "memAdmit old (ChPDB p) =
     ChPDB (memAdmitPDB (case old of Some (ChPDB o') \<Rightarrow> Some o' | _ \<Rightarrow> None) p)"
| "memAdmit old (ChMonitor u) =
     ChMonitor (memAdmitMonitor (case old of Some (ChMonitor o') \<Rightarrow> Some o' | _ \<Rightarrow> None) u)"
| "memAdmit old (ChHPA h) =
     ChHPA (memAdmitHPA (case old of Some (ChHPA o') \<Rightarrow> Some o' | _ \<Rightarrow> None) h)"

lemma memAdmit_again:
  "sent (ChDeployment d') = sent (ChDeployment d) \<Longrightarrow>
     memAdmitDeployment (Some (memAdmitDeployment od d)) d' = memAdmitDeployment od d"
  "sent (ChService sv') = sent (ChService sv) \<Longrightarrow> memAdmitService (Some (memAdmitService os sv)) sv' = memAdmitService os sv"
  "sent (ChConfigMap cm') = sent (ChConfigMap cm) \<Longrightarrow>
     memAdmitConfigMap (Some (memAdmitConfigMap oc cm)) cm' = memAdmitConfigMap oc cm"
  "sent (ChPDB p') = sent (ChPDB p) \<Longrightarrow> memAdmitPDB (Some (memAdmitPDB op p)) p' = memAdmitPDB op p"
  "sent (ChMonitor u') = sent (ChMonitor u) \<Longrightarrow> memAdmitMonitor (Some (memAdmitMonitor ou u)) u' = memAdmitMonitor ou u"
  "sent (ChHPA h') = sent (ChHPA h) \<Longrightarrow> memAdmitHPA (Some (memAdmitHPA oh h)) h' = memAdmitHPA oh h"
proof -
  show "memAdmitDeployment (Some (memAdmitDeployment od d)) d' = memAdmitDeployment od d"
    if "sent (ChDeployment d') = sent (ChDeployment d)"
    using that by (cases d; cases d') (simp add: memAdmitDeployment_def memAdmitMeta_again)
  show "memAdmitService (Some (memAdmitService os sv)) sv' = memAdmitService os sv" if "sent (ChService sv') = sent (ChService sv)"
    using that by (cases sv; cases sv') (simp add: memAdmitService_def memAdmitMeta_again)
  show "memAdmitConfigMap (Some (memAdmitConfigMap oc cm)) cm' = memAdmitConfigMap oc cm"
    if "sent (ChConfigMap cm') = sent (ChConfigMap cm)"
    using that by (cases cm; cases cm') (simp add: memAdmitConfigMap_def memAdmitMeta_again)
  show "memAdmitPDB (Some (memAdmitPDB op p)) p' = memAdmitPDB op p" if "sent (ChPDB p') = sent (ChPDB p)"
    using that by (cases p; cases p') (simp add: memAdmitPDB_def memAdmitMeta_again)
  show "memAdmitMonitor (Some (memAdmitMonitor ou u)) u' = memAdmitMonitor ou u" if "sent (ChMonitor u') = sent (ChMonitor u)"
    using that by (cases u; cases u') (simp add: memAdmitMonitor_def memAdmitMeta_again)
  show "memAdmitHPA (Some (memAdmitHPA oh h)) h' = memAdmitHPA oh h" if "sent (ChHPA h') = sent (ChHPA h)"
    using that by (cases h; cases h') (simp add: memAdmitHPA_def memAdmitMeta_again)
qed

interpretation mem_admission: admission memAdmit
proof (unfold_locales, goal_cases)
  case (1 old x) show ?case by (cases x) simp_all
next
  case (2 old x) show ?case by (cases x) simp_all
next
  case (3 y x old)
  then show ?case
    by (cases x; cases y) (simp_all add: memAdmit_again [simplified])
qed

end
