(* ===== verification/ChildStore.thy ===== *)
theory ChildStore
  imports Plans Admission Demo LoggedRuns
begin

text \<open>
  The child objects as an API server keeps them, one slot per kind and name, and what a logged run does to
  them: replaying its successful calls, each with what the server makes of the object sent (\<open>A\<close>, theory \<open>Admission\<close>).
  The laws of such a server are the locale \<open>child_store\<close>; the in-memory server of \<open>MemKube\<close> satisfies them.
\<close>

subsection \<open>Slots and calls\<close>

type_synonym slot = "kind \<times> NamespacedName"

type_synonym children = "slot \<rightharpoonup> child"

text \<open>\<open>CreateOrUpdate\<close> on a slot: the callback is given the stored object or, when there is none, the new one; the
  server stores what it makes of the result. (A result equal to the stored object is not sent; for an object that the
  server stored, sending it would change nothing.)\<close>

type_synonym admit = "child option \<Rightarrow> child \<Rightarrow> child"

definition put_child ::
  "admit \<Rightarrow> slot \<Rightarrow> ('o \<Rightarrow> child) \<Rightarrow> (child \<Rightarrow> 'o option) \<Rightarrow> 'o \<Rightarrow> 'o callback \<Rightarrow> children \<Rightarrow> children option" where
  "put_child A k wrap unwrap new f m =
     (case f (case Option.bind (m k) unwrap of None \<Rightarrow> new | Some old \<Rightarrow> old) of
        Inl e \<Rightarrow> None
      | Inr ob \<Rightarrow> Some (m(k \<mapsto> A (m k) (wrap ob))))"

fun target :: "call \<Rightarrow> slot option" where
  "target (ApplyDeployment d f) = Some (KDeployment, key_of (dep_meta d))"
| "target (ApplyService sv f) = Some (KService, key_of (svc_meta sv))"
| "target (ApplyConfigMap cm f) = Some (KConfigMap, key_of (cm_meta cm))"
| "target (ApplyPDB p f) = Some (KPDB, key_of (pdb_meta p))"
| "target (ApplyServiceMonitor u f) = Some (KServiceMonitor, key_of (us_meta u))"
| "target (ApplyHPA h f) = Some (KHPA, key_of (hpa_meta h))"
| "target (RemoveHPA h) = Some (KHPA, key_of (hpa_meta h))"
| "target c = None"

fun apply_call :: "admit \<Rightarrow> call \<Rightarrow> children \<Rightarrow> children option" where
  "apply_call A (ApplyDeployment d f) m = put_child A (KDeployment, key_of (dep_meta d)) ChDeployment
     (\<lambda>x. case x of ChDeployment ob \<Rightarrow> Some ob | _ \<Rightarrow> None) d f m"
| "apply_call A (ApplyService sv f) m = put_child A (KService, key_of (svc_meta sv)) ChService
     (\<lambda>x. case x of ChService ob \<Rightarrow> Some ob | _ \<Rightarrow> None) sv f m"
| "apply_call A (ApplyConfigMap cm f) m = put_child A (KConfigMap, key_of (cm_meta cm)) ChConfigMap
     (\<lambda>x. case x of ChConfigMap ob \<Rightarrow> Some ob | _ \<Rightarrow> None) cm f m"
| "apply_call A (ApplyPDB p f) m = put_child A (KPDB, key_of (pdb_meta p)) ChPDB
     (\<lambda>x. case x of ChPDB ob \<Rightarrow> Some ob | _ \<Rightarrow> None) p f m"
| "apply_call A (ApplyServiceMonitor u f) m = put_child A (KServiceMonitor, key_of (us_meta u)) ChMonitor
     (\<lambda>x. case x of ChMonitor ob \<Rightarrow> Some ob | _ \<Rightarrow> None) u f m"
| "apply_call A (ApplyHPA h f) m = put_child A (KHPA, key_of (hpa_meta h)) ChHPA
     (\<lambda>x. case x of ChHPA ob \<Rightarrow> Some ob | _ \<Rightarrow> None) h f m"
| "apply_call A (RemoveHPA h) m = Some (m((KHPA, key_of (hpa_meta h)) := None))"
| "apply_call A c m = Some m"

text \<open>A log replayed: failed calls change nothing.\<close>

fun replay :: "admit \<Rightarrow> entry list \<Rightarrow> children \<Rightarrow> children option" where
  "replay A [] m = Some m"
| "replay A ((c, Some e) # cs) m = replay A cs m"
| "replay A ((c, None) # cs) m = Option.bind (apply_call A c m) (replay A cs)"

lemma replay_append: "replay A (cs @ ds) m = Option.bind (replay A cs m) (replay A ds)"
proof (induction cs arbitrary: m)
  case (Cons x cs)
  obtain c e where x: "x = (c, e)" by fastforce
  show ?case using Cons by (cases e) (auto simp: x split: bind_splits)
qed simp

text \<open>A call is settled when doing it again changes nothing. An applied call that is settled has its object.\<close>

definition settled :: "admit \<Rightarrow> children \<Rightarrow> call \<Rightarrow> bool" where
  "settled A m c \<longleftrightarrow> apply_call A c m = Some m"

lemma apply_call_elsewhere: "apply_call A c m = Some m' \<Longrightarrow> target c \<noteq> Some k \<Longrightarrow> m' k = m k"
  by (cases c) (auto simp: put_child_def split: sum.splits)

lemma put_child_settled:
  "put_child A k wrap unwrap new f m = Some m \<longleftrightarrow>
     (\<exists>ob. f (case Option.bind (m k) unwrap of None \<Rightarrow> new | Some old \<Rightarrow> old) = Inr ob \<and> m k = Some (A (m k) (wrap ob)))"
  by (auto simp: put_child_def fun_upd_idem_iff split: sum.split)

lemma settled_slot:
  assumes "settled A m c" "\<And>k. target c = Some k \<Longrightarrow> m' k = m k"
  shows "settled A m' c"
  using assms unfolding settled_def by (cases c) (simp_all add: put_child_settled fun_upd_idem_iff)

lemma settled_present: "settled A m c \<Longrightarrow> target c = Some k \<Longrightarrow> (\<And>h. c \<noteq> RemoveHPA h) \<Longrightarrow> k \<in> dom m"
  unfolding settled_def by (cases c) (auto simp: put_child_settled)

text \<open>A callback settles at once when it accepts every object that a client says the same of as of its own result, and then says
  the same again.\<close>

definition resends :: "('o \<Rightarrow> child) \<Rightarrow> 'o callback \<Rightarrow> bool" where
  "resends wrap f \<longleftrightarrow> (\<forall>ob0 ob ob'. f ob0 = Inr ob \<longrightarrow> sentMeta (metaOf (wrap ob')) = sentMeta (metaOf (wrap ob)) \<longrightarrow>
     (\<exists>ob''. f ob' = Inr ob'' \<and> sent (wrap ob'') = sent (wrap ob)))"

lemma put_child_settles:
  assumes A: "admission A" and f: "resends wrap f" and "\<And>ob. unwrap (wrap ob) = Some ob"
    and kinds: "\<And>x ob. kindOf x = kindOf (wrap ob) \<Longrightarrow> \<exists>ob'. x = wrap ob'"
    and put: "put_child A k wrap unwrap new f m = Some m'"
  shows "put_child A k wrap unwrap new f m' = Some m'"
proof -
  obtain ob0 ob where ob: "f ob0 = Inr ob" "m' = m(k \<mapsto> A (m k) (wrap ob))"
    using put by (auto simp: put_child_def split: sum.splits)
  obtain ob' where ob': "A (m k) (wrap ob) = wrap ob'"
    using kinds [OF admission.keeps_kind [OF A]] by blast
  have "sentMeta (metaOf (wrap ob')) = sentMeta (metaOf (wrap ob))"
    using admission.keeps_meta [OF A, of "m k" "wrap ob"] by (simp add: ob')
  then obtain ob'' where ob'': "f ob' = Inr ob''" "sent (wrap ob'') = sent (wrap ob)"
    using f ob(1) unfolding resends_def by blast
  have "A (Some (wrap ob')) (wrap ob'') = wrap ob'"
    using admission.resend [OF A ob''(2), of "m k"] by (simp add: ob')
  then show ?thesis by (simp add: put_child_settled ob(2) ob' ob''(1) assms(3))
qed

text \<open>The plan of a run: calls with different targets whose callbacks settle. A removal settles anyway.\<close>

fun settling :: "call \<Rightarrow> bool" where
  "settling (ApplyDeployment d f) = resends ChDeployment f"
| "settling (ApplyService sv f) = resends ChService f"
| "settling (ApplyConfigMap cm f) = resends ChConfigMap f"
| "settling (ApplyPDB p f) = resends ChPDB f"
| "settling (ApplyServiceMonitor u f) = resends ChMonitor f"
| "settling (ApplyHPA h f) = resends ChHPA f"
| "settling c = True"

lemma kindOf_wrapped:
  "kindOf x = kindOf (ChDeployment d) \<Longrightarrow> \<exists>d'. x = ChDeployment d'" "kindOf x = kindOf (ChService sv) \<Longrightarrow> \<exists>sv'. x = ChService sv'"
  "kindOf x = kindOf (ChConfigMap cm) \<Longrightarrow> \<exists>cm'. x = ChConfigMap cm'" "kindOf x = kindOf (ChPDB p) \<Longrightarrow> \<exists>p'. x = ChPDB p'"
  "kindOf x = kindOf (ChMonitor u) \<Longrightarrow> \<exists>u'. x = ChMonitor u'" "kindOf x = kindOf (ChHPA h) \<Longrightarrow> \<exists>h'. x = ChHPA h'"
  by (cases x; simp)+

lemma settling_settles:
  assumes "admission A" "settling c" "apply_call A c m = Some m'"
  shows "settled A m' c"
  using assms(2,3) unfolding settled_def
  by (cases c) (auto elim!: put_child_settles [OF assms(1), rotated 3] kindOf_wrapped simp del: kindOf.simps)

lemma replay_elsewhere:
  "replay A cs m = Some m' \<Longrightarrow> Some k \<notin> target ` fst ` set cs \<Longrightarrow> m' k = m k"
proof (induction cs arbitrary: m)
  case (Cons x cs)
  obtain c e where x: "x = (c, e)" by fastforce
  show ?case
  proof (cases e)
    case (Some err)
    then show ?thesis using Cons by (simp add: x)
  next
    case None
    then obtain m1 where m1: "apply_call A c m = Some m1" "replay A cs m1 = Some m'"
      using Cons.prems(1) by (auto simp: x split: bind_splits)
    have "m' k = m1 k" using Cons m1(2) by (simp add: x)
    also have "\<dots> = m k" by (rule apply_call_elsewhere [OF m1(1)]) (use Cons.prems(2) in \<open>auto simp: x\<close>)
    finally show ?thesis .
  qed
qed simp

text \<open>A successful call settles, unless a later one has the same target.\<close>

lemma replay_settles:
  assumes A: "admission A"
  shows "distinct (map (target \<circ> fst) cs) \<Longrightarrow> replay A cs m = Some m' \<Longrightarrow> (c, None) \<in> set cs \<Longrightarrow> settling c \<Longrightarrow>
    settled A m' c"
proof (induction cs arbitrary: m)
  case (Cons x cs)
  obtain d e where x: "x = (d, e)" by fastforce
  obtain m1 where m1: "replay A cs m1 = Some m'" "e = None \<Longrightarrow> apply_call A d m = Some m1"
    using Cons.prems(2) by (cases e) (auto simp: x split: bind_splits)
  show ?case
  proof (cases "(c, None) \<in> set cs")
    case True
    then show ?thesis using Cons.IH [OF _ m1(1)] Cons.prems by simp
  next
    case False
    then have "d = c" "e = None" using Cons.prems(3) by (simp_all add: x)
    show ?thesis
    proof (rule settled_slot)
      show "settled A m1 c" using settling_settles [OF A Cons.prems(4)] m1(2) \<open>d = c\<close> \<open>e = None\<close> by simp
      show "m' k = m1 k" if "target c = Some k" for k
        using replay_elsewhere [OF m1(1)] Cons.prems(1) that \<open>d = c\<close> by (auto simp: x image_image)
    qed
  qed
qed simp

text \<open>A log of settled calls, failed or not, changes nothing.\<close>

lemma replay_settled: "list_all (settled A m) (map fst cs) \<Longrightarrow> replay A cs m = Some m"
proof (induction cs)
  case (Cons x cs)
  obtain c e where "x = (c, e)" by fastforce
  with Cons show ?case by (cases e) (simp_all add: settled_def)
qed simp

text \<open>Only the child calls of a log count.\<close>

lemma apply_other: "\<not> child_call c \<Longrightarrow> apply_call A c m = Some m"
  by (cases c) simp_all

lemma replay_child_calls: "replay A cs m = replay A (filter (\<lambda>x. child_call (fst x)) cs) m"
proof (induction cs arbitrary: m)
  case (Cons x cs)
  obtain c e where x: "x = (c, e)" by fastforce
  show ?case using Cons apply_other [of c] by (cases e) (auto simp: x split: bind_splits)
qed simp

text \<open>A log whose child calls are settled or confined to the slots \<open>S\<close> changes nothing outside \<open>S\<close>.\<close>

lemma replay_within:
  "replay A cs m1 = Some m' \<Longrightarrow> \<forall>c\<in>set (childCalls cs). target c \<in> Some ` S \<or> settled A m c \<Longrightarrow>
   \<forall>k. k \<notin> S \<longrightarrow> m1 k = m k \<Longrightarrow> k \<notin> S \<Longrightarrow> m' k = m k"
proof (induction cs arbitrary: m1)
  case (Cons x cs)
  obtain c e where x: "x = (c, e)" by fastforce
  have rest: "\<forall>c\<in>set (childCalls cs). target c \<in> Some ` S \<or> settled A m c"
    and here: "child_call c \<Longrightarrow> target c \<in> Some ` S \<or> settled A m c"
    using Cons.prems(2) by (auto simp: x childCalls_def)
  show ?case
  proof (cases e)
    case (Some err)
    then show ?thesis using Cons rest by (simp add: x)
  next
    case None
    then obtain m2 where m2: "apply_call A c m1 = Some m2" "replay A cs m2 = Some m'"
      using Cons.prems(1) by (auto simp: x split: bind_splits)
    have "m2 k = m k" if "k \<notin> S" for k
    proof (cases "target c = Some k")
      case False
      then show ?thesis by (metis Cons.prems(3) apply_call_elsewhere [OF m2(1)] that)
    next
      case True
      then have "settled A m c" using here that apply_other [of c] by (cases "child_call c") (auto simp: settled_def)
      then have "settled A m1 c" by (rule settled_slot) (metis True Cons.prems(3) that option.inject)
      then have "m2 = m1" using m2(1) by (simp add: settled_def)
      then show ?thesis by (metis Cons.prems(3) that)
    qed
    then show ?thesis using Cons.IH [OF m2(2) rest] Cons.prems(4) by blast
  qed
next
  case Nil
  then have "m1 = m'" by simp
  then show ?case using Nil by metis
qed

subsection \<open>The laws of a server that keeps them\<close>

text \<open>\<open>obs\<close> is the children in a state of the environment. A call that succeeds has its effect on them and no other, a
  call that fails has none.\<close>

definition stores :: "admit \<Rightarrow> ('s \<Rightarrow> children) \<Rightarrow> call \<Rightarrow> ('s, goerror + 'a) state \<Rightarrow> bool" where
  "stores A obs c m \<longleftrightarrow> (\<forall>s x s'. run_state m s = (x, s') \<longrightarrow>
     (if isl x then obs s' = obs s else apply_call A c (obs s) = Some (obs s')))"

definition keeps :: "('s \<Rightarrow> children) \<Rightarrow> ('s, 'a) state \<Rightarrow> bool" where
  "keeps obs m \<longleftrightarrow> (\<forall>s. obs (snd (run_state m s)) = obs s)"

locale child_store = admission A for A :: admit +
  fixes K :: "'s kube" and obs :: "'s \<Rightarrow> children"
  assumes GetOJSCluster_stores: "stores A obs (ReadCluster k) (GetOJSCluster K k)"
    and GetOJSWorker_stores: "stores A obs (ReadWorker k) (GetOJSWorker K k)"
    and GetDeployment_stores: "stores A obs (ReadDeployment k) (GetDeployment K k)"
    and GetHPA_stores: "stores A obs (ReadHPA k) (GetHPA K k)"
    and UpdateOJSCluster_stores: "stores A obs (WriteCluster c) (UpdateOJSCluster K c)"
    and UpdateOJSWorker_stores: "stores A obs (WriteWorker w) (UpdateOJSWorker K w)"
    and StatusUpdateOJSCluster_stores: "stores A obs (WriteClusterStatus c) (StatusUpdateOJSCluster K c)"
    and StatusUpdateOJSWorker_stores: "stores A obs (WriteWorkerStatus w) (StatusUpdateOJSWorker K w)"
    and DeleteHPA_stores: "stores A obs (RemoveHPA h) (DeleteHPA K h)"
    and CreateOrUpdateConfigMap_stores: "stores A obs (ApplyConfigMap cm f) (CreateOrUpdateConfigMap K cm f)"
    and CreateOrUpdateDeployment_stores: "stores A obs (ApplyDeployment d g) (CreateOrUpdateDeployment K d g)"
    and CreateOrUpdateService_stores: "stores A obs (ApplyService sv h') (CreateOrUpdateService K sv h')"
    and CreateOrUpdatePDB_stores: "stores A obs (ApplyPDB p i) (CreateOrUpdatePDB K p i)"
    and CreateOrUpdateUnstructured_stores: "stores A obs (ApplyServiceMonitor u j) (CreateOrUpdateUnstructured K u j)"
    and CreateOrUpdateHPA_stores: "stores A obs (ApplyHPA hp l) (CreateOrUpdateHPA K hp l)"
    and clock_keeps: "keeps obs (Now K)"

subsection \<open>Runs replay\<close>

abbreviation replayed :: "admit \<Rightarrow> ('s \<Rightarrow> children) \<Rightarrow> 's \<Rightarrow> entry list \<Rightarrow> 's \<Rightarrow> bool" where
  "replayed A obs s cs s' \<equiv> replay A cs (obs s) = Some (obs s')"

lemma stores_in: "stores A obs c m \<Longrightarrow> call_in (replayed A obs) c m"
proof -
  assume law: "stores A obs c m"
  have "replay A [entry_of c x] (obs s) = Some (obs s')" if "run_state m s = (x, s')" for s x s'
    using law [unfolded stores_def] that by (cases x) (auto simp: entry_of_def)
  then show ?thesis by (simp add: call_in_def)
qed

lemma keeps_in: "keeps obs m \<Longrightarrow> quiet_in (replayed A obs) m"
  unfolding keeps_def quiet_in_def by simp (metis snd_conv)

text \<open>A recorder that does not touch the children.\<close>

definition quiet_recorder :: "('s \<Rightarrow> children) \<Rightarrow> 's reconciler \<Rightarrow> bool" where
  "quiet_recorder obs r \<longleftrightarrow> (\<forall>rec. rc_recorder r = Some rec \<longrightarrow> (\<forall>e. keeps obs (rec e)))"

lemma quiet_recorder_in: "quiet_recorder obs r \<Longrightarrow> recorder_in (replayed A obs) r"
  unfolding quiet_recorder_def recorder_in_def keeps_def by simp (metis snd_conv)

lemmas store_rules = stores_in keeps_in

sublocale child_store \<subseteq> store: client_relation "replayed A obs" K
proof (unfold_locales, goal_cases)
  case 1 show ?case by simp
next
  case 2 then show ?case by (simp add: replay_append)
qed (rule store_rules, rule GetOJSCluster_stores GetOJSWorker_stores GetDeployment_stores GetHPA_stores
    UpdateOJSCluster_stores UpdateOJSWorker_stores StatusUpdateOJSCluster_stores StatusUpdateOJSWorker_stores
    DeleteHPA_stores CreateOrUpdateConfigMap_stores CreateOrUpdateDeployment_stores CreateOrUpdateService_stores
    CreateOrUpdatePDB_stores CreateOrUpdateUnstructured_stores CreateOrUpdateHPA_stores clock_keeps)+

context child_store
begin

lemma client_replays: "client_relation (replayed A obs) K"
  by (rule store.client_relation_axioms)

end

text \<open>So runs of the two reconcilers against such a server replay.\<close>

lemma replayed_Reconcile:
  assumes "child_store A (rc_client r) obs" "quiet_recorder obs r"
  shows "runs_in (replayed A obs) (Reconcile (logged_reconciler r) req)"
proof -
  have "client_relation (replayed A obs) (rc_client r)"
    using assms(1) by (rule child_store.client_replays)
  then show ?thesis by (rule client_relation.in_Reconcile [OF _ refl quiet_recorder_in [OF assms(2)]])
qed

lemma replayed_ReconcileWorker:
  assumes "child_store A (rc_client r) obs" "quiet_recorder obs r"
  shows "runs_in (replayed A obs) (ReconcileWorker (logged_reconciler r) req)"
proof -
  have "client_relation (replayed A obs) (rc_client r)"
    using assms(1) by (rule child_store.client_replays)
  then show ?thesis by (rule client_relation.in_ReconcileWorker [OF _ refl quiet_recorder_in [OF assms(2)]])
qed

subsection \<open>The server in memory\<close>

definition mem_children :: "world \<Rightarrow> children" where
  "mem_children w = (\<lambda>(knd, k). case knd of
     KDeployment \<Rightarrow> map_option ChDeployment (w_deployments w k)
   | KService \<Rightarrow> map_option ChService (w_services w k)
   | KConfigMap \<Rightarrow> map_option ChConfigMap (w_configMaps w k)
   | KPDB \<Rightarrow> map_option ChPDB (w_pdbs w k)
   | KServiceMonitor \<Rightarrow> map_option ChMonitor (w_monitors w k)
   | KHPA \<Rightarrow> map_option ChHPA (w_hpas w k)
   | _ \<Rightarrow> None)"

lemma mem_stores_get:
  assumes "\<And>m. apply_call memAdmit c m = Some m"
  shows "stores memAdmit mem_children c (memGet sel k)"
  using assms by (auto simp: stores_def memGet_def split: option.splits)

lemma mem_stores_put:
  assumes "\<And>m. apply_call memAdmit c m = Some m" "\<And>g w. mem_children (put g w) = mem_children w"
  shows "stores memAdmit mem_children c (memPut sel put meta merge ob)"
  using assms by (auto simp: stores_def memPut_def Let_def split: option.splits if_splits)

lemma mem_stores_apply:
  assumes "\<And>m. apply_call memAdmit c m = put_child memAdmit (knd, key_of (meta new)) wrap unwrap new f m"
    and "\<And>w k. mem_children w (knd, k) = map_option wrap (sel w k)" "\<And>ob. unwrap (wrap ob) = Some ob"
    and "\<And>w k ob. mem_children (put (\<lambda>m. m(k \<mapsto> ob)) w) = (mem_children w)((knd, k) \<mapsto> wrap ob)"
    and "\<And>old ob. memAdmit (map_option wrap old) (wrap ob) = wrap (admit old ob)"
  shows "stores memAdmit mem_children c (memCreateOrUpdate sel put meta admit new f)"
proof -
  have "Option.bind (mem_children w (knd, key_of (meta new))) unwrap = sel w (key_of (meta new))" for w
    using assms(2,3) by (cases "sel w (key_of (meta new))") auto
  then show ?thesis
    by (auto simp: stores_def memCreateOrUpdate_def assms(1,2,4,5) put_child_def Let_def split: sum.splits)
qed

lemma mem_children_other [simp]:
  "mem_children (w_clusters_update f w) = mem_children w" "mem_children (w_workers_update g w) = mem_children w"
  "mem_children (w_clock_update h w) = mem_children w" "mem_children (w_events_update i w) = mem_children w"
  by (simp_all add: mem_children_def fun_eq_iff split: kind.split)

interpretation mem_store: child_store memAdmit memKube mem_children
proof (unfold_locales, goal_cases)
  case (9 h) show ?case
    by (auto simp: stores_def memKube_def memDeleteHPA_def mem_children_def fun_eq_iff split: kind.split)
next
  case (10 cm f) show ?case unfolding memKube_def kube.simps
    by (rule mem_stores_apply) (auto simp: mem_children_def fun_eq_iff split: kind.split option.split)
next
  case (11 d f) show ?case unfolding memKube_def kube.simps
    by (rule mem_stores_apply) (auto simp: mem_children_def fun_eq_iff split: kind.split option.split)
next
  case (12 sv f) show ?case unfolding memKube_def kube.simps
    by (rule mem_stores_apply) (auto simp: mem_children_def fun_eq_iff split: kind.split option.split)
next
  case (13 p f) show ?case unfolding memKube_def kube.simps
    by (rule mem_stores_apply) (auto simp: mem_children_def fun_eq_iff split: kind.split option.split)
next
  case (14 u f) show ?case unfolding memKube_def kube.simps
    by (rule mem_stores_apply) (auto simp: mem_children_def fun_eq_iff split: kind.split option.split)
next
  case (15 h f) show ?case unfolding memKube_def kube.simps
    by (rule mem_stores_apply) (auto simp: mem_children_def fun_eq_iff split: kind.split option.split)
next
  case 16 show ?case by (simp add: keeps_def memKube_def memNow_def)
qed (simp_all add: memKube_def mem_stores_get mem_stores_put)

lemma mem_quiet: "quiet_recorder mem_children memReconciler"
  by (simp add: quiet_recorder_def keeps_def memReconciler_def memRecord_def)

lemma mem_replayed: "runs_in (replayed memAdmit mem_children) (Reconcile (logged_reconciler memReconciler) req)"
  by (rule replayed_Reconcile [OF _ mem_quiet], unfold memReconciler_client, rule mem_store.child_store_axioms)

lemma mem_replayedWorker: "runs_in (replayed memAdmit mem_children) (ReconcileWorker (logged_reconciler memReconciler) req)"
  by (rule replayed_ReconcileWorker [OF _ mem_quiet], unfold memReconciler_client, rule mem_store.child_store_axioms)

end
