(* ===== verification/Resending.thy ===== *)
theory Resending
  imports Builders ChildStore
begin

text \<open>
  Callbacks that settle on a server with defaults: what they say of the object does not depend on the server's part of
  it. All of them do but that of the ServiceMonitor, which leaves other keys of the object as they are.
\<close>

locale child_resender = child_builder setRef knd owner meta lbl build cb
  for setRef :: set_ref and knd owner and meta :: "'o \<Rightarrow> ObjectMeta" and lbl build cb +
  fixes wrap :: "'o \<Rightarrow> child"
  assumes wrap_meta: "metaOf (wrap ob) = meta ob"
    and resent: "sentMeta m = sentMeta m' \<Longrightarrow> sent (wrap (build m ob)) = sent (wrap (build m' ob'))"
begin

lemma resends_again:
  assumes laws: "owner_stable setRef"
  shows "resends wrap cb"
  unfolding resends_def
proof (intro allI impI)
  fix ob0 ob ob'
  assume run: "cb ob0 = Inr ob" and same: "sentMeta (metaOf (wrap ob')) = sentMeta (metaOf (wrap ob))"
  obtain m where m: "setRef knd owner (meta ob0) = Inr m" "ob = build (m\<lparr>om_labels := lbl\<rparr>) ob0"
    "meta ob = m\<lparr>om_labels := lbl\<rparr>"
    using run by (rule callback_cases)
  have "setRef knd owner (meta ob) = Inr (meta ob)"
    unfolding m(3) by (rule owner_laws.ref_again [OF owner_stable.axioms(1) [OF laws] m(1)])
  moreover have same': "sentMeta (meta ob') = sentMeta (meta ob)" using same by (simp add: wrap_meta)
  ultimately have ref: "setRef knd owner (meta ob') = Inr ((meta ob')\<lparr>om_ownerReferences := om_ownerReferences (meta ob)\<rparr>)"
    by (rule owner_stable.ref_stable [OF laws])
  have "sentMeta ((meta ob')\<lparr>om_ownerReferences := om_ownerReferences (meta ob), om_labels := lbl\<rparr>) = sentMeta (meta ob)"
    by (rule ObjectMeta.equality) (use sentMeta_fields [OF same'] in \<open>simp_all add: sentMeta_def m(3)\<close>)
  then show "\<exists>ob''. cb ob' = Inr ob'' \<and> sent (wrap ob'') = sent (wrap ob)"
    using resent m(2,3) by (simp add: callback ref)
qed

end

interpretation configMapSent: child_resender setRef KCluster "cl_meta c" cm_meta "labelsForCluster (cname c)"
    "\<lambda>m ob. ob\<lparr>cm_meta := m, cm_data := [''BACKEND_TYPE'' \<mapsto> be_type (cs_backend (cl_spec c)),
      ''BACKEND_URL'' \<mapsto> resolveBackendURL c]\<rparr>"
    "configMapCallback setRef c" ChConfigMap for setRef c
  by unfold_locales simp_all

interpretation serverDeploymentSent: child_resender setRef KCluster "cl_meta c" dep_meta "labelsForCluster (cname c)"
    "\<lambda>m ob. ob\<lparr>dep_meta := m, dep_spec := (dep_spec ob)\<lparr>ds_replicas := Some (clusterReplicas c),
      ds_selector := Some (labelsForCluster (cname c)),
      ds_template := \<lparr>pt_labels = labelsForCluster (cname c), pt_spec = serverPodSpec c\<rparr>\<rparr>\<rparr>"
    "serverDeploymentCallback setRef c" ChDeployment for setRef c
  by unfold_locales simp_all

interpretation serverServiceSent: child_resender setRef KCluster "cl_meta c" svc_meta "labelsForCluster (cname c)"
    "\<lambda>m ob. ob\<lparr>svc_meta := m, svc_selector := labelsForCluster (cname c), svc_ports :=
      [\<lparr>sp_name = ''http'', sp_port = defaultPort, sp_targetPort = FromString ''http'', sp_protocol = ''TCP''\<rparr>,
       \<lparr>sp_name = ''metrics'', sp_port = metricsPort, sp_targetPort = FromString ''metrics'', sp_protocol = ''TCP''\<rparr>]\<rparr>"
    "serviceCallback setRef c" ChService for setRef c
  by unfold_locales simp_all

interpretation redisDeploymentSent: child_resender setRef KCluster "cl_meta c" dep_meta "labelsForRedis (cname c)"
    "\<lambda>m ob. ob\<lparr>dep_meta := m, dep_spec := (dep_spec ob)\<lparr>ds_replicas := Some 1,
      ds_selector := Some (labelsForRedis (cname c)),
      ds_template := \<lparr>pt_labels = labelsForRedis (cname c), pt_spec = redisPodSpec\<rparr>\<rparr>\<rparr>"
    "redisDeploymentCallback setRef c" ChDeployment for setRef c
  by unfold_locales simp_all

interpretation redisServiceSent: child_resender setRef KCluster "cl_meta c" svc_meta "labelsForRedis (cname c)"
    "\<lambda>m ob. ob\<lparr>svc_meta := m, svc_selector := labelsForRedis (cname c), svc_ports :=
      [\<lparr>sp_name = ''redis'', sp_port = 6379, sp_targetPort = FromString ''redis'', sp_protocol = ''TCP''\<rparr>]\<rparr>"
    "redisServiceCallback setRef c" ChService for setRef c
  by unfold_locales simp_all

interpretation pdbSent: child_resender setRef KCluster "cl_meta c" pdb_meta "labelsForCluster (cname c)"
    "\<lambda>m ob. ob\<lparr>pdb_meta := m, pdb_selector := Some (labelsForCluster (cname c)),
      pdb_minAvailable := fst (pdbLimits c), pdb_maxUnavailable := snd (pdbLimits c)\<rparr>"
    "pdbCallback setRef c" ChPDB for setRef c
  by unfold_locales simp_all

interpretation workerDeploymentSent: child_resender setRef KWorker "wk_meta w" dep_meta
    "labelsForWorker (wname w) (cname c)"
    "\<lambda>m ob. ob\<lparr>dep_meta := m, dep_spec := (dep_spec ob)\<lparr>ds_replicas := Some (workerReplicas w),
      ds_selector := Some (labelsForWorker (wname w) (cname c)),
      ds_template := \<lparr>pt_labels = labelsForWorker (wname w) (cname c),
        pt_spec = emptyPodSpec\<lparr>ps_containers := [workerContainer w c],
          ps_terminationGracePeriodSeconds := Some (terminationGracePeriod w)\<rparr>\<rparr>\<rparr>\<rparr>"
    "workerDeploymentCallback setRef w c" ChDeployment for setRef w c
  by unfold_locales simp_all

interpretation hpaSent: child_resender setRef KWorker "wk_meta w" hpa_meta
    "labelsForWorker (wname w) (ws_clusterRef (wk_spec w))"
    "\<lambda>m ob. ob\<lparr>hpa_meta := m,
      hpa_scaleTargetRef := \<lparr>xr_apiVersion = ''apps/v1'', xr_kind = ''Deployment'', xr_name = wname w\<rparr>,
      hpa_minReplicas := Some (was_minReplicas a), hpa_maxReplicas := was_maxReplicas a,
      hpa_metrics := [\<lparr>ms_type = ''Resource'', ms_resource = ''cpu'', ms_targetType = ''Utilization'',
        ms_averageUtilization = Some 80\<rparr>]\<rparr>"
    "hpaCallback setRef w a" ChHPA for setRef w a
  by unfold_locales simp_all

lemmas resenders = configMapSent.resends_again serverDeploymentSent.resends_again serverServiceSent.resends_again
  redisDeploymentSent.resends_again redisServiceSent.resends_again pdbSent.resends_again workerDeploymentSent.resends_again
  hpaSent.resends_again

end
