(* ===== verification/Convergence.thy ===== *)
theory Convergence
  imports Resending ClusterProperties
begin

text \<open>
  Repeated reconciliation: one that succeeds leaves the children in the state it wants, and the next one
  changes none of them, whether it succeeds or not.
\<close>

subsection \<open>The plan settles\<close>

lemma plan_targets_distinct: "distinct (map target (clusterPlan setRef c))"
  by (simp add: clusterPlan_def redisPlan_def serverPlan_def new_object_defs)

text \<open>The calls whose failure a reconciliation reports: all but that for the ServiceMonitor, whose kind may not be installed.\<close>

fun required :: "call \<Rightarrow> bool" where
  "required (ApplyServiceMonitor u f) = False"
| "required c = True"

lemma plan_settling:
  assumes "owner_stable setRef"
  shows "list_all settling (filter required (clusterPlan setRef c))"
  by (simp add: clusterPlan_def redisPlan_def serverPlan_def resenders [OF assms])

lemma optional_planned:
  "d \<in> set (clusterPlan setRef c) \<Longrightarrow> \<not> required d \<Longrightarrow>
   monitoringWanted c \<and> target d = Some (KServiceMonitor, \<lparr>nn_namespace = cns c, nn_name = cname c @ ''-server''\<rparr>)"
  by (auto simp: clusterPlan_def redisPlan_def serverPlan_def new_object_defs split: if_splits)

text \<open>The plan depends on the spec and on the identity of the cluster only.\<close>

lemma same_pieces:
  assumes "same_demands c c'"
  shows "resolveBackendURL c' = resolveBackendURL c" "clusterReplicas c' = clusterReplicas c"
    "serverContainer c' = serverContainer c" "buildPodSecurityContext c' = buildPodSecurityContext c"
    "serviceMonitorSpec c' = serviceMonitorSpec c"
  using assms
  by (simp_all add: same_demands_def resolveBackendURL_def clusterReplicas_def serverContainer_def clusterImage_def
      serverEnvVars_def serverSecurityContext_def buildPodSecurityContext_def serviceMonitorSpec_def Let_def
      cong: if_cong option.case_cong)

lemma same_podSpec:
  assumes "same_demands c c'"
  shows "serverPodSpec c' = serverPodSpec c"
proof -
  have "cl_spec c' = cl_spec c" "cname c' = cname c" using assms by (simp_all add: same_demands_def)
  then show ?thesis by (simp only: serverPodSpec_def same_pieces [OF assms])
qed

lemma same_plan:
  assumes "owner_laws setRef" "same_demands c c'"
  shows "clusterPlan setRef c' = clusterPlan setRef c"
proof -
  have ref: "setRef knd (cl_meta c') m = setRef knd (cl_meta c) m" for knd m
    by (rule owner_laws.ref_same_owner [OF assms(1)]) (use assms(2) in \<open>simp_all add: same_demands_def\<close>)
  have demands: "cl_spec c' = cl_spec c" "cname c' = cname c" "cns c' = cns c"
    using assms(2) by (simp_all add: same_demands_def)
  have limits: "pdbLimits c' = pdbLimits c" by (simp add: pdbLimits_def demands)
  have callbacks: "configMapCallback setRef c' = configMapCallback setRef c"
    "serverDeploymentCallback setRef c' = serverDeploymentCallback setRef c"
    "serviceCallback setRef c' = serviceCallback setRef c"
    "redisDeploymentCallback setRef c' = redisDeploymentCallback setRef c"
    "redisServiceCallback setRef c' = redisServiceCallback setRef c"
    "pdbCallback setRef c' = pdbCallback setRef c"
    "serviceMonitorCallback setRef c' = serviceMonitorCallback setRef c"
    using same_pieces [OF assms(2)] same_podSpec [OF assms(2)]
    by (simp_all only: fun_eq_iff configMap.callback serverDeployment.callback serverService.callback
        redisDeployment.callback redisService.callback pdb.callback serviceMonitor.callback ref demands limits simp_thms)
  have "pdbWanted c' = pdbWanted c" "monitoringWanted c' = monitoringWanted c"
    by (simp_all only: pdbWanted_def monitoringWanted_def same_pieces [OF assms(2)] demands)
  then show ?thesis by (simp only: clusterPlan_def redisPlan_def serverPlan_def callbacks demands)
qed

subsection \<open>Convergence\<close>

lemma fatal_child: "child_call c \<Longrightarrow> required c \<Longrightarrow> \<not> fatal (c, e) \<Longrightarrow> e = None"
  by (cases c; cases e) simp_all

text \<open>A log without failure settles the calls it had to make; a log of settled calls changes nothing.\<close>

lemma log_settles:
  assumes A: "admission A" and run: "replay A cs m = Some m'" and calm: "\<not> has_fatal cs"
    and "distinct (map target (childCalls cs))" "list_all settling (filter required (childCalls cs))"
  shows "list_all (settled A m') (filter required (childCalls cs))"
proof -
  let ?cs = "filter (\<lambda>x. child_call (fst x)) cs"
  have "settled A m' c" if c: "c \<in> set (filter required (childCalls cs))" for c
  proof (rule replay_settles [OF A _ run [unfolded replay_child_calls [of A cs]]])
    show "distinct (map (target \<circ> fst) ?cs)" using assms(4) by (simp add: childCalls_def)
    obtain e where e: "(c, e) \<in> set cs" "child_call c" "required c" using c by (auto simp: childCalls_def)
    have "\<not> fatal (c, e)" using calm e(1) by (auto simp: list_ex_iff)
    then have "e = None" by (rule fatal_child [OF e(2,3)])
    then show "(c, None) \<in> set ?cs" using e(1,2) by simp
    show "settling c" using assms(5) c by (simp add: list_all_iff)
  qed
  then show ?thesis by (simp add: list_all_iff)
qed

text \<open>A log of settled calls, but for some whose slots are in \<open>S\<close>, changes nothing outside \<open>S\<close>.\<close>

lemma settled_log:
  assumes "replay A cs m = Some m'" "prefix (childCalls cs) p" "\<forall>c\<in>set p. target c \<in> Some ` S \<or> settled A m c" "k \<notin> S"
  shows "m' k = m k"
  by (rule replay_within [OF assms(1) _ _ assms(4), where m = m]) (use assms(3) set_mono_prefix [OF assms(2)] in auto)

text \<open>A run beside its logged twin.\<close>

lemma logged_run:
  obtains cs where "observe (Reconcile (logged_reconciler r) req) s = (fst (run_state (Reconcile r req) s), cs)"
    "run_state (Reconcile (logged_reconciler r) req) (s, []) =
       (fst (run_state (Reconcile r req) s), (snd (run_state (Reconcile r req) s), cs))"
proof -
  obtain x t cs where run: "run_state (Reconcile (logged_reconciler r) req) (s, []) = (x, (t, cs))"
    by (metis prod.collapse)
  have "x = fst (run_state (Reconcile r req) s) \<and> t = snd (run_state (Reconcile r req) s)"
    using Reconcile_log_transparent [of r req s "[]"] run by simp
  with run show ?thesis by (intro that [of cs]) (auto simp: observe_def)
qed

text \<open>What a reconciliation of a cluster that asks for the same as \<open>c\<close> does to the children, in terms of \<open>c\<close>.\<close>

lemma cluster_plan_of:
  assumes echo: "api_echo (rc_client r)" and owner: "owner_stable (SetControllerReference (rc_client r))"
    and read: "fst (run_state (GetOJSCluster (rc_client r) req) s) = Inr c'" and live: "IsZero (om_deletionTimestamp (cl_meta c))"
    and same: "same_demands c c'"
    and run: "observe (Reconcile (logged_reconciler r) req) s = (res, cs)"
  shows "prefix (childCalls cs) (clusterPlan (SetControllerReference (rc_client r)) c) \<and>
     (snd res = None \<longrightarrow> childCalls cs = clusterPlan (SetControllerReference (rc_client r)) c)"
proof -
  have names: "api_names (rc_client r)" using echo by (rule api_echo.axioms(1))
  have live': "IsZero (om_deletionTimestamp (cl_meta c'))" using same live by (simp add: same_demands_def)
  obtain v where "api_echo (rc_client r) \<longrightarrow> same_demands c' v" and planned: "prefix (childCalls cs) (clusterPlan (SetControllerReference (rc_client r)) v)"
      "snd res = None \<longrightarrow> childCalls cs = clusterPlan (SetControllerReference (rc_client r)) v"
    using Reconcile_plan [OF names read live' run] by (elim exE conjE) (rule that)
  then have "same_demands c v" using same_demands_trans(1) [OF same] echo by simp
  then show ?thesis using planned by (simp only: same_plan [OF owner_stable.axioms(1) [OF owner]])
qed

text \<open>A success settles the children.\<close>

lemma success_settles:
  assumes store: "child_store A (rc_client r) obs" and quiet: "quiet_recorder obs r"
    and owner: "owner_stable (SetControllerReference (rc_client r))" and echo: "api_echo (rc_client r)"
    and read: "fst (run_state (GetOJSCluster (rc_client r) req) s) = Inr c'" and same: "same_demands c c'"
    and c: "IsZero (om_deletionTimestamp (cl_meta c))"
    and success: "run_state (Reconcile r req) s = ((result, None), s')"
  shows "list_all (settled A (obs s')) (filter required (clusterPlan (SetControllerReference (rc_client r)) c))"
proof -
  let ?plan = "clusterPlan (SetControllerReference (rc_client r)) c"
  obtain cs where run: "observe (Reconcile (logged_reconciler r) req) s = ((result, None), cs)"
    "run_state (Reconcile (logged_reconciler r) req) (s, []) = ((result, None), (s', cs))"
    using logged_run [of r req s] success by auto
  have plan: "childCalls cs = ?plan"
    using cluster_plan_of [OF echo owner read c same run(1)] by simp
  have "\<not> has_fatal cs"
    using observeD [OF settles_Reconcile [unfolded settles_def] run(1)] by auto
  then show ?thesis
    using log_settles [OF child_store.axioms(1) [OF store], of cs "obs s" "obs s'"]
      observe_in [OF replayed_Reconcile [OF store quiet] run(2)] plan_targets_distinct plan_settling [OF owner]
    unfolding plan by blast
qed


subsection \<open>An instance\<close>

text \<open>What a computation upholds of the environment.\<close>

definition upholds :: "('s \<Rightarrow> bool) \<Rightarrow> ('s, 'a) state \<Rightarrow> bool" where
  "upholds I m \<longleftrightarrow> (\<forall>s. I s \<longrightarrow> I (snd (run_state m s)))"

named_theorems uphold_rules

lemma upholds_return [uphold_rules]: "upholds I (State_Monad.return a)"
  by (simp add: upholds_def)

lemma upholds_bind [uphold_rules]:
  "upholds I m \<Longrightarrow> (\<And>a. upholds I (f a)) \<Longrightarrow> upholds I (State_Monad.bind m f)"
  unfolding upholds_def by (auto split: prod.splits)

lemma upholds_if_err [uphold_rules]:
  "upholds I m \<Longrightarrow> (\<And>e. upholds I (h e)) \<Longrightarrow> (\<And>a. upholds I (k a)) \<Longrightarrow> upholds I (if_err m h k)"
  unfolding if_err_def by (rule upholds_bind) (auto split: sum.split)

lemma upholds_if [uphold_rules]:
  "(b \<Longrightarrow> upholds I m) \<Longrightarrow> (\<not> b \<Longrightarrow> upholds I n) \<Longrightarrow> upholds I (if b then m else n)"
  by simp

lemma upholds_case_option [uphold_rules]:
  "(x = None \<Longrightarrow> upholds I m) \<Longrightarrow> (\<And>y. x = Some y \<Longrightarrow> upholds I (n y)) \<Longrightarrow>
   upholds I (case x of None \<Rightarrow> m | Some y \<Rightarrow> n y)"
  by (cases x) simp_all

lemma upholds_case_prod [uphold_rules]:
  "(\<And>a b. x = (a, b) \<Longrightarrow> upholds I (m a b)) \<Longrightarrow> upholds I (case x of (a, b) \<Rightarrow> m a b)"
  by (cases x) simp

definition calmCluster :: OJSCluster where
  "calmCluster = demoCluster\<lparr>cl_spec := demoClusterSpec\<lparr>cs_monitoring := None\<rparr>\<rparr>"

definition calmWorld :: world where
  "calmWorld = demoWorld\<lparr>w_clusters := [demoKey ''c'' \<mapsto> calmCluster]\<rparr>"

text \<open>In the in-memory server, reconciling the steady cluster changes nothing of it but the status.\<close>

definition stillThere :: "world \<Rightarrow> bool" where
  "stillThere w \<longleftrightarrow> (\<exists>st. w_clusters w (demoKey ''c'') = Some (calmCluster\<lparr>cl_status := st\<rparr>))"

lemma stillThere_other [simp]:
  "stillThere (w_clock_update f w) = stillThere w" "stillThere (w_events_update g w) = stillThere w"
  "stillThere (w_configMaps_update h w) = stillThere w" "stillThere (w_deployments_update i w) = stillThere w"
  "stillThere (w_services_update j w) = stillThere w" "stillThere (w_pdbs_update k w) = stillThere w"
  "stillThere (w_monitors_update l w) = stillThere w"
  by (simp_all add: stillThere_def)

lemma calm_meta [simp]:
  "om_deletionTimestamp (cl_meta calmCluster) = None" "om_name (cl_meta calmCluster) = ''c''"
  "om_namespace (cl_meta calmCluster) = ''ns''"
  by (simp_all add: calmCluster_def demoCluster_def demoMeta_def emptyMeta_def)

lemma upholds_memKube [uphold_rules]:
  "upholds stillThere (GetDeployment memKube k)" "upholds stillThere (GetOJSCluster memKube k)"
  "upholds stillThere (Now memKube)" "upholds stillThere (memRecord e)"
  "upholds stillThere (CreateOrUpdateConfigMap memKube cm f)" "upholds stillThere (CreateOrUpdateDeployment memKube d g)"
  "upholds stillThere (CreateOrUpdateService memKube sv h)" "upholds stillThere (CreateOrUpdatePDB memKube p i)"
  "upholds stillThere (CreateOrUpdateUnstructured memKube u j)"
  by (auto simp: upholds_def memKube_simps Let_def split: option.splits sum.splits)

lemma upholds_statusUpdate [uphold_rules]: "upholds stillThere (StatusUpdateOJSCluster memKube c)"
proof -
  have "stillThere (snd (run_state (StatusUpdateOJSCluster memKube c) w))" if "stillThere w" for w
    using that by (auto simp: stillThere_def memKube_simps key_of_def Let_def split: option.splits)
  then show ?thesis by (simp add: upholds_def)
qed

lemma upholds_status:
  "upholds stillThere (setCondition memReconciler c x)"
  "upholds stillThere (setConditions memReconciler c xs)"
  "upholds stillThere (recordEvent memReconciler c t rs msg)"
  "upholds stillThere (updateStatus memReconciler c)"
proof -
  show set: "upholds stillThere (setCondition memReconciler c x)" for c x
    unfolding setCondition_def by (simp add: memReconciler_client) (intro uphold_rules)
  show sets: "upholds stillThere (setConditions memReconciler c xs)" for c xs
    by (induction xs arbitrary: c) (auto intro!: uphold_rules set)
  show event: "upholds stillThere (recordEvent memReconciler c t rs msg)" for c t rs msg
    unfolding recordEvent_def record_event_def memReconciler_def reconciler.simps option.case by (intro uphold_rules)
  show "upholds stillThere (updateStatus memReconciler c)"
    unfolding updateStatus_def finishStatus_def Let_def memReconciler_client
    by (intro uphold_rules sets event)
qed

lemma calm_read: "fst (run_state (GetOJSCluster memKube (demoKey ''c'')) calmWorld) = Inr calmCluster"
  by (simp add: memKube_simps calmWorld_def key_of_def)

lemma calm_steady: "steady memKube calmCluster"
  using demo_steady by (simp add: steady_def calmCluster_def)

lemma upholds_backend: "upholds stillThere (clusterBackend memReconciler c)"
  unfolding clusterBackend_def clusterBackendFailed_def clusterChildren_def clusterMonitor_def reconcileConfigMap_def
    reconcileDeployment_def reconcileService_def reconcilePDB_def reconcileServiceMonitor_def
    reconcileEmbeddedBackend_def reconcileEmbeddedRedis_def requeueWith_def Let_def memReconciler_client
  by (intro uphold_rules upholds_status)

abbreviation calmRun :: "reconcile_result \<times> world" where
  "calmRun \<equiv> run_state (Reconcile memReconciler (demoKey ''c'')) calmWorld"

lemma calmRun_ok: "snd (fst calmRun) = None"
  by code_simp

lemma calmRun_still: "stillThere (snd calmRun)"
proof -
  have "run_state (Reconcile memReconciler (demoKey ''c'')) calmWorld = run_state (clusterBackend memReconciler calmCluster) calmWorld"
    using calm_read calm_steady
    by (simp add: Reconcile_def if_err_def memReconciler_client clusterEnsureFinalizer_def clusterInitPhase_def steady_def
        Let_def memKube_def memGet_def split: prod.split)
  moreover have "stillThere calmWorld"
  proof -
    have "calmCluster\<lparr>cl_status := cl_status calmCluster\<rparr> = calmCluster" by (rule OJSCluster.equality) simp_all
    then have "w_clusters calmWorld (demoKey ''c'') = Some (calmCluster\<lparr>cl_status := cl_status calmCluster\<rparr>)"
      by (simp add: calmWorld_def)
    then show ?thesis unfolding stillThere_def by blast
  qed
  ultimately show ?thesis using upholds_backend unfolding upholds_def by metis
qed


end
