(* ===== verification/WorkerConvergence.thy ===== *)
theory WorkerConvergence
  imports Convergence WorkerReporting
begin

text \<open>
  Repeated reconciliation of a worker: as for clusters, and independent of what became of the referenced
  cluster in between, for the children depend on its name only.
\<close>

subsection \<open>The plan settles\<close>

lemma worker_targets_distinct: "removalOf w rm \<Longrightarrow> distinct (map target (workerPlan setRef w c rm))"
  by (auto simp: workerPlan_def hpaPlan_def Let_def split: option.split)

lemma worker_plan_settling:
  assumes "owner_stable setRef"
  shows "list_all settling (workerPlan setRef w c rm)"
  by (auto simp: workerPlan_def hpaPlan_def Let_def resenders [OF assms] split: option.split)

lemma worker_plan_required: "filter required (workerPlan setRef w c rm) = workerPlan setRef w c rm"
  by (auto simp: workerPlan_def hpaPlan_def Let_def split: option.split)

text \<open>The plan depends on the spec and the identity of the worker, and on the name of the cluster.\<close>

lemma same_worker_plan:
  assumes laws: "owner_laws setRef" and demands: "same_worker_demands w w'" and "key_of (cl_meta c') = key_of (cl_meta c)"
  shows "workerPlan setRef w' c' rm = workerPlan setRef w c rm"
proof -
  have ref: "setRef knd (wk_meta w') m = setRef knd (wk_meta w) m" for knd m
    by (rule owner_laws.ref_same_owner [OF laws]) (use demands in \<open>simp_all add: same_worker_demands_def\<close>)
  have names: "cname c' = cname c" "cns c' = cns c" using assms(3) by (simp_all add: key_of_def)
  have spec: "wk_spec w' = wk_spec w" "wname w' = wname w" "wns w' = wns w"
    using demands by (simp_all add: same_worker_demands_def)
  have pod: "workerContainer w' c' = workerContainer w c" "terminationGracePeriod w' = terminationGracePeriod w"
    "workerReplicas w' = workerReplicas w"
    by (simp_all add: workerContainer_def workerEnvVars_def workerServerURL_def terminationGracePeriod_def
        workerReplicas_def spec names Let_def)
  have "workerDeploymentCallback setRef w' c' = workerDeploymentCallback setRef w c"
    "hpaCallback setRef w' = hpaCallback setRef w"
    by (simp_all only: fun_eq_iff workerDeployment.callback hpa.callback ref names spec pod simp_thms)
  then show ?thesis by (simp only: workerPlan_def hpaPlan_def spec)
qed

text \<open>With autoscaling the plan removes nothing.\<close>

lemma scaling_plan: "workerScales w \<Longrightarrow> workerPlan setRef w c rm = workerPlan setRef w c None"
  by (auto simp: workerPlan_def hpaPlan_def workerScales_def split: option.splits)

subsection \<open>Convergence\<close>

lemma none_removal: "removalOf w None"
  by (simp add: removalOf_def)

lemma removal_settled:
  assumes "list_all (ChildStore.settled A m) (workerPlan setRef w c rm)" "removalOf w rm'"
    and "workerScales w \<or> m (KHPA, hpaKey w) = None"
  shows "list_all (ChildStore.settled A m) (workerPlan setRef w c rm')"
  using assms
  by (auto simp: workerPlan_def hpaPlan_def removalOf_def workerScales_def ChildStore.settled_def fun_upd_idem_iff Let_def
      split: option.splits)

lemma calls_settled_or_removal:
  assumes "list_all (ChildStore.settled A m) (workerPlan setRef w c rm)" "prefix (childCalls ds) (workerPlan setRef w c rm')"
    and "removalOf w rm'"
  shows "\<forall>d\<in>set (childCalls ds). target d = Some (KHPA, hpaKey w) \<or> ChildStore.settled A m d"
proof -
  have "\<forall>d\<in>set (workerPlan setRef w c rm'). target d = Some (KHPA, hpaKey w) \<or> ChildStore.settled A m d"
    using assms(1,3)
    by (auto simp: workerPlan_def hpaPlan_def removalOf_def workerScales_def Let_def split: option.splits)
  then show ?thesis using set_mono_prefix [OF assms(2)] by blast
qed

text \<open>What a reconciliation of a worker that asks for the same as \<open>w\<close> does to the children, in terms of \<open>w\<close>.\<close>

lemma worker_plan_of:
  assumes echo: "api_echo (rc_client r)" and owner: "owner_stable (SetControllerReference (rc_client r))"
    and read: "fst (run_state (GetOJSWorker (rc_client r) req) s) = Inr w'" and live: "IsZero (om_deletionTimestamp (wk_meta w))"
    and same: "same_worker_demands w w'"
    and run: "observe (ReconcileWorker (logged_reconciler r) req) s = (res, cs)"
  shows "waitsForCluster res cs \<or> (childCalls cs = [] \<and> snd res \<noteq> None) \<or>
     (\<exists>c rm. key_of (cl_meta c) = \<lparr>nn_namespace = wns w, nn_name = ws_clusterRef (wk_spec w)\<rparr> \<and> removalOf w rm \<and>
       prefix (childCalls cs) (workerPlan (SetControllerReference (rc_client r)) w c rm) \<and>
       (snd res = None \<longrightarrow> childCalls cs = workerPlan (SetControllerReference (rc_client r)) w c rm))"
proof -
  have names: "api_names (rc_client r)" using echo by (rule api_echo.axioms(1))
  have live': "IsZero (om_deletionTimestamp (wk_meta w'))" using same live by (simp add: same_worker_demands_def)
  obtain v where "api_echo (rc_client r) \<longrightarrow> same_worker_demands w' v" and planned: "workerPlanned (rc_client r) v res cs"
    using ReconcileWorker_plan [OF names read live' run] by (elim exE conjE) (rule that)
  then have v: "same_worker_demands w v" using same_demands_trans(2) [OF same] echo by simp
  then have eqs: "wk_spec v = wk_spec w" "wns v = wns w" "workerScales v = workerScales w" "hpaKey v = hpaKey w"
    by (simp_all add: same_worker_demands_def workerScales_def hpaKey_def)
  have plan: "workerPlan (SetControllerReference (rc_client r)) v c rm = workerPlan (SetControllerReference (rc_client r)) w c rm" for c rm
    by (rule same_worker_plan [OF owner_stable.axioms(1) [OF owner] v]) simp
  have removal: "removalOf v rm = removalOf w rm" for rm by (simp add: removalOf_def eqs)
  from planned show ?thesis
    unfolding workerPlanned_def workerFollows_def plan eqs removal
  proof (elim disjE exE conjE)
    fix c rm
    assume "key_of (cl_meta c) = \<lparr>nn_namespace = wns w, nn_name = ws_clusterRef (wk_spec w)\<rparr>" "removalOf w rm"
      "prefix (childCalls cs) (workerPlan (SetControllerReference (rc_client r)) w c rm)"
      "snd res = None \<longrightarrow> childCalls cs = workerPlan (SetControllerReference (rc_client r)) w c rm \<and>
        (\<exists>w'. key_of (wk_meta w') = key_of (wk_meta v) \<and> fst res = requeueInterval (rc_client r) w')"
    then show ?thesis by (intro disjI2 exI [of _ c] exI [of _ rm]) simp
  qed simp_all
qed

text \<open>A success settles the children, or waits for the cluster.\<close>

lemma worker_success_settles:
  assumes store: "child_store A (rc_client r) obs" and quiet: "quiet_recorder obs r"
    and owner: "owner_stable (SetControllerReference (rc_client r))" and echo: "api_echo (rc_client r)"
    and read: "fst (run_state (GetOJSWorker (rc_client r) req) s) = Inr w'" "IsZero (om_deletionTimestamp (wk_meta w))"
      "same_worker_demands w w'"
    and success: "run_state (ReconcileWorker (logged_reconciler r) req) (s, []) = ((result, None), (s', cs))"
  shows "waitsForCluster (result, None) cs \<or>
    (\<exists>c rm. key_of (cl_meta c) = \<lparr>nn_namespace = wns w, nn_name = ws_clusterRef (wk_spec w)\<rparr> \<and> removalOf w rm \<and>
      list_all (ChildStore.settled A (obs s')) (workerPlan (SetControllerReference (rc_client r)) w c rm))"
proof (cases "waitsForCluster (result, None) cs")
  case False
  let ?ref = "SetControllerReference (rc_client r)"
  have run: "observe (ReconcileWorker (logged_reconciler r) req) s = ((result, None), cs)"
    using success by (simp add: observe_def)
  obtain c rm where c: "key_of (cl_meta c) = \<lparr>nn_namespace = wns w, nn_name = ws_clusterRef (wk_spec w)\<rparr>"
    and rm: "removalOf w rm" and plan: "childCalls cs = workerPlan ?ref w c rm"
    using worker_plan_of [OF echo owner read run] False by auto
  have "childCalls cs \<noteq> []" by (simp add: plan workerPlan_def)
  then have "\<not> clusterMissing cs"
    using missing_childless [OF run] by blast
  then have "\<not> has_fatal cs"
    using observeD [OF traces_ReconcileWorker run] by auto
  then have "list_all (ChildStore.settled A (obs s')) (workerPlan ?ref w c rm)"
    using log_settles [OF child_store.axioms(1) [OF store], of cs "obs s" "obs s'"]
      observe_in [OF replayed_ReconcileWorker [OF store quiet] success] worker_targets_distinct [OF rm]
      worker_plan_settling [OF owner] unfolding plan worker_plan_required by blast
  then show ?thesis using c rm by blast
qed simp


subsection \<open>An instance\<close>

definition workerThere :: "world \<Rightarrow> bool" where
  "workerThere w \<longleftrightarrow> (\<exists>st. w_workers w (demoKey ''w'') = Some (demoWorker\<lparr>wk_status := st\<rparr>))"

lemma workerThere_other [simp]:
  "workerThere (w_clock_update f w) = workerThere w" "workerThere (w_events_update g w) = workerThere w"
  "workerThere (w_deployments_update i w) = workerThere w" "workerThere (w_hpas_update j w) = workerThere w"
  by (simp_all add: workerThere_def)

lemma demoWorker_meta [simp]:
  "om_deletionTimestamp (wk_meta demoWorker) = None" "om_name (wk_meta demoWorker) = ''w''"
  "om_namespace (wk_meta demoWorker) = ''ns''"
  by (simp_all add: demoWorker_def demoMeta_def emptyMeta_def)

lemma upholds_memKube_worker [uphold_rules]:
  "upholds workerThere (GetDeployment memKube k)" "upholds workerThere (GetOJSCluster memKube k)"
  "upholds workerThere (GetHPA memKube k)" "upholds workerThere (DeleteHPA memKube h)"
  "upholds workerThere (Now memKube)" "upholds workerThere (memRecord e)"
  "upholds workerThere (CreateOrUpdateDeployment memKube d g)" "upholds workerThere (CreateOrUpdateHPA memKube hp f)"
  by (auto simp: upholds_def memKube_simps Let_def split: option.splits sum.splits)

lemma upholds_workerStatusUpdate [uphold_rules]: "upholds workerThere (StatusUpdateOJSWorker memKube c)"
proof -
  have "workerThere (snd (run_state (StatusUpdateOJSWorker memKube c) w))" if "workerThere w" for w
    using that by (auto simp: workerThere_def memKube_simps key_of_def Let_def split: option.splits)
  then show ?thesis by (simp add: upholds_def)
qed

lemma upholds_worker_status:
  "upholds workerThere (setWorkerCondition memReconciler w x)"
  "upholds workerThere (setWorkerConditions memReconciler w xs)"
  "upholds workerThere (recordWorkerEvent memReconciler w t rs msg)"
  "upholds workerThere (updateWorkerStatus memReconciler w)"
proof -
  show set: "upholds workerThere (setWorkerCondition memReconciler w x)" for w x
    unfolding setWorkerCondition_def by (simp add: memReconciler_client) (intro uphold_rules)
  show sets: "upholds workerThere (setWorkerConditions memReconciler w xs)" for w xs
    by (induction xs arbitrary: w) (auto intro!: uphold_rules set)
  show event: "upholds workerThere (recordWorkerEvent memReconciler w t rs msg)" for w t rs msg
    unfolding recordWorkerEvent_def record_event_def memReconciler_def reconciler.simps option.case by (intro uphold_rules)
  show "upholds workerThere (updateWorkerStatus memReconciler w)"
    unfolding updateWorkerStatus_def finishWorkerStatus_def Let_def memReconciler_client
    by (intro uphold_rules sets event)
qed

lemma upholds_resolve: "upholds workerThere (workerResolveCluster memReconciler w)"
  unfolding workerResolveCluster_def workerClusterMissing_def workerReconcileChildren_def reconcileWorkerDeployment_def
    reconcileWorkerHPA_def Let_def memReconciler_client
  by (intro uphold_rules upholds_worker_status)

abbreviation workerOnce :: "reconcile_result \<times> world" where
  "workerOnce \<equiv> run_state (ReconcileWorker memReconciler (demoKey ''w'')) demoWorld"

lemma workerOnce_there: "workerThere (snd workerOnce)"
proof -
  have "workerOnce = run_state (workerResolveCluster memReconciler demoWorker) demoWorld"
    using worker_read demo_hasWorkerFinalizer
    by (simp add: ReconcileWorker_def if_err_def memReconciler_client workerEnsureFinalizer_def hasWorkerFinalizer_def
        Let_def memKube_def memGet_def split: prod.split)
  moreover have "workerThere demoWorld"
  proof -
    have "demoWorker\<lparr>wk_status := wk_status demoWorker\<rparr> = demoWorker" by (rule OJSWorker.equality) simp_all
    then have "w_workers demoWorld (demoKey ''w'') = Some (demoWorker\<lparr>wk_status := wk_status demoWorker\<rparr>)"
      by (simp add: demoWorld_def)
    then show ?thesis unfolding workerThere_def by blast
  qed
  ultimately show ?thesis using upholds_resolve unfolding upholds_def by metis
qed


end
