(* ===== verification/Isolation.thy ===== *)
theory Isolation
  imports WorkerConvergence ClusterScope
begin

text \<open>
  The two controllers run at the same time, each with several resources. Their calls interleave in any order; this
  theory shows when the children of one resource do not notice the others: always, but for a worker named like
  a Deployment of a cluster.
\<close>

subsection \<open>Whose child is it\<close>

datatype resource = ClusterAt NamespacedName | WorkerAt NamespacedName

fun slotsOf :: "resource \<Rightarrow> slot set" where
  "slotsOf (ClusterAt req) = {(KConfigMap, childKey req ''-config''), (KDeployment, childKey req ''-server''),
     (KDeployment, childKey req ''-redis''), (KService, childKey req ''-server''), (KService, childKey req ''-redis''),
     (KPDB, childKey req ''-server''), (KServiceMonitor, childKey req ''-server'')}"
| "slotsOf (WorkerAt req) = {(KDeployment, req), (KHPA, childKey req ''-hpa'')}"

fun inScopeOf :: "resource \<Rightarrow> call \<Rightarrow> bool" where
  "inScopeOf (ClusterAt req) c = inScope req c"
| "inScopeOf (WorkerAt req) c = inWorkerScope req c"

lemma scope_target: "inScopeOf x c \<Longrightarrow> target c = Some k \<Longrightarrow> k \<in> slotsOf x"
  by (cases x; cases c) (auto simp: childKey_def)

text \<open>The only way two resources can meet.\<close>

fun apart :: "resource \<Rightarrow> resource \<Rightarrow> bool" where
  "apart (ClusterAt a) (ClusterAt b) = (a \<noteq> b)"
| "apart (WorkerAt a) (WorkerAt b) = (a \<noteq> b)"
| "apart (ClusterAt a) (WorkerAt b) = (b \<noteq> childKey a ''-server'' \<and> b \<noteq> childKey a ''-redis'')"
| "apart (WorkerAt a) (ClusterAt b) = (a \<noteq> childKey b ''-server'' \<and> a \<noteq> childKey b ''-redis'')"

lemma childKey_inject [simp]: "childKey a s = childKey b s \<longleftrightarrow> a = b"
  by (cases a; cases b) (auto simp: childKey_def)

lemma childKey_server_redis [simp]: "childKey a ''-server'' \<noteq> childKey b ''-redis''"
  by (auto simp: childKey_def append_eq_append_conv2 Cons_eq_append_conv)

lemma apart_iff_disjoint: "apart x y \<longleftrightarrow> slotsOf x \<inter> slotsOf y = {}"
  by (cases "(x, y)" rule: apart.cases) (auto simp: childKey_server_redis [symmetric])

lemma apart_sym: "apart x y = apart y x"
  unfolding apart_iff_disjoint by (rule arg_cong [where f = "\<lambda>s. s = {}"]) (rule Int_commute)

subsection \<open>Logs of several reconciliations\<close>

definition agree :: "slot set \<Rightarrow> children \<Rightarrow> children \<Rightarrow> bool" where
  "agree S m n \<longleftrightarrow> (\<forall>k\<in>S. m k = n k)"

lemma agree_refl: "agree S m m"
  by (simp add: agree_def)

lemma agree_upd: "agree S m n \<Longrightarrow> agree S (m(k := v)) (n(k := v))"
  unfolding agree_def by (metis fun_upd_apply)

lemma put_child_agrees:
  assumes "put_child A k wrap unwrap new f m = Some m'" "agree S m n" "k \<in> S"
  shows "\<exists>n'. put_child A k wrap unwrap new f n = Some n' \<and> agree S m' n'"
  using assms by (auto simp: put_child_def agree_def split: sum.splits)

lemma apply_call_agrees:
  assumes "apply_call A c m = Some m'" "agree S m n" "\<And>k. target c = Some k \<Longrightarrow> k \<in> S"
  shows "\<exists>n'. apply_call A c n = Some n' \<and> agree S m' n'"
proof (cases c)
  case (RemoveHPA h)
  then show ?thesis using assms(1) agree_upd [OF assms(2)] by auto
qed (use assms in \<open>auto intro: put_child_agrees\<close>)

lemma apply_call_apart:
  assumes "apply_call A c m = Some m'" "agree S m n" "\<And>k. target c = Some k \<Longrightarrow> k \<notin> S"
  shows "agree S m' n"
  unfolding agree_def
proof
  fix k assume "k \<in> S"
  then have "target c \<noteq> Some k" using assms(3) by blast
  with apply_call_elsewhere [OF assms(1)] assms(2) \<open>k \<in> S\<close> show "m' k = n k" by (simp add: agree_def)
qed

text \<open>The entries of one resource, in their order.\<close>

definition own :: "'x \<Rightarrow> ('x \<times> entry) list \<Rightarrow> entry list" where
  "own x ds = map snd (filter (\<lambda>d. fst d = x) ds)"

lemma own_simps [simp]:
  "own x [] = []" "own x ((y, e) # ds) = (if y = x then e # own x ds else own x ds)"
  by (simp_all add: own_def)

lemma replay_own:
  assumes "replay A (map snd ds) m = Some m'" "agree S m n"
    and "\<forall>(y, c, e)\<in>set ds. \<forall>k. target c = Some k \<longrightarrow> (k \<in> S \<longleftrightarrow> y = x)"
  shows "\<exists>n'. replay A (own x ds) n = Some n' \<and> agree S m' n'"
  using assms
proof (induction ds arbitrary: m n)
  case (Cons d ds)
  obtain y c e where d: "d = (y, c, e)" by (metis prod.collapse)
  have rest: "\<forall>(y, c, e)\<in>set ds. \<forall>k. target c = Some k \<longrightarrow> (k \<in> S \<longleftrightarrow> y = x)"
    and here: "\<And>k. target c = Some k \<Longrightarrow> (k \<in> S \<longleftrightarrow> y = x)"
    using Cons.prems(3) by (auto simp: d)
  show ?case
  proof (cases e)
    case (Some err)
    then show ?thesis using Cons.IH [OF _ Cons.prems(2) rest] Cons.prems(1) by (simp add: d)
  next
    case None
    then obtain m1 where m1: "apply_call A c m = Some m1" "replay A (map snd ds) m1 = Some m'"
      using Cons.prems(1) by (auto simp: d split: bind_splits)
    show ?thesis
    proof (cases "y = x")
      case True
      then obtain n1 where "apply_call A c n = Some n1" "agree S m1 n1"
        using apply_call_agrees [OF m1(1) Cons.prems(2)] here by metis
      then show ?thesis using Cons.IH [OF m1(2) _ rest] True None by (simp add: d)
    next
      case False
      then have "agree S m1 n" using apply_call_apart [OF m1(1) Cons.prems(2)] here by metis
      then show ?thesis using Cons.IH [OF m1(2) _ rest] False by (simp add: d)
    qed
  qed
qed (auto simp: own_def)

subsection \<open>Isolation\<close>

text \<open>What one attempt to reconcile \<open>x\<close> calls, when \<open>s\<close> is the environment that answers it. That environment is arbitrary:
  whatever others do in between is part of its answers.\<close>

fun logOf :: "'s reconciler \<Rightarrow> 's reconciler \<Rightarrow> resource \<Rightarrow> 's \<Rightarrow> entry list" where
  "logOf rc rw (ClusterAt req) s = snd (observe (Reconcile (logged_reconciler rc) req) s)"
| "logOf rc rw (WorkerAt req) s = snd (observe (ReconcileWorker (logged_reconciler rw) req) s)"

lemma logOf_scope:
  assumes "api_names (rc_client rc)" "api_names (rc_client rw)"
  shows "list_all (\<lambda>e. inScopeOf x (fst e)) (logOf rc rw x s)"
  using Reconcile_in_scope [OF assms(1) prod.collapse [symmetric]]
    ReconcileWorker_scope [OF assms(2) prod.collapse [symmetric]]
  by (cases x) simp_all

lemma in_own: "(y, e) \<in> set ds \<Longrightarrow> e \<in> set (own y ds)"
  by (force simp: own_def)

text \<open>C6. Isolation. Let the two controllers make any number of attempts on each of the resources \<open>xs\<close>, one after the other for
  one resource, but with the calls of different resources interleaved in any order \<open>ds\<close>. When no worker
  among them is named like a Deployment of one of the clusters, the children of each resource end up as if its own calls had
  been the only ones, and nothing else is touched.\<close>

theorem reconcilers_isolated:
  assumes "api_names (rc_client rc)" and "api_names (rc_client rw)"
    and distinct: "\<forall>x\<in>xs. \<forall>y\<in>xs. x \<noteq> y \<longrightarrow> apart x y"
    and logs: "\<forall>x\<in>xs. own x ds = concat (map (logOf rc rw x) (attempts x))" and tags: "fst ` set ds \<subseteq> xs"
    and effect: "replay A (map snd ds) m = Some m'"
  shows "(\<forall>x\<in>xs. \<exists>mx. replay A (concat (map (logOf rc rw x) (attempts x))) m = Some mx \<and> (\<forall>k\<in>slotsOf x. m' k = mx k)) \<and>
    (\<forall>k. (\<forall>x\<in>xs. k \<notin> slotsOf x) \<longrightarrow> m' k = m k)"
proof -
  have scope: "y \<in> xs \<and> k \<in> slotsOf y" if "(y, c, e) \<in> set ds" "target c = Some k" for y c e k
  proof -
    have y: "y \<in> xs" using tags that(1) by force
    then have "(c, e) \<in> set (concat (map (logOf rc rw y) (attempts y)))"
      using in_own [OF that(1)] logs by simp
    then obtain s where "(c, e) \<in> set (logOf rc rw y s)" by auto
    then have "inScopeOf y c"
      using logOf_scope [OF assms(1,2), of y s, unfolded list_all_iff, rule_format] by fastforce
    then show ?thesis using y scope_target that(2) by blast
  qed
  have "\<exists>mx. replay A (own x ds) m = Some mx \<and> agree (slotsOf x) m' mx" if "x \<in> xs" for x
  proof (rule replay_own [OF effect agree_refl], safe)
    fix y c e k1 k2 assume d: "(y, c, e) \<in> set ds" "target c = Some (k1, k2)"
    show "y = x" if k: "(k1, k2) \<in> slotsOf x"
    proof (rule ccontr)
      assume "y \<noteq> x"
      then have "slotsOf y \<inter> slotsOf x = {}" using distinct scope [OF d] \<open>x \<in> xs\<close> apart_iff_disjoint by blast
      then show False using scope [OF d] k by blast
    qed
  qed (use scope in blast)
  moreover have "m' k = m k" if "\<forall>x\<in>xs. k \<notin> slotsOf x" for k
  proof (rule replay_within [OF effect, where S = "\<Union> (slotsOf ` xs)" and m = m])
    show "\<forall>c\<in>set (childCalls (map snd ds)). target c \<in> Some ` \<Union> (slotsOf ` xs) \<or> ChildStore.settled A m c"
    proof
      fix c assume "c \<in> set (childCalls (map snd ds))"
      then obtain y e where "(y, c, e) \<in> set ds" "child_call c" by (auto simp: childCalls_def)
      moreover obtain k where "target c = Some k" using \<open>child_call c\<close> by (cases c) auto
      ultimately show "target c \<in> Some ` \<Union> (slotsOf ` xs) \<or> ChildStore.settled A m c" using scope by blast
    qed
  qed (use that in auto)
  ultimately show ?thesis using logs by (auto simp: agree_def)
qed

text \<open>The demonstration: one attempt on the cluster, then one on the worker.\<close>

lemma own_tagged [simp]:
  "own x (map (Pair x) cs) = cs" "x \<noteq> y \<Longrightarrow> own x (map (Pair y) cs) = []"
  "own x (ds @ es) = own x ds @ own x es"
  by (induction cs) (simp_all add: own_def)

abbreviation afterCluster :: world where
  "afterCluster \<equiv> snd (run_state (Reconcile memReconciler (demoKey ''c'')) demoWorld)"

abbreviation afterBoth :: world where
  "afterBoth \<equiv> snd (run_state (ReconcileWorker memReconciler (demoKey ''w'')) afterCluster)"

theorem reconcilers_isolated_witness:
  "\<exists>mx. replay memAdmit (logOf memReconciler memReconciler (WorkerAt (demoKey ''w'')) afterCluster) (mem_children demoWorld) = Some mx \<and>
     (\<forall>k\<in>slotsOf (WorkerAt (demoKey ''w'')). mem_children afterBoth k = mx k)"
proof -
  let ?c = "ClusterAt (demoKey ''c'')" and ?w = "WorkerAt (demoKey ''w'')"
  let ?log = "logOf memReconciler memReconciler"
  let ?attempts = "\<lambda>x. if x = ?c then [demoWorld] else [afterCluster]"
  let ?ds = "map (Pair ?c) (?log ?c demoWorld) @ map (Pair ?w) (?log ?w afterCluster)"
  have apart: "apart ?c ?w" by (simp add: childKey_def)
  have first: "replay memAdmit (?log ?c demoWorld) (mem_children demoWorld) = Some (mem_children afterCluster)"
    using mem_replayed [of "demoKey ''c''"]
      Reconcile_log_transparent [of memReconciler "demoKey ''c''" demoWorld "[]"]
    unfolding runs_in_def logOf.simps observe_def by (auto split: prod.splits) (metis append_Nil prod.collapse)
  have second: "replay memAdmit (?log ?w afterCluster) (mem_children afterCluster) = Some (mem_children afterBoth)"
    using mem_replayedWorker [of "demoKey ''w''"]
      ReconcileWorker_log_transparent [of memReconciler "demoKey ''w''" afterCluster "[]"]
    unfolding runs_in_def logOf.simps observe_def by (auto split: prod.splits) (metis append_Nil prod.collapse)
  have effect: "replay memAdmit (map snd ?ds) (mem_children demoWorld) = Some (mem_children afterBoth)"
    by (simp add: replay_append comp_def first [simplified] second [simplified])
  have names: "api_names (rc_client memReconciler)"
    unfolding memReconciler_client by (rule mem.api_names_axioms)
  have pair: "\<forall>x\<in>{?c, ?w}. \<forall>y\<in>{?c, ?w}. x \<noteq> y \<longrightarrow> apart x y" using apart apart_sym by blast
  have logs: "\<forall>x\<in>{?c, ?w}. own x ?ds = concat (map (?log x) (?attempts x))" by simp
  have tags: "fst ` set ?ds \<subseteq> {?c, ?w}" by auto
  show ?thesis
    using reconcilers_isolated [OF names names pair logs tags effect, THEN conjunct1, rule_format, of ?w]
    by simp
qed

end
