(* ===== verification/Json.thy ===== *)
theory Json
  imports Prelude
begin

text \<open>
  JSON values, the way Go's \<^verbatim>\<open>encoding/json\<close> reads and writes the fields of a struct by their tags, and the
  schemas of custom resource definitions: which values they accept, and what the API server makes of a
  value before it stores it (unknown fields are pruned, absent ones get their defaults).
\<close>

subsection \<open>Values\<close>

datatype jvalue =
    JBool bool
  | JInt int
  | JString string
  | JArray "jvalue list"
  | JObject "string \<rightharpoonup> jvalue"

subsection \<open>Writing a struct\<close>

text \<open>A struct is written field by field; a field with \<^verbatim>\<open>omitempty\<close> may be left out.\<close>

definition struct :: "(string \<times> jvalue option) list \<Rightarrow> jvalue" where
  "struct fs = JObject (\<lambda>k. Option.bind (map_of fs k) id)"

definition unless_empty :: "string \<Rightarrow> jvalue option" where
  "unless_empty s = (if s = [] then None else Some (JString s))"

definition unless_false :: "bool \<Rightarrow> jvalue option" where
  "unless_false b = (if b then Some (JBool b) else None)"

definition json_word :: "'w::len word \<Rightarrow> jvalue" where
  "json_word i = JInt (sint i)"

definition unless_zero :: "'w::len word \<Rightarrow> jvalue option" where
  "unless_zero i = (if i = 0 then None else Some (json_word i))"

definition unless_none :: "('a \<Rightarrow> jvalue) \<Rightarrow> 'a list \<Rightarrow> jvalue option" where
  "unless_none enc xs = (if xs = [] then None else Some (JArray (map enc xs)))"

subsection \<open>Reading a struct\<close>

text \<open>\<^verbatim>\<open>json.Unmarshal\<close> leaves the zero value in a field that is absent, ignores unknown fields, and fails on a value of another
  type or a number out of range.\<close>

fun string_of_json :: "jvalue \<Rightarrow> string option" where
  "string_of_json (JString s) = Some s"
| "string_of_json j = None"

fun bool_of_json :: "jvalue \<Rightarrow> bool option" where
  "bool_of_json (JBool b) = Some b"
| "bool_of_json j = None"

fun word_of_json :: "jvalue \<Rightarrow> 'w::len word option" where
  "word_of_json (JInt i) = (if sint (word_of_int i :: 'w word) = i then Some (word_of_int i) else None)"
| "word_of_json j = None"

fun read_each :: "(jvalue \<Rightarrow> 'a option) \<Rightarrow> jvalue list \<Rightarrow> 'a list option" where
  "read_each dec [] = Some []"
| "read_each dec (j # js) = Option.bind (dec j) (\<lambda>x. map_option ((#) x) (read_each dec js))"

fun list_of_json :: "(jvalue \<Rightarrow> 'a option) \<Rightarrow> jvalue \<Rightarrow> 'a list option" where
  "list_of_json dec (JArray js) = read_each dec js"
| "list_of_json dec j = None"

fun object_of_json :: "((string \<rightharpoonup> jvalue) \<Rightarrow> 'a option) \<Rightarrow> jvalue \<Rightarrow> 'a option" where
  "object_of_json dec (JObject m) = dec m"
| "object_of_json dec j = None"

text \<open>The field \<open>k\<close>, or its zero value \<open>z\<close>.\<close>

definition field :: "(jvalue \<Rightarrow> 'a option) \<Rightarrow> 'a \<Rightarrow> (string \<rightharpoonup> jvalue) \<Rightarrow> string \<Rightarrow> 'a option" where
  "field dec z m k = (case m k of None \<Rightarrow> Some z | Some j \<Rightarrow> dec j)"

abbreviation pointer :: "(jvalue \<Rightarrow> 'a option) \<Rightarrow> jvalue \<Rightarrow> 'a option option" where
  "pointer dec j \<equiv> map_option Some (dec j)"

subsection \<open>Schemas\<close>

text \<open>A schema node of a custom resource definition. An object names its properties, each with its default if it has
  one, and the required ones; an integer may have a minimum, an array a least length, a string a list of
  values. \<open>SQuantities\<close> is an object whose members are all integers or strings.\<close>

datatype schema =
    SObject (properties: "(string \<times> jvalue option \<times> schema) list") "string list"
  | SArray schema nat
  | SString "string list option"
  | SInteger "int option"
  | SBoolean
  | SQuantities

lemma property_smaller [termination_simp]:
  "map_of ps k = Some (d, s) \<Longrightarrow> size s < Suc (size_list (\<lambda>p. Suc (Suc (size (snd (snd p))))) ps)"
proof (induction ps)
  case (Cons p ps)
  then show ?case by (cases p) (auto split: if_splits)
qed simp

text \<open>Pruning: a field without a property is dropped.\<close>

fun prune :: "schema \<Rightarrow> jvalue \<Rightarrow> jvalue" where
  "prune (SObject ps req) (JObject m) =
     JObject (\<lambda>k. case map_of ps k of None \<Rightarrow> None | Some p \<Rightarrow> map_option (prune (snd p)) (m k))"
| "prune (SArray s n) (JArray js) = JArray (map (prune s) js)"
| "prune s j = j"

text \<open>Defaulting: an absent field with a default gets it.\<close>

fun fill :: "schema \<Rightarrow> jvalue \<Rightarrow> jvalue" where
  "fill (SObject ps req) (JObject m) =
     JObject (\<lambda>k. case map_of ps k of None \<Rightarrow> m k
       | Some p \<Rightarrow> map_option (fill (snd p)) (case m k of None \<Rightarrow> fst p | Some j \<Rightarrow> Some j))"
| "fill (SArray s n) (JArray js) = JArray (map (fill s) js)"
| "fill s j = j"

text \<open>Validation.\<close>

fun quantity_like :: "jvalue \<Rightarrow> bool" where
  "quantity_like (JInt i) = True"
| "quantity_like (JString s) = True"
| "quantity_like j = False"

fun accepts :: "schema \<Rightarrow> jvalue \<Rightarrow> bool" where
  "accepts (SObject ps req) (JObject m) \<longleftrightarrow> (\<forall>k\<in>set req. m k \<noteq> None) \<and>
     (\<forall>k\<in>set (map fst ps). case map_of ps k of None \<Rightarrow> True | Some p \<Rightarrow> (case m k of None \<Rightarrow> True | Some j \<Rightarrow> accepts (snd p) j))"
| "accepts (SArray s n) (JArray js) \<longleftrightarrow> n \<le> length js \<and> (\<forall>j\<in>set js. accepts s j)"
| "accepts (SString vs) (JString s) \<longleftrightarrow> (case vs of None \<Rightarrow> True | Some ss \<Rightarrow> s \<in> set ss)"
| "accepts (SInteger lo) (JInt i) \<longleftrightarrow> (case lo of None \<Rightarrow> True | Some n \<Rightarrow> n \<le> i)"
| "accepts SBoolean (JBool b) \<longleftrightarrow> True"
| "accepts SQuantities (JObject m) \<longleftrightarrow> (\<forall>j\<in>ran m. quantity_like j)"
| "accepts s j \<longleftrightarrow> False"

text \<open>What is stored of a value that is created.\<close>

definition stored :: "schema \<Rightarrow> jvalue \<Rightarrow> jvalue" where
  "stored s j = fill s (prune s j)"

lemma stored_object:
  "stored (SObject ps req) (JObject m) = JObject (\<lambda>k. case map_of ps k of None \<Rightarrow> None
     | Some p \<Rightarrow> (case m k of None \<Rightarrow> map_option (fill (snd p)) (fst p) | Some j \<Rightarrow> Some (stored (snd p) j)))"
  by (auto simp: stored_def fun_eq_iff split: option.split)

lemma stored_other [simp]:
  "stored (SArray s n) (JArray js) = JArray (map (stored s) js)"
  "stored (SString vs) j = j" "stored (SInteger lo) j = j" "stored SBoolean j = j" "stored SQuantities j = j"
  by (simp_all add: stored_def)

subsection \<open>Round trips of the field types\<close>

lemma word_of_json_word [simp]: "word_of_json (json_word i) = Some i"
  by (simp add: json_word_def)

lemma read_each_map:
  "(\<And>x. x \<in> set xs \<Longrightarrow> dec (enc x) = Some (f x)) \<Longrightarrow> read_each dec (map enc xs) = Some (map f xs)"
  by (induction xs) simp_all

end
