(* ===== verification/ApiJson.thy ===== *)
theory ApiJson
  imports Json ApiTypes
begin

text \<open>
  The specs of the custom resources as JSON, by the tags of the structs in \<^verbatim>\<open>api/v1alpha1\<close>: what Go writes and reads for
  them. A struct without \<^verbatim>\<open>omitempty\<close>, or of a struct type, is always written. The types of the Kubernetes
  libraries bring codecs of their own, the parameter \<open>json_library\<close>.
\<close>

record json_library =
  resources_json :: "ResourceRequirements \<Rightarrow> jvalue"
  resources_of_json :: "jvalue \<Rightarrow> ResourceRequirements option"
  topology_json :: "TopologySpreadConstraint \<Rightarrow> jvalue"
  topology_of_json :: "jvalue \<Rightarrow> TopologySpreadConstraint option"
  env_json :: "EnvVar \<Rightarrow> jvalue"
  env_of_json :: "jvalue \<Rightarrow> EnvVar option"

subsection \<open>OJSCluster\<close>

definition json_of_SecretKeyRef :: "SecretKeyRef \<Rightarrow> jvalue" where
  "json_of_SecretKeyRef r = struct [(''name'', Some (JString (skr_name r))), (''key'', Some (JString (skr_key r)))]"

definition SecretKeyRef_of_json :: "jvalue \<Rightarrow> SecretKeyRef option" where
  "SecretKeyRef_of_json = object_of_json (\<lambda>m. do {
     name \<leftarrow> field string_of_json [] m ''name'';
     key \<leftarrow> field string_of_json [] m ''key'';
     Some \<lparr>skr_name = name, skr_key = key\<rparr> })"

definition json_of_BackendSpec :: "BackendSpec \<Rightarrow> jvalue" where
  "json_of_BackendSpec b = struct [
     (''type'', Some (JString (be_type b))),
     (''url'', unless_empty (be_url b)),
     (''urlSecretRef'', map_option json_of_SecretKeyRef (be_urlSecretRef b)),
     (''embedded'', unless_false (be_embedded b))]"

definition BackendSpec_of_json :: "jvalue \<Rightarrow> BackendSpec option" where
  "BackendSpec_of_json = object_of_json (\<lambda>m. do {
     t \<leftarrow> field string_of_json [] m ''type'';
     url \<leftarrow> field string_of_json [] m ''url'';
     ref \<leftarrow> field (pointer SecretKeyRef_of_json) None m ''urlSecretRef'';
     embedded \<leftarrow> field bool_of_json False m ''embedded'';
     Some \<lparr>be_type = t, be_url = url, be_urlSecretRef = ref, be_embedded = embedded\<rparr> })"

definition json_of_AutoScalingSpec :: "AutoScalingSpec \<Rightarrow> jvalue" where
  "json_of_AutoScalingSpec a = struct [
     (''enabled'', Some (JBool (as_enabled a))),
     (''minReplicas'', Some (json_word (as_minReplicas a))),
     (''maxReplicas'', Some (json_word (as_maxReplicas a))),
     (''targetQueueDepth'', Some (json_word (as_targetQueueDepth a))),
     (''targetJobsPerWorker'', unless_zero (as_targetJobsPerWorker a)),
     (''scaleUpCooldown'', unless_empty (as_scaleUpCooldown a)),
     (''scaleDownCooldown'', unless_empty (as_scaleDownCooldown a))]"

definition AutoScalingSpec_of_json :: "jvalue \<Rightarrow> AutoScalingSpec option" where
  "AutoScalingSpec_of_json = object_of_json (\<lambda>m. do {
     enabled \<leftarrow> field bool_of_json False m ''enabled'';
     minR \<leftarrow> field word_of_json 0 m ''minReplicas'';
     maxR \<leftarrow> field word_of_json 0 m ''maxReplicas'';
     depth \<leftarrow> field word_of_json 0 m ''targetQueueDepth'';
     jobs \<leftarrow> field word_of_json 0 m ''targetJobsPerWorker'';
     up \<leftarrow> field string_of_json [] m ''scaleUpCooldown'';
     down \<leftarrow> field string_of_json [] m ''scaleDownCooldown'';
     Some \<lparr>as_enabled = enabled, as_minReplicas = minR, as_maxReplicas = maxR, as_targetQueueDepth = depth,
       as_targetJobsPerWorker = jobs, as_scaleUpCooldown = up, as_scaleDownCooldown = down\<rparr> })"

definition json_of_MonitoringSpec :: "MonitoringSpec \<Rightarrow> jvalue" where
  "json_of_MonitoringSpec x = struct [
     (''enabled'', Some (JBool (mon_enabled x))),
     (''serviceMonitor'', unless_false (mon_serviceMonitor x)),
     (''grafanaDashboard'', unless_false (mon_grafanaDashboard x))]"

definition MonitoringSpec_of_json :: "jvalue \<Rightarrow> MonitoringSpec option" where
  "MonitoringSpec_of_json = object_of_json (\<lambda>m. do {
     enabled \<leftarrow> field bool_of_json False m ''enabled'';
     monitor \<leftarrow> field bool_of_json False m ''serviceMonitor'';
     grafana \<leftarrow> field bool_of_json False m ''grafanaDashboard'';
     Some \<lparr>mon_enabled = enabled, mon_serviceMonitor = monitor, mon_grafanaDashboard = grafana\<rparr> })"

definition json_of_PodSecuritySpec :: "PodSecuritySpec \<Rightarrow> jvalue" where
  "json_of_PodSecuritySpec x = struct [
     (''runAsNonRoot'', map_option JBool (sec_runAsNonRoot x)),
     (''runAsUser'', map_option json_word (sec_runAsUser x)),
     (''runAsGroup'', map_option json_word (sec_runAsGroup x)),
     (''fsGroup'', map_option json_word (sec_fsGroup x)),
     (''readOnlyRootFilesystem'', map_option JBool (sec_readOnlyRootFilesystem x))]"

definition PodSecuritySpec_of_json :: "jvalue \<Rightarrow> PodSecuritySpec option" where
  "PodSecuritySpec_of_json = object_of_json (\<lambda>m. do {
     nonRoot \<leftarrow> field (pointer bool_of_json) None m ''runAsNonRoot'';
     user \<leftarrow> field (pointer word_of_json) None m ''runAsUser'';
     grp \<leftarrow> field (pointer word_of_json) None m ''runAsGroup'';
     fs \<leftarrow> field (pointer word_of_json) None m ''fsGroup'';
     readOnly \<leftarrow> field (pointer bool_of_json) None m ''readOnlyRootFilesystem'';
     Some \<lparr>sec_runAsNonRoot = nonRoot, sec_runAsUser = user, sec_runAsGroup = grp, sec_fsGroup = fs,
       sec_readOnlyRootFilesystem = readOnly\<rparr> })"

definition json_of_PDBSpec :: "PDBSpec \<Rightarrow> jvalue" where
  "json_of_PDBSpec x = struct [
     (''enabled'', map_option JBool (pdbs_enabled x)),
     (''minAvailable'', map_option json_word (pdbs_minAvailable x)),
     (''maxUnavailable'', map_option json_word (pdbs_maxUnavailable x))]"

definition PDBSpec_of_json :: "jvalue \<Rightarrow> PDBSpec option" where
  "PDBSpec_of_json = object_of_json (\<lambda>m. do {
     enabled \<leftarrow> field (pointer bool_of_json) None m ''enabled'';
     minA \<leftarrow> field (pointer word_of_json) None m ''minAvailable'';
     maxU \<leftarrow> field (pointer word_of_json) None m ''maxUnavailable'';
     Some \<lparr>pdbs_enabled = enabled, pdbs_minAvailable = minA, pdbs_maxUnavailable = maxU\<rparr> })"

definition json_of_OJSClusterSpec :: "json_library \<Rightarrow> OJSClusterSpec \<Rightarrow> jvalue" where
  "json_of_OJSClusterSpec L c = struct [
     (''backend'', Some (json_of_BackendSpec (cs_backend c))),
     (''replicas'', map_option json_word (cs_replicas c)),
     (''image'', unless_empty (cs_image c)),
     (''autoScaling'', map_option json_of_AutoScalingSpec (cs_autoScaling c)),
     (''resources'', Some (resources_json L (cs_resources c))),
     (''monitoring'', map_option json_of_MonitoringSpec (cs_monitoring c)),
     (''securityContext'', map_option json_of_PodSecuritySpec (cs_securityContext c)),
     (''podDisruptionBudget'', map_option json_of_PDBSpec (cs_podDisruptionBudget c)),
     (''topologySpreadConstraints'', unless_none (topology_json L) (cs_topologySpreadConstraints c)),
     (''serviceAccountName'', unless_empty (cs_serviceAccountName c))]"

definition OJSClusterSpec_of_json :: "json_library \<Rightarrow> jvalue \<Rightarrow> OJSClusterSpec option" where
  "OJSClusterSpec_of_json L = object_of_json (\<lambda>m. do {
     backend \<leftarrow> field BackendSpec_of_json
       \<lparr>be_type = [], be_url = [], be_urlSecretRef = None, be_embedded = False\<rparr> m ''backend'';
     replicas \<leftarrow> field (pointer word_of_json) None m ''replicas'';
     image \<leftarrow> field string_of_json [] m ''image'';
     autoScaling \<leftarrow> field (pointer AutoScalingSpec_of_json) None m ''autoScaling'';
     resources \<leftarrow> field (resources_of_json L) \<lparr>rr_limits = None, rr_requests = None, rr_claims = []\<rparr> m ''resources'';
     monitoring \<leftarrow> field (pointer MonitoringSpec_of_json) None m ''monitoring'';
     security \<leftarrow> field (pointer PodSecuritySpec_of_json) None m ''securityContext'';
     pdb \<leftarrow> field (pointer PDBSpec_of_json) None m ''podDisruptionBudget'';
     topology \<leftarrow> field (list_of_json (topology_of_json L)) [] m ''topologySpreadConstraints'';
     account \<leftarrow> field string_of_json [] m ''serviceAccountName'';
     Some \<lparr>cs_backend = backend, cs_replicas = replicas, cs_image = image, cs_autoScaling = autoScaling,
       cs_resources = resources, cs_monitoring = monitoring, cs_securityContext = security,
       cs_podDisruptionBudget = pdb, cs_topologySpreadConstraints = topology, cs_serviceAccountName = account\<rparr> })"

subsection \<open>OJSWorker\<close>

definition json_of_WorkerAutoScalingSpec :: "WorkerAutoScalingSpec \<Rightarrow> jvalue" where
  "json_of_WorkerAutoScalingSpec a = struct [
     (''enabled'', Some (JBool (was_enabled a))),
     (''minReplicas'', Some (json_word (was_minReplicas a))),
     (''maxReplicas'', Some (json_word (was_maxReplicas a))),
     (''targetJobsPerWorker'', Some (json_word (was_targetJobsPerWorker a))),
     (''scaleUpThreshold'', unless_zero (was_scaleUpThreshold a)),
     (''scaleDownDelay'', unless_empty (was_scaleDownDelay a)),
     (''pollingInterval'', unless_empty (was_pollingInterval a))]"

definition WorkerAutoScalingSpec_of_json :: "jvalue \<Rightarrow> WorkerAutoScalingSpec option" where
  "WorkerAutoScalingSpec_of_json = object_of_json (\<lambda>m. do {
     enabled \<leftarrow> field bool_of_json False m ''enabled'';
     minR \<leftarrow> field word_of_json 0 m ''minReplicas'';
     maxR \<leftarrow> field word_of_json 0 m ''maxReplicas'';
     jobs \<leftarrow> field word_of_json 0 m ''targetJobsPerWorker'';
     up \<leftarrow> field word_of_json 0 m ''scaleUpThreshold'';
     delay \<leftarrow> field string_of_json [] m ''scaleDownDelay'';
     polling \<leftarrow> field string_of_json [] m ''pollingInterval'';
     Some \<lparr>was_enabled = enabled, was_minReplicas = minR, was_maxReplicas = maxR, was_targetJobsPerWorker = jobs,
       was_scaleUpThreshold = up, was_scaleDownDelay = delay, was_pollingInterval = polling\<rparr> })"

definition json_of_GracefulShutdownSpec :: "GracefulShutdownSpec \<Rightarrow> jvalue" where
  "json_of_GracefulShutdownSpec g = struct [
     (''timeoutSeconds'', unless_zero (gs_timeoutSeconds g)),
     (''drainBeforeShutdown'', unless_false (gs_drainBeforeShutdown g))]"

definition GracefulShutdownSpec_of_json :: "jvalue \<Rightarrow> GracefulShutdownSpec option" where
  "GracefulShutdownSpec_of_json = object_of_json (\<lambda>m. do {
     timeout \<leftarrow> field word_of_json 0 m ''timeoutSeconds'';
     drain \<leftarrow> field bool_of_json False m ''drainBeforeShutdown'';
     Some \<lparr>gs_timeoutSeconds = timeout, gs_drainBeforeShutdown = drain\<rparr> })"

definition json_of_OJSWorkerSpec :: "json_library \<Rightarrow> OJSWorkerSpec \<Rightarrow> jvalue" where
  "json_of_OJSWorkerSpec L w = struct [
     (''clusterRef'', Some (JString (ws_clusterRef w))),
     (''jobTypes'', Some (JArray (map JString (ws_jobTypes w)))),
     (''queues'', unless_none JString (ws_queues w)),
     (''concurrency'', unless_zero (ws_concurrency w)),
     (''replicas'', map_option json_word (ws_replicas w)),
     (''image'', Some (JString (ws_image w))),
     (''command'', unless_none JString (ws_command w)),
     (''env'', unless_none (env_json L) (ws_env w)),
     (''resources'', Some (resources_json L (ws_resources w))),
     (''autoScaling'', map_option json_of_WorkerAutoScalingSpec (ws_autoScaling w)),
     (''gracefulShutdown'', map_option json_of_GracefulShutdownSpec (ws_gracefulShutdown w))]"

definition OJSWorkerSpec_of_json :: "json_library \<Rightarrow> jvalue \<Rightarrow> OJSWorkerSpec option" where
  "OJSWorkerSpec_of_json L = object_of_json (\<lambda>m. do {
     clusterRef \<leftarrow> field string_of_json [] m ''clusterRef'';
     jobTypes \<leftarrow> field (list_of_json string_of_json) [] m ''jobTypes'';
     queues \<leftarrow> field (list_of_json string_of_json) [] m ''queues'';
     concurrency \<leftarrow> field word_of_json 0 m ''concurrency'';
     replicas \<leftarrow> field (pointer word_of_json) None m ''replicas'';
     image \<leftarrow> field string_of_json [] m ''image'';
     command \<leftarrow> field (list_of_json string_of_json) [] m ''command'';
     env \<leftarrow> field (list_of_json (env_of_json L)) [] m ''env'';
     resources \<leftarrow> field (resources_of_json L) \<lparr>rr_limits = None, rr_requests = None, rr_claims = []\<rparr> m ''resources'';
     autoScaling \<leftarrow> field (pointer WorkerAutoScalingSpec_of_json) None m ''autoScaling'';
     shutdown \<leftarrow> field (pointer GracefulShutdownSpec_of_json) None m ''gracefulShutdown'';
     Some \<lparr>ws_clusterRef = clusterRef, ws_jobTypes = jobTypes, ws_queues = queues, ws_concurrency = concurrency,
       ws_replicas = replicas, ws_image = image, ws_command = command, ws_env = env, ws_resources = resources,
       ws_autoScaling = autoScaling, ws_gracefulShutdown = shutdown\<rparr> })"

end
