(* ===== verification/CrdSchema.thy ===== *)
theory CrdSchema
  imports ApiJson
begin

text \<open>
  The custom resource definitions as they are deployed: the schemas of \<^verbatim>\<open>config/crd\<close> (the chart has the
  same), and what they make of the specs. Descriptions and the formats of integers are left out: every
  number here comes from a word of the format's width.
\<close>

subsection \<open>ojscluster-crd.yaml\<close>

definition resourcesSchema :: schema where
  "resourcesSchema = SObject [(''limits'', None, SQuantities), (''requests'', None, SQuantities)] []"

definition backendSchema :: schema where
  "backendSchema = SObject [
     (''type'', None, SString (Some [''redis'', ''postgres'', ''nats'', ''kafka'', ''sqs'', ''lite''])),
     (''url'', None, SString None),
     (''urlSecretRef'', None, SObject [(''name'', None, SString None), (''key'', None, SString None)] [''name'', ''key'']),
     (''embedded'', Some (JBool False), SBoolean)] [''type'']"

definition autoScalingSchema :: schema where
  "autoScalingSchema = SObject [
     (''enabled'', None, SBoolean),
     (''minReplicas'', None, SInteger (Some 1)),
     (''maxReplicas'', None, SInteger None),
     (''targetQueueDepth'', None, SInteger None),
     (''targetJobsPerWorker'', None, SInteger None),
     (''scaleUpCooldown'', None, SString None),
     (''scaleDownCooldown'', None, SString None)]
     [''enabled'', ''minReplicas'', ''maxReplicas'', ''targetQueueDepth'']"

definition monitoringSchema :: schema where
  "monitoringSchema = SObject [
     (''enabled'', None, SBoolean),
     (''serviceMonitor'', None, SBoolean),
     (''grafanaDashboard'', None, SBoolean)] [''enabled'']"

definition clusterSchema :: schema where
  "clusterSchema = SObject [
     (''backend'', None, backendSchema),
     (''replicas'', Some (JInt 2), SInteger (Some 1)),
     (''image'', None, SString None),
     (''autoScaling'', None, autoScalingSchema),
     (''resources'', None, resourcesSchema),
     (''monitoring'', None, monitoringSchema)] [''backend'']"

subsection \<open>ojsworker-crd.yaml\<close>

definition envSchema :: schema where
  "envSchema = SObject [
     (''name'', None, SString None),
     (''value'', None, SString None),
     (''valueFrom'', None, SObject [
        (''secretKeyRef'', None, SObject [(''name'', None, SString None), (''key'', None, SString None)] []),
        (''configMapKeyRef'', None, SObject [(''name'', None, SString None), (''key'', None, SString None)] [])] [])]
     [''name'']"

definition workerAutoScalingSchema :: schema where
  "workerAutoScalingSchema = SObject [
     (''enabled'', None, SBoolean),
     (''minReplicas'', None, SInteger (Some 1)),
     (''maxReplicas'', None, SInteger None),
     (''targetJobsPerWorker'', None, SInteger None),
     (''scaleUpThreshold'', None, SInteger None),
     (''scaleDownDelay'', None, SString None),
     (''pollingInterval'', None, SString None)]
     [''enabled'', ''minReplicas'', ''maxReplicas'', ''targetJobsPerWorker'']"

definition gracefulShutdownSchema :: schema where
  "gracefulShutdownSchema = SObject [
     (''timeoutSeconds'', None, SInteger None),
     (''drainBeforeShutdown'', None, SBoolean)] []"

definition workerSchema :: schema where
  "workerSchema = SObject [
     (''clusterRef'', None, SString None),
     (''jobTypes'', None, SArray (SString None) 1),
     (''queues'', None, SArray (SString None) 0),
     (''concurrency'', None, SInteger (Some 1)),
     (''replicas'', Some (JInt 1), SInteger (Some 0)),
     (''image'', None, SString None),
     (''command'', None, SArray (SString None) 0),
     (''env'', None, SArray envSchema 0),
     (''resources'', None, resourcesSchema),
     (''autoScaling'', None, workerAutoScalingSchema),
     (''gracefulShutdown'', None, gracefulShutdownSchema)]
     [''clusterRef'', ''jobTypes'', ''image'']"

subsection \<open>The codecs of the Kubernetes types\<close>

text \<open>An empty map of quantities is left out when it is written, so it is nil when it is read.\<close>

definition tidy :: "ResourceRequirements \<Rightarrow> bool" where
  "tidy r \<longleftrightarrow> rr_limits r \<noteq> Some Map.empty \<and> rr_requests r \<noteq> Some Map.empty"

definition claim_json :: "ResourceClaim \<Rightarrow> jvalue" where
  "claim_json c = struct [(''name'', Some (JString (rcl_name c))), (''request'', unless_empty (rcl_request c))]"

definition key_json :: "KeySelector \<Rightarrow> jvalue" where
  "key_json k = struct [(''name'', unless_empty (ks_name k)), (''key'', Some (JString (ks_key k))),
     (''optional'', map_option JBool (ks_optional k))]"

definition source_json :: "(ObjectFieldSelector \<Rightarrow> jvalue) \<Rightarrow> (ResourceFieldSelector \<Rightarrow> jvalue) \<Rightarrow> EnvVarSource \<Rightarrow> jvalue" where
  "source_json fr rf s = struct [
     (''fieldRef'', map_option fr (es_fieldRef s)),
     (''resourceFieldRef'', map_option rf (es_resourceFieldRef s)),
     (''configMapKeyRef'', map_option key_json (es_configMapKeyRef s)),
     (''secretKeyRef'', map_option key_json (es_secretKeyRef s))]"

text \<open>Their documented JSON: objects of quantities for limits and requests, and a list of claims unless there is none; name, value and
  source of an environment variable, the source with a field for each kind.\<close>

locale json_laws =
  fixes L :: json_library
  assumes resources_back: "tidy r \<Longrightarrow> resources_of_json L (resources_json L r) = Some r"
    and resources_form: "\<exists>l q. (\<forall>cs. resources_json L (r\<lparr>rr_claims := cs\<rparr>) =
          struct [(''limits'', map_option JObject l), (''requests'', map_option JObject q), (''claims'', unless_none claim_json cs)]) \<and>
      (\<forall>m\<in>set_option l \<union> set_option q. \<forall>j\<in>ran m. quantity_like j)"
    and topology_back: "topology_of_json L (topology_json L t) = Some t"
    and env_back: "env_of_json L (env_json L ev) = Some ev"
    and env_form: "\<exists>fr rf. \<forall>ev. env_json L ev = struct [(''name'', Some (JString (ev_name ev))),
        (''value'', unless_empty (ev_value ev)), (''valueFrom'', map_option (source_json fr rf) (ev_valueFrom ev))]"

subsection \<open>What is stored\<close>

lemma stored_struct:
  "stored (SObject ps req) (struct fs) = JObject (\<lambda>k. case map_of ps k of None \<Rightarrow> None
     | Some p \<Rightarrow> (case Option.bind (map_of fs k) id of None \<Rightarrow> map_option (fill (snd p)) (fst p) | Some j \<Rightarrow> Some (stored (snd p) j)))"
  by (simp add: struct_def stored_object)

lemmas field_writers = unless_empty_def unless_false_def unless_zero_def unless_none_def json_word_def

lemma backend_codec:
  "BackendSpec_of_json (stored backendSchema (json_of_BackendSpec b)) = Some b"
  "BackendSpec_of_json (json_of_BackendSpec b) = Some b"
  by (cases b; auto simp: backendSchema_def json_of_BackendSpec_def stored_struct BackendSpec_of_json_def field_def
      json_of_SecretKeyRef_def SecretKeyRef_of_json_def struct_def stored_object unless_empty_def unless_false_def split: option.split)+

lemma autoScaling_codec:
  "AutoScalingSpec_of_json (stored autoScalingSchema (json_of_AutoScalingSpec a)) = Some a"
  "AutoScalingSpec_of_json (json_of_AutoScalingSpec a) = Some a"
  by (cases a; auto simp: autoScalingSchema_def json_of_AutoScalingSpec_def struct_def stored_object AutoScalingSpec_of_json_def field_def
      unless_empty_def unless_zero_def)+

lemma monitoring_codec:
  "MonitoringSpec_of_json (stored monitoringSchema (json_of_MonitoringSpec a)) = Some a"
  "MonitoringSpec_of_json (json_of_MonitoringSpec a) = Some a"
  by (cases a; auto simp: monitoringSchema_def json_of_MonitoringSpec_def struct_def stored_object MonitoringSpec_of_json_def field_def
      unless_false_def)+

lemma security_codec: "PodSecuritySpec_of_json (json_of_PodSecuritySpec a) = Some a"
  by (cases a) (auto simp: json_of_PodSecuritySpec_def struct_def PodSecuritySpec_of_json_def field_def split: option.split)

lemma budget_codec: "PDBSpec_of_json (json_of_PDBSpec a) = Some a"
  by (cases a) (auto simp: json_of_PDBSpec_def struct_def PDBSpec_of_json_def field_def split: option.split)

lemma workerScaling_codec:
  "WorkerAutoScalingSpec_of_json (stored workerAutoScalingSchema (json_of_WorkerAutoScalingSpec a)) = Some a"
  "WorkerAutoScalingSpec_of_json (json_of_WorkerAutoScalingSpec a) = Some a"
  by (cases a; auto simp: workerAutoScalingSchema_def json_of_WorkerAutoScalingSpec_def struct_def stored_object
      WorkerAutoScalingSpec_of_json_def field_def unless_empty_def unless_zero_def)+

lemma shutdown_codec:
  "GracefulShutdownSpec_of_json (stored gracefulShutdownSchema (json_of_GracefulShutdownSpec a)) = Some a"
  "GracefulShutdownSpec_of_json (json_of_GracefulShutdownSpec a) = Some a"
  by (cases a; auto simp: gracefulShutdownSchema_def json_of_GracefulShutdownSpec_def struct_def stored_object
      GracefulShutdownSpec_of_json_def field_def unless_false_def unless_zero_def)+

lemma strings_codec [simp]: "read_each string_of_json (map JString xs) = Some xs"
  using read_each_map [of xs string_of_json JString "\<lambda>x. x"] by simp

text \<open>What becomes of a spec that is created. The schema of clusters has no property for four of its fields; neither schema has one for
  the claims of a container's resources; that of workers has none for a source of an environment variable in a field of the
  pod or of the container, nor for \<^verbatim>\<open>optional\<close> of the other two.\<close>

definition storedResources :: "ResourceRequirements \<Rightarrow> ResourceRequirements" where
  "storedResources r = r\<lparr>rr_claims := []\<rparr>"

definition storedSource :: "EnvVarSource \<Rightarrow> EnvVarSource" where
  "storedSource s = noSource\<lparr>
     es_configMapKeyRef := map_option (\<lambda>k. k\<lparr>ks_optional := None\<rparr>) (es_configMapKeyRef s),
     es_secretKeyRef := map_option (\<lambda>k. k\<lparr>ks_optional := None\<rparr>) (es_secretKeyRef s)\<rparr>"

definition storedEnv :: "EnvVar \<Rightarrow> EnvVar" where
  "storedEnv ev = ev\<lparr>ev_valueFrom := map_option storedSource (ev_valueFrom ev)\<rparr>"

definition storedCluster :: "OJSClusterSpec \<Rightarrow> OJSClusterSpec" where
  "storedCluster c = c\<lparr>cs_replicas := Some (case cs_replicas c of None \<Rightarrow> 2 | Some n \<Rightarrow> n),
     cs_resources := storedResources (cs_resources c),
     cs_securityContext := None, cs_podDisruptionBudget := None, cs_topologySpreadConstraints := [],
     cs_serviceAccountName := []\<rparr>"

definition storedWorker :: "OJSWorkerSpec \<Rightarrow> OJSWorkerSpec" where
  "storedWorker w = w\<lparr>ws_replicas := Some (case ws_replicas w of None \<Rightarrow> 1 | Some n \<Rightarrow> n),
     ws_env := map storedEnv (ws_env w), ws_resources := storedResources (ws_resources w)\<rparr>"

lemma tidy_stored [simp]: "tidy (storedResources r) = tidy r"
  by (simp add: tidy_def storedResources_def)

context json_laws
begin

lemma resources_obtain:
  obtains l q where "resources_json L r = struct [(''limits'', map_option JObject l), (''requests'', map_option JObject q),
      (''claims'', unless_none claim_json (rr_claims r))]"
    "resources_json L (storedResources r) = struct [(''limits'', map_option JObject l), (''requests'', map_option JObject q),
      (''claims'', None)]"
    "\<forall>m\<in>set_option l \<union> set_option q. \<forall>j\<in>ran m. quantity_like j"
proof -
  obtain l q where form: "\<forall>cs. resources_json L (r\<lparr>rr_claims := cs\<rparr>) =
      struct [(''limits'', map_option JObject l), (''requests'', map_option JObject q), (''claims'', unless_none claim_json cs)]"
    and like: "\<forall>m\<in>set_option l \<union> set_option q. \<forall>j\<in>ran m. quantity_like j"
    using resources_form [of r] by blast
  have "r\<lparr>rr_claims := rr_claims r\<rparr> = r" by (rule ResourceRequirements.equality) simp_all
  then show thesis
    using form [rule_format, of "rr_claims r"] form [rule_format, of "[]"] like
    by (intro that [of l q]) (simp_all add: storedResources_def unless_none_def)
qed

lemma stored_resources: "stored resourcesSchema (resources_json L r) = resources_json L (storedResources r)"
  by (rule resources_obtain [of r]) (auto simp: resourcesSchema_def stored_object struct_def fun_eq_iff split: option.split)

lemma accepts_resources: "accepts resourcesSchema (resources_json L r)"
  by (rule resources_obtain [of r]) (auto simp: resourcesSchema_def struct_def split: option.split)

lemma stored_key: "stored (SObject [(''name'', None, SString None), (''key'', None, SString None)] []) (key_json k) =
    key_json (k\<lparr>ks_optional := None\<rparr>)"
  by (auto simp: key_json_def stored_object struct_def unless_empty_def fun_eq_iff split: option.split)

lemma stored_env: "stored envSchema (env_json L ev) = env_json L (storedEnv ev)"
proof -
  obtain fr rf where form: "\<forall>ev. env_json L ev = struct [(''name'', Some (JString (ev_name ev))),
        (''value'', unless_empty (ev_value ev)), (''valueFrom'', map_option (source_json fr rf) (ev_valueFrom ev))]"
    using env_form by blast
  have source: "stored (SObject [
        (''secretKeyRef'', None, SObject [(''name'', None, SString None), (''key'', None, SString None)] []),
        (''configMapKeyRef'', None, SObject [(''name'', None, SString None), (''key'', None, SString None)] [])] [])
      (source_json fr rf s) = source_json fr rf (storedSource s)" for s
    by (cases "es_configMapKeyRef s"; cases "es_secretKeyRef s")
      (simp_all add: source_json_def storedSource_def noSource_def struct_def stored_object stored_key fun_eq_iff)
  show ?thesis
    by (cases "ev_valueFrom ev")
      (simp_all add: form envSchema_def struct_def stored_object source storedEnv_def unless_empty_def fun_eq_iff)
qed

text \<open>So every variable is accepted, if need be with an empty source.\<close>

lemma accepts_env: "accepts envSchema (env_json L ev)"
proof -
  obtain fr rf where form: "\<forall>ev. env_json L ev = struct [(''name'', Some (JString (ev_name ev))),
        (''value'', unless_empty (ev_value ev)), (''valueFrom'', map_option (source_json fr rf) (ev_valueFrom ev))]"
    using env_form by blast
  then show ?thesis
    by (auto simp: envSchema_def source_json_def key_json_def struct_def unless_empty_def split: option.split)
qed

lemma topologies_back: "read_each (topology_of_json L) (map (topology_json L) ts) = Some ts"
  using read_each_map [of ts "topology_of_json L" "topology_json L" "\<lambda>t. t"] topology_back by simp

lemma envs_back: "read_each (env_of_json L) (map (env_json L) evs) = Some evs"
    "read_each (env_of_json L) (map (env_json L \<circ> storedEnv) evs) = Some (map storedEnv evs)"
  using read_each_map [of evs "env_of_json L" "env_json L" "\<lambda>t. t"]
    read_each_map [of evs "env_of_json L" "env_json L \<circ> storedEnv" storedEnv] env_back by simp_all

text \<open>The codec of a spec loses nothing \<dots>\<close>

lemma cluster_codec:
  "tidy (cs_resources c) \<Longrightarrow> OJSClusterSpec_of_json L (json_of_OJSClusterSpec L c) = Some c"
  by (cases c) (auto simp: json_of_OJSClusterSpec_def struct_def OJSClusterSpec_of_json_def field_def backend_codec
      autoScaling_codec monitoring_codec security_codec budget_codec resources_back topologies_back unless_empty_def
      unless_none_def split: option.split)

lemma worker_codec:
  "tidy (ws_resources w) \<Longrightarrow> OJSWorkerSpec_of_json L (json_of_OJSWorkerSpec L w) = Some w"
  by (cases w) (auto simp: json_of_OJSWorkerSpec_def struct_def OJSWorkerSpec_of_json_def field_def workerScaling_codec
      shutdown_codec resources_back envs_back unless_empty_def unless_none_def unless_zero_def split: option.split)

text \<open>\<dots> the schema does.\<close>

lemma cluster_stored:
  "tidy (cs_resources c) \<Longrightarrow>
   OJSClusterSpec_of_json L (stored clusterSchema (json_of_OJSClusterSpec L c)) = Some (storedCluster c)"
  by (cases c) (auto simp: clusterSchema_def json_of_OJSClusterSpec_def struct_def stored_object OJSClusterSpec_of_json_def
      field_def backend_codec autoScaling_codec monitoring_codec stored_resources resources_back unless_empty_def
      storedCluster_def split: option.split)

lemma worker_stored:
  "tidy (ws_resources w) \<Longrightarrow>
   OJSWorkerSpec_of_json L (stored workerSchema (json_of_OJSWorkerSpec L w)) = Some (storedWorker w)"
  by (cases w) (auto simp: workerSchema_def json_of_OJSWorkerSpec_def struct_def stored_object OJSWorkerSpec_of_json_def
      field_def workerScaling_codec shutdown_codec stored_resources resources_back unless_empty_def stored_env
      envs_back(2) [unfolded comp_def] unless_none_def unless_zero_def storedWorker_def comp_def split: option.split)

end

end
