(* ===== verification/CrdProperties.thy ===== *)
theory CrdProperties
  imports CrdSchema Permissions PodProperties
begin

text \<open>
  What the deployed definitions mean for users of the operator: what survives of a spec, which specs are
  admitted by schema and webhook together, and which clusters can be reconciled at all under the deployed role.
\<close>

subsection \<open>Admission by schema\<close>

context json_laws
begin

text \<open>The sub-objects.\<close>

lemma accepts_parts:
  "accepts backendSchema (stored backendSchema (json_of_BackendSpec b)) \<longleftrightarrow>
     be_type b \<in> {''redis'', ''postgres'', ''nats'', ''kafka'', ''sqs'', ''lite''}"
  "accepts autoScalingSchema (stored autoScalingSchema (json_of_AutoScalingSpec a)) \<longleftrightarrow> 1 \<le> sint (as_minReplicas a)"
  "accepts monitoringSchema (stored monitoringSchema (json_of_MonitoringSpec x))"
  "accepts workerAutoScalingSchema (stored workerAutoScalingSchema (json_of_WorkerAutoScalingSpec wa)) \<longleftrightarrow>
     1 \<le> sint (was_minReplicas wa)"
  "accepts gracefulShutdownSchema (stored gracefulShutdownSchema (json_of_GracefulShutdownSpec g))"
  by (auto simp: backendSchema_def json_of_BackendSpec_def autoScalingSchema_def json_of_AutoScalingSpec_def
      monitoringSchema_def json_of_MonitoringSpec_def workerAutoScalingSchema_def json_of_WorkerAutoScalingSpec_def
      gracefulShutdownSchema_def json_of_GracefulShutdownSpec_def json_of_SecretKeyRef_def stored_object struct_def
      field_writers split: option.split)

lemma cluster_accepted:
  "accepts clusterSchema (stored clusterSchema (json_of_OJSClusterSpec L c)) \<longleftrightarrow>
     ValidBackendTypes (be_type (cs_backend c)) \<and> (\<forall>n. cs_replicas c = Some n \<longrightarrow> 1 \<le> sint n) \<and>
     (\<forall>a. cs_autoScaling c = Some a \<longrightarrow> 1 \<le> sint (as_minReplicas a))"
proof -
  have "ValidBackendTypes (be_type (cs_backend c)) \<longleftrightarrow>
      be_type (cs_backend c) \<in> {''redis'', ''postgres'', ''nats'', ''kafka'', ''sqs'', ''lite''}"
    by (auto simp: ValidBackendTypes_def)
  then show ?thesis
    by (auto simp: clusterSchema_def json_of_OJSClusterSpec_def struct_def stored_object accepts_parts stored_resources
        accepts_resources field_writers split: option.splits)
qed

lemma worker_accepted:
  "accepts workerSchema (stored workerSchema (json_of_OJSWorkerSpec L w)) \<longleftrightarrow>
     ws_jobTypes w \<noteq> [] \<and> 0 \<le> sint (ws_concurrency w) \<and> (\<forall>n. ws_replicas w = Some n \<longrightarrow> 0 \<le> sint n) \<and>
     (\<forall>a. ws_autoScaling w = Some a \<longrightarrow> 1 \<le> sint (was_minReplicas a))"
proof -
  have "\<forall>ev\<in>set (ws_env w). accepts envSchema (stored envSchema (env_json L ev))"
    by (simp add: stored_env accepts_env)
  moreover have "1 \<le> sint i \<longleftrightarrow> 0 \<le> sint i" if "i \<noteq> 0" for i :: int32
  proof -
    have "sint i \<noteq> 0" using that word_eq_iff_signed [of i 0] by simp
    then show ?thesis by linarith
  qed
  ultimately show ?thesis
    by (auto simp: workerSchema_def json_of_OJSWorkerSpec_def struct_def stored_object accepts_parts stored_resources
        accepts_resources field_writers Suc_le_eq split: option.splits)
qed

end

subsection \<open>A library to run them with\<close>

text \<open>Codecs for the demonstration, in the documented form; a quantity is written in full, a topology constraint as its
  three scalar fields and the labels it selects.\<close>

fun quantity_json :: "quantity \<Rightarrow> jvalue" where
  "quantity_json (MustParse s) = JString s"

definition quantity_of_json :: "jvalue \<Rightarrow> quantity option" where
  "quantity_of_json j = map_option MustParse (string_of_json j)"

definition map_json :: "('a \<Rightarrow> jvalue) \<Rightarrow> (string \<rightharpoonup> 'a) \<Rightarrow> string \<rightharpoonup> jvalue" where
  "map_json enc m = (\<lambda>k. map_option enc (m k))"

definition map_of_json :: "(jvalue \<Rightarrow> 'a option) \<Rightarrow> jvalue \<Rightarrow> (string \<rightharpoonup> 'a) option" where
  "map_of_json dec = object_of_json (\<lambda>m. Some (\<lambda>k. Option.bind (m k) dec))"

definition nonempty :: "(string \<rightharpoonup> 'a) option \<Rightarrow> (string \<rightharpoonup> 'a) option" where
  "nonempty q = (if q = Some Map.empty then None else q)"

definition claim_of_json :: "jvalue \<Rightarrow> ResourceClaim option" where
  "claim_of_json = object_of_json (\<lambda>m. do {
     n \<leftarrow> field string_of_json [] m ''name'';
     r \<leftarrow> field string_of_json [] m ''request'';
     Some \<lparr>rcl_name = n, rcl_request = r\<rparr> })"

definition key_of_json :: "jvalue \<Rightarrow> KeySelector option" where
  "key_of_json = object_of_json (\<lambda>m. do {
     n \<leftarrow> field string_of_json [] m ''name'';
     k \<leftarrow> field string_of_json [] m ''key'';
     opt \<leftarrow> field (pointer bool_of_json) None m ''optional'';
     Some \<lparr>ks_name = n, ks_key = k, ks_optional = opt\<rparr> })"

definition fieldRef_json :: "ObjectFieldSelector \<Rightarrow> jvalue" where
  "fieldRef_json f = struct [(''apiVersion'', unless_empty (of_apiVersion f)), (''fieldPath'', Some (JString (of_fieldPath f)))]"

definition fieldRef_of_json :: "jvalue \<Rightarrow> ObjectFieldSelector option" where
  "fieldRef_of_json = object_of_json (\<lambda>m. do {
     v \<leftarrow> field string_of_json [] m ''apiVersion'';
     p \<leftarrow> field string_of_json [] m ''fieldPath'';
     Some \<lparr>of_apiVersion = v, of_fieldPath = p\<rparr> })"

definition resourceRef_json :: "ResourceFieldSelector \<Rightarrow> jvalue" where
  "resourceRef_json f = struct [(''containerName'', unless_empty (rf_containerName f)),
     (''resource'', Some (JString (rf_resource f))), (''divisor'', Some (quantity_json (rf_divisor f)))]"

definition resourceRef_of_json :: "jvalue \<Rightarrow> ResourceFieldSelector option" where
  "resourceRef_of_json = object_of_json (\<lambda>m. do {
     c \<leftarrow> field string_of_json [] m ''containerName'';
     r \<leftarrow> field string_of_json [] m ''resource'';
     d \<leftarrow> field quantity_of_json (MustParse ''0'') m ''divisor'';
     Some \<lparr>rf_containerName = c, rf_resource = r, rf_divisor = d\<rparr> })"

definition source_of_json :: "jvalue \<Rightarrow> EnvVarSource option" where
  "source_of_json = object_of_json (\<lambda>m. do {
     f \<leftarrow> field (pointer fieldRef_of_json) None m ''fieldRef'';
     r \<leftarrow> field (pointer resourceRef_of_json) None m ''resourceFieldRef'';
     c \<leftarrow> field (pointer key_of_json) None m ''configMapKeyRef'';
     k \<leftarrow> field (pointer key_of_json) None m ''secretKeyRef'';
     Some \<lparr>es_fieldRef = f, es_resourceFieldRef = r, es_configMapKeyRef = c, es_secretKeyRef = k\<rparr> })"

definition memJson :: json_library where
  "memJson = \<lparr>
     resources_json = (\<lambda>r. struct [
       (''limits'', map_option (JObject \<circ> map_json quantity_json) (nonempty (rr_limits r))),
       (''requests'', map_option (JObject \<circ> map_json quantity_json) (nonempty (rr_requests r))),
       (''claims'', unless_none claim_json (rr_claims r))]),
     resources_of_json = object_of_json (\<lambda>m. do {
       l \<leftarrow> field (pointer (map_of_json quantity_of_json)) None m ''limits'';
       q \<leftarrow> field (pointer (map_of_json quantity_of_json)) None m ''requests'';
       cs \<leftarrow> field (list_of_json claim_of_json) [] m ''claims'';
       Some \<lparr>rr_limits = l, rr_requests = q, rr_claims = cs\<rparr> }),
     topology_json = (\<lambda>t. struct [
       (''maxSkew'', Some (json_word (ts_maxSkew t))),
       (''topologyKey'', Some (JString (ts_topologyKey t))),
       (''whenUnsatisfiable'', Some (JString (ts_whenUnsatisfiable t))),
       (''labelSelector'', map_option (JObject \<circ> map_json JString) (ts_labelSelector t))]),
     topology_of_json = object_of_json (\<lambda>m. do {
       skew \<leftarrow> field word_of_json 0 m ''maxSkew'';
       k \<leftarrow> field string_of_json [] m ''topologyKey'';
       u \<leftarrow> field string_of_json [] m ''whenUnsatisfiable'';
       l \<leftarrow> field (pointer (map_of_json string_of_json)) None m ''labelSelector'';
       Some \<lparr>ts_maxSkew = skew, ts_topologyKey = k, ts_whenUnsatisfiable = u, ts_labelSelector = l\<rparr> }),
     env_json = (\<lambda>ev. struct [
       (''name'', Some (JString (ev_name ev))),
       (''value'', unless_empty (ev_value ev)),
       (''valueFrom'', map_option (source_json fieldRef_json resourceRef_json) (ev_valueFrom ev))]),
     env_of_json = object_of_json (\<lambda>m. do {
       n \<leftarrow> field string_of_json [] m ''name'';
       v \<leftarrow> field string_of_json [] m ''value'';
       src \<leftarrow> field (pointer source_of_json) None m ''valueFrom'';
       Some \<lparr>ev_name = n, ev_value = v, ev_valueFrom = src\<rparr> })\<rparr>"

lemma map_back [simp]:
  "map_of_json quantity_of_json (JObject (map_json quantity_json m)) = Some m"
  "map_of_json string_of_json (JObject (map_json JString l)) = Some l"
proof -
  have "quantity_of_json (quantity_json q) = Some q" for q
    by (cases q) (simp add: quantity_of_json_def)
  then have "Option.bind (map_option quantity_json x) quantity_of_json = x" for x by (cases x) simp_all
  then show "map_of_json quantity_of_json (JObject (map_json quantity_json m)) = Some m"
    by (simp add: map_of_json_def map_json_def)
  have "Option.bind (map_option JString x) string_of_json = x" for x by (cases x) simp_all
  then show "map_of_json string_of_json (JObject (map_json JString l)) = Some l"
    by (simp add: map_of_json_def map_json_def)
qed

lemma claims_back [simp]: "read_each claim_of_json (map claim_json cs) = Some cs"
proof -
  have "claim_of_json (claim_json c) = Some c" for c
    by (cases c) (simp add: claim_of_json_def claim_json_def struct_def field_def unless_empty_def)
  then show ?thesis using read_each_map [of cs claim_of_json claim_json "\<lambda>c. c"] by simp
qed

lemma key_back [simp]: "key_of_json (key_json k) = Some k"
  by (cases k) (simp add: key_of_json_def key_json_def struct_def field_def unless_empty_def split: option.split)

lemma quantity_back [simp]: "quantity_of_json (quantity_json q) = Some q"
  by (cases q) (simp add: quantity_of_json_def)

lemma refs_back [simp]: "fieldRef_of_json (fieldRef_json f) = Some f" "resourceRef_of_json (resourceRef_json r) = Some r"
  by (cases f; simp add: fieldRef_of_json_def fieldRef_json_def struct_def field_def unless_empty_def)
    (cases r; simp add: resourceRef_of_json_def resourceRef_json_def struct_def field_def unless_empty_def)

lemma source_back [simp]: "source_of_json (source_json fieldRef_json resourceRef_json s) = Some s"
  by (cases s) (simp add: source_of_json_def source_json_def struct_def field_def split: option.split)

lemma quantities_like: "j \<in> ran (map_json quantity_json m) \<Longrightarrow> quantity_like j"
  by (auto simp: ran_def map_json_def) (metis quantity_json.elims quantity_like.simps(2))

interpretation mem_json: json_laws memJson
proof (unfold_locales, goal_cases)
  case (1 r)
  then show ?case
    by (cases r) (auto simp: memJson_def struct_def field_def tidy_def nonempty_def unless_none_def split: option.split)
next
  case (2 r)
  show ?case
    by (rule exI [of _ "map_option (map_json quantity_json) (nonempty (rr_limits r))"],
        rule exI [of _ "map_option (map_json quantity_json) (nonempty (rr_requests r))"])
      (auto simp: memJson_def option.map_comp comp_def dest: quantities_like)
next
  case (3 t)
  show ?case by (cases t) (auto simp: memJson_def struct_def field_def split: option.split)
next
  case (4 ev)
  show ?case by (cases ev) (auto simp: memJson_def struct_def field_def unless_empty_def split: option.split)
next
  case 5
  show ?case by (rule exI [of _ fieldRef_json], rule exI [of _ resourceRef_json]) (simp add: memJson_def)
qed

subsection \<open>What survives\<close>


text \<open>The sample \<^verbatim>\<open>config/samples/production-cluster.yaml\<close>, without its resource quantities.\<close>

definition productionSpec :: OJSClusterSpec where
  "productionSpec = \<lparr>
     cs_backend = \<lparr>be_type = ''redis'', be_url = [],
       be_urlSecretRef = Some \<lparr>skr_name = ''redis-credentials'', skr_key = ''url''\<rparr>, be_embedded = False\<rparr>,
     cs_replicas = Some 3, cs_image = ''ghcr.io/openjobspec/ojs-backend-redis:v0.1.0'',
     cs_autoScaling = Some \<lparr>as_enabled = True, as_minReplicas = 3, as_maxReplicas = 10, as_targetQueueDepth = 100,
       as_targetJobsPerWorker = 5, as_scaleUpCooldown = ''60s'', as_scaleDownCooldown = ''300s''\<rparr>,
     cs_resources = noResources,
     cs_monitoring = Some \<lparr>mon_enabled = True, mon_serviceMonitor = True, mon_grafanaDashboard = True\<rparr>,
     cs_securityContext = Some \<lparr>sec_runAsNonRoot = Some True, sec_runAsUser = Some 65534, sec_runAsGroup = Some 65534,
       sec_fsGroup = None, sec_readOnlyRootFilesystem = Some True\<rparr>,
     cs_podDisruptionBudget = Some \<lparr>pdbs_enabled = Some True, pdbs_minAvailable = None, pdbs_maxUnavailable = Some 1\<rparr>,
     cs_topologySpreadConstraints = [\<lparr>ts_maxSkew = 1, ts_topologyKey = ''topology.kubernetes.io/zone'',
       ts_whenUnsatisfiable = ''DoNotSchedule'', ts_labelSelector = Some [''app.kubernetes.io/name'' \<mapsto> ''ojs-server'',
         ''app.kubernetes.io/instance'' \<mapsto> ''ojs-production'']\<rparr>],
     cs_serviceAccountName = []\<rparr>"

lemma no_resources_tidy [simp]: "tidy noResources"
  by (simp add: tidy_def noResources_def)

text \<open>A worker with a secret that may be missing and the name of its pod in the environment.\<close>

definition secretiveSpec :: OJSWorkerSpec where
  "secretiveSpec = demoWorkerSpec\<lparr>ws_env := [
     \<lparr>ev_name = ''TOKEN'', ev_value = [], ev_valueFrom = Some (noSource\<lparr>es_secretKeyRef :=
        Some \<lparr>ks_name = ''s'', ks_key = ''k'', ks_optional = Some True\<rparr>\<rparr>)\<rparr>,
     \<lparr>ev_name = ''POD'', ev_value = [], ev_valueFrom = Some (noSource\<lparr>es_fieldRef :=
        Some \<lparr>of_apiVersion = [], of_fieldPath = ''metadata.name''\<rparr>\<rparr>)\<rparr>]\<rparr>"


subsection \<open>Schema and webhook together\<close>

lemma explicit_concurrency:
  "\<forall>m i. m ''concurrency'' = Some (JInt i) \<and> accepts workerSchema (stored workerSchema (JObject m)) \<longrightarrow> 1 \<le> i"
  by (intro allI impI, elim conjE) (simp add: workerSchema_def stored_object)

text \<open>C19. What is admitted where definition and webhook are both installed, of the specs as Go writes them. A cluster is admitted exactly
  when its backend type is one of the six, its replicas, if given, are at least 1, and its autoscaling, if given, has a minimum of
  at least 1 and, if enabled, a maximum no smaller: the schema checks the minimum also of autoscaling that is switched off, the
  webhook does not. For workers likewise, with the replicas at least 0, which the webhook does not check, and the concurrency at
  least 0: Go leaves a concurrency of 0 out. Whoever writes it out is refused: a manifest of a worker with an explicit
  concurrency is accepted by the schema only from 1 on.\<close>

theorem admitted_specs:
  assumes "json_laws L" and "tidy (cs_resources c)" and "tidy (ws_resources w)"
    and "OJSClusterSpec_of_json L (stored clusterSchema (json_of_OJSClusterSpec L c)) = Some (cl_spec cluster)"
    and "OJSWorkerSpec_of_json L (stored workerSchema (json_of_OJSWorkerSpec L w)) = Some (wk_spec worker)"
  shows "(accepts clusterSchema (stored clusterSchema (json_of_OJSClusterSpec L c)) \<and>
      ValidateCreateCluster (ObjCluster cluster) = None \<longleftrightarrow>
        ValidBackendTypes (be_type (cs_backend c)) \<and> (\<forall>n. cs_replicas c = Some n \<longrightarrow> 1 \<le> sint n) \<and>
        (\<forall>a. cs_autoScaling c = Some a \<longrightarrow> 1 \<le> sint (as_minReplicas a) \<and>
          (as_enabled a \<longrightarrow> sint (as_minReplicas a) \<le> sint (as_maxReplicas a)))) \<and>
    (accepts workerSchema (stored workerSchema (json_of_OJSWorkerSpec L w)) \<and>
      ValidateCreateWorker (ObjWorker worker) = None \<longleftrightarrow>
        ws_clusterRef w \<noteq> [] \<and> ws_image w \<noteq> [] \<and> ws_jobTypes w \<noteq> [] \<and> [] \<notin> set (ws_jobTypes w) \<and> [] \<notin> set (ws_queues w) \<and>
        0 \<le> sint (ws_concurrency w) \<and> (\<forall>n. ws_replicas w = Some n \<longrightarrow> 0 \<le> sint n) \<and>
        (\<forall>a. ws_autoScaling w = Some a \<longrightarrow> 1 \<le> sint (was_minReplicas a) \<and>
          (was_enabled a \<longrightarrow> sint (was_minReplicas a) \<le> sint (was_maxReplicas a)))) \<and>
    (\<forall>m i. m ''concurrency'' = Some (JInt i) \<and> accepts workerSchema (stored workerSchema (JObject m)) \<longrightarrow> 1 \<le> i)"
proof (intro conjI)
  have specs: "cl_spec cluster = storedCluster c" "wk_spec worker = storedWorker w"
    using assms(4,5) json_laws.cluster_stored [OF assms(1,2)] json_laws.worker_stored [OF assms(1,3)] by simp_all
  have "ValidateCreateCluster (ObjCluster cluster) = None \<longleftrightarrow> valid_cluster cluster"
    using cluster_validator.create_accepts [of "ObjCluster cluster"] by simp
  then show "accepts clusterSchema (stored clusterSchema (json_of_OJSClusterSpec L c)) \<and>
      ValidateCreateCluster (ObjCluster cluster) = None \<longleftrightarrow>
        ValidBackendTypes (be_type (cs_backend c)) \<and> (\<forall>n. cs_replicas c = Some n \<longrightarrow> 1 \<le> sint n) \<and>
        (\<forall>a. cs_autoScaling c = Some a \<longrightarrow> 1 \<le> sint (as_minReplicas a) \<and>
          (as_enabled a \<longrightarrow> sint (as_minReplicas a) \<le> sint (as_maxReplicas a)))"
    by (auto simp: json_laws.cluster_accepted [OF assms(1)] valid_cluster_def specs storedCluster_def scaling_range_ok_def
        split: option.splits)
  have "ValidateCreateWorker (ObjWorker worker) = None \<longleftrightarrow> valid_worker worker"
    using worker_validator.create_accepts [of "ObjWorker worker"] by simp
  then show "accepts workerSchema (stored workerSchema (json_of_OJSWorkerSpec L w)) \<and>
      ValidateCreateWorker (ObjWorker worker) = None \<longleftrightarrow>
        ws_clusterRef w \<noteq> [] \<and> ws_image w \<noteq> [] \<and> ws_jobTypes w \<noteq> [] \<and> [] \<notin> set (ws_jobTypes w) \<and> [] \<notin> set (ws_queues w) \<and>
        0 \<le> sint (ws_concurrency w) \<and> (\<forall>n. ws_replicas w = Some n \<longrightarrow> 0 \<le> sint n) \<and>
        (\<forall>a. ws_autoScaling w = Some a \<longrightarrow> 1 \<le> sint (was_minReplicas a) \<and>
          (was_enabled a \<longrightarrow> sint (was_minReplicas a) \<le> sint (was_maxReplicas a)))"
    by (auto simp: json_laws.worker_accepted [OF assms(1)] valid_worker_def specs storedWorker_def scaling_range_ok_def)
  show "\<forall>m i. m ''concurrency'' = Some (JInt i) \<and> accepts workerSchema (stored workerSchema (JObject m)) \<longrightarrow> 1 \<le> i"
    by (rule explicit_concurrency)
qed

theorem admitted_specs_witness:
  "accepts clusterSchema (stored clusterSchema (json_of_OJSClusterSpec memJson productionSpec)) \<and>
   ValidateCreateCluster (ObjCluster (demoCluster\<lparr>cl_spec := storedCluster productionSpec\<rparr>)) = None \<and>
   ValidateCreateWorker (ObjWorker (demoWorker\<lparr>wk_spec := storedWorker demoWorkerSpec\<rparr>)) = None \<and>
   \<not> accepts workerSchema (stored workerSchema (JObject [''clusterRef'' \<mapsto> JString ''c'',
     ''jobTypes'' \<mapsto> JArray [JString ''mail''], ''image'' \<mapsto> JString ''i'', ''concurrency'' \<mapsto> JInt 0]))"
proof -
  have tidy: "tidy (cs_resources productionSpec)" "tidy (ws_resources demoWorkerSpec)"
    by (simp_all add: demoWorkerSpec_def productionSpec_def)
  note laws = mem_json.json_laws_axioms
  have c: "OJSClusterSpec_of_json memJson (stored clusterSchema (json_of_OJSClusterSpec memJson productionSpec)) =
      Some (cl_spec (demoCluster\<lparr>cl_spec := storedCluster productionSpec\<rparr>))"
    using mem_json.cluster_stored [OF tidy(1)] by simp
  have w: "OJSWorkerSpec_of_json memJson (stored workerSchema (json_of_OJSWorkerSpec memJson demoWorkerSpec)) =
      Some (wk_spec (demoWorker\<lparr>wk_spec := storedWorker demoWorkerSpec\<rparr>))"
    using mem_json.worker_stored [OF tidy(2)] by simp
  let ?zero = "[''clusterRef'' \<mapsto> JString ''c'', ''jobTypes'' \<mapsto> JArray [JString ''mail''], ''image'' \<mapsto> JString ''i'',
      ''concurrency'' \<mapsto> JInt 0]"
  note admitted = admitted_specs [OF laws tidy c w]
  have "?zero ''concurrency'' = Some (JInt 0)" by simp
  then have refused: "\<not> accepts workerSchema (stored workerSchema (JObject ?zero))"
    using admitted [THEN conjunct2, THEN conjunct2, rule_format, of ?zero 0] by linarith
  show ?thesis
    using admitted [THEN conjunct1] admitted [THEN conjunct2, THEN conjunct1] refused
    by (simp add: productionSpec_def demoWorkerSpec_def ValidBackendTypes_def)
qed

subsection \<open>The deployed role\<close>

lemma stored_wants_budget:
  assumes "cl_spec c = storedCluster spec" and "\<And>n. cs_replicas spec = Some n \<Longrightarrow> 1 < sint n"
  shows "pdbWanted c"
  using assms(2) by (auto simp: pdbWanted_def clusterReplicas_def assms(1) storedCluster_def split: option.split)

text \<open>C30. As deployed, replicated clusters are never reconciled. Under the deployed role, or that of the chart, every
  reconciliation of a live cluster reports an error when its spec was stored through the deployed definition and asks for
  more than one replica or for no number in particular, whatever it says about its disruption budget: switching
  the budget off is forgotten when the spec is stored, and the role forbids the budget.\<close>

theorem deployed_clusters_fail:
  assumes "json_laws L" and "tidy (cs_resources spec)" and replicas: "\<And>n. cs_replicas spec = Some n \<Longrightarrow> 1 < sint n"
    and stored: "OJSClusterSpec_of_json L (stored clusterSchema (json_of_OJSClusterSpec L spec)) = Some (cl_spec c)"
    and role: "enforces (rc_client r) deployedRole \<or> (\<exists>monitors. enforces (rc_client r) (chartRole monitors))"
    and echo: "api_echo (rc_client r)" and read: "fst (run_state (GetOJSCluster (rc_client r) req) s) = Inr c"
    and live: "IsZero (om_deletionTimestamp (cl_meta c))"
    and run: "observe (Reconcile (logged_reconciler r) req) s = (res, cs)"
  shows "snd res \<noteq> None"
proof -
  have "cl_spec c = storedCluster spec" using stored json_laws.cluster_stored [OF assms(1,2)] by simp
  then have wanted: "pdbWanted c" using replicas by (rule stored_wants_budget)
  have "answers (CreateOrUpdatePDB (rc_client r) p f) isl" for p f using role enforced_budget by blast
  then show ?thesis by (rule forbidden_budget_never_reconciled [OF _ echo read live wanted run])
qed

text \<open>The cluster of the demonstration, from a spec that switches its budget off.\<close>

theorem deployed_clusters_fail_witness:
  "snd (fst (observe (Reconcile (logged_reconciler roleReconciler) (demoKey ''c'')) demoWorld)) \<noteq> None"
proof -
  let ?spec = "demoClusterSpec\<lparr>cs_podDisruptionBudget := Some \<lparr>pdbs_enabled = Some False, pdbs_minAvailable = None, pdbs_maxUnavailable = None\<rparr>\<rparr>"
  have tidy: "tidy (cs_resources ?spec)" by (simp add: demoClusterSpec_def)
  have stored: "OJSClusterSpec_of_json memJson (stored clusterSchema (json_of_OJSClusterSpec memJson ?spec)) = Some (cl_spec demoCluster)"
    unfolding mem_json.cluster_stored [OF tidy] by (simp add: storedCluster_def storedResources_def noResources_def demoCluster_def demoClusterSpec_def)
  have client: "GetOJSCluster (rc_client roleReconciler) = GetOJSCluster memKube"
    "ContainsFinalizer (rc_client roleReconciler) = ContainsFinalizer memKube"
    by (simp_all add: roleReconciler_def)
  show ?thesis
    by (rule deployed_clusters_fail [OF mem_json.json_laws_axioms tidy _ stored _ role_echo _ demo_live prod.collapse [symmetric]])
      (auto simp: demoClusterSpec_def client demo_read role_enforced)
qed

end
