(* ===== verification/ControlLoop.thy ===== *)
theory ControlLoop
  imports LoggedRuns Plans "HOL-Library.While_Combinator"
begin

text \<open>
  Trying again. A reconciler that reports an error is run again for the same request. \<open>retry m s\<close> repeats the attempt
  \<open>m\<close> from the state \<open>s\<close> until one reports no error; it counts the attempts, and it is \<open>None\<close> when the repetition has
  no end. It ends when every failed attempt pays for its error; ClusterHealing and WorkerHealing show that the attempts do.
\<close>

subsection \<open>Repetition\<close>

definition again :: "('s, reconcile_result) state \<Rightarrow> nat \<times> reconcile_result \<times> 's \<Rightarrow> nat \<times> reconcile_result \<times> 's" where
  "again m a = (case a of (n, _, s) \<Rightarrow> (Suc n, run_state m s))"

definition retry :: "('s, reconcile_result) state \<Rightarrow> 's \<Rightarrow> (nat \<times> reconcile_result \<times> 's) option" where
  "retry m s = while_option (\<lambda>(_, res, _). snd res \<noteq> None) (again m) (1, run_state m s)"

text \<open>An attempt that fails uses up something of which there is only so much.\<close>

lemma retry_ends:
  fixes budget :: "'s \<Rightarrow> nat"
  assumes cost: "\<And>s res s'. I s \<Longrightarrow> run_state m s = (res, s') \<Longrightarrow>
      I s' \<and> budget s' + (if snd res = None then 0 else 1) \<le> budget s" and start: "I s"
  shows "\<exists>n res s' s0. retry m s = Some (n, res, s') \<and> snd res = None \<and> n + budget s' \<le> Suc (budget s) \<and>
    I s0 \<and> run_state m s0 = (res, s')"
proof -
  let ?b = "\<lambda>(_ :: nat, res :: reconcile_result, _ :: 's). snd res \<noteq> None"
  let ?J = "\<lambda>(n, res, s'). (\<exists>s0. I s0 \<and> run_state m s0 = (res, s')) \<and>
    n + budget s' + (if snd res = None then 0 else 1) \<le> Suc (budget s)"
  have first: "?J (1, run_state m s)"
  proof -
    obtain res s' where run: "run_state m s = (res, s')" by (metis prod.collapse)
    show ?thesis using cost [OF start run] start run by auto
  qed
  have step: "?J (again m a) \<and> fst a \<le> budget s" if J: "?J a" "?b a" for a
  proof -
    obtain n res s1 where a: "a = (n, res, s1)" by (metis prod_cases3)
    obtain res' s2 where run: "run_state m s1 = (res', s2)" by (metis prod.collapse)
    obtain s0 where "I s0" "run_state m s0 = (res, s1)" using J(1) by (auto simp: a)
    then have "I s1" using cost by blast
    then show ?thesis using J cost [OF _ run] run by (auto simp: a again_def split: if_splits)
  qed
  have "\<exists>a. retry m s = Some a"
    unfolding retry_def
  proof (rule measure_while_option_Some [where P = ?J and f = "\<lambda>a. Suc (budget s) - fst a"])
    fix a
    assume a: "?J a" "?b a"
    moreover have "fst (again m a) = Suc (fst a)" by (simp add: again_def split: prod.split)
    moreover have "?J (again m a)" "fst a \<le> budget s"
      by (rule step [OF a, THEN conjunct1]) (rule step [OF a, THEN conjunct2])
    ultimately show "?J (again m a) \<and> Suc (budget s) - fst (again m a) < Suc (budget s) - fst a"
      by (simp add: Suc_diff_le)
  qed (rule first)
  then obtain n res s' where a: "retry m s = Some (n, res, s')" by (metis prod_cases3)
  have "?J (n, res, s')"
  proof (rule while_option_rule [where P = ?J and b = ?b and c = "again m", OF _ a [unfolded retry_def] first])
    show "?J (again m a)" if "?J a" "?b a" for a by (rule step [OF that, THEN conjunct1])
  qed
  moreover have "snd res = None"
    using while_option_stop [OF a [unfolded retry_def]] by simp
  ultimately show ?thesis using a by auto
qed

subsection \<open>Failures that run out\<close>

text \<open>\<open>budget s\<close> bounds the fatal failures the environment still has in store in the state \<open>s\<close>, as long as only calls of
  \<open>A\<close> are made, beginning in a state with \<open>I\<close>, which they keep.\<close>

definition within :: "call set \<Rightarrow> ('s \<Rightarrow> bool) \<Rightarrow> ('s \<Rightarrow> nat) \<Rightarrow> 's \<Rightarrow> entry list \<Rightarrow> 's \<Rightarrow> bool" where
  "within A I budget s cs s' \<longleftrightarrow> (fst ` set cs \<subseteq> A \<longrightarrow> I s \<longrightarrow> I s' \<and> budget s' + length (filter fatal cs) \<le> budget s)"

interpretation within: log_relation "within A I budget" for A I budget
  by unfold_locales (auto simp: within_def)

text \<open>An attempt that pays for its error.\<close>

lemma attempt_costs:
  assumes "within A I budget s cs s'" "fst ` set cs \<subseteq> A" "I s"
    and "\<And>e. snd res = Some e \<Longrightarrow> sourced (\<lambda>_. False) cs e"
  shows "I s' \<and> budget s' + (if snd res = None then 0 else 1) \<le> budget s"
proof (cases "snd res")
  case None
  then show ?thesis using assms(1-3) by (auto simp: within_def)
next
  case (Some e)
  then have "has_fatal cs" using assms(4) by (auto simp: sourced_def list_ex_iff)
  then have "filter fatal cs \<noteq> []" by (auto simp: list_ex_iff filter_empty_conv)
  then have "0 < length (filter fatal cs)" by blast
  moreover have "I s'" "budget s' + length (filter fatal cs) \<le> budget s" using assms(1-3) by (simp_all add: within_def)
  ultimately have "I s' \<and> budget s' + 1 \<le> budget s" by linarith
  then show ?thesis using Some by simp
qed

end
