(* ===== verification/FlakyKube.thy ===== *)
theory FlakyKube
  imports ControlLoop Resending
begin

text \<open>
  The in-memory API server of MemKube behind a bad connection: the next so many calls fail, whatever they are, and the
  number is part of the state. It still stores as that server does and answers updates with what was sent.
\<close>

subsection \<open>The connection\<close>

definition unavailable :: goerror where
  "unavailable = \<lparr>err_notfound = False, err_text = ''service unavailable''\<rparr>"

definition flaky :: "('w, goerror + 'a) state \<Rightarrow> (nat \<times> 'w, goerror + 'a) state" where
  "flaky m = State (\<lambda>(n, w). case n of
     0 \<Rightarrow> (case run_state m w of (x, w') \<Rightarrow> (x, (0, w')))
   | Suc k \<Rightarrow> (Inl unavailable, (k, w)))"

text \<open>What does not go over the connection.\<close>

definition local :: "('w, 'a) state \<Rightarrow> (nat \<times> 'w, 'a) state" where
  "local m = State (\<lambda>(n, w). case run_state m w of (x, w') \<Rightarrow> (x, (n, w')))"

definition flakyKube :: "(nat \<times> world) kube" where
  "flakyKube = \<lparr>
     GetOJSCluster = (\<lambda>k. flaky (GetOJSCluster memKube k)),
     GetOJSWorker = (\<lambda>k. flaky (GetOJSWorker memKube k)),
     GetDeployment = (\<lambda>k. flaky (GetDeployment memKube k)),
     GetHPA = (\<lambda>k. flaky (GetHPA memKube k)),
     UpdateOJSCluster = (\<lambda>c. flaky (UpdateOJSCluster memKube c)),
     UpdateOJSWorker = (\<lambda>w. flaky (UpdateOJSWorker memKube w)),
     StatusUpdateOJSCluster = (\<lambda>c. flaky (StatusUpdateOJSCluster memKube c)),
     StatusUpdateOJSWorker = (\<lambda>w. flaky (StatusUpdateOJSWorker memKube w)),
     DeleteHPA = (\<lambda>h. flaky (DeleteHPA memKube h)),
     CreateOrUpdateConfigMap = (\<lambda>cm f. flaky (CreateOrUpdateConfigMap memKube cm f)),
     CreateOrUpdateDeployment = (\<lambda>d f. flaky (CreateOrUpdateDeployment memKube d f)),
     CreateOrUpdateService = (\<lambda>sv f. flaky (CreateOrUpdateService memKube sv f)),
     CreateOrUpdatePDB = (\<lambda>p f. flaky (CreateOrUpdatePDB memKube p f)),
     CreateOrUpdateUnstructured = (\<lambda>u f. flaky (CreateOrUpdateUnstructured memKube u f)),
     CreateOrUpdateHPA = (\<lambda>h f. flaky (CreateOrUpdateHPA memKube h f)),
     Now = local (Now memKube),
     SetControllerReference = memSetRef,
     ContainsFinalizer = ContainsFinalizer memKube,
     AddFinalizer = AddFinalizer memKube,
     RemoveFinalizer = RemoveFinalizer memKube,
     SetStatusCondition = SetStatusCondition memKube,
     isPrintTable = isPrintTable memKube,
     floatFraction = floatFraction memKube\<rparr>"

definition flakyReconciler :: "(nat \<times> world) reconciler" where
  "flakyReconciler = \<lparr>rc_client = flakyKube, rc_recorder = Some (\<lambda>e. local (memRecord e))\<rparr>"

lemma flakyReconciler_client [simp]: "rc_client flakyReconciler = flakyKube"
  by (simp add: flakyReconciler_def)

lemma flaky_setRef [simp]: "SetControllerReference flakyKube = memSetRef"
  by (simp add: flakyKube_def)

lemma flaky_calls:
  "GetOJSCluster flakyKube k = flaky (GetOJSCluster memKube k)"
  "GetOJSWorker flakyKube k = flaky (GetOJSWorker memKube k)"
  "GetDeployment flakyKube k = flaky (GetDeployment memKube k)"
  "GetHPA flakyKube k = flaky (GetHPA memKube k)"
  "UpdateOJSCluster flakyKube c = flaky (UpdateOJSCluster memKube c)"
  "UpdateOJSWorker flakyKube w = flaky (UpdateOJSWorker memKube w)"
  "StatusUpdateOJSCluster flakyKube c = flaky (StatusUpdateOJSCluster memKube c)"
  "StatusUpdateOJSWorker flakyKube w = flaky (StatusUpdateOJSWorker memKube w)"
  "DeleteHPA flakyKube h = flaky (DeleteHPA memKube h)"
  "CreateOrUpdateConfigMap flakyKube cm f = flaky (CreateOrUpdateConfigMap memKube cm f)"
  "CreateOrUpdateDeployment flakyKube d g = flaky (CreateOrUpdateDeployment memKube d g)"
  "CreateOrUpdateService flakyKube sv h' = flaky (CreateOrUpdateService memKube sv h')"
  "CreateOrUpdatePDB flakyKube p i = flaky (CreateOrUpdatePDB memKube p i)"
  "CreateOrUpdateUnstructured flakyKube u j = flaky (CreateOrUpdateUnstructured memKube u j)"
  "CreateOrUpdateHPA flakyKube hp l = flaky (CreateOrUpdateHPA memKube hp l)"
  "Now flakyKube = local (Now memKube)"
  by (simp_all add: flakyKube_def)

subsection \<open>Laws pass over the connection\<close>

lemma flaky_answers:
  "answers m (\<lambda>x. \<forall>a. x = Inr a \<longrightarrow> P a) \<Longrightarrow> answers (flaky m) (\<lambda>x. \<forall>a. x = Inr a \<longrightarrow> P a)"
  by (auto simp: answers_def flaky_def split: nat.splits prod.splits) (metis fst_conv)

lemma flaky_stores: "stores A obs c m \<Longrightarrow> stores A (\<lambda>s. obs (snd s)) c (flaky m)"
  unfolding stores_def flaky_def by (auto split: nat.splits prod.splits if_splits)

interpretation flaky: api_echo flakyKube
proof -
  note laws = mem.api_echo_axioms [unfolded api_echo_def api_names_def api_echo_axioms_def]
  show "api_echo flakyKube"
    unfolding api_echo_def api_names_def api_echo_axioms_def flakyKube_def kube.simps
    by (intro conjI allI flaky_answers) (use laws in simp_all)
qed

interpretation flaky_store: child_store memAdmit flakyKube "\<lambda>s. mem_children (snd s)"
proof (unfold_locales, goal_cases)
  case 16 show ?case by (auto simp: keeps_def flakyKube_def local_def memKube_def memNow_def)
qed (simp_all only: flakyKube_def kube.simps flaky_stores mem_store.GetOJSCluster_stores mem_store.GetOJSWorker_stores
    mem_store.GetDeployment_stores mem_store.GetHPA_stores mem_store.UpdateOJSCluster_stores
    mem_store.UpdateOJSWorker_stores mem_store.StatusUpdateOJSCluster_stores mem_store.StatusUpdateOJSWorker_stores
    mem_store.DeleteHPA_stores mem_store.CreateOrUpdateConfigMap_stores mem_store.CreateOrUpdateDeployment_stores
    mem_store.CreateOrUpdateService_stores mem_store.CreateOrUpdatePDB_stores
    mem_store.CreateOrUpdateUnstructured_stores mem_store.CreateOrUpdateHPA_stores)

lemma flaky_quiet: "quiet_recorder (\<lambda>s. mem_children (snd s)) flakyReconciler"
  by (simp add: quiet_recorder_def keeps_def flakyReconciler_def local_def memRecord_def split: prod.split)

subsection \<open>Calls that go through\<close>

text \<open>Nobody else controls the object.\<close>

definition ours :: "string \<Rightarrow> ObjectMeta \<Rightarrow> bool" where
  "ours u m \<longleftrightarrow> (\<forall>ref\<in>set (om_ownerReferences m). or_controller ref \<longrightarrow> or_uid ref = u)"

lemma accepts_ours:
  assumes "child_builder memSetRef knd owner meta lbl build cb" "ours (om_uid owner) (meta ob)"
  shows "\<exists>new. cb ob = Inr new \<and> ours (om_uid owner) (meta new)"
proof -
  have free: "\<not> (\<exists>ref\<in>set (om_ownerReferences (meta ob)). or_controller ref \<and> or_uid ref \<noteq> om_uid owner)"
    using assms(2) by (auto simp: ours_def)
  have "\<exists>m. memSetRef knd owner (meta ob) = Inr m \<and> ours (om_uid owner) m"
    using assms(2) unfolding memSetRef_def if_not_P [OF free] by (auto simp: ours_def ownerRef_def)
  then obtain m where m: "memSetRef knd owner (meta ob) = Inr m" "ours (om_uid owner) m" by blast
  then show ?thesis
    by (simp add: child_builder.callback [OF assms(1)] child_builder.build_meta [OF assms(1)] ours_def)
qed

text \<open>\<open>serves H x m\<close>: in a world with \<open>H\<close> the call \<open>x\<close> does not fail fatally, and leaves a world with \<open>H\<close>.\<close>

definition serves :: "(world \<Rightarrow> bool) \<Rightarrow> call \<Rightarrow> (world, goerror + 'a) state \<Rightarrow> bool" where
  "serves H x m \<longleftrightarrow> (\<forall>w. H w \<longrightarrow> H (snd (run_state m w)) \<and> \<not> fatal (entry_of x (fst (run_state m w))))"

lemma serves_get: "\<not> fatal (x, Some notFound) \<Longrightarrow> serves H x (memGet sel k)"
  by (auto simp: serves_def memGet_def entry_of_def split: option.split)

lemma serves_reads:
  "serves H (ReadCluster k) (GetOJSCluster memKube k)" "serves H (ReadWorker k) (GetOJSWorker memKube k)"
  "serves H (ReadDeployment k) (GetDeployment memKube k)" "serves H (ReadHPA k) (GetHPA memKube k)"
  by (simp_all add: memKube_def serves_get notFound_def IsNotFound_def)

text \<open>An object is applied when its callback accepts what nobody else controls.\<close>

lemma serves_apply:
  fixes sel :: "world \<Rightarrow> NamespacedName \<rightharpoonup> 'o"
  assumes accepts: "\<And>ob. ours u (meta ob) \<Longrightarrow> \<exists>new. f ob = Inr new \<and> ours u (meta new)"
    and fresh: "ours u (meta ob)"
    and stored: "\<And>w. H w \<Longrightarrow> \<forall>ob\<in>ran (sel w). ours u (meta ob)"
    and put: "\<And>w k new. H w \<Longrightarrow> ours u (meta new) \<Longrightarrow> H (put (\<lambda>m. m(k \<mapsto> new)) w)"
    and admits: "\<And>old new. ours u (meta (admit old new)) = ours u (meta new)"
  shows "serves H x (memCreateOrUpdate sel put meta admit ob f)"
  unfolding serves_def
proof (intro allI impI)
  fix w
  assume w: "H w"
  let ?old = "case sel w (key_of (meta ob)) of None \<Rightarrow> ob | Some old \<Rightarrow> old"
  have "ours u (meta ?old)"
    using fresh stored [OF w] by (auto split: option.split intro: ranI)
  then obtain new where "f ?old = Inr new" "ours u (meta new)" using accepts by blast
  then show "H (snd (run_state (memCreateOrUpdate sel put meta admit ob f) w)) \<and>
      \<not> fatal (entry_of x (fst (run_state (memCreateOrUpdate sel put meta admit ob f) w)))"
    using put [OF w] by (simp add: memCreateOrUpdate_def admits Let_def)
qed

lemma admitted_ours [simp]: "ours u (memAdmitMeta old m) = ours u m"
  by (simp add: ours_def)

lemma fresh_ours: "ours u (cm_meta (newConfigMap n ns))" "ours u (dep_meta (newDeployment n ns))"
  "ours u (svc_meta (newService n ns))" "ours u (pdb_meta (newPDB n ns))" "ours u (hpa_meta (newHPA n ns))"
  by (simp_all add: ours_def new_object_defs emptyMeta_def)

subsection \<open>Failures over the connection run out\<close>

lemma flaky_in:
  assumes "c \<in> A \<Longrightarrow> serves H c m"
  shows "call_in (within A (\<lambda>s. H (snd s)) fst) c (flaky m)"
proof -
  have "within A (\<lambda>s. H (snd s)) fst s [entry_of c x] s'" if run: "run_state (flaky m) s = (x, s')" for s x s'
  proof (cases "fst s")
    case 0
    then obtain w where s: "s = (0, w)" by (metis prod.collapse)
    then have "run_state m w = (x, snd s')" "fst s' = 0" using run by (auto simp: flaky_def split: prod.splits)
    then show ?thesis using assms by (auto simp: s within_def serves_def dest!: spec [of _ w])
  next
    case (Suc n)
    then show ?thesis
      using run by (cases s) (auto simp: within_def flaky_def entry_of_def)
  qed
  then show ?thesis by (simp add: call_in_def)
qed

lemma flaky_clock: "(\<And>w t. H w \<Longrightarrow> H (w_clock_update t w)) \<Longrightarrow> quiet_in (within A (\<lambda>s. H (snd s)) fst) (Now flakyKube)"
  by (auto simp: quiet_in_def within_def flaky_calls local_def memKube_def memNow_def)

lemma flaky_recorder:
  "(\<And>w e. H w \<Longrightarrow> H (w_events_update e w)) \<Longrightarrow> recorder_in (within A (\<lambda>s. H (snd s)) fst) flakyReconciler"
  by (auto simp: recorder_in_def within_def flakyReconciler_def local_def memRecord_def)

end
