(* ===== verification/ClusterHealing.thy ===== *)
theory ClusterHealing
  imports ClusterScope Convergence FlakyKube
begin

text \<open>
  A reconciliation of a cluster that is tried again for as long as it fails: it ends when the failures of the environment do, and
  leaves the children settled. Every error it reports is that of a call, and the calls it can come to are known.
\<close>

subsection \<open>Clusters that can be reconciled\<close>

definition supportedBackend :: "OJSCluster \<Rightarrow> bool" where
  "supportedBackend c \<longleftrightarrow> (be_embedded (cs_backend (cl_spec c)) \<longrightarrow> be_type (cs_backend (cl_spec c)) = ''redis'')"

lemma supported_same: "same_demands c c' \<Longrightarrow> supportedBackend c \<Longrightarrow> supportedBackend c'"
  by (simp add: same_demands_def supportedBackend_def)

lemma supported_backend_accounts:
  assumes "supportedBackend c"
  shows "accounts E (clusterBackend (logged_reconciler r) c)"
proof (cases "be_embedded (cs_backend (cl_spec c))")
  case False
  then show ?thesis by (simp add: clusterBackend_def accounts_clusterChildren)
next
  case True
  have "blames E (reconcileEmbeddedBackend (logged_reconciler r) c)"
    using assms True
    unfolding reconcileEmbeddedBackend_def reconcileEmbeddedRedis_def Let_def supportedBackend_def
      logged_reconciler_client logged_kube_calls logged_kube_pure
    by (intro blame_rules) simp_all
  then show ?thesis
    unfolding clusterBackend_def by (intro blame_rules traces_True emits_rules)
qed

text \<open>Then every error is that of a call.\<close>

lemma supported_accounts:
  assumes echo: "api_echo (rc_client r)" and live: "IsZero (om_deletionTimestamp (cl_meta c))" and "supportedBackend c"
    and read: "fst (run_state (GetOJSCluster (rc_client r) req) s) = Inr c"
    and run: "observe (Reconcile (logged_reconciler r) req) s = (res, cs)" and error: "snd res = Some e"
  shows "sourced (\<lambda>_. False) cs e"
proof -
  have names: "api_names (rc_client r)" by (rule api_echo.axioms(1) [OF echo])
  have prepared: "traces m (\<lambda>x cs. childless cs \<and> (\<forall>c'. x = Inr c' \<longrightarrow> kept (rc_client r) c c')) \<Longrightarrow> supportedBackend c \<Longrightarrow>
      traces m (\<lambda>x _. \<forall>a. x = Inr a \<longrightarrow> supportedBackend a)" for c and m :: "('a \<times> entry list, goerror + OJSCluster) state"
    by (rule traces_mono, assumption) (use supported_same echo in \<open>auto simp: kept_def\<close>)
  have phase: "accounts (\<lambda>_. False) (if_err (clusterInitPhase (logged_reconciler r) c)
      (\<lambda>err. State_Monad.return (noResult, Some err)) (clusterBackend (logged_reconciler r)))"
    if "supportedBackend c" for c
    by (rule accounts_if_err_where [OF blames_clusterInitPhase passes_on_return prepared [OF traces_initPhase [OF names] that]])
      (rule supported_backend_accounts)
  have "accounts (\<lambda>_. False) (if_err (clusterEnsureFinalizer (logged_reconciler r) c)
      (\<lambda>err. State_Monad.return (noResult, Some err)) (\<lambda>c. if_err (clusterInitPhase (logged_reconciler r) c)
        (\<lambda>err. State_Monad.return (noResult, Some err)) (clusterBackend (logged_reconciler r))))"
    by (rule accounts_if_err_where [OF blames_clusterEnsureFinalizer passes_on_return
        prepared [OF traces_ensureFinalizer [OF names] assms(3)]]) (rule phase)
  then have "\<exists>ds. cs = (ReadCluster req, None) # ds \<and> (\<forall>e. snd res = Some e \<longrightarrow> sourced (\<lambda>_. False) ds e)"
    using run live unfolding accounts_def Reconcile_def logged_reconciler_client logged_kube_calls
    by (intro observe_first [OF read]) simp_all
  then show ?thesis using error sourced_append [of "\<lambda>_. False" "[(ReadCluster req, None)]" e] by fastforce
qed

subsection \<open>What an attempt does\<close>

text \<open>The calls that reconciling \<open>c\<close> can come to: those in its scope, the writes of clusters that ask for the same, and the
  child calls of its plan.\<close>

definition demandCalls :: "'s kube \<Rightarrow> OJSCluster \<Rightarrow> call set" where
  "demandCalls K c = {x. inScope (key_of (cl_meta c)) x \<and> writes (same_demands c) x \<and>
     (child_call x \<longrightarrow> x \<in> set (clusterPlan (SetControllerReference K) c))}"

lemma writes_mono: "writes D x \<Longrightarrow> (\<And>c. D c \<Longrightarrow> D' c) \<Longrightarrow> writes D' x"
  by (cases x) simp_all

lemma demanded_calls:
  assumes echo: "api_echo (rc_client r)" and owner: "owner_stable (SetControllerReference (rc_client r))"
    and c: "IsZero (om_deletionTimestamp (cl_meta c))" "same_demands c c'"
    and read: "fst (run_state (GetOJSCluster (rc_client r) (key_of (cl_meta c))) s) = Inr c'"
    and run: "observe (Reconcile (logged_reconciler r) (key_of (cl_meta c))) s = (res, cs)"
  shows "fst ` set cs \<subseteq> demandCalls (rc_client r) c"
proof -
  have key: "key_of (cl_meta c') = key_of (cl_meta c)" by (rule same_demands_key(1) [OF c(2)])
  have scope: "inScope (key_of (cl_meta c)) (fst x) \<and> writes (same_demands c) (fst x)" if "x \<in> set cs" for x
    using cluster_writes.scoped_read [OF demands_written [OF echo, of c'], unfolded key, OF read same_demands_refl(1) run] that
    by (auto simp: list_all_iff intro: writes_mono [of "same_demands c'"] same_demands_trans(1) [OF c(2)])
  have "prefix (childCalls cs) (clusterPlan (SetControllerReference (rc_client r)) c)"
    using cluster_plan_of [OF echo owner read c run] by blast
  then have "set (childCalls cs) \<subseteq> set (clusterPlan (SetControllerReference (rc_client r)) c)" by (rule set_mono_prefix)
  then show ?thesis using scope by (auto simp: demandCalls_def childCalls_def)
qed

lemma cluster_attempt:
  assumes echo: "api_echo (rc_client r)" and owner: "owner_stable (SetControllerReference (rc_client r))"
    and c: "IsZero (om_deletionTimestamp (cl_meta c))" "supportedBackend c"
    and present: "\<And>x. fst (run_state (GetOJSCluster (rc_client r) (key_of (cl_meta c))) s) = x \<Longrightarrow>
      case x of Inl e \<Rightarrow> \<not> IsNotFound e | Inr c' \<Rightarrow> same_demands c c'"
    and client: "client_relation (within (demandCalls (rc_client r) c) I budget) (rc_client r)"
    and recorder: "recorder_in (within (demandCalls (rc_client r) c) I budget) r"
    and run: "I s" "run_state (Reconcile r (key_of (cl_meta c))) s = (res, s')"
  shows "I s' \<and> budget s' + (if snd res = None then 0 else 1) \<le> budget s"
proof -
  let ?req = "key_of (cl_meta c)"
  obtain cs where cs: "observe (Reconcile (logged_reconciler r) ?req) s = (res, cs)"
    "run_state (Reconcile (logged_reconciler r) ?req) (s, []) = (res, (s', cs))"
    using logged_run [of r ?req s] run(2) by auto
  have paid: "within (demandCalls (rc_client r) c) I budget s cs s'"
    by (rule observe_in [OF client_relation.in_Reconcile [OF client refl recorder] cs(2)])
  have "fst ` set cs \<subseteq> demandCalls (rc_client r) c \<and> (\<forall>e. snd res = Some e \<longrightarrow> sourced (\<lambda>_. False) cs e)"
  proof (cases "fst (run_state (GetOJSCluster (rc_client r) ?req) s)")
    case (Inl e)
    then have "\<not> IsNotFound e" using present [OF Inl] by simp
    then show ?thesis
      using Reconcile_unread [OF Inl cs(1)] by (auto simp: demandCalls_def sourced_def)
  next
    case (Inr c')
    then have same: "same_demands c c'" using present [OF Inr] by simp
    have live: "IsZero (om_deletionTimestamp (cl_meta c'))" using same c(1) by (simp add: same_demands_def)
    show ?thesis
      using demanded_calls [OF echo owner c(1) same Inr cs(1)]
        supported_accounts [OF echo live supported_same [OF same c(2)] Inr cs(1)] by blast
  qed
  then show ?thesis using attempt_costs [OF paid _ run(1)] by blast
qed

subsection \<open>The theorem\<close>


subsection \<open>A bad connection\<close>

text \<open>The cluster of the demonstration without monitoring, against the in-memory server behind a connection that fails twice.\<close>

text \<open>\<open>healthy c w\<close>: the world \<open>w\<close> holds a cluster that asks for the same as \<open>c\<close>, and no child object that another resource controls.\<close>

definition healthy :: "OJSCluster \<Rightarrow> world \<Rightarrow> bool" where
  "healthy c w \<longleftrightarrow> (\<exists>c'. w_clusters w (key_of (cl_meta c)) = Some c' \<and> same_demands c c') \<and>
     (let u = om_uid (cl_meta c) in
      (\<forall>ob\<in>ran (w_configMaps w). ours u (cm_meta ob)) \<and> (\<forall>ob\<in>ran (w_deployments w). ours u (dep_meta ob)) \<and>
      (\<forall>ob\<in>ran (w_services w). ours u (svc_meta ob)) \<and> (\<forall>ob\<in>ran (w_pdbs w). ours u (pdb_meta ob)))"

lemma healthy_put:
  assumes "healthy c w"
  shows "ours (om_uid (cl_meta c)) (cm_meta cm) \<Longrightarrow> healthy c (w_configMaps_update (\<lambda>m. m(k \<mapsto> cm)) w)"
    "ours (om_uid (cl_meta c)) (dep_meta d) \<Longrightarrow> healthy c (w_deployments_update (\<lambda>m. m(k \<mapsto> d)) w)"
    "ours (om_uid (cl_meta c)) (svc_meta sv) \<Longrightarrow> healthy c (w_services_update (\<lambda>m. m(k \<mapsto> sv)) w)"
    "ours (om_uid (cl_meta c)) (pdb_meta p) \<Longrightarrow> healthy c (w_pdbs_update (\<lambda>m. m(k \<mapsto> p)) w)"
  using assms by (auto simp: healthy_def Let_def ran_def)

lemma healthy_other [simp]:
  "healthy c (w_clock_update f w) = healthy c w" "healthy c (w_events_update g w) = healthy c w"
  by (simp_all add: healthy_def)

lemma healthy_objects:
  assumes "healthy c w"
  shows "\<forall>ob\<in>ran (w_configMaps w). ours (om_uid (cl_meta c)) (cm_meta ob)"
    "\<forall>ob\<in>ran (w_deployments w). ours (om_uid (cl_meta c)) (dep_meta ob)"
    "\<forall>ob\<in>ran (w_services w). ours (om_uid (cl_meta c)) (svc_meta ob)"
    "\<forall>ob\<in>ran (w_pdbs w). ours (om_uid (cl_meta c)) (pdb_meta ob)"
  using assms by (simp_all add: healthy_def Let_def)

text \<open>The calls of the plan are served.\<close>

lemma serves_plan:
  shows "serves (healthy c) x (CreateOrUpdateConfigMap memKube (newConfigMap n ns) (configMapCallback memSetRef c))"
    "serves (healthy c) x (CreateOrUpdateDeployment memKube (newDeployment n ns) (serverDeploymentCallback memSetRef c))"
    "serves (healthy c) x (CreateOrUpdateDeployment memKube (newDeployment n ns) (redisDeploymentCallback memSetRef c))"
    "serves (healthy c) x (CreateOrUpdateService memKube (newService n ns) (serviceCallback memSetRef c))"
    "serves (healthy c) x (CreateOrUpdateService memKube (newService n ns) (redisServiceCallback memSetRef c))"
    "serves (healthy c) x (CreateOrUpdatePDB memKube (newPDB n ns) (pdbCallback memSetRef c))"
  unfolding memKube_def kube.simps
  by (rule serves_apply, erule accepts_ours [rotated], rule configMap.child_builder_axioms serverDeployment.child_builder_axioms
      redisDeployment.child_builder_axioms serverService.child_builder_axioms redisService.child_builder_axioms
      pdb.child_builder_axioms, rule fresh_ours, erule healthy_objects, erule healthy_put, assumption, simp)+

text \<open>So are writes of clusters that ask for the same.\<close>

lemma serves_write:
  assumes c: "IsZero (om_deletionTimestamp (cl_meta c))" and same: "same_demands c c'"
  shows "serves (healthy c) x (UpdateOJSCluster memKube c')" "serves (healthy c) x (StatusUpdateOJSCluster memKube c')"
proof -
  have key: "key_of (cl_meta c') = key_of (cl_meta c)" by (rule same_demands_key(1) [OF same])
  have live: "IsZero (om_deletionTimestamp (cl_meta c'))" using same c by (simp add: same_demands_def)
  show "serves (healthy c) x (UpdateOJSCluster memKube c')"
    unfolding serves_def
  proof (intro allI impI)
    fix w
    assume w: "healthy c w"
    then obtain old where old: "w_clusters w (key_of (cl_meta c)) = Some old" "same_demands c old"
      by (auto simp: healthy_def)
    have "same_demands c (c'\<lparr>cl_status := st\<rparr>)" for st using same by (simp add: same_demands_def)
    then show "healthy c (snd (run_state (UpdateOJSCluster memKube c') w)) \<and>
        \<not> fatal (entry_of x (fst (run_state (UpdateOJSCluster memKube c') w)))"
      using w old live same_demands_key(1) [OF old(2)]
      by (simp add: memKube_simps key healthy_def Let_def)
  qed
  show "serves (healthy c) x (StatusUpdateOJSCluster memKube c')"
    unfolding serves_def
  proof (intro allI impI)
    fix w
    assume w: "healthy c w"
    then obtain old where old: "w_clusters w (key_of (cl_meta c)) = Some old" "same_demands c old"
      by (auto simp: healthy_def)
    have "same_demands c (old\<lparr>cl_status := st\<rparr>)" "IsZero (om_deletionTimestamp (cl_meta old))" for st
      using old(2) c by (simp_all add: same_demands_def)
    then show "healthy c (snd (run_state (StatusUpdateOJSCluster memKube c') w)) \<and>
        \<not> fatal (entry_of x (fst (run_state (StatusUpdateOJSCluster memKube c') w)))"
      using w old same_demands_key(1) [OF old(2)]
      by (simp add: memKube_simps key healthy_def Let_def)
  qed
qed

lemma demanded:
  "child_call x \<Longrightarrow> x \<in> demandCalls K c \<Longrightarrow> x \<in> set (clusterPlan (SetControllerReference K) c)"
  "WriteCluster c' \<in> demandCalls K c \<Longrightarrow> same_demands c c'" "WriteClusterStatus c' \<in> demandCalls K c \<Longrightarrow> same_demands c c'"
  "ReadWorker k \<notin> demandCalls K c" "ReadHPA k \<notin> demandCalls K c" "WriteWorker w \<notin> demandCalls K c"
  "WriteWorkerStatus w \<notin> demandCalls K c" "RemoveHPA h \<notin> demandCalls K c" "ApplyHPA h f \<notin> demandCalls K c"
  by (simp_all add: demandCalls_def)

lemma serves_demanded:
  assumes "\<not> monitoringWanted c"
  shows "ApplyConfigMap cm f \<in> demandCalls flakyKube c \<Longrightarrow> serves (healthy c) x (CreateOrUpdateConfigMap memKube cm f)"
    "ApplyDeployment d g \<in> demandCalls flakyKube c \<Longrightarrow> serves (healthy c) x (CreateOrUpdateDeployment memKube d g)"
    "ApplyService sv h \<in> demandCalls flakyKube c \<Longrightarrow> serves (healthy c) x (CreateOrUpdateService memKube sv h)"
    "ApplyPDB p i \<in> demandCalls flakyKube c \<Longrightarrow> serves (healthy c) x (CreateOrUpdatePDB memKube p i)"
    "ApplyServiceMonitor u j \<notin> demandCalls flakyKube c"
proof -
  note plan = demanded(1) [of _ flakyKube c, unfolded flaky_setRef]
  show "ApplyServiceMonitor u j \<notin> demandCalls flakyKube c"
    using plan [of "ApplyServiceMonitor u j"] optional_planned [of "ApplyServiceMonitor u j"] assms by auto
qed (auto dest!: demanded(1) [rotated] simp: clusterPlan_def redisPlan_def serverPlan_def serves_plan split: if_splits)

lemma flaky_client:
  assumes "IsZero (om_deletionTimestamp (cl_meta c))" "\<not> monitoringWanted c"
  shows "client_relation (within (demandCalls flakyKube c) (\<lambda>s. healthy c (snd s)) fst) flakyKube"
proof (unfold_locales, goal_cases)
  case 16 show ?case by (rule flaky_clock) simp
qed (unfold flaky_calls, (rule flaky_in,
    (simp add: demanded(4-) serves_reads serves_demanded(5) [OF assms(2)]; fail) |
    rule flaky_in, erule serves_demanded [OF assms(2)] |
    rule flaky_in, rule serves_write [OF assms(1)], erule demanded)+)

text \<open>The read finds it.\<close>

lemma flaky_present:
  assumes "healthy c (snd s)"
  shows "case fst (run_state (GetOJSCluster flakyKube (key_of (cl_meta c))) s) of
    Inl e \<Rightarrow> \<not> IsNotFound e | Inr c' \<Rightarrow> same_demands c c'"
proof -
  obtain c' where "w_clusters (snd s) (key_of (cl_meta c)) = Some c'" "same_demands c c'"
    using assms by (auto simp: healthy_def)
  then show ?thesis
    using same_demands_key(1) [of c c']
    by (cases s) (auto simp: flaky_calls flaky_def memKube_simps unavailable_def IsNotFound_def split: nat.splits)
qed

lemma calm_healthy: "healthy calmCluster calmWorld"
  by (auto simp: healthy_def calmWorld_def demoWorld_def emptyWorld_def key_of_def ran_def)


end
