(* ===== verification/WorkerHealing.thy ===== *)
theory WorkerHealing
  imports WorkerConvergence FlakyKube
begin

text \<open>
  A reconciliation of a worker that is tried again for as long as it fails: as for clusters, it ends when the failures of the
  environment do. Then it waits for its cluster, or its children are settled.
\<close>

subsection \<open>What an attempt does\<close>

text \<open>The calls that reconciling \<open>w\<close> can come to.\<close>

definition workerCalls :: "'s kube \<Rightarrow> OJSWorker \<Rightarrow> call set" where
  "workerCalls K w = {x. inWorkerScope (key_of (wk_meta w)) x \<and> writesWorker (same_worker_demands w) x \<and>
     (child_call x \<longrightarrow> (\<exists>c rm. key_of (cl_meta c) = \<lparr>nn_namespace = wns w, nn_name = ws_clusterRef (wk_spec w)\<rparr> \<and>
       removalOf w rm \<and> x \<in> set (workerPlan (SetControllerReference K) w c rm)))}"

lemma writesWorker_mono: "writesWorker D x \<Longrightarrow> (\<And>w. D w \<Longrightarrow> D' w) \<Longrightarrow> writesWorker D' x"
  by (cases x) simp_all

lemma worker_demanded_calls:
  assumes echo: "api_echo (rc_client r)" and owner: "owner_stable (SetControllerReference (rc_client r))"
    and w: "IsZero (om_deletionTimestamp (wk_meta w))" "same_worker_demands w w'"
    and read: "fst (run_state (GetOJSWorker (rc_client r) (key_of (wk_meta w))) s) = Inr w'"
    and run: "observe (ReconcileWorker (logged_reconciler r) (key_of (wk_meta w))) s = (res, cs)"
  shows "fst ` set cs \<subseteq> workerCalls (rc_client r) w"
proof -
  let ?ref = "SetControllerReference (rc_client r)"
  let ?k = "\<lparr>nn_namespace = wns w, nn_name = ws_clusterRef (wk_spec w)\<rparr>"
  have names: "api_names (rc_client r)" by (rule api_echo.axioms(1) [OF echo])
  have scope: "inWorkerScope (key_of (wk_meta w)) (fst x) \<and> writesWorker (same_worker_demands w) (fst x)" if "x \<in> set cs" for x
    using ReconcileWorker_scope [OF names run] ReconcileWorker_writes [OF echo read run] that
    by (auto simp: list_all_iff intro: writesWorker_mono [of "same_worker_demands w'"] same_demands_trans(2) [OF w(2)])
  have "\<exists>c rm. key_of (cl_meta c) = ?k \<and> removalOf w rm \<and> x \<in> set (workerPlan ?ref w c rm)" if "x \<in> set (childCalls cs)" for x
  proof -
    have "\<not> waitsForCluster res cs" "childCalls cs \<noteq> []" using that by (auto simp: waitsForCluster_def)
    then obtain c rm where "key_of (cl_meta c) = ?k" "removalOf w rm" "prefix (childCalls cs) (workerPlan ?ref w c rm)"
      using worker_plan_of [OF echo owner read w run] by auto
    then show ?thesis using set_mono_prefix that by blast
  qed
  then show ?thesis using scope by (auto simp: workerCalls_def childCalls_def)
qed

lemma logged_worker_run:
  assumes "run_state (ReconcileWorker r req) s = (res, s')"
  obtains cs where "observe (ReconcileWorker (logged_reconciler r) req) s = (res, cs)"
    "run_state (ReconcileWorker (logged_reconciler r) req) (s, []) = (res, (s', cs))"
proof -
  obtain x t cs where run: "run_state (ReconcileWorker (logged_reconciler r) req) (s, []) = (x, (t, cs))"
    by (metis prod.collapse)
  have "x = res \<and> t = s'"
    using ReconcileWorker_log_transparent [of r req s "[]"] run assms by simp
  with run show ?thesis by (intro that [of cs]) (auto simp: observe_def)
qed

lemma worker_attempt:
  assumes echo: "api_echo (rc_client r)" and owner: "owner_stable (SetControllerReference (rc_client r))"
    and w: "IsZero (om_deletionTimestamp (wk_meta w))"
    and present: "\<And>x. fst (run_state (GetOJSWorker (rc_client r) (key_of (wk_meta w))) s) = x \<Longrightarrow>
      case x of Inl e \<Rightarrow> \<not> IsNotFound e | Inr w' \<Rightarrow> same_worker_demands w w'"
    and client: "client_relation (within (workerCalls (rc_client r) w) I budget) (rc_client r)"
    and recorder: "recorder_in (within (workerCalls (rc_client r) w) I budget) r"
    and run: "I s" "run_state (ReconcileWorker r (key_of (wk_meta w))) s = (res, s')"
  shows "I s' \<and> budget s' + (if snd res = None then 0 else 1) \<le> budget s"
proof -
  let ?req = "key_of (wk_meta w)"
  obtain cs where cs: "observe (ReconcileWorker (logged_reconciler r) ?req) s = (res, cs)"
    "run_state (ReconcileWorker (logged_reconciler r) ?req) (s, []) = (res, (s', cs))"
    by (rule logged_worker_run [OF run(2)])
  have paid: "within (workerCalls (rc_client r) w) I budget s cs s'"
    by (rule observe_in [OF client_relation.in_ReconcileWorker [OF client refl recorder] cs(2)])
  have calls: "fst ` set cs \<subseteq> workerCalls (rc_client r) w"
  proof (cases "fst (run_state (GetOJSWorker (rc_client r) ?req) s)")
    case (Inl e)
    then show ?thesis using ReconcileWorker_unread [OF Inl cs(1)] by (auto simp: workerCalls_def)
  next
    case (Inr w')
    then show ?thesis using present [OF Inr] worker_demanded_calls [OF echo owner w _ Inr cs(1)] by simp
  qed
  have "sourced (\<lambda>_. False) cs e" if "snd res = Some e" for e
    using ReconcileWorker_error_source [OF cs(1) that] by (simp add: sourced_def)
  then show ?thesis using attempt_costs [OF paid calls run(1)] by blast
qed

subsection \<open>The theorem\<close>

text \<open>C14. A worker heals. As for a cluster: when the calls of a reconciliation of the worker \<open>w\<close> can fail fatally only finitely often, the
  worker is there whenever the API server can be reached, and updates are answered with what was sent, then a request that is run again for
  as long as it reports an error is run at most once more than there were failures to come, and ends without error. If moreover the API
  server keeps child objects as \<open>child_store\<close> says and recording events does not change them, then every child of the worker's
  plan is settled, unless the last attempt (with the calls \<open>cs\<close>) found the cluster missing and waits for it.\<close>

theorem worker_heals:
  assumes echo: "api_echo (rc_client r)" and owner: "owner_stable (SetControllerReference (rc_client r))"
    and live: "IsZero (om_deletionTimestamp (wk_meta w))"
    and present: "\<And>s. I s \<Longrightarrow> (case fst (run_state (GetOJSWorker (rc_client r) (key_of (wk_meta w))) s) of
      Inl e \<Rightarrow> \<not> IsNotFound e | Inr w' \<Rightarrow> same_worker_demands w w')"
    and client: "client_relation (within (workerCalls (rc_client r) w) I budget) (rc_client r)"
    and recorder: "recorder_in (within (workerCalls (rc_client r) w) I budget) r" and start: "I s"
  shows "\<exists>n res s' s0 cs. retry (ReconcileWorker r (key_of (wk_meta w))) s = Some (n, res, s') \<and> snd res = None \<and>
    n + budget s' \<le> Suc (budget s) \<and>
    run_state (ReconcileWorker (logged_reconciler r) (key_of (wk_meta w))) (s0, []) = (res, (s', cs)) \<and>
    (\<forall>A obs. child_store A (rc_client r) obs \<longrightarrow> quiet_recorder obs r \<longrightarrow> waitsForCluster res cs \<or>
      (\<exists>c rm. key_of (cl_meta c) = \<lparr>nn_namespace = wns w, nn_name = ws_clusterRef (wk_spec w)\<rparr> \<and> removalOf w rm \<and>
        list_all (ChildStore.settled A (obs s')) (workerPlan (SetControllerReference (rc_client r)) w c rm)))"
proof -
  let ?m = "ReconcileWorker r (key_of (wk_meta w))"
  have "I s' \<and> budget s' + (if snd res = None then 0 else 1) \<le> budget s" if "I s" "run_state ?m s = (res, s')" for s res s'
    by (rule worker_attempt [OF echo owner live _ client recorder that]) (use present [OF that(1)] in auto)
  from retry_ends [of I ?m budget, OF this start] obtain n res s' s0 where
    ends: "retry ?m s = Some (n, res, s')" "snd res = None" "n + budget s' \<le> Suc (budget s)" and
    last: "I s0" "run_state ?m s0 = (res, s')" by blast
  obtain result where res: "res = (result, None)" using ends(2) by (cases res) simp
  obtain cs where run: "observe (ReconcileWorker (logged_reconciler r) (key_of (wk_meta w))) s0 = (res, cs)"
    "run_state (ReconcileWorker (logged_reconciler r) (key_of (wk_meta w))) (s0, []) = (res, (s', cs))"
    by (rule logged_worker_run [OF last(2)])
  have "\<exists>w'. fst (run_state (GetOJSWorker (rc_client r) (key_of (wk_meta w))) s0) = Inr w' \<and> same_worker_demands w w'"
    using present [OF last(1)] ReconcileWorker_unread [OF _ run(1)] ends(2)
    by (cases "fst (run_state (GetOJSWorker (rc_client r) (key_of (wk_meta w))) s0)") auto
  then obtain w' where w': "fst (run_state (GetOJSWorker (rc_client r) (key_of (wk_meta w))) s0) = Inr w'" "same_worker_demands w w'"
    by blast
  have "waitsForCluster res cs \<or>
      (\<exists>c rm. key_of (cl_meta c) = \<lparr>nn_namespace = wns w, nn_name = ws_clusterRef (wk_spec w)\<rparr> \<and> removalOf w rm \<and>
        list_all (ChildStore.settled A (obs s')) (workerPlan (SetControllerReference (rc_client r)) w c rm))"
    if "child_store A (rc_client r) obs" "quiet_recorder obs r" for A obs
    using worker_success_settles [OF that owner echo w'(1) live w'(2) run(2) [unfolded res]] by (simp add: res)
  then show ?thesis using ends run(2) by blast
qed

subsection \<open>A bad connection\<close>

text \<open>\<open>healthyWorker k w\<close>: the world \<open>w\<close> holds a worker that asks for the same as \<open>k\<close>, and no Deployment or autoscaler that
  another resource controls.\<close>

definition healthyWorker :: "OJSWorker \<Rightarrow> world \<Rightarrow> bool" where
  "healthyWorker k w \<longleftrightarrow> (\<exists>k'. w_workers w (key_of (wk_meta k)) = Some k' \<and> same_worker_demands k k') \<and>
     (\<forall>ob\<in>ran (w_deployments w). ours (om_uid (wk_meta k)) (dep_meta ob)) \<and>
     (\<forall>ob\<in>ran (w_hpas w). ours (om_uid (wk_meta k)) (hpa_meta ob))"

lemma healthyWorker_put:
  assumes "healthyWorker k w"
  shows "ours (om_uid (wk_meta k)) (dep_meta d) \<Longrightarrow> healthyWorker k (w_deployments_update (\<lambda>m. m(x \<mapsto> d)) w)"
    "ours (om_uid (wk_meta k)) (hpa_meta h) \<Longrightarrow> healthyWorker k (w_hpas_update (\<lambda>m. m(x \<mapsto> h)) w)"
  using assms by (auto simp: healthyWorker_def ran_def)

lemma healthyWorker_other [simp]:
  "healthyWorker k (w_clock_update f w) = healthyWorker k w" "healthyWorker k (w_events_update g w) = healthyWorker k w"
  by (simp_all add: healthyWorker_def)

lemma healthyWorker_objects:
  assumes "healthyWorker k w"
  shows "\<forall>ob\<in>ran (w_deployments w). ours (om_uid (wk_meta k)) (dep_meta ob)"
    "\<forall>ob\<in>ran (w_hpas w). ours (om_uid (wk_meta k)) (hpa_meta ob)"
  using assms by (simp_all add: healthyWorker_def)

lemma serves_worker_plan:
  "serves (healthyWorker k) x (CreateOrUpdateDeployment memKube (newDeployment n ns) (workerDeploymentCallback memSetRef k c))"
  "serves (healthyWorker k) x (CreateOrUpdateHPA memKube (newHPA n ns) (hpaCallback memSetRef k a))"
  unfolding memKube_def kube.simps
  by (rule serves_apply, erule accepts_ours [rotated], rule workerDeployment.child_builder_axioms hpa.child_builder_axioms,
      rule fresh_ours, erule healthyWorker_objects, erule healthyWorker_put, assumption, simp)+

lemma serves_removal: "serves (healthyWorker k) x (DeleteHPA memKube h)"
  by (auto simp: serves_def memKube_def memDeleteHPA_def healthyWorker_def ran_def split: if_splits)

lemma serves_worker_write:
  assumes k: "IsZero (om_deletionTimestamp (wk_meta k))" and same: "same_worker_demands k k'"
  shows "serves (healthyWorker k) x (UpdateOJSWorker memKube k')" "serves (healthyWorker k) x (StatusUpdateOJSWorker memKube k')"
proof -
  have key: "key_of (wk_meta k') = key_of (wk_meta k)" by (rule same_demands_key(2) [OF same])
  have live: "IsZero (om_deletionTimestamp (wk_meta k'))" using same k by (simp add: same_worker_demands_def)
  have found: "\<exists>old. w_workers w (key_of (wk_meta k)) = Some old \<and> same_worker_demands k old \<and>
      key_of (wk_meta old) = key_of (wk_meta k)" if "healthyWorker k w" for w
    using that same_demands_key(2) by (auto simp: healthyWorker_def)
  show "serves (healthyWorker k) x (UpdateOJSWorker memKube k')"
    unfolding serves_def
  proof (intro allI impI)
    fix w
    assume w: "healthyWorker k w"
    obtain old where old: "w_workers w (key_of (wk_meta k)) = Some old" "key_of (wk_meta old) = key_of (wk_meta k)"
      using found [OF w] by blast
    have "same_worker_demands k (k'\<lparr>wk_status := st\<rparr>)" for st using same by (simp add: same_worker_demands_def)
    then show "healthyWorker k (snd (run_state (UpdateOJSWorker memKube k') w)) \<and>
        \<not> fatal (entry_of x (fst (run_state (UpdateOJSWorker memKube k') w)))"
      using w old live by (simp add: memKube_simps key healthyWorker_def Let_def)
  qed
  show "serves (healthyWorker k) x (StatusUpdateOJSWorker memKube k')"
    unfolding serves_def
  proof (intro allI impI)
    fix w
    assume w: "healthyWorker k w"
    obtain old where old: "w_workers w (key_of (wk_meta k)) = Some old" "same_worker_demands k old"
        "key_of (wk_meta old) = key_of (wk_meta k)"
      using found [OF w] by blast
    have "same_worker_demands k (old\<lparr>wk_status := st\<rparr>)" "IsZero (om_deletionTimestamp (wk_meta old))" for st
      using old(2) k by (simp_all add: same_worker_demands_def)
    then show "healthyWorker k (snd (run_state (StatusUpdateOJSWorker memKube k') w)) \<and>
        \<not> fatal (entry_of x (fst (run_state (StatusUpdateOJSWorker memKube k') w)))"
      using w old by (simp add: memKube_simps key healthyWorker_def Let_def)
  qed
qed

lemma worker_called:
  "WriteWorker k' \<in> workerCalls K k \<Longrightarrow> same_worker_demands k k'" "WriteWorkerStatus k' \<in> workerCalls K k \<Longrightarrow> same_worker_demands k k'"
  "WriteCluster c \<notin> workerCalls K k" "WriteClusterStatus c \<notin> workerCalls K k" "ApplyConfigMap cm f \<notin> workerCalls K k"
  "ApplyService sv g \<notin> workerCalls K k" "ApplyPDB p i \<notin> workerCalls K k" "ApplyServiceMonitor u j \<notin> workerCalls K k"
  by (simp_all add: workerCalls_def)

lemma serves_worker_called:
  "ApplyDeployment d f \<in> workerCalls flakyKube k \<Longrightarrow> serves (healthyWorker k) x (CreateOrUpdateDeployment memKube d f)"
  "ApplyHPA h g \<in> workerCalls flakyKube k \<Longrightarrow> serves (healthyWorker k) x (CreateOrUpdateHPA memKube h g)"
  by (auto simp: workerCalls_def workerPlan_def hpaPlan_def serves_worker_plan Let_def split: option.splits if_splits)

lemma flaky_worker_client:
  assumes "IsZero (om_deletionTimestamp (wk_meta k))"
  shows "client_relation (within (workerCalls flakyKube k) (\<lambda>s. healthyWorker k (snd s)) fst) flakyKube"
proof (unfold_locales, goal_cases)
  case 16 show ?case by (rule flaky_clock) simp
qed (unfold flaky_calls, (rule flaky_in,
    (simp add: worker_called(3-) serves_reads serves_removal; fail) |
    rule flaky_in, erule serves_worker_called |
    rule flaky_in, rule serves_worker_write [OF assms], erule worker_called)+)

lemma flaky_worker_present:
  assumes "healthyWorker k (snd s)"
  shows "case fst (run_state (GetOJSWorker flakyKube (key_of (wk_meta k))) s) of
    Inl e \<Rightarrow> \<not> IsNotFound e | Inr k' \<Rightarrow> same_worker_demands k k'"
proof -
  obtain k' where "w_workers (snd s) (key_of (wk_meta k)) = Some k'" "same_worker_demands k k'"
    using assms by (auto simp: healthyWorker_def)
  then show ?thesis
    using same_demands_key(2) [of k k']
    by (cases s) (auto simp: flaky_calls flaky_def memKube_simps unavailable_def IsNotFound_def split: nat.splits)
qed

lemma demo_worker_healthy: "healthyWorker demoWorker demoWorld"
  by (auto simp: healthyWorker_def demoWorld_def emptyWorld_def key_of_def ran_def demoWorker_def demoMeta_def emptyMeta_def)

theorem worker_heals_witness:
  "\<exists>n res s' s0 cs. retry (ReconcileWorker flakyReconciler (demoKey ''w'')) (2, demoWorld) = Some (n, res, s') \<and> snd res = None \<and>
    n + fst s' \<le> 3 \<and> run_state (ReconcileWorker (logged_reconciler flakyReconciler) (demoKey ''w'')) (s0, []) = (res, (s', cs)) \<and>
    (waitsForCluster res cs \<or> (\<exists>c rm. list_all (ChildStore.settled memAdmit (mem_children (snd s'))) (workerPlan memSetRef demoWorker c rm)))"
proof -
  have key: "key_of (wk_meta demoWorker) = demoKey ''w''" by (simp add: key_of_def demoWorker_def demoMeta_def emptyMeta_def)
  have "\<exists>n res s' s0 cs. retry (ReconcileWorker flakyReconciler (demoKey ''w'')) (2, demoWorld) = Some (n, res, s') \<and> snd res = None \<and>
      n + fst s' \<le> Suc (fst (2 :: nat, demoWorld)) \<and>
      run_state (ReconcileWorker (logged_reconciler flakyReconciler) (demoKey ''w'')) (s0, []) = (res, (s', cs)) \<and>
      (\<forall>A obs. child_store A flakyKube obs \<longrightarrow> quiet_recorder obs flakyReconciler \<longrightarrow> waitsForCluster res cs \<or>
        (\<exists>c rm. key_of (cl_meta c) = \<lparr>nn_namespace = wns demoWorker, nn_name = ws_clusterRef (wk_spec demoWorker)\<rparr> \<and> removalOf demoWorker rm \<and>
          list_all (ChildStore.settled A (obs s')) (workerPlan memSetRef demoWorker c rm)))"
    using worker_heals [of flakyReconciler demoWorker "\<lambda>s. healthyWorker demoWorker (snd s)" fst "(2, demoWorld)",
        unfolded flakyReconciler_client flaky_setRef key, OF flaky.api_echo_axioms mem_owner.owner_stable_axioms worker_live
        flaky_worker_present [of demoWorker, unfolded key] flaky_worker_client [OF worker_live]
        flaky_recorder [of "healthyWorker demoWorker"]] demo_worker_healthy by simp
  then show ?thesis using flaky_store.child_store_axioms flaky_quiet by fastforce
qed

end
