(* ===== verification/Versions.thy ===== *)
theory Versions
  imports LoggedRuns Plans
begin

text \<open>
  Which version of its resource a reconciliation writes. A resource is read, changed and written back; the API server tells
  versions apart by the resource version that comes with the object, and the answer to a write brings the new one. \<open>meets\<close> is a
  Hoare logic of logged runs; in the locale \<open>threaded\<close> it carries a property of the object last seen (that it is up to date, or that it is
  not) through both reconcilers, who must hand on the answer of every write to the next one.
\<close>

subsection \<open>Triples over logged runs\<close>

text \<open>From a state with \<open>P\<close>, every entry that \<open>m\<close> appends satisfies \<open>N\<close>, and result and final state satisfy \<open>Q\<close>.\<close>

definition meets ::
  "(entry \<Rightarrow> bool) \<Rightarrow> ('s \<Rightarrow> bool) \<Rightarrow> ('s \<times> entry list, 'a) state \<Rightarrow> ('a \<Rightarrow> 's \<Rightarrow> bool) \<Rightarrow> bool" where
  "meets N P m Q \<longleftrightarrow> (\<forall>s tr a s' tr'. P s \<longrightarrow> run_state m (s, tr) = (a, (s', tr')) \<longrightarrow>
     (\<exists>cs. tr' = tr @ cs \<and> list_all N cs \<and> Q a s'))"

named_theorems meets_rules

lemma meets_return [meets_rules]: "(\<And>s. P s \<Longrightarrow> Q a s) \<Longrightarrow> meets N P (State_Monad.return a) Q"
  by (simp add: meets_def)

lemma meets_bind:
  assumes "meets N P m R" "\<And>a. meets N (R a) (f a) Q"
  shows "meets N P (State_Monad.bind m f) Q"
  unfolding meets_def
proof (intro allI impI)
  fix s tr b s' tr'
  assume P: "P s" and "run_state (State_Monad.bind m f) (s, tr) = (b, (s', tr'))"
  then obtain a s1 tr1 where "run_state m (s, tr) = (a, (s1, tr1))" and f: "run_state (f a) (s1, tr1) = (b, (s', tr'))"
    by (auto split: prod.splits)
  then obtain cs where cs: "tr1 = tr @ cs" "list_all N cs" "R a s1" using assms(1) P unfolding meets_def by meson
  moreover obtain ds where "tr' = tr1 @ ds" "list_all N ds" "Q b s'"
    using assms(2) [of a] f cs(3) unfolding meets_def by meson
  ultimately show "\<exists>cs. tr' = tr @ cs \<and> list_all N cs \<and> Q b s'" by auto
qed

lemma meets_pre: "meets N P m Q \<Longrightarrow> (\<And>s. P' s \<Longrightarrow> P s) \<Longrightarrow> meets N P' m Q"
  unfolding meets_def by meson

lemma meets_if [meets_rules]: "(b \<Longrightarrow> meets N P m Q) \<Longrightarrow> (\<not> b \<Longrightarrow> meets N P n Q) \<Longrightarrow> meets N P (if b then m else n) Q"
  by simp

lemma meets_case_option [meets_rules]:
  "(x = None \<Longrightarrow> meets N P m Q) \<Longrightarrow> (\<And>y. x = Some y \<Longrightarrow> meets N P (n y) Q) \<Longrightarrow>
   meets N P (case x of None \<Rightarrow> m | Some y \<Rightarrow> n y) Q"
  by (cases x) simp_all

lemma meets_case_prod [meets_rules]:
  "(\<And>a b. x = (a, b) \<Longrightarrow> meets N P (m a b) Q) \<Longrightarrow> meets N P (case x of (a, b) \<Rightarrow> m a b) Q"
  by (cases x) simp

text \<open>Steps that keep the assertion.\<close>

abbreviation meets_same :: "(entry \<Rightarrow> bool) \<Rightarrow> ('s \<Rightarrow> bool) \<Rightarrow> ('s \<times> entry list, 'a) state \<Rightarrow> bool" where
  "meets_same N P m \<equiv> meets N P m (\<lambda>_. P)"

lemma meets_then: "meets_same N P m \<Longrightarrow> (\<And>a. meets N P (f a) Q) \<Longrightarrow> meets N P (State_Monad.bind m f) Q"
  by (rule meets_bind)

lemma meets_if_err:
  "meets_same N P m \<Longrightarrow> (\<And>e. meets N P (h e) Q) \<Longrightarrow> (\<And>a. meets N P (k a) Q) \<Longrightarrow> meets N P (if_err m h k) Q"
  unfolding if_err_def by (rule meets_bind) (auto split: sum.split)

subsection \<open>Handing on the object\<close>

text \<open>The writes of the resources themselves.\<close>

fun own_write :: "call \<Rightarrow> bool" where
  "own_write (WriteCluster c) = True"
| "own_write (WriteClusterStatus c) = True"
| "own_write (WriteWorker w) = True"
| "own_write (WriteWorkerStatus w) = True"
| "own_write x = False"

text \<open>\<open>F knd m s\<close> is a property of an object with metadata \<open>m\<close> in the state \<open>s\<close>. A computation upholds it of every
  object; a write of an object with the property is \<open>N\<close>, and hands it on to its answer.\<close>

definition upheld :: "(kind \<Rightarrow> ObjectMeta \<Rightarrow> 's \<Rightarrow> bool) \<Rightarrow> ('s, 'a) state \<Rightarrow> bool" where
  "upheld F m \<longleftrightarrow> (\<forall>s knd mt. F knd mt s \<longrightarrow> F knd mt (snd (run_state m s)))"

definition handed :: "('s \<Rightarrow> bool) \<Rightarrow> ('o \<Rightarrow> 's \<Rightarrow> bool) \<Rightarrow> (entry \<Rightarrow> bool) \<Rightarrow> call \<Rightarrow> ('s, goerror + 'o) state \<Rightarrow> bool" where
  "handed P F N x m \<longleftrightarrow> (\<forall>s y s'. P s \<longrightarrow> run_state m s = (y, s') \<longrightarrow>
     N (entry_of x y) \<and> (\<forall>ob. y = Inr ob \<longrightarrow> F ob s'))"

definition recorder_upholds :: "(kind \<Rightarrow> ObjectMeta \<Rightarrow> 's \<Rightarrow> bool) \<Rightarrow> 's reconciler \<Rightarrow> bool" where
  "recorder_upholds F r \<longleftrightarrow> (\<forall>rec. rc_recorder r = Some rec \<longrightarrow> (\<forall>e. upheld F (rec e)))"

locale threaded =
  fixes K :: "'s kube" and F :: "kind \<Rightarrow> ObjectMeta \<Rightarrow> 's \<Rightarrow> bool" and N :: "entry \<Rightarrow> bool"
  assumes same_version: "F knd m s \<Longrightarrow> key_of m' = key_of m \<Longrightarrow> om_resourceVersion m' = om_resourceVersion m \<Longrightarrow> F knd m' s"
    and harmless: "\<not> own_write x \<Longrightarrow> N (x, e)"
    and reads_uphold: "upheld F (GetOJSCluster K k)" "upheld F (GetOJSWorker K k)" "upheld F (GetDeployment K k)"
      "upheld F (GetHPA K k)" "upheld F (Now K)"
    and children_uphold: "upheld F (DeleteHPA K h)" "upheld F (CreateOrUpdateConfigMap K cm f)"
      "upheld F (CreateOrUpdateDeployment K d g)" "upheld F (CreateOrUpdateService K sv h')"
      "upheld F (CreateOrUpdatePDB K p i)" "upheld F (CreateOrUpdateUnstructured K u j)" "upheld F (CreateOrUpdateHPA K hp l)"
    and UpdateOJSCluster_hands:
      "handed (F KCluster (cl_meta c)) (\<lambda>c. F KCluster (cl_meta c)) N (WriteCluster c) (UpdateOJSCluster K c)"
    and StatusUpdateOJSCluster_hands:
      "handed (F KCluster (cl_meta c)) (\<lambda>c. F KCluster (cl_meta c)) N (WriteClusterStatus c) (StatusUpdateOJSCluster K c)"
    and UpdateOJSWorker_hands:
      "handed (F KWorker (wk_meta w)) (\<lambda>w. F KWorker (wk_meta w)) N (WriteWorker w) (UpdateOJSWorker K w)"
    and StatusUpdateOJSWorker_hands:
      "handed (F KWorker (wk_meta w)) (\<lambda>w. F KWorker (wk_meta w)) N (WriteWorkerStatus w) (StatusUpdateOJSWorker K w)"
begin

abbreviation clusterF :: "OJSCluster \<Rightarrow> 's \<Rightarrow> bool" where "clusterF c \<equiv> F KCluster (cl_meta c)"
abbreviation workerF :: "OJSWorker \<Rightarrow> 's \<Rightarrow> bool" where "workerF w \<equiv> F KWorker (wk_meta w)"

text \<open>What a result hands on: the property of the object, if there is one.\<close>

abbreviation onto :: "('o \<Rightarrow> 's \<Rightarrow> bool) \<Rightarrow> goerror + 'o \<Rightarrow> 's \<Rightarrow> bool" where
  "onto G x s \<equiv> (\<forall>ob. x = Inr ob \<longrightarrow> G ob s)"

lemma meets_call: "upheld F m \<Longrightarrow> \<not> own_write x \<Longrightarrow> meets_same N (F knd mt) (logged (entry_of x) m)"
  using harmless by (auto simp: meets_def upheld_def logged_def entry_of_def split: prod.splits) (metis snd_conv)+

lemma meets_silent: "upheld F m \<Longrightarrow> meets_same N (F knd mt) (silent m)"
  by (auto simp: meets_def upheld_def silent_def split: prod.splits) (metis snd_conv)

lemma meets_event:
  assumes "recorder_upholds F r"
  shows "meets_same N (F knd mt) (record_event (logged_reconciler r) knd' m t rs msg)"
proof (cases "rc_recorder r")
  case None
  then show ?thesis by (simp add: record_event_def logged_reconciler_def meets_def)
next
  case (Some rec)
  have "meets_same N (F knd mt) (logged (\<lambda>_. (Emit e, None)) (rec e))" for e
    using assms Some harmless [of "Emit e" None]
    by (auto simp: recorder_upholds_def upheld_def meets_def logged_def split: prod.splits) (metis snd_conv)
  then show ?thesis by (simp add: record_event_def logged_reconciler_def Some)
qed

lemma meets_event_any: "meets N P (record_event (logged_reconciler r) knd m t rs msg) (\<lambda>_ _. True)"
  using harmless by (cases "rc_recorder r") (auto simp: record_event_def logged_reconciler_def meets_def logged_def split: prod.splits)

lemma meets_written: "handed P G N x m \<Longrightarrow> meets N P (logged (entry_of x) m) (onto G)"
  by (auto simp: meets_def handed_def logged_def split: prod.splits)

lemma meets_onto:
  "meets N P m (onto G) \<Longrightarrow> (\<And>e. meets N (\<lambda>_. True) (h e) Q) \<Longrightarrow> (\<And>a. meets N (G a) (k a) Q) \<Longrightarrow>
   meets N P (if_err m h k) Q"
  unfolding if_err_def
  by (erule meets_bind) (auto split: sum.split simp: meets_def)

lemmas calls_met = reads_uphold(1-4) [THEN meets_call] children_uphold [THEN meets_call] reads_uphold(5) [THEN meets_silent]
lemmas writes_met = UpdateOJSCluster_hands [THEN meets_written] StatusUpdateOJSCluster_hands [THEN meets_written]
  UpdateOJSWorker_hands [THEN meets_written] StatusUpdateOJSWorker_hands [THEN meets_written]

subsection \<open>The cluster reconciler\<close>

lemma meets_setCondition:
  assumes r: "rc_client r = K"
  shows "meets N (clusterF c) (setCondition (logged_reconciler r) c x) clusterF"
  unfolding setCondition_def logged_reconciler_client logged_kube_calls r
  by (cases x, simp only: prod.case, rule meets_bind [OF calls_met(12)], rule meets_return) simp

lemma meets_setConditions:
  assumes r: "rc_client r = K"
  shows "meets N (clusterF c) (setConditions (logged_reconciler r) c xs) clusterF"
proof (induction xs arbitrary: c)
  case Nil
  show ?case by (simp add: meets_return)
next
  case (Cons x xs)
  show ?case unfolding setConditions.simps by (rule meets_bind [OF meets_setCondition [OF r] Cons.IH])
qed

lemma meets_finishStatus:
  assumes r: "rc_client r = K" and e: "recorder_upholds F r"
  shows "meets N (clusterF c) (finishStatus (logged_reconciler r) p c) (\<lambda>_ _. True)"
  unfolding finishStatus_def recordEvent_def logged_reconciler_client logged_kube_calls r
  by (intro meets_then meets_onto [OF writes_met(2)] meets_rules meets_event e TrueI)

lemma meets_updateStatus:
  assumes r: "rc_client r = K" and e: "recorder_upholds F r"
  shows "meets N (clusterF c) (updateStatus (logged_reconciler r) c) (\<lambda>_ _. True)"
proof -
  have set: "meets N (clusterF c) (setConditions (logged_reconciler r) c' xs) clusterF" if "cl_meta c' = cl_meta c" for c c' xs
    using meets_setConditions [OF r, of c' xs] that by simp
  show ?thesis
    unfolding updateStatus_def Let_def logged_reconciler_client logged_kube_calls r
    by (intro meets_if_err calls_met meets_rules meets_bind [OF set] meets_finishStatus assms TrueI)
      (simp_all add: setPhase_def setReplicas_def)
qed

lemma meets_clusterChildren:
  assumes r: "rc_client r = K" and e: "recorder_upholds F r"
  shows "meets N (clusterF c) (clusterChildren (logged_reconciler r) c) (\<lambda>_ _. True)"
proof -
  have monitor: "meets_same N (clusterF c) (clusterMonitor (logged_reconciler r) c)"
    unfolding clusterMonitor_def reconcileServiceMonitor_def recordEvent_def logged_reconciler_client logged_kube_calls r
    by (intro meets_if_err calls_met meets_rules meets_event e) simp_all
  have status: "meets N (clusterF c) (if_err (updateStatus (logged_reconciler r) c) h k) (\<lambda>_ _. True)"
    if "\<And>e. meets N (\<lambda>_. True) (h e) (\<lambda>_ _. True)" "\<And>a. meets N (\<lambda>_. True) (k a) (\<lambda>_ _. True)" for h k
    unfolding if_err_def by (rule meets_bind [OF meets_updateStatus [OF assms]]) (auto split: sum.split intro: that)
  show ?thesis
    unfolding clusterChildren_def reconcileConfigMap_def reconcileDeployment_def reconcileService_def reconcilePDB_def
      requeueWith_def logged_reconciler_client logged_kube_calls r
    by (intro meets_if_err meets_then [OF monitor] status calls_met meets_rules TrueI) simp_all
qed

lemma meets_clusterBackendFailed:
  assumes r: "rc_client r = K" and e: "recorder_upholds F r"
  shows "meets N (clusterF c) (clusterBackendFailed (logged_reconciler r) c err) (\<lambda>_ _. True)"
proof -
  show ?thesis
    unfolding clusterBackendFailed_def Let_def requeueWith_def recordEvent_def logged_reconciler_client logged_kube_calls r
    by (intro meets_bind [OF meets_setCondition [OF r]] meets_bind [OF writes_met(2)] meets_bind [OF meets_event_any]
        meets_rules TrueI)
qed

lemma meets_clusterBackend:
  assumes r: "rc_client r = K" and e: "recorder_upholds F r"
  shows "meets N (clusterF c) (clusterBackend (logged_reconciler r) c) (\<lambda>_ _. True)"
proof -
  have backend: "meets_same N (clusterF c) (reconcileEmbeddedBackend (logged_reconciler r) c)"
    unfolding reconcileEmbeddedBackend_def reconcileEmbeddedRedis_def Let_def logged_reconciler_client logged_kube_calls r
    by (intro meets_if_err calls_met meets_rules) simp_all
  show ?thesis
    unfolding clusterBackend_def
    by (intro meets_if_err [OF backend] meets_rules meets_bind [OF meets_setCondition [OF r]] meets_clusterChildren
        meets_clusterBackendFailed assms)
qed

lemma meets_Reconcile:
  assumes r: "rc_client r = K" and e: "recorder_upholds F r"
    and read: "\<And>c s'. run_state (GetOJSCluster K req) s = (Inr c, s') \<Longrightarrow> clusterF c s'"
  shows "meets N (\<lambda>s0. s0 = s) (Reconcile (logged_reconciler r) req) (\<lambda>_ _. True)"
proof -
  have first: "meets N (\<lambda>s0. s0 = s) (logged (entry_of (ReadCluster req)) (GetOJSCluster K req)) (onto clusterF)"
    using read harmless by (auto simp: meets_def logged_def entry_of_def split: prod.splits)
  have finalized: "clusterF c s \<Longrightarrow> clusterF (setFinalizers fs c) s" for c s fs
    by (erule same_version) (simp_all add: setFinalizers_def key_of_def)
  have pending: "meets N (clusterF c) (setCondition (logged_reconciler r) (setPhase p c) x) clusterF" for c p x
    using meets_setCondition [OF r, of "setPhase p c" x] by (simp add: setPhase_def)
  have finalizer: "meets N (clusterF c) (clusterEnsureFinalizer (logged_reconciler r) c) (onto clusterF)" for c
    unfolding clusterEnsureFinalizer_def Let_def logged_reconciler_client logged_kube_calls r
    by (intro meets_rules meets_pre [OF writes_met(1)] finalized) simp_all
  have phase: "meets N (clusterF c) (clusterInitPhase (logged_reconciler r) c) (onto clusterF)" for c
    unfolding clusterInitPhase_def recordEvent_def logged_reconciler_client logged_kube_calls r
    by (intro meets_rules meets_bind [OF pending] meets_onto [OF writes_met(2)] meets_then [OF meets_event [OF e]]) simp_all
  have deletion: "meets N (clusterF c) (clusterDeletion (logged_reconciler r) c) (\<lambda>_ _. True)" for c
    unfolding clusterDeletion_def Let_def recordEvent_def logged_reconciler_client logged_kube_calls r
    by (intro meets_rules meets_then [OF meets_event [OF e]] meets_onto [OF meets_pre [OF writes_met(1)]] finalized TrueI)
  show ?thesis
    unfolding Reconcile_def logged_reconciler_client logged_kube_calls r
    by (intro meets_onto [OF first] meets_onto [OF finalizer] meets_onto [OF phase] deletion meets_clusterBackend
        meets_rules assms TrueI)
qed

subsection \<open>The worker reconciler\<close>

lemma meets_setWorkerCondition:
  assumes r: "rc_client r = K"
  shows "meets N (workerF w) (setWorkerCondition (logged_reconciler r) w x) workerF"
  unfolding setWorkerCondition_def logged_reconciler_client logged_kube_calls r
  by (cases x, simp only: prod.case, rule meets_bind [OF calls_met(12)], rule meets_return) simp

lemma meets_setWorkerConditions:
  assumes r: "rc_client r = K"
  shows "meets N (workerF w) (setWorkerConditions (logged_reconciler r) w xs) workerF"
proof (induction xs arbitrary: w)
  case Nil
  show ?case by (simp add: meets_return)
next
  case (Cons x xs)
  show ?case unfolding setWorkerConditions.simps by (rule meets_bind [OF meets_setWorkerCondition [OF r] Cons.IH])
qed

lemma meets_finishWorkerStatus:
  assumes r: "rc_client r = K" and e: "recorder_upholds F r"
  shows "meets N (workerF w) (finishWorkerStatus (logged_reconciler r) p w) (onto workerF)"
  unfolding finishWorkerStatus_def recordWorkerEvent_def logged_reconciler_client logged_kube_calls r
  by (intro meets_then writes_met(4) meets_rules meets_event e)

lemma meets_updateWorkerStatus:
  assumes r: "rc_client r = K" and e: "recorder_upholds F r"
  shows "meets N (workerF w) (updateWorkerStatus (logged_reconciler r) w) (onto workerF)"
proof -
  have set: "meets N (workerF w) (setWorkerConditions (logged_reconciler r) w' xs) workerF" if "wk_meta w' = wk_meta w" for w w' xs
    using meets_setWorkerConditions [OF r, of w' xs] that by simp
  show ?thesis
    unfolding updateWorkerStatus_def Let_def logged_reconciler_client logged_kube_calls r
    by (intro meets_if_err calls_met meets_rules meets_bind [OF set] meets_finishWorkerStatus assms)
      (simp_all add: setWorkerPhase_def setWorkerReplicas_def)
qed

lemma meets_workerReconcileChildren:
  assumes r: "rc_client r = K" and e: "recorder_upholds F r"
  shows "meets N (workerF w) (workerReconcileChildren (logged_reconciler r) w c) (\<lambda>_ _. True)"
proof -
  have hpa: "meets_same N (workerF w) (reconcileWorkerHPA (logged_reconciler r) w)"
    unfolding reconcileWorkerHPA_def Let_def logged_reconciler_client logged_kube_calls r
    by (intro meets_rules meets_if_err calls_met) simp_all
  show ?thesis
    unfolding workerReconcileChildren_def reconcileWorkerDeployment_def logged_reconciler_client logged_kube_calls r
    by (intro meets_if_err [OF calls_met(7)] meets_if_err [OF hpa] meets_onto [OF meets_updateWorkerStatus [OF assms]]
        meets_rules TrueI) simp_all
qed

lemma meets_workerClusterMissing:
  assumes r: "rc_client r = K" and e: "recorder_upholds F r"
  shows "meets N (workerF w) (workerClusterMissing (logged_reconciler r) w) (\<lambda>_ _. True)"
proof -
  have written: "meets N (workerF w) (logged (entry_of (WriteWorkerStatus (setWorkerPhase p w))) (StatusUpdateOJSWorker K (setWorkerPhase p w)))
      (onto workerF)" for p w
    using writes_met(4) [of "setWorkerPhase p w"] by (simp add: setWorkerPhase_def)
  show ?thesis
    unfolding workerClusterMissing_def Let_def recordWorkerEvent_def logged_reconciler_client logged_kube_calls logged_kube_pure r
    by (intro meets_bind [OF meets_setWorkerCondition [OF r]] meets_bind [OF written] meets_bind [OF meets_event_any] meets_rules TrueI)
qed

lemma meets_ReconcileWorker:
  assumes r: "rc_client r = K" and e: "recorder_upholds F r"
    and read: "\<And>w s'. run_state (GetOJSWorker K req) s = (Inr w, s') \<Longrightarrow> workerF w s'"
  shows "meets N (\<lambda>s0. s0 = s) (ReconcileWorker (logged_reconciler r) req) (\<lambda>_ _. True)"
proof -
  have first: "meets N (\<lambda>s0. s0 = s) (logged (entry_of (ReadWorker req)) (GetOJSWorker K req)) (onto workerF)"
    using read harmless by (auto simp: meets_def logged_def entry_of_def split: prod.splits)
  have finalized: "workerF w s \<Longrightarrow> workerF (setWorkerFinalizers fs w) s" for w s fs
    by (erule same_version) (simp_all add: setWorkerFinalizers_def key_of_def)
  have finalizer: "meets N (workerF w) (workerEnsureFinalizer (logged_reconciler r) w) (onto workerF)" for w
    unfolding workerEnsureFinalizer_def Let_def logged_reconciler_client logged_kube_calls r
    by (intro meets_rules meets_pre [OF writes_met(3)] finalized) simp_all
  have deletion: "meets N (workerF w) (workerDeletion (logged_reconciler r) w) (\<lambda>_ _. True)" for w
    unfolding workerDeletion_def Let_def recordWorkerEvent_def logged_reconciler_client logged_kube_calls r
    by (intro meets_rules meets_then [OF meets_event [OF e]] meets_onto [OF meets_pre [OF writes_met(3)]] finalized TrueI)
  have "meets N (workerF w) (workerResolveCluster (logged_reconciler r) w) (\<lambda>_ _. True)" for w
    unfolding workerResolveCluster_def logged_reconciler_client logged_kube_calls r
    by (intro meets_if_err calls_met meets_rules meets_workerClusterMissing meets_workerReconcileChildren assms TrueI) simp_all
  then show ?thesis
    unfolding ReconcileWorker_def logged_reconciler_client logged_kube_calls r
    by (intro meets_onto [OF first] meets_onto [OF finalizer] deletion meets_rules TrueI)
qed

end

lemma meets_observe:
  "meets N P m Q \<Longrightarrow> P s \<Longrightarrow> observe m s = (res, cs) \<Longrightarrow> list_all N cs"
  unfolding meets_def observe_def by (auto split: prod.splits) fastforce

end
