(* ===== verification/VersionProperties.thy ===== *)
theory VersionProperties
  imports Versions ClusterReporting Demo
begin

text \<open>
  Optimistic concurrency: what reconciliations make of an API server that refuses to overwrite what has changed since it was read.
\<close>

subsection \<open>Versions of the resources\<close>

text \<open>\<open>ver s knd k\<close> is the resource version under which the API server holds the object of that kind and name, if it has one. An
  object is outdated when the server holds another version of it.\<close>

type_synonym 's versions = "'s \<Rightarrow> kind \<Rightarrow> NamespacedName \<Rightarrow> string option"

definition outdated :: "'s versions \<Rightarrow> kind \<Rightarrow> ObjectMeta \<Rightarrow> 's \<Rightarrow> bool" where
  "outdated ver knd m s \<longleftrightarrow> (\<exists>v. ver s knd (key_of m) = Some v \<and> v \<noteq> om_resourceVersion m)"

definition versions_kept :: "'s versions \<Rightarrow> ('s, 'a) state \<Rightarrow> bool" where
  "versions_kept ver m \<longleftrightarrow> (\<forall>s. ver (snd (run_state m s)) = ver s)"

definition recorder_keeps :: "'s versions \<Rightarrow> 's reconciler \<Rightarrow> bool" where
  "recorder_keeps ver r \<longleftrightarrow> (\<forall>rec. rc_recorder r = Some rec \<longrightarrow> (\<forall>e. versions_kept ver (rec e)))"

text \<open>The documented behaviour of updates: one of an outdated object is refused as a conflict, another one is not, and one that is
  accepted is answered with the object under its new version.\<close>

definition guarded :: "'s versions \<Rightarrow> (goerror \<Rightarrow> bool) \<Rightarrow> kind \<Rightarrow> ('o \<Rightarrow> ObjectMeta) \<Rightarrow> 'o \<Rightarrow> ('s, goerror + 'o) state \<Rightarrow> bool" where
  "guarded ver conflict knd meta ob m \<longleftrightarrow> (\<forall>s y s'. run_state m s = (y, s') \<longrightarrow>
     (if outdated ver knd (meta ob) s then \<exists>e. y = Inl e \<and> conflict e
      else case y of Inl e \<Rightarrow> \<not> conflict e | Inr new \<Rightarrow> \<not> outdated ver knd (meta new) s'))"

text \<open>No other call changes a version of an OJSCluster or an OJSWorker. Reads may come from a cache, and be outdated.\<close>

locale versioned_api =
  fixes K :: "'s kube" and ver :: "'s versions" and conflict :: "goerror \<Rightarrow> bool"
  assumes reads_keep: "versions_kept ver (GetOJSCluster K k)" "versions_kept ver (GetOJSWorker K k)"
      "versions_kept ver (GetDeployment K k)" "versions_kept ver (GetHPA K k)" "versions_kept ver (Now K)"
    and children_keep: "versions_kept ver (DeleteHPA K h)" "versions_kept ver (CreateOrUpdateConfigMap K cm f)"
      "versions_kept ver (CreateOrUpdateDeployment K d g)" "versions_kept ver (CreateOrUpdateService K sv h')"
      "versions_kept ver (CreateOrUpdatePDB K p i)" "versions_kept ver (CreateOrUpdateUnstructured K u j)"
      "versions_kept ver (CreateOrUpdateHPA K hp l)"
    and UpdateOJSCluster_guarded: "guarded ver conflict KCluster cl_meta c (UpdateOJSCluster K c)"
    and StatusUpdateOJSCluster_guarded: "guarded ver conflict KCluster cl_meta c (StatusUpdateOJSCluster K c)"
    and UpdateOJSWorker_guarded: "guarded ver conflict KWorker wk_meta w (UpdateOJSWorker K w)"
    and StatusUpdateOJSWorker_guarded: "guarded ver conflict KWorker wk_meta w (StatusUpdateOJSWorker K w)"

text \<open>What the log says of the writes of the resource: all were refused as conflicts, or none was.\<close>

definition clash :: "(goerror \<Rightarrow> bool) \<Rightarrow> entry \<Rightarrow> bool" where
  "clash conflict x \<longleftrightarrow> (\<exists>e. snd x = Some e \<and> conflict e)"

definition written_if :: "(goerror \<Rightarrow> bool) \<Rightarrow> bool \<Rightarrow> entry \<Rightarrow> bool" where
  "written_if conflict old x \<longleftrightarrow> (own_write (fst x) \<longrightarrow> clash conflict x = old)"

text \<open>That an object is outdated, or that it is not, is handed on by every call.\<close>

lemma kept_upheld: "versions_kept ver m \<Longrightarrow> upheld (\<lambda>knd m s. outdated ver knd m s = old) m"
  by (simp add: upheld_def versions_kept_def outdated_def)

lemma guarded_handed:
  "guarded ver conflict knd meta ob m \<Longrightarrow> own_write x \<Longrightarrow>
   handed (\<lambda>s. outdated ver knd (meta ob) s = old) (\<lambda>ob s. outdated ver knd (meta ob) s = old) (written_if conflict old) x m"
  unfolding guarded_def handed_def written_if_def clash_def entry_of_def
  by (fastforce split: sum.splits)

sublocale versioned_api \<subseteq> handing: threaded K "\<lambda>knd m s. outdated ver knd m s = old" "written_if conflict old" for old
proof (unfold_locales, goal_cases)
  case 1 then show ?case by (simp add: outdated_def)
next
  case 2 then show ?case by (simp add: written_if_def)
qed (rule kept_upheld, rule reads_keep children_keep | rule guarded_handed, rule UpdateOJSCluster_guarded
    StatusUpdateOJSCluster_guarded UpdateOJSWorker_guarded StatusUpdateOJSWorker_guarded, simp)+

context versioned_api begin

lemma cluster_versions:
  assumes r: "rc_client r = K" and e: "recorder_keeps ver r"
    and read: "fst (run_state (GetOJSCluster K req) s) = Inr c"
    and run: "observe (Reconcile (logged_reconciler r) req) s = (res, cs)"
  shows "list_all (written_if conflict (outdated ver KCluster (cl_meta c) s)) cs"
proof (rule meets_observe [OF handing.meets_Reconcile [OF r _ _] refl run])
  show "outdated ver KCluster (cl_meta c') s' = outdated ver KCluster (cl_meta c) s"
    if "run_state (GetOJSCluster K req) s = (Inr c', s')" for c' s'
    using that read reads_keep(1) [of req] by (auto simp: versions_kept_def outdated_def dest: spec [of _ s])
qed (use e in \<open>simp add: recorder_upholds_def recorder_keeps_def kept_upheld\<close>)

lemma worker_versions:
  assumes r: "rc_client r = K" and e: "recorder_keeps ver r"
    and read: "fst (run_state (GetOJSWorker K req) s) = Inr w"
    and run: "observe (ReconcileWorker (logged_reconciler r) req) s = (res, cs)"
  shows "list_all (written_if conflict (outdated ver KWorker (wk_meta w) s)) cs"
proof (rule meets_observe [OF handing.meets_ReconcileWorker [OF r _ _] refl run])
  show "outdated ver KWorker (wk_meta w') s' = outdated ver KWorker (wk_meta w) s"
    if "run_state (GetOJSWorker K req) s = (Inr w', s')" for w' s'
    using that read reads_keep(2) [of req] by (auto simp: versions_kept_def outdated_def dest: spec [of _ s])
qed (use e in \<open>simp add: recorder_upholds_def recorder_keeps_def kept_upheld\<close>)

end

subsection \<open>An API server with versions\<close>

text \<open>MemKube, with every update counted in the resource version and updates of outdated objects refused. The
  resources are read from a cache, the world \<open>old\<close> as it was when the cache was filled.\<close>

definition conflictError :: goerror where
  "conflictError = \<lparr>err_notfound = False, err_text = ''the object has been modified''\<rparr>"

definition nextVersion :: "ObjectMeta \<Rightarrow> ObjectMeta" where
  "nextVersion m = m\<lparr>om_resourceVersion := CHR ''1'' # om_resourceVersion m\<rparr>"

definition strictPut ::
  "(world \<Rightarrow> NamespacedName \<rightharpoonup> 'o) \<Rightarrow> (((NamespacedName \<rightharpoonup> 'o) \<Rightarrow> (NamespacedName \<rightharpoonup> 'o)) \<Rightarrow> world \<Rightarrow> world) \<Rightarrow> ('o \<Rightarrow> ObjectMeta) \<Rightarrow>
   ((ObjectMeta \<Rightarrow> ObjectMeta) \<Rightarrow> 'o \<Rightarrow> 'o) \<Rightarrow> ('o \<Rightarrow> 'o \<Rightarrow> 'o) \<Rightarrow> 'o \<Rightarrow> (world, goerror + 'o) state" where
  "strictPut sel put meta remeta merge ob = State (\<lambda>w.
     let k = key_of (meta ob) in
     case sel w k of
       None \<Rightarrow> (Inl notFound, w)
     | Some old \<Rightarrow>
         if om_resourceVersion (meta ob) \<noteq> om_resourceVersion (meta old) then (Inl conflictError, w)
         else let new = remeta nextVersion (merge old ob) in
           if \<not> IsZero (om_deletionTimestamp (meta new)) \<and> om_finalizers (meta new) = []
           then (Inr new, put (\<lambda>m. m(k := None)) w)
           else (Inr new, put (\<lambda>m. m(k \<mapsto> new)) w))"

definition cachedKube :: "world \<Rightarrow> world kube" where
  "cachedKube old = memKube\<lparr>
     GetOJSCluster := memGet (\<lambda>_. named cl_meta (w_clusters old)),
     GetOJSWorker := memGet (\<lambda>_. named wk_meta (w_workers old)),
     UpdateOJSCluster := strictPut (\<lambda>w. named cl_meta (w_clusters w)) w_clusters_update cl_meta cl_meta_update
       (\<lambda>old new. new\<lparr>cl_status := cl_status old\<rparr>),
     UpdateOJSWorker := strictPut (\<lambda>w. named wk_meta (w_workers w)) w_workers_update wk_meta wk_meta_update
       (\<lambda>old new. new\<lparr>wk_status := wk_status old\<rparr>),
     StatusUpdateOJSCluster := strictPut (\<lambda>w. named cl_meta (w_clusters w)) w_clusters_update cl_meta cl_meta_update
       (\<lambda>old new. old\<lparr>cl_status := cl_status new\<rparr>),
     StatusUpdateOJSWorker := strictPut (\<lambda>w. named wk_meta (w_workers w)) w_workers_update wk_meta wk_meta_update
       (\<lambda>old new. old\<lparr>wk_status := wk_status new\<rparr>)\<rparr>"

definition cachedReconciler :: "world \<Rightarrow> world reconciler" where
  "cachedReconciler old = \<lparr>rc_client = cachedKube old, rc_recorder = Some memRecord\<rparr>"

lemma cachedReconciler_client [simp]: "rc_client (cachedReconciler old) = cachedKube old"
  by (simp add: cachedReconciler_def)

fun memVersion :: "world versions" where
  "memVersion w KCluster k = map_option (\<lambda>c. om_resourceVersion (cl_meta c)) (named cl_meta (w_clusters w) k)"
| "memVersion w KWorker k = map_option (\<lambda>x. om_resourceVersion (wk_meta x)) (named wk_meta (w_workers w) k)"
| "memVersion w _ k = None"

lemma cached_conditions: "SetStatusCondition (cachedKube old) = SetStatusCondition memKube"
  by (simp add: cachedKube_def memKube_def)

lemma memVersion_kept:
  "w_clusters w' = w_clusters w \<Longrightarrow> w_workers w' = w_workers w \<Longrightarrow> memVersion w' = memVersion w"
proof (intro ext)
  fix knd k
  assume "w_clusters w' = w_clusters w" "w_workers w' = w_workers w"
  then show "memVersion w' knd k = memVersion w knd k" by (cases knd) simp_all
qed

lemma cached_guarded:
  "guarded memVersion ((=) conflictError) KCluster cl_meta c (UpdateOJSCluster (cachedKube old) c)"
  "guarded memVersion ((=) conflictError) KCluster cl_meta c (StatusUpdateOJSCluster (cachedKube old) c)"
  "guarded memVersion ((=) conflictError) KWorker wk_meta w (UpdateOJSWorker (cachedKube old) w)"
  "guarded memVersion ((=) conflictError) KWorker wk_meta w (StatusUpdateOJSWorker (cachedKube old) w)"
  by (auto simp: guarded_def cachedKube_def strictPut_def outdated_def Let_def named_def notFound_def conflictError_def
      nextVersion_def key_of_def split: option.splits if_splits)

lemma mem_versions_kept:
  "versions_kept memVersion (memGet sel k)" "versions_kept memVersion (memDeleteHPA h)" "versions_kept memVersion memNow"
  "versions_kept memVersion (memRecord e)"
  by (auto simp: versions_kept_def memGet_def memDeleteHPA_def memNow_def memRecord_def intro!: memVersion_kept)

lemma mem_create_kept:
  assumes "\<And>g w. w_clusters (put g w) = w_clusters w" "\<And>g w. w_workers (put g w) = w_workers w"
  shows "versions_kept memVersion (memCreateOrUpdate sel put meta admit ob f)"
  unfolding versions_kept_def memCreateOrUpdate_def Let_def
  by (intro allI memVersion_kept) (simp_all add: assms split: sum.split)

interpretation cached: versioned_api "cachedKube cache" memVersion "(=) conflictError" for cache
proof (unfold_locales, goal_cases)
  case 13 show ?case by (rule cached_guarded)
next
  case 14 show ?case by (rule cached_guarded)
next
  case 15 show ?case by (rule cached_guarded)
next
  case 16 show ?case by (rule cached_guarded)
qed (simp_all add: cachedKube_def memKube_def mem_versions_kept mem_create_kept)

subsection \<open>The theorem\<close>

text \<open>C7. Versions are respected. Suppose the API server refuses an update exactly when the object has changed since it was
  read, and no other call changes a version. If what a reconciliation read of its cluster (or worker) was up to date, none of its
  writes of the resource is refused as a conflict: the reconciler never stumbles over its own earlier writes. If what it read
  was outdated, all of its writes are refused, so that it overwrites nothing it has not seen; and the reconciliation of a live
  cluster then reports an error, and is run again.\<close>

theorem versions_respected:
  assumes laws: "versioned_api (rc_client r) ver conflict" and conditions: "condition_laws (rc_client r)"
    and events: "recorder_keeps ver r"
  shows "(\<forall>req s c res cs. fst (run_state (GetOJSCluster (rc_client r) req) s) = Inr c \<longrightarrow>
      observe (Reconcile (logged_reconciler r) req) s = (res, cs) \<longrightarrow>
      list_all (written_if conflict (outdated ver KCluster (cl_meta c) s)) cs \<and>
      (outdated ver KCluster (cl_meta c) s \<and> IsZero (om_deletionTimestamp (cl_meta c)) \<longrightarrow> snd res \<noteq> None)) \<and>
    (\<forall>req s w res cs. fst (run_state (GetOJSWorker (rc_client r) req) s) = Inr w \<longrightarrow>
      observe (ReconcileWorker (logged_reconciler r) req) s = (res, cs) \<longrightarrow>
      list_all (written_if conflict (outdated ver KWorker (wk_meta w) s)) cs)"
proof (intro conjI allI impI)
  fix req s c res cs
  assume read: "fst (run_state (GetOJSCluster (rc_client r) req) s) = Inr c"
    and run: "observe (Reconcile (logged_reconciler r) req) s = (res, cs)"
  show versions: "list_all (written_if conflict (outdated ver KCluster (cl_meta c) s)) cs"
    by (rule versioned_api.cluster_versions [OF laws refl events read run])
  assume old: "outdated ver KCluster (cl_meta c) s \<and> IsZero (om_deletionTimestamp (cl_meta c))"
  show "snd res \<noteq> None"
  proof
    assume "snd res = None"
    then have last: "cs \<noteq> []" "closing (last cs)"
      using Reconcile_closing [OF conditions read conjunct2 [OF old] run] by simp_all
    then obtain c' where "last cs = (WriteClusterStatus c', None)" by (auto simp: closing_iff)
    then have "(WriteClusterStatus c', None) \<in> set cs" using last_in_set [OF last(1)] by simp
    then show False using versions old by (auto simp: list_all_iff written_if_def clash_def)
  qed
next
  fix req s w res cs
  assume "fst (run_state (GetOJSWorker (rc_client r) req) s) = Inr w"
    and "observe (ReconcileWorker (logged_reconciler r) req) s = (res, cs)"
  then show "list_all (written_if conflict (outdated ver KWorker (wk_meta w) s)) cs"
    by (rule versioned_api.worker_versions [OF laws refl events])
qed

text \<open>A cache that is filled, a server that goes on.\<close>

definition laterWorld :: world where
  "laterWorld = demoWorld\<lparr>w_clusters := [demoKey ''c'' \<mapsto> cl_meta_update nextVersion demoCluster]\<rparr>"

theorem versions_respected_witness:
  "list_all (written_if ((=) conflictError) False)
     (snd (observe (Reconcile (logged_reconciler (cachedReconciler demoWorld)) (demoKey ''c'')) demoWorld)) \<and>
   list_all (written_if ((=) conflictError) True)
     (snd (observe (Reconcile (logged_reconciler (cachedReconciler demoWorld)) (demoKey ''c'')) laterWorld)) \<and>
   snd (fst (observe (Reconcile (logged_reconciler (cachedReconciler demoWorld)) (demoKey ''c'')) laterWorld)) \<noteq> None"
proof -
  have laws: "condition_laws (cachedKube demoWorld)"
    using mem_conditions.condition_laws_axioms unfolding condition_laws_def cached_conditions by simp
  have events: "recorder_keeps memVersion (cachedReconciler demoWorld)"
    by (simp add: recorder_keeps_def cachedReconciler_def mem_versions_kept)
  have read: "fst (run_state (GetOJSCluster (cachedKube demoWorld) (demoKey ''c'')) w) = Inr demoCluster" for w
    by (simp add: cachedKube_def memGet_def named_def demoWorld_def key_of_def demoCluster_def demoMeta_def emptyMeta_def)
  have old: "\<not> outdated memVersion KCluster (cl_meta demoCluster) demoWorld" "outdated memVersion KCluster (cl_meta demoCluster) laterWorld"
    by (simp_all add: outdated_def laterWorld_def demoWorld_def named_def nextVersion_def key_of_def demoCluster_def demoMeta_def emptyMeta_def)
  note respected = versions_respected [of "cachedReconciler demoWorld", unfolded cachedReconciler_client,
      OF cached.versioned_api_axioms laws events, THEN conjunct1, rule_format, OF read prod.collapse [symmetric]]
  show ?thesis using respected [of demoWorld] respected [of laterWorld] old demo_live by simp
qed

end
