(* ===== verification/Conformance.thy ===== *)
theory Conformance
  imports Demo WorkerController ClusterController Metrics Collector Webhook
begin

text \<open>
  The repository's tests, run on the model. A test of the reconcilers sets up the fake client with a few objects, runs
  \<^verbatim>\<open>Reconcile\<close> and looks at what the client then holds; here the client is MemKube, the run is evaluated by the kernel, and each lemma
  has the name and the assertions of its test (those of the validators are grouped by outcome). It is a selection that reaches every stage
  of both reconcilers. The reconcilers of the tests have no event recorder.
\<close>

subsection \<open>Running a test\<close>

definition testReconciler :: "world reconciler" where
  "testReconciler = \<lparr>rc_client = memKube, rc_recorder = None\<rparr>"

text \<open>\<^verbatim>\<open>reconcileClusterN\<close> and \<^verbatim>\<open>reconcileWorkerN\<close> of \<^verbatim>\<open>e2e_test.go\<close>: so many runs, none of which may fail.\<close>

fun repeated :: "('w, reconcile_result) state \<Rightarrow> nat \<Rightarrow> 'w \<Rightarrow> 'w option" where
  "repeated m 0 w = Some w"
| "repeated m (Suc n) w = (case run_state m w of ((_, None), w') \<Rightarrow> repeated m n w' | ((_, Some e), w') \<Rightarrow> None)"

definition defaultKey :: "string \<Rightarrow> NamespacedName" where
  "defaultKey n = \<lparr>nn_namespace = ''default'', nn_name = n\<rparr>"

abbreviation reconcileClusterN :: "string \<Rightarrow> nat \<Rightarrow> world \<Rightarrow> world option" where
  "reconcileClusterN n \<equiv> repeated (Reconcile testReconciler (defaultKey n))"

abbreviation reconcileWorkerN :: "string \<Rightarrow> nat \<Rightarrow> world \<Rightarrow> world option" where
  "reconcileWorkerN n \<equiv> repeated (ReconcileWorker testReconciler (defaultKey n))"

definition holds :: "'a option \<Rightarrow> ('a \<Rightarrow> bool) \<Rightarrow> bool" where
  "holds x P = (case x of None \<Rightarrow> False | Some a \<Rightarrow> P a)"

definition backendOf :: "string \<Rightarrow> string \<Rightarrow> BackendSpec" where
  "backendOf t url = \<lparr>be_type = t, be_url = url, be_urlSecretRef = None, be_embedded = False\<rparr>"

definition clusterSpecOf :: "BackendSpec \<Rightarrow> OJSClusterSpec" where
  "clusterSpecOf b = \<lparr>cs_backend = b, cs_replicas = None, cs_image = [], cs_autoScaling = None, cs_resources = noResources,
     cs_monitoring = None, cs_securityContext = None, cs_podDisruptionBudget = None, cs_topologySpreadConstraints = [],
     cs_serviceAccountName = []\<rparr>"

definition clusterOf :: "string \<Rightarrow> OJSClusterSpec \<Rightarrow> OJSCluster" where
  "clusterOf n spec = \<lparr>cl_meta = emptyMeta n ''default'', cl_spec = spec,
     cl_status = \<lparr>cst_phase = [], cst_replicas = 0, cst_readyReplicas = 0, cst_queueDepth = 0, cst_activeJobs = 0,
       cst_conditions = []\<rparr>\<rparr>"

definition redisCluster :: "string \<Rightarrow> OJSCluster" where
  "redisCluster n = clusterOf n (clusterSpecOf (backendOf ''redis'' ''redis://localhost:6379''))"

definition workerSpecOf :: "string \<Rightarrow> OJSWorkerSpec" where
  "workerSpecOf ref = \<lparr>ws_clusterRef = ref, ws_jobTypes = [''job.type''], ws_queues = [], ws_concurrency = 0, ws_replicas = None,
     ws_image = ''worker:latest'', ws_command = [], ws_env = [], ws_resources = noResources, ws_autoScaling = None,
     ws_gracefulShutdown = None\<rparr>"

definition workerOf :: "string \<Rightarrow> OJSWorkerSpec \<Rightarrow> OJSWorker" where
  "workerOf n spec = \<lparr>wk_meta = emptyMeta n ''default'', wk_spec = spec,
     wk_status = \<lparr>wst_phase = [], wst_replicas = 0, wst_readyReplicas = 0, wst_activeJobs = 0, wst_queueDepth = 0,
       wst_lastScaleTime = None, wst_conditions = []\<rparr>\<rparr>"

definition scalingOf :: "bool \<Rightarrow> int32 \<Rightarrow> int32 \<Rightarrow> string \<Rightarrow> WorkerAutoScalingSpec" where
  "scalingOf on lo hi poll = \<lparr>was_enabled = on, was_minReplicas = lo, was_maxReplicas = hi, was_targetJobsPerWorker = 0,
     was_scaleUpThreshold = 0, was_scaleDownDelay = [], was_pollingInterval = poll\<rparr>"

definition withObjects :: "OJSCluster list \<Rightarrow> OJSWorker list \<Rightarrow> Deployment list \<Rightarrow> world" where
  "withObjects cs ws ds = emptyWorld\<lparr>w_clusters := map_of (map (\<lambda>c. (key_of (cl_meta c), c)) cs),
     w_workers := map_of (map (\<lambda>w. (key_of (wk_meta w), w)) ws),
     w_deployments := map_of (map (\<lambda>d. (key_of (dep_meta d), d)) ds)\<rparr>"

definition deploymentWith :: "string \<Rightarrow> int32 \<Rightarrow> int32 \<Rightarrow> Deployment" where
  "deploymentWith n repl ready = (newDeployment n ''default'')\<lparr>dep_status := \<lparr>dst_replicas = repl, dst_readyReplicas = ready\<rparr>\<rparr>"

text \<open>What the assertions look at.\<close>

definition finalized :: "string \<Rightarrow> ObjectMeta \<Rightarrow> ObjectMeta" where
  "finalized f m = m\<lparr>om_finalizers := [f]\<rparr>"

definition deployed :: "world \<Rightarrow> string \<Rightarrow> (Deployment \<Rightarrow> bool) \<Rightarrow> bool" where
  "deployed w n P = holds (w_deployments w (defaultKey n)) P"

definition firstContainer :: "Deployment \<Rightarrow> Container" where
  "firstContainer d = hd (ps_containers (pt_spec (ds_template (dep_spec d))))"

definition configured :: "world \<Rightarrow> string \<Rightarrow> string \<Rightarrow> string \<Rightarrow> bool" where
  "configured w n k v = holds (w_configMaps w (defaultKey n)) (\<lambda>cm. cm_data cm k = Some v)"

definition clusterNow :: "world \<Rightarrow> string \<Rightarrow> (OJSCluster \<Rightarrow> bool) \<Rightarrow> bool" where
  "clusterNow w n P = holds (w_clusters w (defaultKey n)) P"

definition workerNow :: "world \<Rightarrow> string \<Rightarrow> (OJSWorker \<Rightarrow> bool) \<Rightarrow> bool" where
  "workerNow w n P = holds (w_workers w (defaultKey n)) P"

definition condIs :: "Condition list \<Rightarrow> string \<Rightarrow> (Condition \<Rightarrow> bool) \<Rightarrow> bool" where
  "condIs cs t P = holds (cond_of cs t) P"

subsection \<open>Clusters\<close>

lemma TestReconcile_CreatesResources:
  "holds (reconcileClusterN ''test-cluster'' 2 (withObjects [redisCluster ''test-cluster''
       \<lparr>cl_spec := (cl_spec (redisCluster ''test-cluster''))\<lparr>cs_replicas := Some 3, cs_image := ''ojs-server:test''\<rparr>\<rparr>] [] []))
     (\<lambda>w. deployed w ''test-cluster-server'' (\<lambda>d. ds_replicas (dep_spec d) = Some 3 \<and> ct_image (firstContainer d) = ''ojs-server:test'') \<and>
       holds (w_services w (defaultKey ''test-cluster-server'')) (\<lambda>_. True) \<and>
       configured w ''test-cluster-config'' ''BACKEND_TYPE'' ''redis'' \<and>
       configured w ''test-cluster-config'' ''BACKEND_URL'' ''redis://localhost:6379'')"
  by code_simp

lemma TestReconcile_NotFound:
  "fst (run_state (Reconcile testReconciler (defaultKey ''nonexistent'')) (withObjects [] [] [])) = (noResult, None)"
  by code_simp

lemma TestReconcile_Deletion:
  "holds (reconcileClusterN ''delete-me'' 1 (withObjects [redisCluster ''delete-me''
       \<lparr>cl_meta := (finalized ojsFinalizer (emptyMeta ''delete-me'' ''default''))\<lparr>om_deletionTimestamp := Some 1\<rparr>\<rparr>] [] []))
     (\<lambda>w. case w_clusters w (defaultKey ''delete-me'') of None \<Rightarrow> True | Some c \<Rightarrow> ojsFinalizer \<notin> set (om_finalizers (cl_meta c)))"
  by code_simp

lemma TestReconcile_EmbeddedUnsupportedBackend:
  "reconcileClusterN ''unsupported-embedded'' 1 (withObjects [(clusterOf ''unsupported-embedded''
       (clusterSpecOf ((backendOf ''nats'' [])\<lparr>be_embedded := True\<rparr>)))
       \<lparr>cl_meta := finalized ojsFinalizer (emptyMeta ''unsupported-embedded'' ''default'')\<rparr>] [] []) = None"
  by code_simp

definition scaledCluster :: "int32 \<Rightarrow> OJSCluster \<Rightarrow> OJSCluster" where
  "scaledCluster n c = c\<lparr>cl_spec := (cl_spec c)\<lparr>cs_replicas := Some n\<rparr>\<rparr>"

lemma TestReconcile_SecretRefBackendURL:
  "holds (reconcileClusterN ''secret-cluster'' 2 (withObjects [clusterOf ''secret-cluster''
       ((clusterSpecOf ((backendOf ''redis'' [])\<lparr>be_urlSecretRef := Some \<lparr>skr_name = ''redis-secret'', skr_key = ''url''\<rparr>\<rparr>))\<lparr>cs_replicas := Some 1\<rparr>)] [] []))
     (\<lambda>w. deployed w ''secret-cluster-server'' (\<lambda>d. list_ex (\<lambda>ev. ev_name ev = ''REDIS_URL'' \<and>
       ev_valueFrom ev = Some (noSource\<lparr>es_secretKeyRef := Some (keyOf ''redis-secret'' ''url'')\<rparr>)) (ct_env (firstContainer d))))"
  by code_simp

lemma TestBackendURLEnvVar:
  "map backendURLEnvVar [''redis'', ''postgres'', ''nats'', ''kafka'', ''sqs'', ''lite''] =
   [''REDIS_URL'', ''DATABASE_URL'', ''NATS_URL'', ''KAFKA_BROKERS'', ''SQS_QUEUE_URL'', ''BACKEND_URL'']"
  by code_simp

lemma TestLabelsForCluster:
  "map (labelsForCluster ''my-cluster'') [''app.kubernetes.io/name'', ''app.kubernetes.io/instance'', ''app.kubernetes.io/component'',
     ''app.kubernetes.io/part-of'', ''app.kubernetes.io/managed-by''] =
   map Some [''ojs-server'', ''my-cluster'', ''server'', ''ojs'', ''ojs-k8s-operator'']"
  by code_simp

subsection \<open>The status of a cluster\<close>

lemma TestClusterStatus_RunningPhaseWithReadyReplicas:
  "holds (reconcileClusterN ''running-cluster'' 1 (withObjects [(scaledCluster 2 (redisCluster ''running-cluster''))
       \<lparr>cl_meta := finalized ojsFinalizer (emptyMeta ''running-cluster'' ''default'')\<rparr>] [] [deploymentWith ''running-cluster-server'' 2 2]))
     (\<lambda>w. clusterNow w ''running-cluster'' (\<lambda>c. cst_phase (cl_status c) = ''Running'' \<and> cst_replicas (cl_status c) = 2 \<and>
       cst_readyReplicas (cl_status c) = 2 \<and> condIs (cst_conditions (cl_status c)) condReady (\<lambda>x. c_status x = ConditionTrue)))"
  by code_simp

lemma TestClusterStatus_ScalingPhase:
  "holds (reconcileClusterN ''scaling-cluster'' 1 (withObjects [(scaledCluster 3 (redisCluster ''scaling-cluster''))
       \<lparr>cl_meta := finalized ojsFinalizer (emptyMeta ''scaling-cluster'' ''default'')\<rparr>] [] [deploymentWith ''scaling-cluster-server'' 3 1]))
     (\<lambda>w. clusterNow w ''scaling-cluster'' (\<lambda>c. cst_phase (cl_status c) = ''Scaling'' \<and>
       condIs (cst_conditions (cl_status c)) condDegraded (\<lambda>x. c_status x = ConditionTrue)))"
  by code_simp

subsection \<open>Workers\<close>

definition jobWorker :: "string \<Rightarrow> string \<Rightarrow> (OJSWorkerSpec \<Rightarrow> OJSWorkerSpec) \<Rightarrow> OJSWorker" where
  "jobWorker n ref f = workerOf n (f (workerSpecOf ref))"

definition finalizedWorker :: "OJSWorker \<Rightarrow> OJSWorker" where
  "finalizedWorker w = w\<lparr>wk_meta := finalized workerFinalizer (wk_meta w)\<rparr>"

lemma TestWorkerReconcile_EnvVars:
  "holds (reconcileWorkerN ''env-worker'' 2 (withObjects [redisCluster ''env-cluster''] [jobWorker ''env-worker'' ''env-cluster''
       (\<lambda>x. x\<lparr>ws_jobTypes := [''email.send'', ''sms.send''], ws_queues := [''high'', ''low''], ws_concurrency := 15,
         ws_env := [plainEnv ''CUSTOM_VAR'' ''custom-value'']\<rparr>)] []))
     (\<lambda>w. deployed w ''env-worker'' (\<lambda>d. let env = map_of (rev (map (\<lambda>e. (ev_name e, ev_value e)) (ct_env (firstContainer d)))) in
       env ''OJS_QUEUES'' = Some ''high,low'' \<and> env ''OJS_JOB_TYPES'' = Some ''email.send,sms.send'' \<and>
       env ''OJS_CONCURRENCY'' = Some ''15'' \<and> env ''CUSTOM_VAR'' = Some ''custom-value''))"
  by code_simp

lemma TestWorkerReconcile_AutoScalingRequeues:
  "holds (reconcileWorkerN ''requeue-worker'' 1 (withObjects [redisCluster ''requeue-cluster''] [jobWorker ''requeue-worker'' ''requeue-cluster''
       (\<lambda>x. x\<lparr>ws_autoScaling := Some (scalingOf True 1 5 ''45s'')\<rparr>)] []))
     (\<lambda>w. case fst (run_state (ReconcileWorker testReconciler (defaultKey ''requeue-worker'')) w) of
       (res, err) \<Rightarrow> err = None \<and> res_requeueAfter res = 45 * second)"
  by code_simp

lemma TestE2E_WorkerClusterNotFound:
  "case run_state (ReconcileWorker testReconciler (defaultKey ''orphan-worker''))
       (withObjects [] [finalizedWorker (jobWorker ''orphan-worker'' ''nonexistent-cluster'' (\<lambda>x. x))] []) of
     ((res, err), w) \<Rightarrow> err = None \<and> res_requeueAfter res \<noteq> 0 \<and> workerNow w ''orphan-worker'' (\<lambda>x.
       wst_phase (wk_status x) = ''Error'' \<and>
       condIs (wst_conditions (wk_status x)) condWorkerReady (\<lambda>c. c_reason c = ''ClusterNotFound'') \<and>
       condIs (wst_conditions (wk_status x)) condWorkerDegraded (\<lambda>c. c_status c = ConditionTrue))"
  by code_simp

definition updatedWorker :: "(OJSWorkerSpec \<Rightarrow> OJSWorkerSpec) \<Rightarrow> OJSWorker \<Rightarrow> world \<Rightarrow> world" where
  "updatedWorker f x w = snd (run_state (UpdateOJSWorker memKube (x\<lparr>wk_spec := f (wk_spec x)\<rparr>)) w)"

lemma TestWorkerReconcile_ScalingReplicasChange:
  "holds (reconcileWorkerN ''scale-worker'' 2 (withObjects [redisCluster ''scale-cluster''] [jobWorker ''scale-worker'' ''scale-cluster''
       (\<lambda>x. x\<lparr>ws_replicas := Some 2\<rparr>)] [])) (\<lambda>w.
     deployed w ''scale-worker'' (\<lambda>d. ds_replicas (dep_spec d) = Some 2) \<and>
     workerNow w ''scale-worker'' (\<lambda>x.
       holds (reconcileWorkerN ''scale-worker'' 1 (updatedWorker (\<lambda>x. x\<lparr>ws_replicas := Some 5\<rparr>) x w)) (\<lambda>w.
         deployed w ''scale-worker'' (\<lambda>d. ds_replicas (dep_spec d) = Some 5))))"
  by code_simp

lemma TestE2E_WorkerScaling_DisableHPA:
  "holds (reconcileWorkerN ''scale-worker'' 2 (withObjects [redisCluster ''scale-cluster''] [jobWorker ''scale-worker'' ''scale-cluster''
       (\<lambda>x. x\<lparr>ws_autoScaling := Some (scalingOf True 1 5 [])\<rparr>)] [])) (\<lambda>w.
     holds (w_hpas w (defaultKey ''scale-worker-hpa'')) (\<lambda>_. True) \<and>
     workerNow w ''scale-worker'' (\<lambda>x.
       holds (reconcileWorkerN ''scale-worker'' 1 (updatedWorker (\<lambda>x. x\<lparr>ws_autoScaling := Some (scalingOf False 1 5 [])\<rparr>) x w)) (\<lambda>w.
         \<not> holds (w_hpas w (defaultKey ''scale-worker-hpa'')) (\<lambda>_. True))))"
  by code_simp

lemma TestWorkerStatus_ScalingPhase:
  "holds (reconcileWorkerN ''wsp-worker'' 1 (withObjects [redisCluster ''wsp-cluster'']
       [finalizedWorker (jobWorker ''wsp-worker'' ''wsp-cluster'' (\<lambda>x. x\<lparr>ws_replicas := Some 3\<rparr>))] [deploymentWith ''wsp-worker'' 3 1]))
     (\<lambda>w. workerNow w ''wsp-worker'' (\<lambda>x. wst_phase (wk_status x) = ''Scaling'' \<and>
       condIs (wst_conditions (wk_status x)) condWorkerDegraded (\<lambda>c. c_status c = ConditionTrue)))"
  by code_simp

lemma TestJoinStrings:
  "map joinStrings [[], [''a''], [''a'', ''b'', ''c'']] = [[], ''a'', ''a,b,c'']"
  by code_simp

subsection \<open>Both controllers\<close>

lemma TestE2E_EmbeddedRedis_FullStack:
  "holds (reconcileClusterN ''full-stack'' 2 (withObjects
       [scaledCluster 2 (clusterOf ''full-stack'' (clusterSpecOf ((backendOf ''redis'' [])\<lparr>be_embedded := True\<rparr>)))]
       [jobWorker ''full-stack-worker'' ''full-stack'' (\<lambda>x. x\<lparr>ws_jobTypes := [''email.send''], ws_replicas := Some 3\<rparr>)] [])) (\<lambda>w.
     deployed w ''full-stack-redis'' (\<lambda>_. True) \<and> holds (w_services w (defaultKey ''full-stack-redis'')) (\<lambda>_. True) \<and>
     deployed w ''full-stack-server'' (\<lambda>_. True) \<and>
     holds (reconcileWorkerN ''full-stack-worker'' 2 w) (\<lambda>w.
       deployed w ''full-stack-worker'' (\<lambda>d. ds_replicas (dep_spec d) = Some 3) \<and>
       configured w ''full-stack-config'' ''BACKEND_URL'' ''redis://full-stack-redis.default.svc.cluster.local:6379''))"
  by code_simp

subsection \<open>Webhooks\<close>

definition clusterNamed :: "string \<Rightarrow> (OJSClusterSpec \<Rightarrow> OJSClusterSpec) \<Rightarrow> OJSCluster" where
  "clusterNamed t f = clusterOf [] (f (clusterSpecOf (backendOf t [])))"

definition clusterScaling :: "bool \<Rightarrow> int32 \<Rightarrow> int32 \<Rightarrow> AutoScalingSpec" where
  "clusterScaling on lo hi = \<lparr>as_enabled = on, as_minReplicas = lo, as_maxReplicas = hi, as_targetQueueDepth = 0,
     as_targetJobsPerWorker = 0, as_scaleUpCooldown = [], as_scaleDownCooldown = []\<rparr>"

lemma TestValidateOJSCluster_ValidBackendTypes:
  "list_all (\<lambda>t. validateOJSCluster (clusterNamed t (\<lambda>x. x\<lparr>cs_replicas := Some 1\<rparr>)) = None \<and>
     validateOJSCluster (clusterNamed t (\<lambda>x. x)) = None) [''redis'', ''postgres'', ''nats'', ''kafka'', ''sqs'', ''lite'']"
  by code_simp

lemma TestValidateOJSCluster_rejected:
  "list_all (\<lambda>c. validateOJSCluster c \<noteq> None)
     [clusterNamed ''mongodb'' (\<lambda>x. x), clusterNamed [] (\<lambda>x. x),
      clusterNamed ''redis'' (\<lambda>x. x\<lparr>cs_replicas := Some 0\<rparr>), clusterNamed ''redis'' (\<lambda>x. x\<lparr>cs_replicas := Some (- 1)\<rparr>),
      clusterNamed ''redis'' (\<lambda>x. x\<lparr>cs_autoScaling := Some (clusterScaling True 5 2)\<rparr>),
      clusterNamed ''redis'' (\<lambda>x. x\<lparr>cs_autoScaling := Some (clusterScaling True 0 5)\<rparr>)]"
  by code_simp

lemma TestValidateOJSCluster_AutoScalingDisabled:
  "validateOJSCluster (clusterNamed ''redis'' (\<lambda>x. x\<lparr>cs_autoScaling := Some (clusterScaling False 0 0)\<rparr>)) = None"
  by code_simp

lemma TestValidateOJSWorker_accepted:
  "list_all (\<lambda>w. validateOJSWorker w = None)
     [jobWorker ''test'' ''my-cluster'' (\<lambda>x. x\<lparr>ws_jobTypes := [''email.send''], ws_queues := [''default''], ws_concurrency := 5\<rparr>),
      jobWorker [] ''cluster'' (\<lambda>x. x\<lparr>ws_queues := []\<rparr>),
      jobWorker [] ''cluster'' (\<lambda>x. x\<lparr>ws_autoScaling := Some (scalingOf False 0 0 [])\<rparr>),
      jobWorker [] ''cluster'' (\<lambda>x. x\<lparr>ws_jobTypes := [''email.send'', ''sms.send'', ''push.notify'']\<rparr>)]"
  by code_simp

lemma TestValidateOJSWorker_rejected:
  "list_all (\<lambda>w. validateOJSWorker w \<noteq> None)
     [jobWorker [] ''my-cluster'' (\<lambda>x. x\<lparr>ws_jobTypes := []\<rparr>), jobWorker [] ''my-cluster'' (\<lambda>x. x\<lparr>ws_jobTypes := [[]]\<rparr>),
      jobWorker [] [] (\<lambda>x. x), jobWorker [] ''my-cluster'' (\<lambda>x. x\<lparr>ws_image := []\<rparr>),
      jobWorker [] ''cluster'' (\<lambda>x. x\<lparr>ws_concurrency := - 1\<rparr>),
      jobWorker [] ''cluster'' (\<lambda>x. x\<lparr>ws_queues := [''default'', []]\<rparr>),
      jobWorker [] ''cluster'' (\<lambda>x. x\<lparr>ws_autoScaling := Some (scalingOf True 10 5 [])\<rparr>)]"
  by code_simp

lemma TestValidators_WrongType:
  "ValidateCreateCluster (ObjWorker (jobWorker [] [] (\<lambda>x. x))) \<noteq> None \<and>
   ValidateUpdateCluster old (ObjWorker (jobWorker [] [] (\<lambda>x. x))) \<noteq> None \<and>
   ValidateCreateWorker (ObjCluster (clusterNamed [] (\<lambda>x. x))) \<noteq> None \<and>
   ValidateUpdateWorker old (ObjCluster (clusterNamed [] (\<lambda>x. x))) \<noteq> None \<and>
   ValidateDeleteCluster obj = None \<and> ValidateDeleteWorker obj = None"
  by (simp add: ValidateDeleteCluster_def ValidateDeleteWorker_def)

subsection \<open>Queue metrics\<close>

lemma TestDesiredReplicas:
  "list_all (\<lambda>(q, t, lo, hi, want). DesiredReplicas q t lo hi = want)
     [(0, 10, 1, 10, 1), (5, 10, 1, 10, 1), (10, 10, 1, 10, 1), (25, 10, 1, 10, 3), (100, 10, 1, 10, 10), (1000, 10, 1, 5, 5),
      (50, 10, 3, 20, 5), (0, 10, 3, 20, 3)]"
  by (simp add: DesiredReplicas_def quot64_def rem64_def int32_of_int64_def Let_def)

text \<open>A server with one answer, which remembers the header of the last request. The clock stands still.\<close>

definition testServer :: "int \<Rightarrow> queueStat list \<Rightarrow> string option http" where
  "testServer status qs = \<lparr>NewRequest = (\<lambda>m u. Inr \<lparr>rq_method = m, rq_url = u, rq_header = Map.empty\<rparr>),
     DoRequest = (\<lambda>req. State (\<lambda>_. (Inr \<lparr>rs_statusCode = status, rs_body = []\<rparr>, rq_header req ''Authorization''))),
     DecodeQueues = (\<lambda>_. Inr qs), TimeNow = State_Monad.return 1\<rparr>"

definition polled :: "int \<Rightarrow> queueStat list \<Rightarrow> string \<Rightarrow> ((goerror + unit) \<times> Collector \<times> store) \<times> string option" where
  "polled status qs apiKey = run_state (Poll (testServer status qs)
     (NewCollector ''http://server'' apiKey 0, \<lparr>st_next = 0, st_cell = Map.empty\<rparr>)) None"

lemma TestCollectorPoll:
  "case polled 200 [\<lparr>qs_name = ''default'', qs_pending = 15, qs_active = 3\<rparr>, \<lparr>qs_name = ''email'', qs_pending = 42, qs_active = 8\<rparr>] [] of
     ((res, c, st), _) \<Rightarrow> \<not> isl res \<and> GetQueueDepth c st ''default'' = Some (15, True) \<and>
       GetQueueDepth c st ''email'' = Some (42, True) \<and>
       (\<forall>q. GetAllMetrics c q \<noteq> None \<longleftrightarrow> q = ''default'' \<or> q = ''email'')"
  by (simp add: polled_def testServer_def Poll_def pollRequest_def pollResponse_def pollEntry_def entryOf_def NewCollector_def GetQueueDepth_def
      GetAllMetrics_def alloc_def Let_def)

lemma TestCollectorPollError: "isl (fst (fst (polled 500 [] [])))"
  by code_simp

lemma TestCollectorPollWithAuth: "snd (polled 200 [] ''my-key'') = Some ''Bearer my-key''"
  by code_simp

lemma TestGetQueueDepthNotFound:
  "GetQueueDepth (NewCollector ''http://unused'' [] 0) st ''nonexistent'' = Some (0, False)"
  by (simp add: GetQueueDepth_def NewCollector_def Let_def)

end
