(* ===== verification/Spec2Isabelle.thy ===== *)
theory Spec2Isabelle
  imports Prelude GoLib KubeTypes ApiTypes CallLogic Kube Failures Plans KubeLaws MemKube Demo
    Labels ClusterResources Status Conditions ClusterController WorkerController Builders
    Webhook Metrics Collector ClusterProofs ClusterProperties ClusterScope ClusterReporting
    WorkerProofs WorkerProperties WorkerReporting ResourceProperties PodProperties
    GoHeap ApiMemory ApiReaders DeepCopy DeepCopyProofs DeepCopyProperties
    Manager ManagerProperties Permissions LoggedRuns ChildStore Convergence WorkerConvergence Isolation
    Json ApiJson CrdSchema CrdProperties ControlLoop FlakyKube
    ClusterHealing WorkerHealing Versions VersionProperties Conformance
begin

text \<open>
  A verification development for the OJS Kubernetes operator (Go).

  THE PROGRAM. The operator runs two controllers in one manager (\<^verbatim>\<open>cmd/manager/main.go\<close>). The OJSCluster
  controller (\<^verbatim>\<open>internal/controller/ojscluster_controller.go\<close>) keeps, for each OJSCluster, a ConfigMap, a
  server Deployment and Service, a PodDisruptionBudget, optionally a ServiceMonitor and an embedded Redis.
  The OJSWorker controller (\<^verbatim>\<open>ojsworker_controller.go\<close>) keeps, for each OJSWorker, a Deployment that
  connects to the Service of the OJSCluster it refers to, and a HorizontalPodAutoscaler. Both write a status
  with phase, replica counts and conditions. Validating webhooks (\<^verbatim>\<open>internal/webhook\<close>) decide which
  resources are admitted; \<^verbatim>\<open>internal/metrics\<close> polls queue depths and computes replica counts. The
  resources themselves, with generated methods that copy them, are the types of \<^verbatim>\<open>api/v1alpha1\<close>.

  THE MODEL. A method with effects is a \<open>('s, 'a) state\<close> of HOL-Library.State_Monad over an
  arbitrary world \<open>'s\<close>, which it touches only through the parameter \<open>'s kube\<close> (theory Kube): the typed
  calls of controller-runtime's client, \<^verbatim>\<open>CreateOrUpdate\<close>, the finalizer, owner reference and condition
  helpers, the clock. None of that third-party code is defined; the theorems hold for all of it, or under the
  laws named in theory KubeLaws, which state its documentation. A Go error is \<open>Inl\<close> of a \<open>goerror\<close>, an
  early return on an error is \<open>if_err\<close>; \<^verbatim>\<open>int32\<close> and \<^verbatim>\<open>int64\<close> are words. A mutation through a Go
  pointer is a returned new value; only for the generated deep copies, which are about aliasing, and for the
  collector is memory explicit. The callback of \<^verbatim>\<open>CreateOrUpdate\<close> is a function on the child object.

  THEORIES AND SOURCES.
  \<^item> Prelude, GoLib: machine integers, errors; \<^verbatim>\<open>%d\<close>, \<^verbatim>\<open>%q\<close>, \<^verbatim>\<open>time.ParseDuration\<close> of the Go library.
  \<^item> KubeTypes, ApiTypes: the API objects the program names; the resources of \<^verbatim>\<open>api/v1alpha1\<close>.
  \<^item> Kube: the client as a parameter, events, results, and the logging client.
  \<^item> Labels: \<^verbatim>\<open>labelsForCluster\<close>, \<^verbatim>\<open>labelsForWorker\<close>, the Redis labels; locales \<open>pod_labels\<close> and
    \<open>pod_labels_apart\<close>.
  \<^item> ClusterResources: the desired children of an OJSCluster, as callbacks; \<^verbatim>\<open>resolveBackendURL\<close>,
    \<^verbatim>\<open>backendURLEnvVar\<close>, \<^verbatim>\<open>buildPodSecurityContext\<close>.
  \<^item> Status: the phase and condition reports of \<^verbatim>\<open>updateStatus\<close> and \<^verbatim>\<open>updateWorkerStatus\<close>; locale
    \<open>replica_report\<close>, their shared contract.
  \<^item> ClusterController, WorkerController: every method of the two reconcilers; \<^verbatim>\<open>Reconcile\<close> is cut at its
    early returns (\<open>clusterDeletion\<close>, \<open>clusterEnsureFinalizer\<close>, \<open>clusterInitPhase\<close>,
    \<open>clusterBackend\<close>, \<open>clusterChildren\<close> and their worker counterparts).
  \<^item> Webhook: the validators; locale \<open>custom_validator\<close>. Metrics, Collector: \<^verbatim>\<open>DesiredReplicas\<close> and
    the collector, whose pointers live in an explicit store, with overlapping polls as a step relation.
  \<^item> ApiMemory: the structs of \<^verbatim>\<open>api/v1alpha1\<close> once more, with every pointer, slice and map an address;
    ApiReaders: the value behind each, as the record of ApiTypes; DeepCopy: every method of
    \<^verbatim>\<open>zz_generated_deepcopy.go\<close>, those of the Kubernetes types being the parameter \<open>library\<close>.
  \<^item> Manager: \<^verbatim>\<open>main.go\<close> with the registration of types, manager options, \<^verbatim>\<open>SetupWithManager\<close> of
    both reconcilers, webhooks, health checks and start, over the parameter \<open>'s runtime\<close>.
  \<^item> Permissions: the \<^verbatim>\<open>kubebuilder:rbac\<close> markers, \<^verbatim>\<open>config/rbac/role.yaml\<close> and the role of
    \<^verbatim>\<open>charts/ojs-operator/templates/rbac.yaml\<close> as rules.
  \<^item> Json: JSON values and their omission rules, and what an API server does to an object by its schema
    (pruning, defaults, validation). ApiJson: the specs of \<^verbatim>\<open>api/v1alpha1\<close> written and read by their \<^verbatim>\<open>json\<close>
    tags; the Kubernetes types inside are the parameter \<open>json_library\<close>. CrdSchema: the schemas of both specs in
    \<^verbatim>\<open>config/crd\<close>; locale \<open>json_laws\<close>, the documented JSON of the Kubernetes types.

  HOW IT IS PROVED. CallLogic is a logic of the calls a computation makes, whatever the environment
  answers: \<open>traces m Q\<close> relates result and calls, \<open>emits R m\<close> constrains each call, \<open>mirrors\<close>
  says that logging is transparent. Failures and Plans build the vocabulary of the controllers on it: fatal
  calls and stopping (\<open>settles\<close>, \<open>strict\<close>), the origin of errors (\<open>accounts\<close>, \<open>blames\<close>), following a
  plan of child calls (\<open>follows\<close>, \<open>steps\<close>), ending in a given call (\<open>closes\<close>). Conditions and Builders
  hold the contracts that the two controllers share (locales \<open>replica_report\<close>, \<open>child_builder\<close>), interpreted
  on every report and every callback. MemKube is an API server in memory that satisfies every law of
  KubeLaws; Demo has the concrete objects at which the theorems are instantiated. GoHeap is a logic of copying
  in memory: a reader has a footprint, \<open>copies_sharing\<close> says which part of it a copy shares; locales
  \<open>library_laws\<close>, \<open>deep_copier\<close> and \<open>struct_copier\<close> carry it through the types. LoggedRuns relates a
  run to its log: what holds of every call of a client (locale \<open>client_relation\<close>) holds of whole reconciliations. ClusterScope
  and WorkerReporting bound the calls and what they write (locales \<open>cluster_writes\<close> and \<open>worker_writes\<close>, interpreted on
  names and, under the law \<open>api_echo\<close> of KubeLaws that updates are answered with what was sent, on specs). ChildStore
  has the children as an API server keeps them and replays logged runs on them (locale \<open>child_store\<close>, an instance of
  \<open>client_relation\<close> that MemKube satisfies). ControlLoop is trying again as long as an error is reported; FlakyKube is
  MemKube behind a connection that loses calls, where the theorems about it are instantiated. Versions is a Hoare logic of
  logged runs; its locale \<open>threaded\<close> carries a property of the object last seen through both reconcilers, from each write to the
  next. In VersionProperties the locale \<open>versioned_api\<close> states how updates of outdated objects are refused; \<open>cachedKube\<close> is
  such an API server in memory.

  WHAT IS PROVED. ClusterProperties, ClusterScope, ClusterReporting and WorkerProperties, WorkerReporting: fail-stop
  and the origin of errors, the plan is followed (order and completeness), scope, deletion, what the status
  says, failing backends, missing clusters, requeue times. ResourceProperties, PodProperties:
  stability, ownership, exact selectors, addresses and environment, name collisions, disruption
  budgets, pod security, round trips, autoscaling, admission. Metrics, Collector: the replica formula and its
  wrap-around; the collector's invariant, stable snapshots, overlapping polls. DeepCopyProperties: which copies are
  separate from their original, and what the copy of an OJSCluster shares. ManagerProperties: the order of
  setup, and how the process ends. Permissions: what the roles permit, and what a forbidden budget does to
  reconciliation. Convergence, WorkerConvergence: a successful reconciliation settles the children, and the next one
  changes none. Isolation: however the calls of several reconciliations interleave, the children of each resource
  end up as if it had been alone, unless a worker is named like a Deployment of a cluster.
  ClusterHealing, WorkerHealing: a request that is tried again while it fails ends, if the failures of the environment
  do, and leaves the children settled. VersionProperties: a reconciliation never conflicts with its own writes, and overwrites
  nothing that it has not seen. CrdProperties: what
  is left of a spec in the API server under the deployed definitions, what definitions and webhooks admit together, and what the
  deployed definitions and roles together do to reconciliation. This theory: what admission and reconciliation make of each other.

  HOW THE MODEL WAS TRIED. Conformance runs tests of the repository on the model, scenarios of
  \<^verbatim>\<open>internal/controller/*_test.go\<close>, \<^verbatim>\<open>internal/webhook/*_test.go\<close> and \<^verbatim>\<open>internal/metrics/queue_metrics_test.go\<close>,
  with MemKube in the place of the fake client, evaluated by the kernel; it is a selection that reaches every
  stage of both reconcilers.

  BOUNDS. No fuel is used: all recursion is structural or has a measure; the repetition in ControlLoop is a
  \<open>while_option\<close>, which is shown to end. Numbers of seconds in
  durations are proved below 2^63 nanoseconds, the replica formula loses nothing below 2^31 workers; beyond,
  the code wraps, which the same theorem states.

  NOT MODELLED. Log lines and the logger's flags; of the manifests, the chart and the
  definitions everything but the roles and the schemas of the specs (the status is written by the operator only), and samples;
  \<^verbatim>\<open>null\<close> in JSON and keys that differ in case only.
  Fields of Kubernetes objects that the program never names are absent from the records, except where deep
  copies reach them through a library method. A slice is a whole array (no spare capacity), and \<^verbatim>\<open>new(T)\<close>
  followed by \<^verbatim>\<open>*out = *in\<close> is one step. Float arithmetic in fractional durations is a parameter.
  Left open: which memory the copies of an OJSClusterList share through its items, and several
  controllers that fail and try again on one server at the same time.
\<close>

subsection \<open>Admission and reconciliation\<close>

definition natsWorld :: world where
  "natsWorld = demoWorld\<lparr>w_clusters := [demoKey ''c'' \<mapsto> natsCluster]\<rparr>"

text \<open>C29. Admitted and never reconciled. For a live cluster that asks for an embedded backend and names
  another type than redis, every reconciliation reports an error and touches no child object,
  on an API server that answers updates with what was sent. Admission does not
  exclude such clusters: the witness is one that the webhook accepts.\<close>

theorem unsupported_never_reconciled:
  assumes "api_echo (rc_client r)" and "fst (run_state (GetOJSCluster (rc_client r) req) s) = Inr c"
    and "IsZero (om_deletionTimestamp (cl_meta c))"
    and "be_embedded (cs_backend (cl_spec c))" and "be_type (cs_backend (cl_spec c)) \<noteq> ''redis''"
    and "observe (Reconcile (logged_reconciler r) req) s = (res, cs)"
  shows "snd res \<noteq> None \<and> childCalls cs = []"
proof -
  have fails: "fails (clusterBackend (logged_reconciler r) c')" if "kept (rc_client r) c c'" for c'
    using that assms(1,4,5) fails_clusterBackendFailed
    by (simp add: clusterBackend_def reconcileEmbeddedBackend_def if_err_def kept_def same_demands_def)
  have "\<exists>ds. cs = (ReadCluster req, None) # ds \<and> snd res \<noteq> None \<and> childless ds"
    by (rule live_run [OF api_echo.axioms(1) [OF assms(1)] assms(2,3,6) fails [unfolded fails_def]]) simp_all
  then show ?thesis by (auto simp: childCalls_Nil)
qed

theorem unsupported_never_reconciled_witness:
  "ValidateCreateCluster (ObjCluster natsCluster) = None \<and>
   snd (fst (observe (Reconcile (logged_reconciler memReconciler) (demoKey ''c'')) natsWorld)) \<noteq> None"
proof
  show "ValidateCreateCluster (ObjCluster natsCluster) = None"
    by (simp add: validateOJSCluster_def natsCluster_def demoClusterSpec_def ValidBackendTypes_def Let_def)
  have read: "fst (run_state (GetOJSCluster (rc_client memReconciler) (demoKey ''c'')) natsWorld) = Inr natsCluster"
    by (simp add: memKube_simps natsWorld_def demoWorld_def key_of_def natsCluster_def demoCluster_def
        demoMeta_def emptyMeta_def)
  have live: "IsZero (om_deletionTimestamp (cl_meta natsCluster))"
    by (simp add: natsCluster_def demoCluster_def demoMeta_def emptyMeta_def)
  have emb: "be_embedded (cs_backend (cl_spec natsCluster))" "be_type (cs_backend (cl_spec natsCluster)) \<noteq> ''redis''"
    by (simp_all add: natsCluster_def)
  show "snd (fst (observe (Reconcile (logged_reconciler memReconciler) (demoKey ''c'')) natsWorld)) \<noteq> None"
    using unsupported_never_reconciled [OF mem.api_echo_axioms [folded memReconciler_client] read live emb prod.collapse [symmetric]] by blast
qed

end
